(* ===== verification/Prelude.thy ===== *)
theory Prelude
  imports Main "HOL-Library.Word" "HOL-Library.Char_ord" "HOL-Library.List_Lexorder"
    "HOL-Library.Product_Lexorder" "HOL-Library.Sublist" "HOL-Library.Multiset"
begin

text \<open>
  Shared vocabulary of the development: the machine integers of the Rust code, its
  \<open>Result\<close> type and the combinators of the \<open>?\<close> operator and of \<open>for\<close> loops that
  return early, and the generic list lemmas the components share.

  A Rust \<open>Result<T, E>\<close> is the sum \<open>'e + 'a\<close> with \<open>Err\<close> on the left. A loop whose
  body may return an error is \<open>foldM\<close>: it threads the loop's local state and stops at
  the first error.
\<close>

section \<open>Integers and results\<close>

type_synonym i32 = "32 word"
type_synonym u32 = "32 word"
type_synonym i64 = "64 word"
type_synonym u64 = "64 word"
type_synonym f64 = "64 word" \<comment> \<open>the IEEE 754 binary64 bit pattern\<close>

abbreviation Ok :: "'a \<Rightarrow> 'e + 'a" where "Ok \<equiv> Inr"
abbreviation Err :: "'e \<Rightarrow> 'e + 'a" where "Err \<equiv> Inl"

named_theorems res_intros \<open>rules for the ways in which a result can fail\<close>

fun res_bind :: "'e + 'a \<Rightarrow> ('a \<Rightarrow> 'e + 'b) \<Rightarrow> 'e + 'b" where
  "res_bind (Err e) f = Err e"
| "res_bind (Ok a) f = f a"

fun ok_or :: "'e \<Rightarrow> 'a option \<Rightarrow> 'e + 'a" where
  "ok_or e None = Err e"
| "ok_or e (Some a) = Ok a"

fun is_ok :: "'e + 'a \<Rightarrow> bool" where
  "is_ok (Ok a) = True"
| "is_ok (Err e) = False"

lemma res_bind_Ok_iff [simp]:
  "res_bind m f = Ok b \<longleftrightarrow> (\<exists>a. m = Ok a \<and> f a = Ok b)"
  by (cases m) auto

lemma res_bind_Err_iff:
  "res_bind m f = Err e \<longleftrightarrow> m = Err e \<or> (\<exists>a. m = Ok a \<and> f a = Err e)"
  by (cases m) auto

lemma ok_or_Ok_iff [simp]: "ok_or e x = Ok a \<longleftrightarrow> x = Some a"
  by (cases x) auto

lemma ok_or_Err_iff [simp]: "ok_or e x = Err e' \<longleftrightarrow> x = None \<and> e' = e"
  by (cases x) auto

lemma is_ok_iff: "is_ok m \<longleftrightarrow> (\<exists>a. m = Ok a)"
  by (cases m) auto

lemma res_bind_cong [fundef_cong]:
  "m = m' \<Longrightarrow> (\<And>a. m' = Ok a \<Longrightarrow> f a = g a) \<Longrightarrow> res_bind m f = res_bind m' g"
  by (cases m') auto

section \<open>Loops with early return\<close>

fun foldM :: "('s \<Rightarrow> 'x \<Rightarrow> 'e + 's) \<Rightarrow> 's \<Rightarrow> 'x list \<Rightarrow> 'e + 's" where
  "foldM f s [] = Ok s"
| "foldM f s (x # xs) = res_bind (f s x) (\<lambda>s'. foldM f s' xs)"

lemma foldM_append:
  "foldM f s (xs @ ys) = res_bind (foldM f s xs) (\<lambda>s'. foldM f s' ys)"
proof (induction xs arbitrary: s)
  case Nil
  show ?case by simp
next
  case (Cons x xs)
  then show ?case by (cases "f s x") auto
qed

text \<open>The rule for loop invariants: what every completed iteration keeps, the loop keeps.\<close>

lemma foldM_invariant:
  assumes "foldM f s xs = Ok s'"
    and "I s"
    and "\<And>x t t'. x \<in> set xs \<Longrightarrow> I t \<Longrightarrow> f t x = Ok t' \<Longrightarrow> I t'"
  shows "I s'"
  using assms
proof (induction xs arbitrary: s)
  case Nil
  then show ?case by simp
next
  case (Cons x xs)
  then obtain t where "f s x = Ok t" and "foldM f t xs = Ok s'" by auto
  moreover from this Cons.prems have "I t" by auto
  ultimately show ?case using Cons.IH Cons.prems(3) by (meson list.set_intros(2))
qed

text \<open>A loop whose body cannot fail from a state satisfying the invariant does not fail.\<close>

lemma foldM_total:
  assumes "I s"
    and "\<And>x t. x \<in> set xs \<Longrightarrow> I t \<Longrightarrow> \<exists>t'. f t x = Ok t' \<and> I t'"
  shows "\<exists>s'. foldM f s xs = Ok s' \<and> I s'"
  using assms
proof (induction xs arbitrary: s)
  case Nil
  then show ?case by simp
next
  case (Cons x xs)
  then obtain t where "f s x = Ok t" and "I t" by (meson list.set_intros(1))
  then show ?case using Cons.IH Cons.prems(2) by (metis foldM.simps(2) list.set_intros(2) res_bind.simps(2))
qed

text \<open>A failure of the loop is the failure of one iteration, after a prefix that succeeded.\<close>

lemma foldM_Err_split:
  "foldM f s xs = Err e \<Longrightarrow>
   \<exists>pre x post t. xs = pre @ x # post \<and> foldM f s pre = Ok t \<and> f t x = Err e"
proof (induction xs arbitrary: s)
  case Nil
  then show ?case by simp
next
  case (Cons x xs)
  show ?case
  proof (cases "f s x")
    case (Inl e')
    with Cons.prems have "f s x = Err e" by simp
    then show ?thesis by (intro exI [of _ "[]"]) auto
  next
    case (Inr t)
    with Cons.prems have "foldM f t xs = Err e" by simp
    from Cons.IH [OF this] obtain pre y post u where
      "xs = pre @ y # post" "foldM f t pre = Ok u" "f u y = Err e" by blast
    with Inr show ?thesis by (intro exI [of _ "x # pre"]) auto
  qed
qed

lemma foldM_cong [fundef_cong]:
  assumes "s = t" and "xs = ys" and "\<And>a x. x \<in> set ys \<Longrightarrow> f a x = g a x"
  shows "foldM f s xs = foldM g t ys"
  using assms(3) unfolding assms(1,2)
proof (induction ys arbitrary: t)
  case Nil
  show ?case by simp
next
  case (Cons x xs)
  then show ?case by (cases "g t x") auto
qed

text \<open>A loop that only checks: it succeeds if every round does.\<close>

lemma foldM_unit_iff:
  "foldM (\<lambda>_ x. g x) () xs = Ok () \<longleftrightarrow> (\<forall>x \<in> set xs. g x = Ok ())"
  by (induction xs) auto

text \<open>The loops that collect into a vector: a fallible filter and a fallible map.\<close>

fun filterM :: "('x \<Rightarrow> 'e + bool) \<Rightarrow> 'x list \<Rightarrow> 'e + 'x list" where
  "filterM p [] = Ok []"
| "filterM p (x # xs) =
     res_bind (p x) (\<lambda>b. res_bind (filterM p xs) (\<lambda>ys. Ok (if b then x # ys else ys)))"

fun mapM :: "('x \<Rightarrow> 'e + 'y) \<Rightarrow> 'x list \<Rightarrow> 'e + 'y list" where
  "mapM f [] = Ok []"
| "mapM f (x # xs) = res_bind (f x) (\<lambda>y. res_bind (mapM f xs) (\<lambda>ys. Ok (y # ys)))"

lemma filterM_Ok:
  "filterM p xs = Ok ys \<Longrightarrow> ys = filter (\<lambda>x. p x = Ok True) xs \<and> (\<forall>x \<in> set xs. is_ok (p x))"
  by (induction xs arbitrary: ys) auto

lemma filterM_total: "(\<forall>x \<in> set xs. p x = Ok (q x)) \<Longrightarrow> filterM p xs = Ok (filter q xs)"
  by (induction xs) auto

lemma mapM_map: "mapM f (map g xs) = mapM (\<lambda>x. f (g x)) xs"
  by (induction xs) auto

lemma mapM_Ok: "mapM (\<lambda>x. Ok (h x)) xs = Ok (map h xs)"
  by (induction xs) auto

lemma mapM_Ok_length: "mapM f xs = Ok ys \<Longrightarrow> length ys = length xs"
  by (induction xs arbitrary: ys) auto

lemma mapM_Ok_nth: "mapM f xs = Ok ys \<Longrightarrow> i < length xs \<Longrightarrow> f (xs ! i) = Ok (ys ! i)"
proof (induction xs arbitrary: ys i)
  case Nil
  then show ?case by simp
next
  case (Cons x xs)
  then show ?case by (cases i) auto
qed

lemma mapM_Ok_in: "mapM f xs = Ok ys \<Longrightarrow> y \<in> set ys \<Longrightarrow> \<exists>x \<in> set xs. f x = Ok y"
  by (induction xs arbitrary: ys) auto

section \<open>Lists\<close>

lemma sorted_wrt_less_unique:
  fixes xs ys :: "'a::linorder list"
  assumes "sorted_wrt (<) xs" and "sorted_wrt (<) ys" and "set xs = set ys"
  shows "xs = ys"
  using assms by (simp add: strict_sorted_equal)

text \<open>Sorting by a key that tells the elements apart forgets the order they came in.\<close>

lemma sort_key_perm:
  assumes "mset xs = mset ys" and "inj_on f (set xs)"
  shows "sort_key f xs = sort_key f ys"
proof -
  have "map f (sort_key f xs) = map f (sort_key f ys)"
  proof (rule properties_for_sort [symmetric, THEN trans])
    show "mset (map f (sort_key f xs)) = mset (map f (sort_key f ys))"
      using assms(1) by simp
    show "sorted (map f (sort_key f xs))" by simp
    show "sort (map f (sort_key f ys)) = map f (sort_key f ys)"
      by (rule sorted_sort_id) simp
  qed
  moreover have "set (sort_key f xs) \<union> set (sort_key f ys) \<subseteq> set xs"
    using assms(1) by (auto dest: mset_eq_setD)
  ultimately show ?thesis
    using assms(2) by (meson inj_on_map_eq_map inj_on_subset)
qed

lemma filter_mset_cong: "mset xs = mset ys \<Longrightarrow> mset (filter P xs) = mset (filter P ys)"
  by simp

lemma list_ex_perm: "mset xs = mset ys \<Longrightarrow> list_ex P xs = list_ex P ys"
  by (auto simp: list_ex_iff dest: mset_eq_setD)

lemma infix_trans: "sublist a b \<Longrightarrow> sublist b c \<Longrightarrow> sublist a c"
  by (auto simp: sublist_def) (metis append_assoc)

end
