(* ===== verification/Btree.thy ===== *)
theory Btree
  imports Prelude
begin

text \<open>
  \<open>std::collections::BTreeMap\<close> and \<open>BTreeSet\<close>, the only containers of the code
  besides vectors. What the source observes of them is lookup, insertion (which replaces),
  removal and iteration in ascending key order; so a map is its list of entries in
  ascending key order, and a set its ascending list of elements. \<open>bm_ok\<close> and \<open>bs_ok\<close>
  say that a list represents a Rust value.

  The interfaces \<open>key_map\<close> and \<open>ordered_map\<close> (and \<open>ordered_set\<close>) hold what clients
  rely on; the facts about loops that fill a map are proved from them once.
\<close>

section \<open>The interfaces\<close>

locale key_map =
  fixes empty :: "'m"
    and insert :: "'k \<Rightarrow> 'v \<Rightarrow> 'm \<Rightarrow> 'm"
    and lookup :: "'m \<Rightarrow> 'k \<Rightarrow> 'v option"
  assumes lookup_empty: "lookup empty k = None"
    and lookup_insert: "lookup (insert k v m) k' = (if k' = k then Some v else lookup m k')"
begin

text \<open>Collecting entries: an entry is found unless a later one has the same key.\<close>

lemma lookup_collect_from:
  "lookup (foldl (\<lambda>m kv. insert (fst kv) (snd kv) m) m kvs) k =
   (case map_of (rev kvs) k of None \<Rightarrow> lookup m k | Some v \<Rightarrow> Some v)"
proof (induction kvs arbitrary: m)
  case Nil
  show ?case by simp
next
  case (Cons kv kvs)
  then show ?case by (auto simp: lookup_insert map_add_Some_iff split: option.splits)
qed

lemma lookup_collect:
  "lookup (foldl (\<lambda>m kv. insert (fst kv) (snd kv) m) empty kvs) k = map_of (rev kvs) k"
  by (simp add: lookup_collect_from lookup_empty split: option.splits)

lemma lookup_collect_Some_in:
  "lookup (foldl (\<lambda>m kv. insert (fst kv) (snd kv) m) empty kvs) k = Some v \<Longrightarrow> (k, v) \<in> set kvs"
  using map_of_SomeD [of "rev kvs" k v] by (simp add: lookup_collect)

lemma lookup_collect_dom:
  "lookup (foldl (\<lambda>m kv. insert (fst kv) (snd kv) m) empty kvs) k \<noteq> None \<longleftrightarrow> k \<in> fst ` set kvs"
  by (simp add: lookup_collect map_of_eq_None_iff)

lemma lookup_collect_distinct:
  "distinct (map fst kvs) \<Longrightarrow> (k, v) \<in> set kvs \<Longrightarrow>
   lookup (foldl (\<lambda>m kv. insert (fst kv) (snd kv) m) empty kvs) k = Some v"
  by (simp add: lookup_collect rev_map [symmetric])

end

locale ordered_map = key_map empty insert lookup
  for empty :: "'m"
    and insert :: "'k::linorder \<Rightarrow> 'v \<Rightarrow> 'm \<Rightarrow> 'm"
    and lookup :: "'m \<Rightarrow> 'k \<Rightarrow> 'v option" +
  fixes invar :: "'m \<Rightarrow> bool"
    and entries :: "'m \<Rightarrow> ('k \<times> 'v) list"
  assumes invar_empty: "invar empty"
    and invar_insert: "invar m \<Longrightarrow> invar (insert k v m)"
    and entries_sorted: "invar m \<Longrightarrow> sorted_wrt (<) (map fst (entries m))"
    and entries_lookup: "invar m \<Longrightarrow> map_of (entries m) = lookup m"
    and entries_inj: "invar m \<Longrightarrow> invar m' \<Longrightarrow> entries m = entries m' \<Longrightarrow> m = m'"
begin

lemma invar_collect_from:
  "invar m \<Longrightarrow> invar (foldl (\<lambda>m kv. insert (fst kv) (snd kv) m) m kvs)"
  by (induction kvs arbitrary: m) (auto simp: invar_insert)

lemma invar_collect: "invar (foldl (\<lambda>m kv. insert (fst kv) (snd kv) m) empty kvs)"
  by (simp add: invar_collect_from invar_empty)

text \<open>A map is determined by its lookups, so it does not remember the order of insertion.\<close>

lemma entries_determined:
  assumes "sorted_wrt (<) (map fst xs)" and "sorted_wrt (<) (map fst ys)"
    and "map_of xs = map_of (ys :: ('k \<times> 'v) list)"
  shows "xs = ys"
proof -
  have d: "distinct (map fst xs)" "distinct (map fst ys)"
    using assms(1,2) by (auto simp: strict_sorted_iff)
  have "fst ` set xs = fst ` set ys"
    using assms(3) by (metis dom_map_of_conv_image_fst)
  then have "map fst xs = map fst ys"
    using assms(1,2) by (intro sorted_wrt_less_unique) auto
  moreover have "zs = map (\<lambda>k. (k, the (map_of zs k))) (map fst zs)"
    if "distinct (map fst zs)" for zs :: "('k \<times> 'v) list"
    using that by (auto intro!: map_idI [symmetric] simp: o_def)
  ultimately show ?thesis using d assms(3) by metis
qed

lemma map_extensional:
  assumes "invar m" and "invar m'" and "\<And>k. lookup m k = lookup m' k"
  shows "m = m'"
proof (rule entries_inj [OF assms(1,2)])
  have "map_of (entries m) = map_of (entries m')"
    using assms by (auto simp: entries_lookup fun_eq_iff)
  then show "entries m = entries m'"
    using assms(1,2) by (intro entries_determined entries_sorted)
qed

lemma collect_perm:
  assumes "mset xs = mset ys" and "distinct (map fst xs)"
  shows "foldl (\<lambda>m kv. insert (fst kv) (snd kv) m) empty xs =
    foldl (\<lambda>m kv. insert (fst kv) (snd kv) m) empty ys"
proof (rule map_extensional [OF invar_collect invar_collect])
  fix k
  have "distinct (map fst ys)"
    using assms by (metis mset_eq_imp_distinct_iff mset_map)
  moreover have "set xs = set ys" using assms(1) by (rule mset_eq_setD)
  ultimately have "map_of (rev xs) = map_of (rev ys)"
    using assms(2) by (intro map_of_inject_set [THEN iffD2]) (auto simp: rev_map [symmetric])
  then show "lookup (foldl (\<lambda>m kv. insert (fst kv) (snd kv) m) empty xs) k =
      lookup (foldl (\<lambda>m kv. insert (fst kv) (snd kv) m) empty ys) k"
    by (simp add: lookup_collect)
qed

end

section \<open>BTreeMap\<close>

type_synonym ('k, 'v) bmap = "('k \<times> 'v) list"

fun bm_insert :: "'k::linorder \<Rightarrow> 'v \<Rightarrow> ('k, 'v) bmap \<Rightarrow> ('k, 'v) bmap" where
  "bm_insert k v [] = [(k, v)]"
| "bm_insert k v (e # m) =
     (if fst e < k then e # bm_insert k v m
      else if fst e = k then (k, v) # m
      else (k, v) # e # m)"

definition bm_get :: "('k, 'v) bmap \<Rightarrow> 'k \<Rightarrow> 'v option" where
  "bm_get m k = map_of m k"

definition bm_remove :: "'k \<Rightarrow> ('k, 'v) bmap \<Rightarrow> ('k, 'v) bmap" where
  "bm_remove k m = filter (\<lambda>e. fst e \<noteq> k) m"

definition bm_values :: "('k, 'v) bmap \<Rightarrow> 'v list" where
  "bm_values m = map snd m"

definition bm_keys :: "('k, 'v) bmap \<Rightarrow> 'k list" where
  "bm_keys m = map fst m"

definition bm_ok :: "('k::linorder, 'v) bmap \<Rightarrow> bool" where
  "bm_ok m \<longleftrightarrow> sorted_wrt (<) (map fst m)"

text \<open>\<open>iter().collect::<BTreeMap<_, _>>()\<close>: insertion in order, later entries win.\<close>

definition bm_collect :: "('k::linorder \<times> 'v) list \<Rightarrow> ('k, 'v) bmap" where
  "bm_collect kvs = foldl (\<lambda>m kv. bm_insert (fst kv) (snd kv) m) [] kvs"

lemma bm_get_Nil [simp]: "bm_get [] k = None"
  by (simp add: bm_get_def)

lemma bm_get_insert [simp]:
  "bm_get (bm_insert k v m) k' = (if k' = k then Some v else bm_get m k')"
  unfolding bm_get_def by (induction m) auto

lemma set_bm_insert: "fst ` set (bm_insert k v m) = Set.insert k (fst ` set m)"
  by (induction m) auto

lemma bm_insert_values: "snd ` set (bm_insert k v m) \<subseteq> Set.insert v (snd ` set m)"
  by (induction m) auto

lemma bm_insert_entries: "set (bm_insert k v m) \<subseteq> Set.insert (k, v) (set m)"
  by (induction m) auto

lemma bm_ok_Nil [simp]: "bm_ok []"
  by (simp add: bm_ok_def)

lemma bm_ok_insert [simp]: "bm_ok m \<Longrightarrow> bm_ok (bm_insert k v m)"
proof (induction m)
  case Nil
  show ?case by (simp add: bm_ok_def)
next
  case (Cons e m)
  then have "bm_ok (bm_insert k v m)" by (simp add: bm_ok_def)
  moreover have "\<forall>k' \<in> fst ` set m. fst e < k'" using Cons.prems by (auto simp: bm_ok_def)
  ultimately show ?case
    using Cons.prems set_bm_insert [of k v m] by (auto simp: bm_ok_def)
qed

interpretation bmap: ordered_map "[]" bm_insert bm_get bm_ok "\<lambda>m. m"
proof unfold_locales
  fix m :: "('k::linorder, 'v) bmap"
  assume "bm_ok m"
  then show "sorted_wrt (<) (map fst m)" by (simp add: bm_ok_def)
next
  fix m :: "('k::linorder, 'v) bmap"
  show "map_of m = bm_get m" by (simp add: bm_get_def [abs_def])
qed simp_all

lemma bm_collect_get: "bm_get (bm_collect kvs) k = map_of (rev kvs) k"
  unfolding bm_collect_def by (rule bmap.lookup_collect)

lemma bm_collect_ok [simp]: "bm_ok (bm_collect kvs)"
  unfolding bm_collect_def by (rule bmap.invar_collect)

lemma bm_collect_perm:
  "mset xs = mset ys \<Longrightarrow> distinct (map fst xs) \<Longrightarrow> bm_collect xs = bm_collect ys"
  unfolding bm_collect_def by (rule bmap.collect_perm)

lemma bm_collect_get_Some: "bm_get (bm_collect kvs) k = Some v \<Longrightarrow> (k, v) \<in> set kvs"
  unfolding bm_collect_def by (rule bmap.lookup_collect_Some_in)

lemma bm_collect_get_None_iff: "bm_get (bm_collect kvs) k = None \<longleftrightarrow> k \<notin> fst ` set kvs"
  unfolding bm_collect_def using bmap.lookup_collect_dom [of kvs k] by blast

lemma bm_collect_get_distinct:
  "distinct (map fst kvs) \<Longrightarrow> (k, v) \<in> set kvs \<Longrightarrow> bm_get (bm_collect kvs) k = Some v"
  unfolding bm_collect_def by (rule bmap.lookup_collect_distinct)

lemma bm_get_in: "bm_get m k = Some v \<Longrightarrow> (k, v) \<in> set m"
  by (simp add: bm_get_def map_of_SomeD)

lemma bm_get_iff: "bm_ok m \<Longrightarrow> bm_get m k = Some v \<longleftrightarrow> (k, v) \<in> set m"
  by (simp add: bm_get_def bm_ok_def strict_sorted_iff)

lemma bm_get_remove [simp]: "bm_get (bm_remove k m) k' = (if k' = k then None else bm_get m k')"
  unfolding bm_get_def bm_remove_def by (induction m) auto

lemma bm_ok_filter: "bm_ok m \<Longrightarrow> bm_ok (filter P m)"
  unfolding bm_ok_def by (induction m) auto

lemma bm_ok_remove [simp]: "bm_ok m \<Longrightarrow> bm_ok (bm_remove k m)"
  unfolding bm_remove_def by (rule bm_ok_filter)

lemma bm_keys_insert [simp]: "set (bm_keys (bm_insert k v m)) = Set.insert k (set (bm_keys m))"
  using set_bm_insert [of k v m] by (simp add: bm_keys_def)

lemma bm_keys_get: "k \<in> set (bm_keys m) \<longleftrightarrow> bm_get m k \<noteq> None"
  by (auto simp: bm_keys_def bm_get_def map_of_eq_None_iff)

lemma list_all_bm_insert:
  "list_all P m \<Longrightarrow> P (k, v) \<Longrightarrow> list_all P (bm_insert k v m)"
  using bm_insert_entries [of k v m] by (auto simp: list_all_iff)

lemma list_all_bm_get: "list_all P m \<Longrightarrow> bm_get m k = Some v \<Longrightarrow> P (k, v)"
  using bm_get_in by (fastforce simp: list_all_iff)

section \<open>BTreeSet\<close>

locale ordered_set =
  fixes empty :: "'s"
    and insert :: "'a::linorder \<Rightarrow> 's \<Rightarrow> 's"
    and elements :: "'s \<Rightarrow> 'a list"
    and invar :: "'s \<Rightarrow> bool"
  assumes elements_empty: "elements empty = []"
    and elements_insert: "set (elements (insert a s)) = Set.insert a (set (elements s))"
    and invar_empty: "invar empty"
    and invar_insert: "invar s \<Longrightarrow> invar (insert a s)"
    and elements_sorted: "invar s \<Longrightarrow> sorted_wrt (<) (elements s)"
begin

lemma elements_extend:
  "set (elements (foldl (\<lambda>s a. insert a s) s as)) = set (elements s) \<union> set as"
  by (induction as arbitrary: s) (auto simp: elements_insert)

lemma invar_extend: "invar s \<Longrightarrow> invar (foldl (\<lambda>s a. insert a s) s as)"
  by (induction as arbitrary: s) (auto simp: invar_insert)

text \<open>The elements of a collected set depend on the set of what was collected only.\<close>

lemma elements_collect_cong:
  assumes "set as = set bs"
  shows "elements (foldl (\<lambda>s a. insert a s) empty as) = elements (foldl (\<lambda>s a. insert a s) empty bs)"
  using assms
  by (intro sorted_wrt_less_unique elements_sorted invar_extend invar_empty)
    (simp add: elements_extend elements_empty)

end

type_synonym 'a bset = "'a list"

fun bs_insert :: "'a::linorder \<Rightarrow> 'a bset \<Rightarrow> 'a bset" where
  "bs_insert a [] = [a]"
| "bs_insert a (x # xs) =
     (if x < a then x # bs_insert a xs else if x = a then x # xs else a # x # xs)"

definition bs_extend :: "'a::linorder bset \<Rightarrow> 'a list \<Rightarrow> 'a bset" where
  "bs_extend s as = foldl (\<lambda>s a. bs_insert a s) s as"

definition bs_ok :: "'a::linorder bset \<Rightarrow> bool" where
  "bs_ok s \<longleftrightarrow> sorted_wrt (<) s"

lemma set_bs_insert [simp]: "set (bs_insert a s) = Set.insert a (set s)"
  by (induction s) auto

lemma bs_ok_Nil [simp]: "bs_ok []"
  by (simp add: bs_ok_def)

lemma bs_ok_insert [simp]: "bs_ok s \<Longrightarrow> bs_ok (bs_insert a s)"
  unfolding bs_ok_def by (induction s) auto

interpretation bset: ordered_set "[]" bs_insert "\<lambda>s. s" bs_ok
  by unfold_locales (simp_all, simp add: bs_ok_def)

lemma set_bs_extend [simp]: "set (bs_extend s as) = set s \<union> set as"
  unfolding bs_extend_def by (rule bset.elements_extend)

lemma bs_ok_extend [simp]: "bs_ok s \<Longrightarrow> bs_ok (bs_extend s as)"
  unfolding bs_extend_def by (rule bset.invar_extend)

lemma bs_extend_cong: "set as = set bs \<Longrightarrow> bs_extend [] as = bs_extend [] bs"
  unfolding bs_extend_def by (rule bset.elements_collect_cong)

end
