(* ===== verification/Rust_Str.thy ===== *)
theory Rust_Str
  imports Prelude
begin

text \<open>
  Rust's \<open>String\<close> and \<open>str\<close>. A Rust string is a sequence of bytes that is valid UTF-8,
  and its \<open>Ord\<close> compares bytes; here a string is the list of its bytes (\<open>string\<close> is
  \<open>char list\<close> and a \<open>char\<close> is a byte), ordered lexicographically by \<open>List_Lexorder\<close>.
  The methods below are those the source calls, translated from their documented meaning:
  \<open>trim\<close> removes the characters with Unicode property \<open>White_Space\<close>, whose UTF-8
  encodings \<open>ws_len\<close> recognises; the \<open>ascii\<close> methods act on the bytes below 128.
\<close>

section \<open>White space\<close>

text \<open>
  The length of the white-space character a string starts with, 0 if it starts with none:
  U+0009 to U+000D, U+0020, U+0085, U+00A0, U+1680, U+2000 to U+200A, U+2028, U+2029,
  U+202F, U+205F and U+3000.
\<close>

definition byte :: "char \<Rightarrow> nat" where
  "byte c = of_char c"

fun ws_len :: "string \<Rightarrow> nat" where
  "ws_len [] = 0"
| "ws_len (c # cs) =
     (if (9 \<le> byte c \<and> byte c \<le> 13) \<or> byte c = 32 then 1
      else if byte c = 0xC2 then
        (case cs of d # _ \<Rightarrow> if byte d = 0x85 \<or> byte d = 0xA0 then 2 else 0 | [] \<Rightarrow> 0)
      else if byte c = 0xE1 then
        (case cs of d # e # _ \<Rightarrow> if byte d = 0x9A \<and> byte e = 0x80 then 3 else 0 | _ \<Rightarrow> 0)
      else if byte c = 0xE2 then
        (case cs of d # e # _ \<Rightarrow>
            if byte d = 0x80 \<and> ((0x80 \<le> byte e \<and> byte e \<le> 0x8A) \<or> byte e = 0xA8 \<or>
                byte e = 0xA9 \<or> byte e = 0xAF) then 3
            else if byte d = 0x81 \<and> byte e = 0x9F then 3 else 0
          | _ \<Rightarrow> 0)
      else if byte c = 0xE3 then
        (case cs of d # e # _ \<Rightarrow> if byte d = 0x80 \<and> byte e = 0x80 then 3 else 0 | _ \<Rightarrow> 0)
      else 0)"

lemma ws_len_le: "ws_len s \<le> length s"
  by (cases s) (auto split: list.splits)

text \<open>
  The same at the end of a string. UTF-8 is self-synchronising, so a suffix of bytes that
  encodes a character is the last character.
\<close>

definition ws_len_end :: "string \<Rightarrow> nat" where
  "ws_len_end s =
     (if ws_len (drop (length s - 1) s) = 1 then 1
      else if ws_len (drop (length s - 2) s) = 2 then 2
      else if ws_len (drop (length s - 3) s) = 3 then 3 else 0)"

lemma ws_len_end_le: "ws_len_end s \<le> length s"
proof -
  have *: "n \<le> length s" if "ws_len (drop (length s - n) s) = n" for n
    using ws_len_le [of "drop (length s - n) s"] that by simp
  show ?thesis using *[of 1] *[of 2] *[of 3] by (simp add: ws_len_end_def)
qed

function trim_start :: "string \<Rightarrow> string" where
  "trim_start s = (if ws_len s = 0 then s else trim_start (drop (ws_len s) s))"
  by pat_completeness auto
termination
proof (relation "measure length")
  fix s :: string
  assume "ws_len s \<noteq> 0"
  then show "(drop (ws_len s) s, s) \<in> measure length"
    using ws_len_le [of s] by (cases s) auto
qed simp

function trim_end :: "string \<Rightarrow> string" where
  "trim_end s =
     (if ws_len_end s = 0 then s else trim_end (take (length s - ws_len_end s) s))"
  by pat_completeness auto
termination
proof (relation "measure length")
  fix s :: string
  assume "ws_len_end s \<noteq> 0"
  then show "(take (length s - ws_len_end s) s, s) \<in> measure length"
    using ws_len_end_le [of s] by (cases s) auto
qed simp

declare trim_start.simps [simp del] trim_end.simps [simp del]

definition trim :: "string \<Rightarrow> string" where
  "trim s = trim_end (trim_start s)"

lemma trim_start_suffix: "suffix (trim_start s) s"
proof (induction s rule: trim_start.induct)
  case (1 s)
  show ?case
  proof (cases "ws_len s = 0")
    case True
    then show ?thesis by (simp add: trim_start.simps [of s])
  next
    case False
    with 1 have "suffix (trim_start (drop (ws_len s) s)) (drop (ws_len s) s)" by blast
    then show ?thesis
      using False suffix_drop suffix_order.trans by (metis trim_start.simps)
  qed
qed

lemma trim_end_prefix: "prefix (trim_end s) s"
proof (induction s rule: trim_end.induct)
  case (1 s)
  show ?case
  proof (cases "ws_len_end s = 0")
    case True
    then show ?thesis by (simp add: trim_end.simps [of s])
  next
    case False
    with 1 show ?thesis
      using take_is_prefix prefix_order.trans by (metis trim_end.simps)
  qed
qed

lemma trim_start_no_ws: "ws_len (trim_start s) = 0"
  by (induction s rule: trim_start.induct) (metis trim_start.simps)

lemma trim_end_no_ws: "ws_len_end (trim_end s) = 0"
  by (induction s rule: trim_end.induct) (metis trim_end.simps)

lemma ws_len_end_trim [simp]: "ws_len_end (trim s) = 0"
  by (simp add: trim_def trim_end_no_ws)

lemma trim_Nil [simp]: "trim [] = []"
  by (simp add: trim_def trim_start.simps trim_end.simps ws_len_end_def)

lemma trim_sublist: "set (trim s) \<subseteq> set s"
  using trim_start_suffix trim_end_prefix
  by (metis set_mono_prefix set_mono_suffix subset_trans trim_def)

section \<open>ASCII case, prefixes, joining\<close>

definition ascii_lower_char :: "char \<Rightarrow> char" where
  "ascii_lower_char c = (if 65 \<le> byte c \<and> byte c \<le> 90 then char_of (byte c + 32) else c)"

definition to_ascii_lowercase :: "string \<Rightarrow> string" where
  "to_ascii_lowercase s = map ascii_lower_char s"

definition is_ascii_alphanumeric :: "char \<Rightarrow> bool" where
  "is_ascii_alphanumeric c \<longleftrightarrow>
     (48 \<le> byte c \<and> byte c \<le> 57) \<or> (65 \<le> byte c \<and> byte c \<le> 90) \<or> (97 \<le> byte c \<and> byte c \<le> 122)"

fun strip_prefix :: "string \<Rightarrow> string \<Rightarrow> string option" where
  "strip_prefix [] s = Some s"
| "strip_prefix (p # ps) [] = None"
| "strip_prefix (p # ps) (c # cs) = (if p = c then strip_prefix ps cs else None)"

lemma strip_prefix_Some: "strip_prefix p s = Some r \<longleftrightarrow> s = p @ r"
  by (induction p s rule: strip_prefix.induct) auto

lemma strip_prefix_None: "strip_prefix p s = None \<longleftrightarrow> \<not> prefix p s"
  by (induction p s rule: strip_prefix.induct) auto

lemma length_to_ascii_lowercase [simp]: "length (to_ascii_lowercase s) = length s"
  by (simp add: to_ascii_lowercase_def)

fun join :: "string \<Rightarrow> string list \<Rightarrow> string" where
  "join sep [] = []"
| "join sep [x] = x"
| "join sep (x # y # ys) = x @ sep @ join sep (y # ys)"

section \<open>Decimal numbers\<close>

fun show_nat :: "nat \<Rightarrow> string" where
  "show_nat n =
     (if n < 10 then [char_of (48 + n)] else show_nat (n div 10) @ [char_of (48 + n mod 10)])"

declare show_nat.simps [simp del]

definition show_int :: "int \<Rightarrow> string" where
  "show_int i = (if i < 0 then ''-'' @ show_nat (nat (- i)) else show_nat (nat i))"

definition is_digit :: "char \<Rightarrow> bool" where
  "is_digit c \<longleftrightarrow> 48 \<le> byte c \<and> byte c \<le> 57"

definition digits_value :: "string \<Rightarrow> nat" where
  "digits_value s = foldl (\<lambda>n c. 10 * n + (byte c - 48)) 0 s"

text \<open>
  \<open>str::parse::<usize>\<close> on a 64-bit target: an optional plus sign, at least one ASCII
  digit and nothing else, and no overflow.
\<close>

definition parse_usize :: "string \<Rightarrow> nat option" where
  "parse_usize s =
     (let ds = (case s of c # cs \<Rightarrow> if c = CHR ''+'' then cs else s | [] \<Rightarrow> s) in
      if ds \<noteq> [] \<and> list_all is_digit ds \<and> digits_value ds < 2 ^ 64
      then Some (digits_value ds) else None)"

lemma byte_char_of [simp]: "byte (char_of n) = n mod 256"
  by (simp add: byte_def)

lemma show_nat_nonempty: "show_nat n \<noteq> []"
  by (subst show_nat.simps) simp

lemma show_nat_digits: "list_all is_digit (show_nat n)"
proof (induction n rule: show_nat.induct)
  case (1 n)
  have "is_digit (char_of (48 + n mod 10))" by (auto simp: is_digit_def)
  moreover have "n < 10 \<Longrightarrow> is_digit (char_of (48 + n))" by (auto simp: is_digit_def)
  ultimately show ?case
    using 1 by (subst show_nat.simps) simp
qed

lemma digits_value_snoc: "digits_value (s @ [c]) = 10 * digits_value s + (byte c - 48)"
  by (simp add: digits_value_def)

lemma digits_value_show_nat [simp]: "digits_value (show_nat n) = n"
proof (induction n rule: show_nat.induct)
  case (1 n)
  show ?case
  proof (cases "n < 10")
    case True
    then show ?thesis by (subst show_nat.simps) (simp add: digits_value_def)
  next
    case False
    have "n mod 10 < 10" by simp
    with False 1 show ?thesis
      by (subst show_nat.simps) (simp add: digits_value_snoc)
  qed
qed

lemma show_nat_inj: "show_nat m = show_nat n \<longleftrightarrow> m = n"
  by (metis digits_value_show_nat)

lemma show_nat_hd_no_plus: "hd (show_nat n) \<noteq> CHR ''+''"
proof -
  have "is_digit (hd (show_nat n))"
    using show_nat_digits [of n] show_nat_nonempty [of n] by (cases "show_nat n") auto
  then show ?thesis by (auto simp: is_digit_def byte_def)
qed

lemma parse_usize_show_nat: "n < 2 ^ 64 \<Longrightarrow> parse_usize (show_nat n) = Some n"
  using show_nat_digits [of n] show_nat_nonempty [of n] show_nat_hd_no_plus [of n]
    digits_value_show_nat [of n]
  by (cases "show_nat n") (auto simp: parse_usize_def Let_def)

end
