(* ===== verification/Float64.thy ===== *)
theory Float64
  imports Prelude
begin

unbundle bit_operations_syntax

text \<open>
  Rust's \<open>f64\<close>, as far as the cost guard computes with it: IEEE 754 binary64 with
  rounding to nearest, ties to even. On the wire and in messages an \<open>f64\<close> is its bit
  pattern; \<open>fl_of_bits\<close> reads it. A finite value is a sign, a mantissa and an exponent,
  \<open>(- 1) ^ s * m * 2 ^ e\<close>; the same number can have several such triples, and no
  operation tells them apart. \<open>fl_round\<close> is the one place that rounds.
\<close>

section \<open>Values\<close>

datatype fl = FNan | FInf bool | FFin bool nat int

definition fl_of_bits :: "f64 \<Rightarrow> fl" where
  "fl_of_bits w =
     (let s = bit w 63; ex = unat (take_bit 11 (drop_bit 52 w)); fr = unat (take_bit 52 w) in
      if ex = 2047 then (if fr = 0 then FInf s else FNan)
      else if ex = 0 then FFin s fr (- 1074)
      else FFin s (fr + 2 ^ 52) (int ex - 1075))"

definition fl_of_nat :: "nat \<Rightarrow> fl" where
  "fl_of_nat n = FFin False n 0"

abbreviation fl_zero :: fl where "fl_zero \<equiv> fl_of_nat 0"

definition signed_mant :: "bool \<Rightarrow> nat \<Rightarrow> int" where
  "signed_mant s m = (if s then - int m else int m)"

section \<open>Comparison\<close>

text \<open>Two finite values are compared after scaling both to the smaller exponent.\<close>

definition scaled :: "bool \<Rightarrow> nat \<Rightarrow> int \<Rightarrow> int \<Rightarrow> int" where
  "scaled s m e e0 = signed_mant s m * 2 ^ nat (e - e0)"

fun fl_le :: "fl \<Rightarrow> fl \<Rightarrow> bool" where
  "fl_le FNan y = False"
| "fl_le x FNan = False"
| "fl_le (FInf s) y = (s \<or> y = FInf False)"
| "fl_le x (FInf s) = (\<not> s)"
| "fl_le (FFin s m e) (FFin s' m' e') = (scaled s m e (min e e') \<le> scaled s' m' e' (min e e'))"

fun fl_is_nan :: "fl \<Rightarrow> bool" where
  "fl_is_nan FNan = True"
| "fl_is_nan x = False"

text \<open>\<open>x > y\<close>; with a NaN on either side every comparison is false.\<close>

definition fl_gt :: "fl \<Rightarrow> fl \<Rightarrow> bool" where
  "fl_gt x y \<longleftrightarrow> \<not> fl_is_nan x \<and> \<not> fl_is_nan y \<and> \<not> fl_le x y"

section \<open>Rounding and arithmetic\<close>

fun bit_length :: "nat \<Rightarrow> nat" where
  "bit_length n = (if n = 0 then 0 else Suc (bit_length (n div 2)))"

declare bit_length.simps [simp del]

definition fl_check :: "bool \<Rightarrow> nat \<Rightarrow> int \<Rightarrow> fl" where
  "fl_check s m e = (if e + int (bit_length m) > 1024 then FInf s else FFin s m e)"

definition round_even :: "nat \<Rightarrow> nat \<Rightarrow> nat" where
  "round_even a sh =
     (let q = a div 2 ^ sh; r = a mod 2 ^ sh in
      if 2 * r > 2 ^ sh \<or> (2 * r = 2 ^ sh \<and> odd q) then q + 1 else q)"

text \<open>The double nearest to \<open>k * 2 ^ e\<close>; \<open>z\<close> is the sign a zero result takes.\<close>

definition fl_round :: "bool \<Rightarrow> int \<Rightarrow> int \<Rightarrow> fl" where
  "fl_round z k e =
     (if k = 0 then FFin z 0 0
      else
        let a = nat \<bar>k\<bar>; s = (k < 0);
            e' = max (e + int (bit_length a) - 53) (- 1074)
        in if e' \<le> e then fl_check s a e
           else fl_check s (round_even a (nat (e' - e))) e')"

fun fl_add :: "fl \<Rightarrow> fl \<Rightarrow> fl" where
  "fl_add FNan y = FNan"
| "fl_add x FNan = FNan"
| "fl_add (FInf s) (FInf s') = (if s = s' then FInf s else FNan)"
| "fl_add (FInf s) y = FInf s"
| "fl_add x (FInf s) = FInf s"
| "fl_add (FFin s m e) (FFin s' m' e') =
     (let e0 = min e e' in
      fl_round (s \<and> s') (scaled s m e e0 + scaled s' m' e' e0) e0)"

fun fl_mul :: "fl \<Rightarrow> fl \<Rightarrow> fl" where
  "fl_mul FNan y = FNan"
| "fl_mul x FNan = FNan"
| "fl_mul (FInf s) (FInf s') = FInf (s \<noteq> s')"
| "fl_mul (FInf s) (FFin s' m e) = (if m = 0 then FNan else FInf (s \<noteq> s'))"
| "fl_mul (FFin s m e) (FInf s') = (if m = 0 then FNan else FInf (s \<noteq> s'))"
| "fl_mul (FFin s m e) (FFin s' m' e') =
     fl_round (s \<noteq> s') (signed_mant s m * signed_mant s' m') (e + e')"

text \<open>Evaluation takes eight or thirty-two bits at a time.\<close>

lemma bit_length_shift: "2 ^ k \<le> n \<Longrightarrow> bit_length n = k + bit_length (n div 2 ^ k)"
proof (induction k arbitrary: n)
  case 0
  show ?case by simp
next
  case (Suc k)
  then have "2 ^ k \<le> n div 2" by simp
  moreover from Suc.prems have "n \<noteq> 0" by (cases n) auto
  ultimately show ?case using Suc.IH [of "n div 2"]
    by (subst bit_length.simps) (simp add: div_mult2_eq)
qed

lemma bit_length_code [code]:
  "bit_length n =
     (if n < 256 then if n = 0 then 0 else Suc (bit_length (n div 2))
      else if n < 4294967296 then 8 + bit_length (n div 256)
      else 32 + bit_length (n div 4294967296))"
proof -
  have "256 \<le> n \<Longrightarrow> bit_length n = 8 + bit_length (n div 256)" using bit_length_shift [of 8 n] by simp
  moreover have "4294967296 \<le> n \<Longrightarrow> bit_length n = 32 + bit_length (n div 4294967296)"
    using bit_length_shift [of 32 n] by simp
  moreover have "bit_length n = (if n = 0 then 0 else Suc (bit_length (n div 2)))"
    by (rule bit_length.simps)
  ultimately show ?thesis by simp
qed

section \<open>Facts\<close>

lemma bit_length_le_iff: "bit_length n \<le> k \<longleftrightarrow> n < 2 ^ k"
proof (induction n arbitrary: k rule: bit_length.induct)
  case (1 n)
  show ?case
  proof (cases "n = 0")
    case True
    moreover have "bit_length 0 = 0" by (simp add: bit_length.simps [of 0])
    ultimately show ?thesis by simp
  next
    case False
    show ?thesis
    proof (cases k)
      case 0
      with False show ?thesis by (simp add: bit_length.simps [of n])
    next
      case (Suc k')
      with False 1 [of k'] show ?thesis by (auto simp: bit_length.simps [of n])
    qed
  qed
qed

lemma round_even_half_ulp: "2 * \<bar>int (round_even a sh) * 2 ^ sh - int a\<bar> \<le> 2 ^ sh"
proof -
  define q r p where "q = a div 2 ^ sh" and "r = a mod 2 ^ sh" and "p = (2::nat) ^ sh"
  have "a = q * p + r" unfolding q_def r_def p_def by (rule div_mult_mod_eq [symmetric])
  moreover have r: "r < p" by (simp add: r_def p_def)
  ultimately have a: "int a = int q * int p + int r" by (metis of_nat_add of_nat_mult)
  have p: "(2::int) ^ sh = int p" by (simp add: p_def)
  show ?thesis
  proof (cases "2 * r > p \<or> (2 * r = p \<and> odd q)")
    case True
    then have "round_even a sh = q + 1" by (simp add: round_even_def Let_def q_def r_def p_def)
    then have "int (round_even a sh) * int p - int a = int p - int r"
      using a by (simp add: algebra_simps)
    then show ?thesis unfolding p using True r by presburger
  next
    case False
    then have "round_even a sh = q" by (simp add: round_even_def Let_def q_def r_def p_def)
    then have "int (round_even a sh) * int p - int a = - int r" using a by simp
    then show ?thesis unfolding p using False r by presburger
  qed
qed

text \<open>A mantissa of at most 53 bits at an exponent in range is not rounded.\<close>

lemma fl_round_exact:
  assumes "0 < k" and "nat k < 2 ^ 53" and "- 1074 \<le> e" and "e \<le> 971"
  shows "fl_round z k e = FFin False (nat k) e"
proof -
  have "bit_length (nat k) \<le> 53" using assms(2) by (simp add: bit_length_le_iff)
  then show ?thesis
    using assms by (simp add: fl_round_def Let_def fl_check_def)
qed

lemma fl_add_of_nat: "a + b < 2 ^ 53 \<Longrightarrow> fl_add (fl_of_nat a) (fl_of_nat b) = fl_of_nat (a + b)"
proof (cases "a + b = 0")
  case True
  then show ?thesis by (simp add: fl_of_nat_def scaled_def signed_mant_def fl_round_def)
next
  case False
  assume "a + b < 2 ^ 53"
  then have "fl_round False (int a + int b) 0 = FFin False (nat (int a + int b)) 0"
    using False by (intro fl_round_exact) auto
  then show ?thesis by (simp add: fl_of_nat_def scaled_def signed_mant_def Let_def nat_add_distrib)
qed

lemma fl_le_of_nat [simp]: "fl_le (fl_of_nat a) (fl_of_nat b) \<longleftrightarrow> a \<le> b"
  by (simp add: fl_of_nat_def scaled_def signed_mant_def)

lemma fl_gt_of_nat [simp]: "fl_gt (fl_of_nat a) (fl_of_nat b) \<longleftrightarrow> b < a"
  by (auto simp: fl_gt_def fl_of_nat_def scaled_def signed_mant_def)

lemma fl_gt_NaN [simp]: "\<not> fl_gt FNan y" "\<not> fl_gt x FNan"
  by (auto simp: fl_gt_def)

lemma fl_add_NaN [simp]: "fl_add x FNan = FNan"
  by (cases x) auto

lemma fl_le_refl: "\<not> fl_is_nan x \<Longrightarrow> fl_le x x"
  by (cases x) auto

text \<open>\<open>512.0\<close> and \<open>256.0\<close>, for later evaluation.\<close>

lemma fl_of_bits_512: "fl_of_bits 0x4080000000000000 = FFin False (2 ^ 52) (- 43)"
  by (simp add: fl_of_bits_def)

end
