(* ===== verification/Proto.thy ===== *)
theory Proto
  imports Btree Rust_Str Float64
begin

text \<open>
  The wire contract of the virtual machine, \<open>cortex_rmvm_v3_1.proto\<close>, as the Rust types
  that \<open>prost\<close> derives from it, and the conversions of \<open>rmvm-proto/src/lib.rs\<close>. An
  enumeration field of a message is an \<open>i32\<close>, because proto3 enumerations are open; the
  code converts it with \<open>try_from\<close> and falls back to the zero variant. A \<open>oneof\<close> is an
  option, a message field is an option, a protobuf map is a \<open>BTreeMap\<close> (the build script
  asks for it).

  A message type \<open>Foo\<close> is the record \<open>foo\<close>; its fields carry a short prefix, because
  record fields share one name space. The seven operation messages are the constructors
  of \<open>op\<close>.
\<close>

section \<open>Enumerations\<close>

text \<open>
  What the code relies on in an enumeration: \<open>as i32\<close> and \<open>try_from\<close> are inverse where
  the latter succeeds.
\<close>

locale proto_enum =
  fixes to_i32 :: "'a \<Rightarrow> i32"
    and try_from :: "i32 \<Rightarrow> 'a option"
  assumes try_from_to: "try_from (to_i32 x) = Some x"
    and to_try_from: "try_from v = Some x \<Longrightarrow> to_i32 x = v"
begin

lemma to_i32_inject: "to_i32 x = to_i32 y \<longleftrightarrow> x = y"
  by (metis option.inject try_from_to)

lemma from_to: "(case try_from (to_i32 x) of None \<Rightarrow> d | Some y \<Rightarrow> y) = x"
  by (simp add: try_from_to)

lemma from_eq: "(case try_from v of None \<Rightarrow> d | Some y \<Rightarrow> y) = x \<Longrightarrow> x \<noteq> d \<Longrightarrow> v = to_i32 x"
  by (auto split: option.splits dest: to_try_from)

end

subsection \<open>HandleAvailability\<close>

datatype handle_availability =
    HandleAvailabilityUnspecified
  | Ready
  | ArchivalPending
  | Offline

fun handle_availability_to_i32 :: "handle_availability \<Rightarrow> i32" where
  "handle_availability_to_i32 HandleAvailabilityUnspecified = 0"
| "handle_availability_to_i32 Ready = 1"
| "handle_availability_to_i32 ArchivalPending = 2"
| "handle_availability_to_i32 Offline = 3"

definition handle_availability_try_from :: "i32 \<Rightarrow> handle_availability option" where
  "handle_availability_try_from v =
     (if v = 0 then Some HandleAvailabilityUnspecified
      else if v = 1 then Some Ready
      else if v = 2 then Some ArchivalPending
      else if v = 3 then Some Offline
      else None)"

fun handle_availability_as_str_name :: "handle_availability \<Rightarrow> string" where
  "handle_availability_as_str_name HandleAvailabilityUnspecified = ''HANDLE_AVAILABILITY_UNSPECIFIED''"
| "handle_availability_as_str_name Ready = ''READY''"
| "handle_availability_as_str_name ArchivalPending = ''ARCHIVAL_PENDING''"
| "handle_availability_as_str_name Offline = ''OFFLINE''"

interpretation handle_availability_enum: proto_enum handle_availability_to_i32 handle_availability_try_from
proof
  fix x
  show "handle_availability_try_from (handle_availability_to_i32 x) = Some x" by (cases x) (simp_all add: handle_availability_try_from_def)
next
  fix v x
  assume "handle_availability_try_from v = Some x"
  then show "handle_availability_to_i32 x = v" by (auto simp: handle_availability_try_from_def split: if_splits)
qed

subsection \<open>TrustTier\<close>

datatype trust_tier =
    TrustTierUnspecified
  | Tier0Quarantined
  | Tier1Asserted
  | Tier2Verified
  | Tier3Confirmed
  | Tier4PolicySigned

fun trust_tier_to_i32 :: "trust_tier \<Rightarrow> i32" where
  "trust_tier_to_i32 TrustTierUnspecified = 0"
| "trust_tier_to_i32 Tier0Quarantined = 1"
| "trust_tier_to_i32 Tier1Asserted = 2"
| "trust_tier_to_i32 Tier2Verified = 3"
| "trust_tier_to_i32 Tier3Confirmed = 4"
| "trust_tier_to_i32 Tier4PolicySigned = 5"

definition trust_tier_try_from :: "i32 \<Rightarrow> trust_tier option" where
  "trust_tier_try_from v =
     (if v = 0 then Some TrustTierUnspecified
      else if v = 1 then Some Tier0Quarantined
      else if v = 2 then Some Tier1Asserted
      else if v = 3 then Some Tier2Verified
      else if v = 4 then Some Tier3Confirmed
      else if v = 5 then Some Tier4PolicySigned
      else None)"

fun trust_tier_as_str_name :: "trust_tier \<Rightarrow> string" where
  "trust_tier_as_str_name TrustTierUnspecified = ''TRUST_TIER_UNSPECIFIED''"
| "trust_tier_as_str_name Tier0Quarantined = ''TIER_0_QUARANTINED''"
| "trust_tier_as_str_name Tier1Asserted = ''TIER_1_ASSERTED''"
| "trust_tier_as_str_name Tier2Verified = ''TIER_2_VERIFIED''"
| "trust_tier_as_str_name Tier3Confirmed = ''TIER_3_CONFIRMED''"
| "trust_tier_as_str_name Tier4PolicySigned = ''TIER_4_POLICY_SIGNED''"

interpretation trust_tier_enum: proto_enum trust_tier_to_i32 trust_tier_try_from
proof
  fix x
  show "trust_tier_try_from (trust_tier_to_i32 x) = Some x" by (cases x) (simp_all add: trust_tier_try_from_def)
next
  fix v x
  assume "trust_tier_try_from v = Some x"
  then show "trust_tier_to_i32 x = v" by (auto simp: trust_tier_try_from_def split: if_splits)
qed

subsection \<open>TaintClass\<close>

datatype taint_class =
    TaintUnspecified
  | TaintUser
  | TaintTool
  | TaintWebUntrusted
  | TaintWebTrusted
  | TaintMixed

fun taint_class_to_i32 :: "taint_class \<Rightarrow> i32" where
  "taint_class_to_i32 TaintUnspecified = 0"
| "taint_class_to_i32 TaintUser = 1"
| "taint_class_to_i32 TaintTool = 2"
| "taint_class_to_i32 TaintWebUntrusted = 3"
| "taint_class_to_i32 TaintWebTrusted = 4"
| "taint_class_to_i32 TaintMixed = 5"

definition taint_class_try_from :: "i32 \<Rightarrow> taint_class option" where
  "taint_class_try_from v =
     (if v = 0 then Some TaintUnspecified
      else if v = 1 then Some TaintUser
      else if v = 2 then Some TaintTool
      else if v = 3 then Some TaintWebUntrusted
      else if v = 4 then Some TaintWebTrusted
      else if v = 5 then Some TaintMixed
      else None)"

fun taint_class_as_str_name :: "taint_class \<Rightarrow> string" where
  "taint_class_as_str_name TaintUnspecified = ''TAINT_UNSPECIFIED''"
| "taint_class_as_str_name TaintUser = ''TAINT_USER''"
| "taint_class_as_str_name TaintTool = ''TAINT_TOOL''"
| "taint_class_as_str_name TaintWebUntrusted = ''TAINT_WEB_UNTRUSTED''"
| "taint_class_as_str_name TaintWebTrusted = ''TAINT_WEB_TRUSTED''"
| "taint_class_as_str_name TaintMixed = ''TAINT_MIXED''"

interpretation taint_class_enum: proto_enum taint_class_to_i32 taint_class_try_from
proof
  fix x
  show "taint_class_try_from (taint_class_to_i32 x) = Some x" by (cases x) (simp_all add: taint_class_try_from_def)
next
  fix v x
  assume "taint_class_try_from v = Some x"
  then show "taint_class_to_i32 x = v" by (auto simp: taint_class_try_from_def split: if_splits)
qed

subsection \<open>Scope\<close>

datatype scope =
    ScopeUnspecified
  | ScopeSession
  | ScopeProject
  | ScopePerson
  | ScopeOrg
  | ScopeGlobal

fun scope_to_i32 :: "scope \<Rightarrow> i32" where
  "scope_to_i32 ScopeUnspecified = 0"
| "scope_to_i32 ScopeSession = 1"
| "scope_to_i32 ScopeProject = 2"
| "scope_to_i32 ScopePerson = 3"
| "scope_to_i32 ScopeOrg = 4"
| "scope_to_i32 ScopeGlobal = 5"

definition scope_try_from :: "i32 \<Rightarrow> scope option" where
  "scope_try_from v =
     (if v = 0 then Some ScopeUnspecified
      else if v = 1 then Some ScopeSession
      else if v = 2 then Some ScopeProject
      else if v = 3 then Some ScopePerson
      else if v = 4 then Some ScopeOrg
      else if v = 5 then Some ScopeGlobal
      else None)"

fun scope_as_str_name :: "scope \<Rightarrow> string" where
  "scope_as_str_name ScopeUnspecified = ''SCOPE_UNSPECIFIED''"
| "scope_as_str_name ScopeSession = ''SCOPE_SESSION''"
| "scope_as_str_name ScopeProject = ''SCOPE_PROJECT''"
| "scope_as_str_name ScopePerson = ''SCOPE_PERSON''"
| "scope_as_str_name ScopeOrg = ''SCOPE_ORG''"
| "scope_as_str_name ScopeGlobal = ''SCOPE_GLOBAL''"

interpretation scope_enum: proto_enum scope_to_i32 scope_try_from
proof
  fix x
  show "scope_try_from (scope_to_i32 x) = Some x" by (cases x) (simp_all add: scope_try_from_def)
next
  fix v x
  assume "scope_try_from v = Some x"
  then show "scope_to_i32 x = v" by (auto simp: scope_try_from_def split: if_splits)
qed

subsection \<open>ParamType\<close>

datatype param_type =
    ParamTypeUnspecified
  | ParamString
  | ParamBool
  | ParamInt64
  | ParamFloat64
  | ParamTimestamp
  | ParamEnum
  | ParamScope

fun param_type_to_i32 :: "param_type \<Rightarrow> i32" where
  "param_type_to_i32 ParamTypeUnspecified = 0"
| "param_type_to_i32 ParamString = 1"
| "param_type_to_i32 ParamBool = 2"
| "param_type_to_i32 ParamInt64 = 3"
| "param_type_to_i32 ParamFloat64 = 4"
| "param_type_to_i32 ParamTimestamp = 5"
| "param_type_to_i32 ParamEnum = 6"
| "param_type_to_i32 ParamScope = 7"

definition param_type_try_from :: "i32 \<Rightarrow> param_type option" where
  "param_type_try_from v =
     (if v = 0 then Some ParamTypeUnspecified
      else if v = 1 then Some ParamString
      else if v = 2 then Some ParamBool
      else if v = 3 then Some ParamInt64
      else if v = 4 then Some ParamFloat64
      else if v = 5 then Some ParamTimestamp
      else if v = 6 then Some ParamEnum
      else if v = 7 then Some ParamScope
      else None)"

fun param_type_as_str_name :: "param_type \<Rightarrow> string" where
  "param_type_as_str_name ParamTypeUnspecified = ''PARAM_TYPE_UNSPECIFIED''"
| "param_type_as_str_name ParamString = ''PARAM_STRING''"
| "param_type_as_str_name ParamBool = ''PARAM_BOOL''"
| "param_type_as_str_name ParamInt64 = ''PARAM_INT64''"
| "param_type_as_str_name ParamFloat64 = ''PARAM_FLOAT64''"
| "param_type_as_str_name ParamTimestamp = ''PARAM_TIMESTAMP''"
| "param_type_as_str_name ParamEnum = ''PARAM_ENUM''"
| "param_type_as_str_name ParamScope = ''PARAM_SCOPE''"

interpretation param_type_enum: proto_enum param_type_to_i32 param_type_try_from
proof
  fix x
  show "param_type_try_from (param_type_to_i32 x) = Some x" by (cases x) (simp_all add: param_type_try_from_def)
next
  fix v x
  assume "param_type_try_from v = Some x"
  then show "param_type_to_i32 x = v" by (auto simp: param_type_try_from_def split: if_splits)
qed

subsection \<open>SelectorReturn\<close>

datatype selector_return =
    SelectorReturnUnspecified
  | ReturnHandle
  | ReturnHandleSet
  | ReturnStruct

fun selector_return_to_i32 :: "selector_return \<Rightarrow> i32" where
  "selector_return_to_i32 SelectorReturnUnspecified = 0"
| "selector_return_to_i32 ReturnHandle = 1"
| "selector_return_to_i32 ReturnHandleSet = 2"
| "selector_return_to_i32 ReturnStruct = 3"

definition selector_return_try_from :: "i32 \<Rightarrow> selector_return option" where
  "selector_return_try_from v =
     (if v = 0 then Some SelectorReturnUnspecified
      else if v = 1 then Some ReturnHandle
      else if v = 2 then Some ReturnHandleSet
      else if v = 3 then Some ReturnStruct
      else None)"

fun selector_return_as_str_name :: "selector_return \<Rightarrow> string" where
  "selector_return_as_str_name SelectorReturnUnspecified = ''SELECTOR_RETURN_UNSPECIFIED''"
| "selector_return_as_str_name ReturnHandle = ''RETURN_HANDLE''"
| "selector_return_as_str_name ReturnHandleSet = ''RETURN_HANDLE_SET''"
| "selector_return_as_str_name ReturnStruct = ''RETURN_STRUCT''"

interpretation selector_return_enum: proto_enum selector_return_to_i32 selector_return_try_from
proof
  fix x
  show "selector_return_try_from (selector_return_to_i32 x) = Some x" by (cases x) (simp_all add: selector_return_try_from_def)
next
  fix v x
  assume "selector_return_try_from v = Some x"
  then show "selector_return_to_i32 x = v" by (auto simp: selector_return_try_from_def split: if_splits)
qed

subsection \<open>EdgeType\<close>

datatype edge_type =
    EdgeTypeUnspecified
  | EdgeConflictsWith
  | EdgeSupersedes
  | EdgeProvenance
  | EdgeSameEntity

fun edge_type_to_i32 :: "edge_type \<Rightarrow> i32" where
  "edge_type_to_i32 EdgeTypeUnspecified = 0"
| "edge_type_to_i32 EdgeConflictsWith = 1"
| "edge_type_to_i32 EdgeSupersedes = 2"
| "edge_type_to_i32 EdgeProvenance = 3"
| "edge_type_to_i32 EdgeSameEntity = 4"

definition edge_type_try_from :: "i32 \<Rightarrow> edge_type option" where
  "edge_type_try_from v =
     (if v = 0 then Some EdgeTypeUnspecified
      else if v = 1 then Some EdgeConflictsWith
      else if v = 2 then Some EdgeSupersedes
      else if v = 3 then Some EdgeProvenance
      else if v = 4 then Some EdgeSameEntity
      else None)"

fun edge_type_as_str_name :: "edge_type \<Rightarrow> string" where
  "edge_type_as_str_name EdgeTypeUnspecified = ''EDGE_TYPE_UNSPECIFIED''"
| "edge_type_as_str_name EdgeConflictsWith = ''EDGE_CONFLICTS_WITH''"
| "edge_type_as_str_name EdgeSupersedes = ''EDGE_SUPERSEDES''"
| "edge_type_as_str_name EdgeProvenance = ''EDGE_PROVENANCE''"
| "edge_type_as_str_name EdgeSameEntity = ''EDGE_SAME_ENTITY''"

interpretation edge_type_enum: proto_enum edge_type_to_i32 edge_type_try_from
proof
  fix x
  show "edge_type_try_from (edge_type_to_i32 x) = Some x" by (cases x) (simp_all add: edge_type_try_from_def)
next
  fix v x
  assume "edge_type_try_from v = Some x"
  then show "edge_type_to_i32 x = v" by (auto simp: edge_type_try_from_def split: if_splits)
qed

subsection \<open>AssertionType\<close>

datatype assertion_type =
    AssertionTypeUnspecified
  | AssertUserPreference
  | AssertWorldFact
  | AssertDecision
  | AssertProcedure
  | AssertConflictExplanation

fun assertion_type_to_i32 :: "assertion_type \<Rightarrow> i32" where
  "assertion_type_to_i32 AssertionTypeUnspecified = 0"
| "assertion_type_to_i32 AssertUserPreference = 1"
| "assertion_type_to_i32 AssertWorldFact = 2"
| "assertion_type_to_i32 AssertDecision = 3"
| "assertion_type_to_i32 AssertProcedure = 4"
| "assertion_type_to_i32 AssertConflictExplanation = 5"

definition assertion_type_try_from :: "i32 \<Rightarrow> assertion_type option" where
  "assertion_type_try_from v =
     (if v = 0 then Some AssertionTypeUnspecified
      else if v = 1 then Some AssertUserPreference
      else if v = 2 then Some AssertWorldFact
      else if v = 3 then Some AssertDecision
      else if v = 4 then Some AssertProcedure
      else if v = 5 then Some AssertConflictExplanation
      else None)"

fun assertion_type_as_str_name :: "assertion_type \<Rightarrow> string" where
  "assertion_type_as_str_name AssertionTypeUnspecified = ''ASSERTION_TYPE_UNSPECIFIED''"
| "assertion_type_as_str_name AssertUserPreference = ''ASSERT_USER_PREFERENCE''"
| "assertion_type_as_str_name AssertWorldFact = ''ASSERT_WORLD_FACT''"
| "assertion_type_as_str_name AssertDecision = ''ASSERT_DECISION''"
| "assertion_type_as_str_name AssertProcedure = ''ASSERT_PROCEDURE''"
| "assertion_type_as_str_name AssertConflictExplanation = ''ASSERT_CONFLICT_EXPLANATION''"

interpretation assertion_type_enum: proto_enum assertion_type_to_i32 assertion_type_try_from
proof
  fix x
  show "assertion_type_try_from (assertion_type_to_i32 x) = Some x" by (cases x) (simp_all add: assertion_type_try_from_def)
next
  fix v x
  assume "assertion_type_try_from v = Some x"
  then show "assertion_type_to_i32 x = v" by (auto simp: assertion_type_try_from_def split: if_splits)
qed

subsection \<open>ExecutionStatus\<close>

datatype execution_status =
    StatusUnspecified
  | StatusOk
  | StatusRejected
  | StatusRangeExceeded
  | StatusAuthDenied
  | StatusStall

fun execution_status_to_i32 :: "execution_status \<Rightarrow> i32" where
  "execution_status_to_i32 StatusUnspecified = 0"
| "execution_status_to_i32 StatusOk = 1"
| "execution_status_to_i32 StatusRejected = 2"
| "execution_status_to_i32 StatusRangeExceeded = 3"
| "execution_status_to_i32 StatusAuthDenied = 4"
| "execution_status_to_i32 StatusStall = 5"

definition execution_status_try_from :: "i32 \<Rightarrow> execution_status option" where
  "execution_status_try_from v =
     (if v = 0 then Some StatusUnspecified
      else if v = 1 then Some StatusOk
      else if v = 2 then Some StatusRejected
      else if v = 3 then Some StatusRangeExceeded
      else if v = 4 then Some StatusAuthDenied
      else if v = 5 then Some StatusStall
      else None)"

fun execution_status_as_str_name :: "execution_status \<Rightarrow> string" where
  "execution_status_as_str_name StatusUnspecified = ''EXECUTION_STATUS_UNSPECIFIED''"
| "execution_status_as_str_name StatusOk = ''OK''"
| "execution_status_as_str_name StatusRejected = ''REJECTED''"
| "execution_status_as_str_name StatusRangeExceeded = ''RANGE_EXCEEDED''"
| "execution_status_as_str_name StatusAuthDenied = ''AUTH_DENIED''"
| "execution_status_as_str_name StatusStall = ''STALL''"

interpretation execution_status_enum: proto_enum execution_status_to_i32 execution_status_try_from
proof
  fix x
  show "execution_status_try_from (execution_status_to_i32 x) = Some x" by (cases x) (simp_all add: execution_status_try_from_def)
next
  fix v x
  assume "execution_status_try_from v = Some x"
  then show "execution_status_to_i32 x = v" by (auto simp: execution_status_try_from_def split: if_splits)
qed

subsection \<open>ErrorCode\<close>

datatype error_code =
    ErrorCodeUnspecified
  | SchemaViolation
  | UnknownHandleRef
  | UnknownSelectorRef
  | TypeMismatch
  | PolicyNotFound
  | AmbiguousConflict
  | FieldRedacted
  | DataLeakPrevention
  | UntrustedProvenance
  | ErrorBrokenLineage
  | CostGuardRejected
  | GraphTraversalLimit
  | EvalTimeout
  | HandleNotReady

fun error_code_to_i32 :: "error_code \<Rightarrow> i32" where
  "error_code_to_i32 ErrorCodeUnspecified = 0"
| "error_code_to_i32 SchemaViolation = 1"
| "error_code_to_i32 UnknownHandleRef = 2"
| "error_code_to_i32 UnknownSelectorRef = 3"
| "error_code_to_i32 TypeMismatch = 4"
| "error_code_to_i32 PolicyNotFound = 10"
| "error_code_to_i32 AmbiguousConflict = 11"
| "error_code_to_i32 FieldRedacted = 20"
| "error_code_to_i32 DataLeakPrevention = 21"
| "error_code_to_i32 UntrustedProvenance = 22"
| "error_code_to_i32 ErrorBrokenLineage = 23"
| "error_code_to_i32 CostGuardRejected = 30"
| "error_code_to_i32 GraphTraversalLimit = 31"
| "error_code_to_i32 EvalTimeout = 32"
| "error_code_to_i32 HandleNotReady = 40"

definition error_code_try_from :: "i32 \<Rightarrow> error_code option" where
  "error_code_try_from v =
     (if v = 0 then Some ErrorCodeUnspecified
      else if v = 1 then Some SchemaViolation
      else if v = 2 then Some UnknownHandleRef
      else if v = 3 then Some UnknownSelectorRef
      else if v = 4 then Some TypeMismatch
      else if v = 10 then Some PolicyNotFound
      else if v = 11 then Some AmbiguousConflict
      else if v = 20 then Some FieldRedacted
      else if v = 21 then Some DataLeakPrevention
      else if v = 22 then Some UntrustedProvenance
      else if v = 23 then Some ErrorBrokenLineage
      else if v = 30 then Some CostGuardRejected
      else if v = 31 then Some GraphTraversalLimit
      else if v = 32 then Some EvalTimeout
      else if v = 40 then Some HandleNotReady
      else None)"

fun error_code_as_str_name :: "error_code \<Rightarrow> string" where
  "error_code_as_str_name ErrorCodeUnspecified = ''ERROR_CODE_UNSPECIFIED''"
| "error_code_as_str_name SchemaViolation = ''SCHEMA_VIOLATION''"
| "error_code_as_str_name UnknownHandleRef = ''UNKNOWN_HANDLE_REF''"
| "error_code_as_str_name UnknownSelectorRef = ''UNKNOWN_SELECTOR_REF''"
| "error_code_as_str_name TypeMismatch = ''TYPE_MISMATCH''"
| "error_code_as_str_name PolicyNotFound = ''POLICY_NOT_FOUND''"
| "error_code_as_str_name AmbiguousConflict = ''AMBIGUOUS_CONFLICT''"
| "error_code_as_str_name FieldRedacted = ''FIELD_REDACTED''"
| "error_code_as_str_name DataLeakPrevention = ''DATA_LEAK_PREVENTION''"
| "error_code_as_str_name UntrustedProvenance = ''UNTRUSTED_PROVENANCE''"
| "error_code_as_str_name ErrorBrokenLineage = ''ERROR_BROKEN_LINEAGE''"
| "error_code_as_str_name CostGuardRejected = ''COST_GUARD_REJECTED''"
| "error_code_as_str_name GraphTraversalLimit = ''GRAPH_TRAVERSAL_LIMIT''"
| "error_code_as_str_name EvalTimeout = ''EVAL_TIMEOUT''"
| "error_code_as_str_name HandleNotReady = ''HANDLE_NOT_READY''"

interpretation error_code_enum: proto_enum error_code_to_i32 error_code_try_from
proof
  fix x
  show "error_code_try_from (error_code_to_i32 x) = Some x" by (cases x) (simp_all add: error_code_try_from_def)
next
  fix v x
  assume "error_code_try_from v = Some x"
  then show "error_code_to_i32 x = v" by (auto simp: error_code_try_from_def split: if_splits)
qed


subsection \<open>The conversions of \<open>rmvm-proto\<close>\<close>

definition trust_tier_from_i32 :: "i32 \<Rightarrow> trust_tier" where
  "trust_tier_from_i32 v =
     (case trust_tier_try_from v of None \<Rightarrow> TrustTierUnspecified | Some t \<Rightarrow> t)"

definition availability_from_i32 :: "i32 \<Rightarrow> handle_availability" where
  "availability_from_i32 v =
     (case handle_availability_try_from v of None \<Rightarrow> HandleAvailabilityUnspecified | Some a \<Rightarrow> a)"

definition selector_return_from_i32 :: "i32 \<Rightarrow> selector_return" where
  "selector_return_from_i32 v =
     (case selector_return_try_from v of None \<Rightarrow> SelectorReturnUnspecified | Some r \<Rightarrow> r)"

definition param_type_from_i32 :: "i32 \<Rightarrow> param_type" where
  "param_type_from_i32 v =
     (case param_type_try_from v of None \<Rightarrow> ParamTypeUnspecified | Some t \<Rightarrow> t)"

definition assertion_type_from_i32 :: "i32 \<Rightarrow> assertion_type" where
  "assertion_type_from_i32 v =
     (case assertion_type_try_from v of None \<Rightarrow> AssertionTypeUnspecified | Some t \<Rightarrow> t)"

definition edge_type_from_i32 :: "i32 \<Rightarrow> edge_type" where
  "edge_type_from_i32 v =
     (case edge_type_try_from v of None \<Rightarrow> EdgeTypeUnspecified | Some t \<Rightarrow> t)"

text \<open>\<open>Scope::try_from(v).unwrap_or(Scope::Unspecified)\<close>, written out at each use in the source.\<close>

definition scope_from_i32 :: "i32 \<Rightarrow> scope" where
  "scope_from_i32 v = (case scope_try_from v of None \<Rightarrow> ScopeUnspecified | Some s \<Rightarrow> s)"

lemma trust_tier_from_to [simp]: "trust_tier_from_i32 (trust_tier_to_i32 t) = t"
  unfolding trust_tier_from_i32_def by (rule trust_tier_enum.from_to)

lemma assertion_type_from_to [simp]: "assertion_type_from_i32 (assertion_type_to_i32 t) = t"
  unfolding assertion_type_from_i32_def by (rule assertion_type_enum.from_to)

lemma edge_type_from_to [simp]: "edge_type_from_i32 (edge_type_to_i32 t) = t"
  unfolding edge_type_from_i32_def by (rule edge_type_enum.from_to)

lemma availability_from_to [simp]: "availability_from_i32 (handle_availability_to_i32 t) = t"
  unfolding availability_from_i32_def by (rule handle_availability_enum.from_to)

lemma scope_from_to [simp]: "scope_from_i32 (scope_to_i32 t) = t"
  unfolding scope_from_i32_def by (rule scope_enum.from_to)

lemma availability_from_Ready [simp]: "availability_from_i32 1 = Ready"
  by (simp add: availability_from_i32_def handle_availability_try_from_def)

section \<open>Messages\<close>

record timestamp =
  ts_seconds :: i64
  ts_nanos :: i32

datatype v = V_S string | V_B bool | V_I64 i64 | V_F64 f64 | V_Ts timestamp | V_E string

type_synonym "value" = "v option"

record temporal_bound =
  tb_valid_from :: "timestamp option"
  tb_valid_to :: "timestamp option"
  tb_open_end :: bool

record handle_meta =
  hm_subject :: string
  hm_predicate_label :: string
  hm_trust_tier :: i32
  hm_taint :: "i32 list"
  hm_temporal :: "temporal_bound option"
  hm_scope :: i32

record handle_ref =
  h_ref :: string
  h_type_id :: string
  h_availability :: i32
  h_meta :: "handle_meta option"
  h_signature_summary :: string
  h_conflict_group_id :: string

record param_spec =
  ps_name :: string
  ps_type :: i32
  ps_enum_values :: "string list"

record selector_ref =
  sel_sel :: string
  sel_description :: string
  sel_params :: "param_spec list"
  sel_cost_weight :: f64
  sel_return_type :: i32

record context_var =
  cv_name :: string
  cv_value :: "value option"

record plan_budget =
  pb_max_ops :: u32
  pb_max_join_depth :: u32
  pb_max_fanout :: u32
  pb_max_total_cost :: f64

record public_manifest =
  pm_request_id :: string
  pm_handles :: "handle_ref list"
  pm_selectors :: "selector_ref list"
  pm_context :: "context_var list"
  pm_budget :: "plan_budget option"

type_synonym params = "(string, value) bmap"

record value_ref =
  vr_reg :: string
  vr_field_path :: string

datatype cite = CiteHandleRef string | CiteAnchorRef string

type_synonym citation_ref = "cite option"

datatype op =
    OpFetch (handle_ref: string)
  | OpApplySelector (selector_ref: string) (ap_params: params)
  | OpResolve (rs_in_reg: string) (policy_id: string)
  | OpFilter (fl_in_reg: string) (filter_ref: string) (fl_params: params)
  | OpJoin (left_reg: string) (right_reg: string) (edge_type: i32)
  | OpProject (pj_in_reg: string) (field_paths: "string list")
  | OpAssert (assertion_type: i32) (bindings: "(string, value_ref) bmap")
      (citations: "citation_ref list")

record step =
  st_out :: string
  st_op :: "op option"

record output_spec =
  os_reg :: string

record rmvm_plan =
  pl_request_id :: string
  pl_steps :: "step list"
  pl_outputs :: "output_spec list"

record execute_request =
  er_manifest :: "public_manifest option"
  er_plan :: "rmvm_plan option"

record stall_info =
  si_handle_ref :: string
  si_availability :: i32
  si_estimated_ready_at :: "timestamp option"
  si_retrieval_ticket :: string

record canonical_citation =
  cc_anchor_digest :: string

record verified_assertion =
  va_assertion_type :: i32
  va_fields :: "(string, value) bmap"
  va_citations :: "canonical_citation list"

record inclusion_proof =
  ip_assertion_index :: u32
  ip_sibling_hashes :: "string list"

record assertion_merkle_proof =
  mp_semantic_root :: string
  mp_trace_root :: string
  mp_inclusion :: "inclusion_proof list"

record rendered_output =
  ro_verified_blocks :: "string list"
  ro_narrative_blocks :: "string list"

record hint =
  hi_kind :: string
  hi_detail :: string

record execution_error =
  ee_code :: i32
  ee_message :: string
  ee_hints :: "hint list"

record execute_response =
  rs_status :: i32
  rs_assertions :: "verified_assertion list"
  rs_proof :: "assertion_merkle_proof option"
  rs_rendered :: "rendered_output option"
  rs_stall :: "stall_info option"
  rs_error :: "execution_error option"

end
