(* ===== verification/Kernel_Base.thy ===== *)
theory Kernel_Base
  imports Proto
begin

text \<open>
  The vocabulary of the kernel (\<open>rmvm-kernel/src/kernel.rs\<close>): options, registers,
  failures, and the pure helper functions of the lower half of the file. The step
  operations built from them are in \<open>Kernel_Ops\<close>, the static checks in \<open>Kernel_Static\<close>
  and the run in \<open>Kernel_Run\<close>.

  \<open>kernel_env\<close> collects the code the kernel calls that is not in the repository: the
  \<open>sha2\<close>, \<open>hex\<close>, \<open>prost\<close> and \<open>regex\<close> crates, and two functions of the standard
  library whose result Rust leaves open (\<open>powf\<close>) or that only prints (\<open>f64::to_string\<close>).
  Every definition that uses one of them takes the environment as its first argument.
\<close>

section \<open>Environment, options, failures\<close>

text \<open>A match of \<open>captures_iter\<close>: where group 0 starts and ends, and groups 1, 2 and on.\<close>

record re_capture =
  cap_start :: nat
  cap_end :: nat
  cap_groups :: "string option list"

record kernel_env =
  env_sha256 :: "string \<Rightarrow> string"
  env_hex_encode :: "string \<Rightarrow> string"
  env_hex_decode :: "string \<Rightarrow> string option"
  env_encode_assertion :: "verified_assertion \<Rightarrow> string"
  env_show_f64 :: "f64 \<Rightarrow> string"
  env_powf :: "fl \<Rightarrow> fl \<Rightarrow> fl"
  env_captures_iter :: "string \<Rightarrow> string \<Rightarrow> re_capture list"
  env_replace_all :: "string \<Rightarrow> string \<Rightarrow> string \<Rightarrow> string"
  env_is_match :: "string \<Rightarrow> string \<Rightarrow> bool"

record execute_options =
  allow_partial_on_stall :: bool
  degraded_mode :: bool
  broken_lineage_handles :: "string bset"
  narrative_templates :: "string list"

definition default_options :: execute_options where
  "default_options =
     \<lparr>allow_partial_on_stall = False, degraded_mode = False,
      broken_lineage_handles = [], narrative_templates = []\<rparr>"

record normalized_budget =
  max_ops :: u32
  max_join_depth :: u32
  max_fanout :: u32
  max_total_cost :: fl

datatype source_kind =
    SrcFetch | SrcApplySelector | SrcResolve | SrcFilter | SrcJoin | SrcProject | SrcAssert

datatype reg_data =
    RHandle handle_ref
  | RHandleSet "handle_ref list"
  | RStruct "(string, value) bmap"

record reg_value =
  rv_data :: reg_data
  rv_provenance :: "string bset"
  rv_taint :: "i32 bset"
  rv_min_trust :: trust_tier
  rv_join_depth :: u32
  rv_source :: source_kind

type_synonym regs = "(string, reg_value) bmap"

record kernel_failure =
  kf_status :: execution_status
  kf_code :: error_code
  kf_message :: string
  kf_hints :: "hint list"

datatype exec_stop = ExecFailure kernel_failure | ExecStall stall_info

definition fail_rejected :: "error_code \<Rightarrow> string \<Rightarrow> exec_stop" where
  "fail_rejected code message =
     ExecFailure \<lparr>kf_status = StatusRejected, kf_code = code, kf_message = message, kf_hints = []\<rparr>"

lemma fail_rejected_inject [simp]:
  "fail_rejected c m = fail_rejected c' m' \<longleftrightarrow> c = c' \<and> m = m'"
  by (auto simp: fail_rejected_def)

lemma fail_rejected_neq_stall [simp]:
  "fail_rejected c m \<noteq> ExecStall s" "ExecStall s \<noteq> fail_rejected c m"
  by (auto simp: fail_rejected_def)

section \<open>Trust, taint and time\<close>

definition trust_rank :: "trust_tier \<Rightarrow> i32" where
  "trust_rank tier = trust_tier_to_i32 tier"

text \<open>\<open>i32\<close> comparisons are signed.\<close>

definition i32_le :: "i32 \<Rightarrow> i32 \<Rightarrow> bool" where
  "i32_le a b \<longleftrightarrow> sint a \<le> sint b"

definition min_tier :: "trust_tier \<Rightarrow> trust_tier \<Rightarrow> trust_tier" where
  "min_tier a b = (if i32_le (trust_rank a) (trust_rank b) then a else b)"

text \<open>The tiers are linearly ordered by their rank, and \<open>min_tier\<close> is the minimum.\<close>

lemma trust_rank_bounds: "0 \<le> sint (trust_rank t) \<and> sint (trust_rank t) \<le> 5"
  by (cases t) (simp_all add: trust_rank_def)

lemma sint_trust_rank_inject: "sint (trust_rank a) = sint (trust_rank b) \<longleftrightarrow> a = b"
  by (cases a; cases b) (simp_all add: trust_rank_def)

instantiation trust_tier :: linorder
begin

definition less_eq_trust_tier :: "trust_tier \<Rightarrow> trust_tier \<Rightarrow> bool" where
  "less_eq_trust_tier a b \<longleftrightarrow> i32_le (trust_rank a) (trust_rank b)"

definition less_trust_tier :: "trust_tier \<Rightarrow> trust_tier \<Rightarrow> bool" where
  "less_trust_tier a b \<longleftrightarrow> \<not> i32_le (trust_rank b) (trust_rank a)"

instance
  by standard
    (auto simp: less_eq_trust_tier_def less_trust_tier_def i32_le_def sint_trust_rank_inject)

end

lemma min_tier_min: "min_tier a b = min a b"
  by (simp add: min_tier_def min_def less_eq_trust_tier_def)

lemma tier_le_rank: "a \<le> b \<longleftrightarrow> sint (trust_rank a) \<le> sint (trust_rank b)"
  by (simp add: less_eq_trust_tier_def i32_le_def)

definition sat_i64 :: "int \<Rightarrow> i64" where
  "sat_i64 x = word_of_int (max (- (2 ^ 63)) (min (2 ^ 63 - 1) x))"

definition saturating_mul :: "i64 \<Rightarrow> i64 \<Rightarrow> i64" where
  "saturating_mul a b = sat_i64 (sint a * sint b)"

definition saturating_add :: "i64 \<Rightarrow> i64 \<Rightarrow> i64" where
  "saturating_add a b = sat_i64 (sint a + sint b)"

definition timestamp_score :: "timestamp \<Rightarrow> i64" where
  "timestamp_score ts =
     saturating_add (saturating_mul (ts_seconds ts) 1000000000) (scast (ts_nanos ts))"

fun assertion_requires_tier2 :: "assertion_type \<Rightarrow> bool" where
  "assertion_requires_tier2 AssertUserPreference = True"
| "assertion_requires_tier2 AssertDecision = True"
| "assertion_requires_tier2 AssertProcedure = True"
| "assertion_requires_tier2 _ = False"

definition has_untrusted_taint :: "i32 bset \<Rightarrow> bool" where
  "has_untrusted_taint taint \<longleftrightarrow>
     taint_class_to_i32 TaintWebUntrusted \<in> set taint \<or> taint_class_to_i32 TaintMixed \<in> set taint"

definition handle_trust :: "handle_ref \<Rightarrow> trust_tier" where
  \<comment> \<open>\<open>meta.as_ref().map(|m| trust_tier_from_i32(m.trust_tier)).unwrap_or(Unspecified)\<close>\<close>
  "handle_trust h =
     (case h_meta h of None \<Rightarrow> TrustTierUnspecified
      | Some m \<Rightarrow> trust_tier_from_i32 (hm_trust_tier m))"

definition handle_taint :: "handle_ref \<Rightarrow> i32 list" where
  \<comment> \<open>the taint classes of a handle, none without metadata\<close>
  "handle_taint h = (case h_meta h of None \<Rightarrow> [] | Some m \<Rightarrow> hm_taint m)"

lemma sint_sat_i64: "sint (sat_i64 x) = max (- (2 ^ 63)) (min (2 ^ 63 - 1) x)"
  by (simp add: sat_i64_def sint_sbintrunc' signed_take_bit_int_eq_self)

lemma sat_i64_mono: "x \<le> y \<Longrightarrow> sint (sat_i64 x) \<le> sint (sat_i64 y)"
  by (auto simp: sint_sat_i64)

section \<open>Values\<close>

fun as_string :: "value option \<Rightarrow> string option" where
  "as_string (Some (Some (V_S s))) = Some s"
| "as_string _ = None"

fun as_string_or_enum :: "value option \<Rightarrow> string option" where
  "as_string_or_enum (Some (Some (V_S s))) = Some s"
| "as_string_or_enum (Some (Some (V_E s))) = Some s"
| "as_string_or_enum _ = None"

definition parse_enum_i32 :: "string \<Rightarrow> i32" where
  "parse_enum_i32 name =
     (if name = ''TIER_0_QUARANTINED'' then trust_tier_to_i32 Tier0Quarantined
      else if name = ''TIER_1_ASSERTED'' then trust_tier_to_i32 Tier1Asserted
      else if name = ''TIER_2_VERIFIED'' then trust_tier_to_i32 Tier2Verified
      else if name = ''TIER_3_CONFIRMED'' then trust_tier_to_i32 Tier3Confirmed
      else if name = ''TIER_4_POLICY_SIGNED'' then trust_tier_to_i32 Tier4PolicySigned
      else trust_tier_to_i32 TrustTierUnspecified)"

text \<open>\<open>*v as i32\<close> keeps the low 32 bits.\<close>

fun value_to_tier_rank :: "value \<Rightarrow> i32 option" where
  "value_to_tier_rank (Some (V_I64 i)) = Some (ucast i)"
| "value_to_tier_rank (Some (V_E e)) = Some (trust_rank (trust_tier_from_i32 (parse_enum_i32 e)))"
| "value_to_tier_rank _ = None"

fun value_to_string :: "kernel_env \<Rightarrow> value \<Rightarrow> string" where
  "value_to_string E (Some (V_S s)) = s"
| "value_to_string E (Some (V_B b)) = (if b then ''true'' else ''false'')"
| "value_to_string E (Some (V_I64 i)) = show_int (sint i)"
| "value_to_string E (Some (V_F64 f)) = env_show_f64 E f"
| "value_to_string E (Some (V_Ts ts)) =
     show_int (sint (ts_seconds ts)) @ '':'' @ show_int (sint (ts_nanos ts))"
| "value_to_string E (Some (V_E e)) = e"
| "value_to_string E None = ''<null>''"

fun reg_to_string :: "kernel_env \<Rightarrow> reg_data \<Rightarrow> string" where
  "reg_to_string E (RHandle h) = ''HANDLE('' @ h_ref h @ '')''"
| "reg_to_string E (RHandleSet hs) = ''HANDLE_SET(['' @ join '','' (map h_ref hs) @ ''])''"
| "reg_to_string E (RStruct fs) =
     ''STRUCT('' @ join '','' (map (\<lambda>(k, x). k @ '':'' @ value_to_string E x) fs) @ '')''"

definition handle_field :: "handle_ref \<Rightarrow> string \<Rightarrow> value option" where
  "handle_field h path =
     (if path = ''ref'' then Some (Some (V_S (h_ref h)))
      else if path = ''type_id'' then Some (Some (V_S (h_type_id h)))
      else if path = ''signature_summary'' then Some (Some (V_S (h_signature_summary h)))
      else if path = ''conflict_group_id'' then Some (Some (V_S (h_conflict_group_id h)))
      else if path = ''availability'' then
        Some (Some (V_E (handle_availability_as_str_name (availability_from_i32 (h_availability h)))))
      else if path = ''meta.subject'' then
        map_option (\<lambda>m. Some (V_S (hm_subject m))) (h_meta h)
      else if path = ''meta.predicate_label'' then
        map_option (\<lambda>m. Some (V_S (hm_predicate_label m))) (h_meta h)
      else if path = ''meta.trust_tier'' then
        map_option (\<lambda>m. Some (V_E (trust_tier_as_str_name (trust_tier_from_i32 (hm_trust_tier m)))))
          (h_meta h)
      else if path = ''meta.scope'' then
        map_option (\<lambda>m. Some (V_E (scope_as_str_name (scope_from_i32 (hm_scope m))))) (h_meta h)
      else if path = ''meta.temporal.open_end'' then
        map_option (\<lambda>t. Some (V_B (tb_open_end t))) (Option.bind (h_meta h) hm_temporal)
      else if path = ''meta.temporal.valid_from'' then
        map_option (\<lambda>ts. Some (V_Ts ts))
          (Option.bind (Option.bind (h_meta h) hm_temporal) tb_valid_from)
      else if path = ''meta.temporal.valid_to'' then
        map_option (\<lambda>ts. Some (V_Ts ts))
          (Option.bind (Option.bind (h_meta h) hm_temporal) tb_valid_to)
      else None)"

section \<open>Registers\<close>

definition extract_binding_value :: "reg_value \<Rightarrow> string \<Rightarrow> exec_stop + value" where
  "extract_binding_value reg path =
     (case rv_data reg of
        RHandle h \<Rightarrow>
          ok_or (fail_rejected FieldRedacted ''binding path missing on handle'') (handle_field h path)
      | RStruct fs \<Rightarrow>
          ok_or (fail_rejected FieldRedacted ''binding path missing in struct'') (bm_get fs path)
      | RHandleSet hs \<Rightarrow>
          Err (fail_rejected TypeMismatch ''cannot bind directly from handle set''))"

definition as_handles :: "reg_value \<Rightarrow> exec_stop + handle_ref list" where
  "as_handles reg =
     (case rv_data reg of
        RHandle h \<Rightarrow> Ok [h]
      | RHandleSet hs \<Rightarrow> Ok hs
      | RStruct fs \<Rightarrow>
          Err (fail_rejected TypeMismatch ''operation requires HANDLE or HANDLE_SET''))"

section \<open>Filters and selectors\<close>

definition handle_scope_name :: "handle_ref \<Rightarrow> string option" where
  "handle_scope_name h =
     map_option (\<lambda>m. scope_as_str_name (scope_from_i32 (hm_scope m))) (h_meta h)"

definition matches_filter :: "handle_ref \<Rightarrow> string \<Rightarrow> params \<Rightarrow> exec_stop + bool" where
  "matches_filter h filter_name ps =
     (if filter_name = ''identity'' then Ok True
      else if filter_name = ''by_subject'' then
        res_bind (ok_or (fail_rejected SchemaViolation ''by_subject requires subject string'')
            (as_string (bm_get ps ''subject'')))
          (\<lambda>subject. Ok (map_option hm_subject (h_meta h) = Some subject))
      else if filter_name = ''by_type'' then
        res_bind (ok_or (fail_rejected SchemaViolation ''by_type requires type_id string'')
            (as_string (bm_get ps ''type_id'')))
          (\<lambda>type_id. Ok (h_type_id h = type_id))
      else if filter_name = ''by_scope'' then
        res_bind (ok_or (fail_rejected SchemaViolation ''by_scope requires scope enum/string'')
            (as_string_or_enum (bm_get ps ''scope'')))
          (\<lambda>scope. Ok ((case handle_scope_name h of None \<Rightarrow> [] | Some a \<Rightarrow> a) = scope))
      else if filter_name = ''trust_at_least'' then
        res_bind (ok_or (fail_rejected SchemaViolation ''trust_at_least requires tier'')
            (Option.bind (bm_get ps ''tier'') value_to_tier_rank))
          (\<lambda>expected. Ok (i32_le expected (case h_meta h of None \<Rightarrow> 0
              | Some m \<Rightarrow> trust_rank (trust_tier_from_i32 (hm_trust_tier m)))))
      else Err (fail_rejected SchemaViolation ''unknown filter_ref''))"

text \<open>
  One round of the loop of \<open>selector_match\<close>; the loop answers \<open>false\<close> at the first
  parameter that does not match, and a parameter with another name matches.
\<close>

definition selector_param_match :: "handle_ref \<Rightarrow> string \<Rightarrow> value \<Rightarrow> bool" where
  "selector_param_match h name x =
     (if name = ''subject'' then map_option hm_subject (h_meta h) = as_string (Some x)
      else if name = ''type_id'' then Some (h_type_id h) = as_string (Some x)
      else if name = ''scope'' then handle_scope_name h = as_string_or_enum (Some x)
      else if name = ''availability'' then
        Some (handle_availability_as_str_name (availability_from_i32 (h_availability h))) =
          as_string_or_enum (Some x)
      else True)"

definition selector_match :: "handle_ref \<Rightarrow> params \<Rightarrow> bool" where
  "selector_match h ps = list_all (\<lambda>(name, x). selector_param_match h name x) ps"

definition value_matches_type :: "value \<Rightarrow> param_spec \<Rightarrow> bool" where
  "value_matches_type x spec =
     (case param_type_from_i32 (ps_type spec) of
        ParamString \<Rightarrow> (case x of Some (V_S _) \<Rightarrow> True | _ \<Rightarrow> False)
      | ParamBool \<Rightarrow> (case x of Some (V_B _) \<Rightarrow> True | _ \<Rightarrow> False)
      | ParamInt64 \<Rightarrow> (case x of Some (V_I64 _) \<Rightarrow> True | _ \<Rightarrow> False)
      | ParamFloat64 \<Rightarrow> (case x of Some (V_F64 _) \<Rightarrow> True | _ \<Rightarrow> False)
      | ParamTimestamp \<Rightarrow> (case x of Some (V_Ts _) \<Rightarrow> True | _ \<Rightarrow> False)
      | ParamEnum \<Rightarrow>
          (case x of Some (V_E e) \<Rightarrow> ps_enum_values spec = [] \<or> e \<in> set (ps_enum_values spec)
           | _ \<Rightarrow> False)
      | ParamScope \<Rightarrow>
          (case x of Some (V_E e) \<Rightarrow> ps_enum_values spec = [] \<or> e \<in> set (ps_enum_values spec)
           | _ \<Rightarrow> False)
      | ParamTypeUnspecified \<Rightarrow> False)"

definition validate_param_specs :: "param_spec list \<Rightarrow> params \<Rightarrow> exec_stop + unit" where
  "validate_param_specs specs ps =
     (let spec_by_name = bm_collect (map (\<lambda>s. (ps_name s, s)) specs) in
      foldM (\<lambda>_ (name, x).
          res_bind (ok_or (fail_rejected SchemaViolation ''param not in selector spec'')
              (bm_get spec_by_name name))
            (\<lambda>spec. if \<not> value_matches_type x spec
                    then Err (fail_rejected TypeMismatch ''param type mismatch'') else Ok ()))
        () ps)"

section \<open>Indexes and budget\<close>

definition handles_index :: "handle_ref list \<Rightarrow> (string, handle_ref) bmap" where
  "handles_index handles = bm_collect (map (\<lambda>h. (h_ref h, h)) handles)"

definition selectors_index :: "selector_ref list \<Rightarrow> (string, selector_ref) bmap" where
  "selectors_index selectors = bm_collect (map (\<lambda>s. (sel_sel s, s)) selectors)"

definition estimate_selector_rows :: "selector_ref \<Rightarrow> public_manifest \<Rightarrow> normalized_budget \<Rightarrow> u32" where
  "estimate_selector_rows selector manifest budget =
     (case selector_return_from_i32 (sel_return_type selector) of
        ReturnHandle \<Rightarrow> 1
      | ReturnHandleSet \<Rightarrow>
          word_of_nat (min (length (pm_handles manifest)) (unat (max_fanout budget)))
      | ReturnStruct \<Rightarrow> 1
      | SelectorReturnUnspecified \<Rightarrow> 1)"

definition non_zero :: "u32 \<Rightarrow> u32 option" where
  "non_zero n = (if n = 0 then None else Some n)"

definition default_to :: "'a \<Rightarrow> 'a option \<Rightarrow> 'a" where
  \<comment> \<open>\<open>Option::unwrap_or\<close>\<close>
  "default_to d x = (case x of None \<Rightarrow> d | Some a \<Rightarrow> a)"

definition normalize_budget :: "plan_budget option \<Rightarrow> normalized_budget" where
  "normalize_budget budget =
     \<lparr>max_ops = default_to 128 (Option.bind budget (\<lambda>b. non_zero (pb_max_ops b))),
      max_join_depth = default_to 3 (Option.bind budget (\<lambda>b. non_zero (pb_max_join_depth b))),
      max_fanout = default_to 64 (Option.bind budget (\<lambda>b. non_zero (pb_max_fanout b))),
      max_total_cost = default_to (fl_of_nat 512) (map_option
        (\<lambda>b. if fl_le (fl_of_bits (pb_max_total_cost b)) fl_zero then fl_of_nat 512
             else fl_of_bits (pb_max_total_cost b)) budget)\<rparr>"

end
