(* ===== verification/Kernel_Static.thy ===== *)
theory Kernel_Static
  imports Kernel_Base
begin

text \<open>
  \<open>validate_static\<close> of the kernel: the checks made before any step runs. The loop over the
  steps carries the registers declared so far, the join depth of the registers that have
  one, and the accumulated cost; \<open>static_step\<close> is its body.

  The second half says what a plan that passes has: \<open>static_ok_steps\<close> is the shape of an
  accepted plan, step by step, and the theorems about the run start from it.
\<close>

section \<open>The checks\<close>

record static_state =
  declared :: "string bset"
  join_depths :: "(string, u32) bmap"
  total_cost :: fl

definition depth_of :: "(string, u32) bmap \<Rightarrow> string \<Rightarrow> u32" where
  "depth_of jd r = default_to 0 (bm_get jd r)"

text \<open>\<open>weight * rows.powf(1.2)\<close>; the last constant is the double nearest to 1.2.\<close>

definition selector_cost ::
  "kernel_env \<Rightarrow> selector_ref \<Rightarrow> public_manifest \<Rightarrow> normalized_budget \<Rightarrow> fl" where
  "selector_cost E selector manifest budget =
     (let rows = fl_of_nat (unat (max (estimate_selector_rows selector manifest budget) 1));
          cw = fl_of_bits (sel_cost_weight selector);
          weight = (if fl_le cw fl_zero then fl_of_nat 1 else cw)
      in fl_mul weight (env_powf E rows (fl_of_bits 0x3FF3333333333333)))"

text \<open>
  The \<open>match\<close> of the loop body: the join depth of the step's result and the new total
  cost. \<open>decl\<close> already holds the step's own output register.
\<close>

fun static_op ::
  "kernel_env \<Rightarrow> public_manifest \<Rightarrow> normalized_budget \<Rightarrow> (string, selector_ref) bmap \<Rightarrow>
   string bset \<Rightarrow> (string, u32) bmap \<Rightarrow> fl \<Rightarrow> op \<Rightarrow> exec_stop + (u32 \<times> fl)" where
  "static_op E manifest budget sels decl jd cost (OpFetch href) =
     (if \<not> list_ex (\<lambda>h. h_ref h = href) (pm_handles manifest)
      then Err (fail_rejected UnknownHandleRef ''unknown handle_ref in FETCH'')
      else Ok (0, fl_add cost (fl_of_nat 1)))"
| "static_op E manifest budget sels decl jd cost (OpApplySelector sref ps) =
     res_bind (ok_or (fail_rejected UnknownSelectorRef ''unknown selector_ref'') (bm_get sels sref))
       (\<lambda>selector. res_bind (validate_param_specs (sel_params selector) ps)
         (\<lambda>_. Ok (0, fl_add cost (selector_cost E selector manifest budget))))"
| "static_op E manifest budget sels decl jd cost (OpResolve r pol) =
     (if r \<notin> set decl
      then Err (fail_rejected SchemaViolation ''register used before definition'')
      else Ok (depth_of jd r, fl_add cost (fl_of_nat 1)))"
| "static_op E manifest budget sels decl jd cost (OpFilter r fref ps) =
     (if r \<notin> set decl
      then Err (fail_rejected SchemaViolation ''register used before definition'')
      else Ok (depth_of jd r, fl_add cost (fl_of_nat 1)))"
| "static_op E manifest budget sels decl jd cost (OpProject r paths) =
     (if r \<notin> set decl
      then Err (fail_rejected SchemaViolation ''register used before definition'')
      else Ok (depth_of jd r, fl_add cost (fl_of_nat 1)))"
| "static_op E manifest budget sels decl jd cost (OpJoin l r edge) =
     (if l \<notin> set decl \<or> r \<notin> set decl
      then Err (fail_rejected SchemaViolation ''JOIN register used before definition'')
      else
        let d = max (depth_of jd l) (depth_of jd r) + 1 in
        if d > max_join_depth budget
        then Err (fail_rejected GraphTraversalLimit ''max_join_depth exceeded'')
        else Ok (d, fl_add cost (fl_of_nat 2)))"
| "static_op E manifest budget sels decl jd cost (OpAssert at bs cs) =
     (if list_ex (\<lambda>vr. vr_reg vr \<notin> set decl) (bm_values bs)
      then Err (fail_rejected SchemaViolation ''ASSERT binding uses undefined register'')
      else Ok (0, fl_add cost (fl_of_nat 1)))"

definition static_step ::
  "kernel_env \<Rightarrow> public_manifest \<Rightarrow> normalized_budget \<Rightarrow> (string, selector_ref) bmap \<Rightarrow>
   static_state \<Rightarrow> step \<Rightarrow> exec_stop + static_state" where
  "static_step E manifest budget sels st s =
     (if trim (st_out s) = []
      then Err (fail_rejected SchemaViolation ''step.out cannot be empty'')
      else if st_out s \<in> set (declared st)
      then Err (fail_rejected SchemaViolation ''register redefinition'')
      else
        let decl = bs_insert (st_out s) (declared st) in
        res_bind (ok_or (fail_rejected SchemaViolation ''step missing op'') (st_op s))
          (\<lambda>op. res_bind
              (static_op E manifest budget sels decl (join_depths st) (total_cost st) op)
              (\<lambda>(d, cost). Ok \<lparr>declared = decl,
                 join_depths = (if d > 0 then bm_insert (st_out s) d (join_depths st)
                                else join_depths st),
                 total_cost = cost\<rparr>)))"

definition static_init :: static_state where
  "static_init = \<lparr>declared = [], join_depths = [], total_cost = fl_zero\<rparr>"

definition validate_static ::
  "kernel_env \<Rightarrow> public_manifest \<Rightarrow> rmvm_plan \<Rightarrow> normalized_budget \<Rightarrow>
   (string, selector_ref) bmap \<Rightarrow> exec_stop + unit" where
  "validate_static E manifest plan budget sels =
     (if word_of_nat (length (pl_steps plan)) > max_ops budget
      then Err (fail_rejected GraphTraversalLimit ''max_ops exceeded'')
      else res_bind (foldM (static_step E manifest budget sels) static_init (pl_steps plan))
        (\<lambda>st. if fl_gt (total_cost st) (max_total_cost budget)
          then Err (fail_rejected CostGuardRejected ''plan rejected by COST_GUARD'')
          else foldM (\<lambda>_ out. if os_reg out \<notin> set (declared st)
              then Err (fail_rejected SchemaViolation ''undefined output register'') else Ok ())
            () (pl_outputs plan)))"

section \<open>What an accepted plan looks like\<close>

text \<open>The registers an operation reads.\<close>

fun op_reads :: "op \<Rightarrow> string list" where
  "op_reads (OpFetch h) = []"
| "op_reads (OpApplySelector s ps) = []"
| "op_reads (OpResolve r p) = [r]"
| "op_reads (OpFilter r f ps) = [r]"
| "op_reads (OpProject r paths) = [r]"
| "op_reads (OpJoin l r e) = [l, r]"
| "op_reads (OpAssert at bs cs) = map vr_reg (bm_values bs)"

definition joins :: "step list \<Rightarrow> nat" where
  "joins steps = length (filter (\<lambda>s. case st_op s of Some (OpJoin _ _ _) \<Rightarrow> True | _ \<Rightarrow> False) steps)"

definition selects :: "step list \<Rightarrow> nat" where
  "selects steps =
     length (filter (\<lambda>s. case st_op s of Some (OpApplySelector _ _) \<Rightarrow> True | _ \<Rightarrow> False) steps)"

lemma static_op_Ok_reads:
  "static_op E m b sels decl jd c op = Ok (d, c') \<Longrightarrow> set (op_reads op) \<subseteq> set decl"
  by (cases op) (auto simp: Let_def list_ex_iff split: if_splits)

lemma static_op_Ok_fetch:
  "static_op E m b sels decl jd c (OpFetch h) = Ok (d, c') \<Longrightarrow> h \<in> h_ref ` set (pm_handles m)"
  by (auto simp: list_ex_iff split: if_splits)

lemma static_op_Ok_selector:
  "static_op E m b sels decl jd c (OpApplySelector s ps) = Ok (d, c') \<Longrightarrow>
   \<exists>sel. bm_get sels s = Some sel \<and> validate_param_specs (sel_params sel) ps = Ok ()"
  by auto

lemma static_op_Ok_depth:
  assumes "static_op E m b sels decl jd c op = Ok (d, c')"
    and "\<And>r. depth_of jd r \<le> max_join_depth b"
  shows "d \<le> max_join_depth b"
  using assms by (cases op) (auto simp: Let_def split: if_splits)

lemma static_step_Ok:
  assumes "static_step E m b sels st s = Ok st'"
  obtains op d c where "st_op s = Some op" and "trim (st_out s) \<noteq> []"
    and "st_out s \<notin> set (declared st)"
    and "declared st' = bs_insert (st_out s) (declared st)"
    and "static_op E m b sels (declared st') (join_depths st) (total_cost st) op = Ok (d, c)"
    and "join_depths st' =
      (if d > 0 then bm_insert (st_out s) d (join_depths st) else join_depths st)"
    and "total_cost st' = c"
  using assms by (force simp: static_step_def Let_def split: if_splits)

text \<open>
  The invariant of the loop: the declared registers are the outputs of the steps seen, each
  declared once, none blank; undeclared registers have no depth; no depth passes the budget.
\<close>

definition static_inv :: "normalized_budget \<Rightarrow> step list \<Rightarrow> static_state \<Rightarrow> bool" where
  "static_inv b seen st \<longleftrightarrow>
     set (declared st) = st_out ` set seen \<and> distinct (map st_out seen) \<and>
     (\<forall>s \<in> set seen. trim (st_out s) \<noteq> [] \<and> st_op s \<noteq> None) \<and>
     (\<forall>r. bm_get (join_depths st) r \<noteq> None \<longrightarrow> r \<in> set (declared st)) \<and>
     (\<forall>r. depth_of (join_depths st) r \<le> max_join_depth b)"

lemma static_inv_init: "static_inv b [] static_init"
  by (simp add: static_inv_def static_init_def depth_of_def default_to_def)

lemma depth_of_insert:
  "depth_of (bm_insert k d jd) r = (if r = k then d else depth_of jd r)"
  by (simp add: depth_of_def default_to_def)

lemma static_step_inv:
  assumes "static_step E m b sels st s = Ok st'" and "static_inv b seen st"
  shows "static_inv b (seen @ [s]) st'"
proof -
  from assms(1) obtain op d c where s: "st_op s = Some op" "trim (st_out s) \<noteq> []"
    "st_out s \<notin> set (declared st)" "declared st' = bs_insert (st_out s) (declared st)"
    "static_op E m b sels (declared st') (join_depths st) (total_cost st) op = Ok (d, c)"
    "join_depths st' = (if d > 0 then bm_insert (st_out s) d (join_depths st) else join_depths st)"
    by (rule static_step_Ok)
  have depth: "\<And>r. depth_of (join_depths st) r \<le> max_join_depth b"
    using assms(2) by (simp add: static_inv_def)
  have "d \<le> max_join_depth b" by (rule static_op_Ok_depth [OF s(5) depth])
  then have "\<forall>r. depth_of (join_depths st') r \<le> max_join_depth b"
    using s(6) assms(2) by (simp add: static_inv_def depth_of_insert)
  moreover have "\<forall>r. bm_get (join_depths st') r \<noteq> None \<longrightarrow> r \<in> set (declared st')"
    using s(4,6) assms(2) by (auto simp: static_inv_def)
  moreover have "set (declared st') = st_out ` set (seen @ [s])"
    using s(4) assms(2) by (simp add: static_inv_def)
  moreover have "distinct (map st_out (seen @ [s]))"
    using s(3) assms(2) by (simp add: static_inv_def)
  ultimately show ?thesis using s(1,2) assms(2) by (auto simp: static_inv_def)
qed

lemma static_loop_inv:
  "foldM (static_step E m b sels) st steps = Ok st' \<Longrightarrow> static_inv b seen st \<Longrightarrow>
   static_inv b (seen @ steps) st'"
proof (induction steps arbitrary: st seen)
  case Nil
  then show ?case by simp
next
  case (Cons s steps)
  then obtain t where t: "static_step E m b sels st s = Ok t"
    "foldM (static_step E m b sels) t steps = Ok st'" by auto
  then have "static_inv b (seen @ [s]) t" using Cons.prems(2) by (intro static_step_inv)
  from Cons.IH [OF t(2) this] show ?case by simp
qed

lemma validate_static_Ok:
  assumes "validate_static E m plan b sels = Ok ()"
  obtains st where "foldM (static_step E m b sels) static_init (pl_steps plan) = Ok st"
    and "static_inv b (pl_steps plan) st"
    and "\<not> fl_gt (total_cost st) (max_total_cost b)"
    and "\<And>out. out \<in> set (pl_outputs plan) \<Longrightarrow> os_reg out \<in> set (declared st)"
    and "word_of_nat (length (pl_steps plan)) \<le> max_ops b"
proof -
  from assms obtain st where
    st: "foldM (static_step E m b sels) static_init (pl_steps plan) = Ok st" and
    cost: "\<not> fl_gt (total_cost st) (max_total_cost b)" and
    outs: "foldM (\<lambda>_ out. if os_reg out \<notin> set (declared st)
      then Err (fail_rejected SchemaViolation ''undefined output register'') else Ok ())
      () (pl_outputs plan) = Ok ()" and
    len: "word_of_nat (length (pl_steps plan)) \<le> max_ops b"
    by (auto simp: validate_static_def not_less split: if_splits)
  have "os_reg out \<in> set (declared st)" if "out \<in> set (pl_outputs plan)" for out
    using outs that by (auto simp: foldM_unit_iff split: if_splits)
  with that st cost len static_loop_inv [OF st static_inv_init] show thesis by simp
qed

end
