(* ===== verification/Kernel_Ops.thy ===== *)
theory Kernel_Ops
  imports Kernel_Static
begin

text \<open>
  The seven step operations of the kernel (\<open>exec_fetch\<close> to \<open>exec_assert\<close>) and
  \<open>canonicalize_citations\<close>. Each takes the operation's arguments, the register file and
  what else the Rust function takes, and returns the new register value (an assertion also
  returns the verified assertion) or the reason to stop. Vectors sorted with \<open>sort_by\<close>
  are sorted with \<open>sort_key\<close>, which is stable as well.
\<close>

section \<open>FETCH\<close>

definition stall_of :: "handle_ref \<Rightarrow> stall_info" where
  "stall_of h =
     \<lparr>si_handle_ref = h_ref h, si_availability = h_availability h,
      si_estimated_ready_at = None, si_retrieval_ticket = ''ticket:'' @ h_ref h\<rparr>"

definition exec_fetch ::
  "string \<Rightarrow> (string, handle_ref) bmap \<Rightarrow> execute_options \<Rightarrow> exec_stop + reg_value" where
  "exec_fetch href handles_by_ref opts =
     res_bind (ok_or (fail_rejected UnknownHandleRef ''unknown handle_ref in FETCH execution'')
         (bm_get handles_by_ref href))
       (\<lambda>h. if availability_from_i32 (h_availability h) \<noteq> Ready then
           (if \<not> allow_partial_on_stall opts then Err (ExecStall (stall_of h))
            else Ok \<lparr>rv_data = RHandleSet [], rv_provenance = [], rv_taint = [],
                     rv_min_trust = TrustTierUnspecified, rv_join_depth = 0,
                     rv_source = SrcFetch\<rparr>)
         else Ok \<lparr>rv_data = RHandle h, rv_provenance = bs_insert (h_ref h) [],
                  rv_taint = bs_extend [] (handle_taint h), rv_min_trust = handle_trust h,
                  rv_join_depth = 0, rv_source = SrcFetch\<rparr>)"

section \<open>APPLY_SELECTOR\<close>

definition matched_handles :: "public_manifest \<Rightarrow> params \<Rightarrow> handle_ref list" where
  "matched_handles manifest ps =
     sort_key h_ref (filter (\<lambda>h. selector_match h ps) (pm_handles manifest))"

definition min_trust_of :: "handle_ref list \<Rightarrow> trust_tier" where
  "min_trust_of hs =
     (if hs = [] then TrustTierUnspecified
      else foldl (\<lambda>t h. min_tier t (handle_trust h)) Tier4PolicySigned hs)"

definition exec_apply_selector ::
  "string \<Rightarrow> params \<Rightarrow> public_manifest \<Rightarrow> (string, selector_ref) bmap \<Rightarrow>
   normalized_budget \<Rightarrow> exec_stop + reg_value" where
  "exec_apply_selector sref ps manifest sels budget =
     res_bind (ok_or (fail_rejected UnknownSelectorRef
         ''unknown selector_ref in APPLY_SELECTOR execution'') (bm_get sels sref))
       (\<lambda>selector. res_bind (validate_param_specs (sel_params selector) ps)
         (\<lambda>_. let matched = matched_handles manifest ps in
           if word_of_nat (length matched) > max_fanout budget
           then Err (fail_rejected GraphTraversalLimit ''selector fanout exceeded max_fanout'')
           else res_bind
             (case selector_return_from_i32 (sel_return_type selector) of
                ReturnHandle \<Rightarrow>
                  (case matched of
                     [] \<Rightarrow> Err (fail_rejected TypeMismatch ''selector returned zero rows'')
                   | h # _ \<Rightarrow> Ok (RHandle h))
              | ReturnHandleSet \<Rightarrow> Ok (RHandleSet matched)
              | ReturnStruct \<Rightarrow>
                  Ok (RStruct (foldl (\<lambda>out (k, x). bm_insert k x out)
                    [(''matched_count'', Some (V_I64 (word_of_nat (length (pm_handles manifest)))))] ps))
              | SelectorReturnUnspecified \<Rightarrow>
                  Err (fail_rejected SchemaViolation ''selector return_type unspecified''))
             (\<lambda>data. Ok \<lparr>rv_data = data,
                rv_provenance = bs_extend [] (map h_ref matched),
                rv_taint = bs_extend [] (concat (map handle_taint matched)),
                rv_min_trust = min_trust_of matched,
                rv_join_depth = 0, rv_source = SrcApplySelector\<rparr>)))"

section \<open>RESOLVE\<close>

definition resolve_trust :: "handle_ref \<Rightarrow> i32" where
  "resolve_trust h =
     (case h_meta h of None \<Rightarrow> 0 | Some m \<Rightarrow> trust_rank (trust_tier_from_i32 (hm_trust_tier m)))"

definition resolve_ts :: "handle_ref \<Rightarrow> i64" where
  "resolve_ts h =
     (case Option.bind (Option.bind (h_meta h) hm_temporal) tb_valid_from of
        None \<Rightarrow> 0 | Some ts \<Rightarrow> timestamp_score ts)"

text \<open>The ranking: higher trust first, then the later \<open>valid_from\<close>, then the smaller reference.\<close>

definition resolve_key :: "handle_ref \<Rightarrow> int \<times> int \<times> string" where
  "resolve_key h = (- sint (resolve_trust h), - sint (resolve_ts h), h_ref h)"

definition exec_resolve :: "string \<Rightarrow> string \<Rightarrow> regs \<Rightarrow> exec_stop + reg_value" where
  "exec_resolve in_reg pol regs =
     res_bind (ok_or (fail_rejected SchemaViolation ''RESOLVE input register missing'')
         (bm_get regs in_reg))
       (\<lambda>input. res_bind (as_handles input)
         (\<lambda>handles. case sort_key resolve_key handles of
              [] \<Rightarrow> Err (fail_rejected AmbiguousConflict ''RESOLVE candidates empty'')
            | w # rest \<Rightarrow>
                if (case rest of [] \<Rightarrow> False
                    | x # _ \<Rightarrow> resolve_trust w = resolve_trust x \<and> resolve_ts w = resolve_ts x)
                then Err (fail_rejected AmbiguousConflict ''RESOLVE tie cannot be broken'')
                else Ok \<lparr>rv_data = RHandle w, rv_provenance = rv_provenance input,
                         rv_taint = rv_taint input, rv_min_trust = rv_min_trust input,
                         rv_join_depth = rv_join_depth input, rv_source = SrcResolve\<rparr>))"

section \<open>FILTER\<close>

definition exec_filter ::
  "string \<Rightarrow> string \<Rightarrow> params \<Rightarrow> regs \<Rightarrow> normalized_budget \<Rightarrow> exec_stop + reg_value" where
  "exec_filter in_reg fref ps regs budget =
     res_bind (ok_or (fail_rejected SchemaViolation ''FILTER input register missing'')
         (bm_get regs in_reg))
       (\<lambda>input. res_bind (as_handles input)
         (\<lambda>handles. res_bind (filterM (\<lambda>h. matches_filter h fref ps) handles)
           (\<lambda>kept. let out = sort_key h_ref kept in
             if word_of_nat (length out) > max_fanout budget
             then Err (fail_rejected GraphTraversalLimit ''filter fanout exceeded max_fanout'')
             else Ok \<lparr>rv_data = RHandleSet out, rv_provenance = rv_provenance input,
                      rv_taint = rv_taint input, rv_min_trust = rv_min_trust input,
                      rv_join_depth = rv_join_depth input, rv_source = SrcFilter\<rparr>)))"

section \<open>JOIN\<close>

fun join_include :: "edge_type \<Rightarrow> handle_ref \<Rightarrow> handle_ref \<Rightarrow> bool" where
  "join_include EdgeConflictsWith l r =
     (h_conflict_group_id l \<noteq> [] \<and> h_conflict_group_id l = h_conflict_group_id r \<and> h_ref l \<noteq> h_ref r)"
| "join_include EdgeSupersedes l r = (h_type_id l = h_type_id r \<and> h_ref l \<noteq> h_ref r)"
| "join_include EdgeProvenance l r = (h_signature_summary l = h_signature_summary r)"
| "join_include EdgeSameEntity l r =
     (map_option hm_subject (h_meta l) = map_option hm_subject (h_meta r))"
| "join_include EdgeTypeUnspecified l r = False"

definition join_pair ::
  "edge_type \<Rightarrow> handle_ref \<Rightarrow> (string, handle_ref) bmap \<Rightarrow> handle_ref \<Rightarrow> (string, handle_ref) bmap" where
  "join_pair edge l joined r =
     (if join_include edge l r then bm_insert (h_ref r) r (bm_insert (h_ref l) l joined) else joined)"

definition join_handles :: "edge_type \<Rightarrow> handle_ref list \<Rightarrow> handle_ref list \<Rightarrow> (string, handle_ref) bmap" where
  "join_handles edge lefts rights =
     foldl (\<lambda>joined l. foldl (join_pair edge l) joined rights) [] lefts"

definition exec_join ::
  "string \<Rightarrow> string \<Rightarrow> i32 \<Rightarrow> regs \<Rightarrow> normalized_budget \<Rightarrow> exec_stop + reg_value" where
  "exec_join lreg rreg et regs budget =
     res_bind (ok_or (fail_rejected SchemaViolation ''JOIN left register missing'') (bm_get regs lreg))
       (\<lambda>left. res_bind
         (ok_or (fail_rejected SchemaViolation ''JOIN right register missing'') (bm_get regs rreg))
         (\<lambda>right. let edge = edge_type_from_i32 et in
           if edge = EdgeTypeUnspecified
           then Err (fail_rejected SchemaViolation ''JOIN edge_type unspecified'')
           else res_bind (as_handles left) (\<lambda>left_set. res_bind (as_handles right)
             (\<lambda>right_set. let joined = join_handles edge left_set right_set in
               if word_of_nat (length joined) > max_fanout budget
               then Err (fail_rejected GraphTraversalLimit ''join fanout exceeded max_fanout'')
               else Ok \<lparr>rv_data = RHandleSet (bm_values joined),
                        rv_provenance = bs_extend (rv_provenance left) (rv_provenance right),
                        rv_taint = bs_extend (rv_taint left) (rv_taint right),
                        rv_min_trust = min_tier (rv_min_trust left) (rv_min_trust right),
                        rv_join_depth = max (rv_join_depth left) (rv_join_depth right) + 1,
                        rv_source = SrcJoin\<rparr>))))"

section \<open>PROJECT\<close>

text \<open>The loop over the field paths; \<open>get\<close> reads one path and \<open>code\<close> is the failure.\<close>

definition project_paths ::
  "(string \<Rightarrow> value option) \<Rightarrow> string \<Rightarrow> (string, value) bmap \<Rightarrow> string list \<Rightarrow>
   exec_stop + (string, value) bmap" where
  "project_paths get msg out paths =
     foldM (\<lambda>out path. res_bind (ok_or (fail_rejected FieldRedacted msg) (get path))
         (\<lambda>x. Ok (bm_insert path x out))) out paths"

fun project_data :: "reg_data \<Rightarrow> string list \<Rightarrow> exec_stop + (string, value) bmap" where
  "project_data (RHandle h) paths =
     project_paths (handle_field h) ''PROJECT field path missing'' [] paths"
| "project_data (RHandleSet hs) paths =
     res_bind
       (case hs of [] \<Rightarrow> Ok []
        | first # _ \<Rightarrow> project_paths (handle_field first) ''PROJECT field path missing'' []
            (filter (\<lambda>p. p \<noteq> ''set_count'') paths))
       (\<lambda>out. Ok (bm_insert ''set_count'' (Some (V_I64 (word_of_nat (length hs)))) out))"
| "project_data (RStruct values) paths =
     project_paths (bm_get values) ''PROJECT field missing'' [] paths"

definition exec_project :: "string \<Rightarrow> string list \<Rightarrow> regs \<Rightarrow> exec_stop + reg_value" where
  "exec_project in_reg paths regs =
     res_bind (ok_or (fail_rejected SchemaViolation ''PROJECT input register missing'')
         (bm_get regs in_reg))
       (\<lambda>input. res_bind (project_data (rv_data input) paths)
         (\<lambda>out. Ok \<lparr>rv_data = RStruct out, rv_provenance = rv_provenance input,
                    rv_taint = rv_taint input, rv_min_trust = rv_min_trust input,
                    rv_join_depth = rv_join_depth input, rv_source = SrcProject\<rparr>))"

section \<open>ASSERT\<close>

definition broken :: "execute_options \<Rightarrow> string \<Rightarrow> bool" where
  "broken opts href \<longleftrightarrow> \<not> degraded_mode opts \<and> href \<in> set (broken_lineage_handles opts)"

definition handle_anchor :: "string \<Rightarrow> string" where
  "handle_anchor href = ''handle:'' @ href"

fun cite_step :: "execute_options \<Rightarrow> string bset \<Rightarrow> citation_ref \<Rightarrow> exec_stop + string bset" where
  "cite_step opts unique (Some (CiteHandleRef href)) =
     (if broken opts href
      then Err (fail_rejected ErrorBrokenLineage ''citation includes broken-lineage handle'')
      else Ok (bs_insert (handle_anchor href) unique))"
| "cite_step opts unique (Some (CiteAnchorRef anchor)) = Ok (bs_insert anchor unique)"
| "cite_step opts unique None =
     Err (fail_rejected SchemaViolation ''citation is missing variant'')"

definition canonicalize_citations ::
  "citation_ref list \<Rightarrow> string bset \<Rightarrow> execute_options \<Rightarrow> exec_stop + canonical_citation list" where
  "canonicalize_citations cites provenance opts =
     res_bind
       (if cites = []
        then foldM (\<lambda>unique href.
            if broken opts href
            then Err (fail_rejected ErrorBrokenLineage ''citation includes broken-lineage handle'')
            else Ok (bs_insert (handle_anchor href) unique)) [] provenance
        else foldM (cite_step opts) [] cites)
       (\<lambda>unique. Ok (map canonical_citation.make unique))"

text \<open>The local state of the loop over the bindings.\<close>

record assert_acc =
  acc_fields :: "(string, value) bmap"
  acc_provenance :: "string bset"
  acc_taint :: "i32 bset"
  acc_min_trust :: trust_tier

definition assert_acc_init :: assert_acc where
  "assert_acc_init = \<lparr>acc_fields = [], acc_provenance = [], acc_taint = [],
     acc_min_trust = Tier4PolicySigned\<rparr>"

definition assert_binding ::
  "regs \<Rightarrow> assert_acc \<Rightarrow> string \<times> value_ref \<Rightarrow> exec_stop + assert_acc" where
  "assert_binding regs acc b =
     res_bind (ok_or (fail_rejected SchemaViolation ''ASSERT binding register missing'')
         (bm_get regs (vr_reg (snd b))))
       (\<lambda>reg. if rv_source reg \<noteq> SrcFetch \<and> rv_source reg \<noteq> SrcProject
         then Err (fail_rejected SchemaViolation ''ASSERT bindings must trace to FETCH or PROJECT'')
         else res_bind (extract_binding_value reg (vr_field_path (snd b)))
           (\<lambda>x. Ok \<lparr>acc_fields = bm_insert (fst b) x (acc_fields acc),
                    acc_provenance = bs_extend (acc_provenance acc) (rv_provenance reg),
                    acc_taint = bs_extend (acc_taint acc) (rv_taint reg),
                    acc_min_trust = min_tier (acc_min_trust acc) (rv_min_trust reg)\<rparr>))"

definition exec_assert ::
  "i32 \<Rightarrow> (string, value_ref) bmap \<Rightarrow> citation_ref list \<Rightarrow> regs \<Rightarrow> execute_options \<Rightarrow>
   exec_stop + (reg_value \<times> verified_assertion)" where
  "exec_assert at_raw binds cites regs opts =
     (let at = assertion_type_from_i32 at_raw in
      if at = AssertionTypeUnspecified
      then Err (fail_rejected SchemaViolation ''ASSERT assertion_type unspecified'')
      else res_bind (foldM (assert_binding regs) assert_acc_init binds)
        (\<lambda>acc. let min_trust = (if acc_fields acc = [] then TrustTierUnspecified
                               else acc_min_trust acc) in
          if assertion_requires_tier2 at \<and> \<not> i32_le (trust_rank Tier2Verified) (trust_rank min_trust)
          then Err (fail_rejected UntrustedProvenance ''assertion requires trust tier >= TIER_2'')
          else if assertion_requires_tier2 at \<and> has_untrusted_taint (acc_taint acc)
          then Err (fail_rejected DataLeakPrevention
            ''policy-impacting assertion cannot sink web-untrusted tainted data'')
          else if \<not> degraded_mode opts \<and>
              list_ex (\<lambda>href. href \<in> set (broken_lineage_handles opts)) (acc_provenance acc)
          then Err (fail_rejected ErrorBrokenLineage ''ASSERT references broken-lineage provenance'')
          else res_bind (canonicalize_citations cites (acc_provenance acc) opts)
            (\<lambda>cits. Ok
              (\<lparr>rv_data = RStruct (acc_fields acc), rv_provenance = acc_provenance acc,
                rv_taint = acc_taint acc, rv_min_trust = min_trust, rv_join_depth = 0,
                rv_source = SrcAssert\<rparr>,
               \<lparr>va_assertion_type = assertion_type_to_i32 at, va_fields = acc_fields acc,
                va_citations = cits\<rparr>))))"

end
