(* ===== verification/Merkle.thy ===== *)
theory Merkle
  imports Prelude
begin

text \<open>
  The Merkle tree of \<open>merkle_root_and_inclusion\<close>, over any type of digests and any
  function that hashes a pair; \<open>Kernel_Run\<close> instantiates them with 32-byte strings and
  \<open>hash_pair\<close>. A level of odd length pairs its last digest with itself.

  The lemmas: the tree has as many levels as the length of the leaves asks for; the
  sibling list of a leaf leads from it to the root; two leaf lists of one length with one
  root are equal when the pair hash tells the pairs of the two trees apart; and, what the
  pairing of a last digest with itself costs, repeating the last leaf of an odd list keeps
  the root.
\<close>

section \<open>The tree\<close>

fun next_level :: "('h \<Rightarrow> 'h \<Rightarrow> 'h) \<Rightarrow> 'h list \<Rightarrow> 'h list" where
  "next_level h [] = []"
| "next_level h [x] = [h x x]"
| "next_level h (x # y # xs) = h x y # next_level h xs"

lemma length_next_level [simp]: "length (next_level h xs) = (length xs + 1) div 2"
  by (induction h xs rule: next_level.induct) auto

lemma next_level_eq_Nil [simp]: "next_level h xs = [] \<longleftrightarrow> xs = []"
  by (cases "(h, xs)" rule: next_level.cases) auto

text \<open>The vector \<open>levels\<close>: the leaves, then the next level until one digest is left.\<close>

function merkle_levels :: "('h \<Rightarrow> 'h \<Rightarrow> 'h) \<Rightarrow> 'h list \<Rightarrow> 'h list list" where
  "merkle_levels h level =
     (if 1 < length level then level # merkle_levels h (next_level h level) else [level])"
  by pat_completeness auto
termination
  by (relation "measure (\<lambda>(h, level). length level)") auto

declare merkle_levels.simps [simp del]

definition merkle_root :: "('h \<Rightarrow> 'h \<Rightarrow> 'h) \<Rightarrow> 'h list \<Rightarrow> 'h" where
  "merkle_root h leaves = last (merkle_levels h leaves) ! 0"

text \<open>The sibling of each ancestor of the leaf, from the leaves up; \<open>cur\<close> is the position.\<close>

fun sibling_at :: "nat \<Rightarrow> 'h list \<Rightarrow> 'h" where
  "sibling_at cur level =
     (if cur mod 2 = 0 then (if cur + 1 < length level then level ! (cur + 1) else level ! cur)
      else level ! (cur - 1))"

fun siblings :: "nat \<Rightarrow> 'h list list \<Rightarrow> 'h list" where
  "siblings cur [] = []"
| "siblings cur (level # levels) = sibling_at cur level # siblings (cur div 2) levels"

definition inclusion_path :: "('h \<Rightarrow> 'h \<Rightarrow> 'h) \<Rightarrow> 'h list \<Rightarrow> nat \<Rightarrow> 'h list" where
  "inclusion_path h leaves idx = siblings idx (butlast (merkle_levels h leaves))"

text \<open>
  How a verifier uses an inclusion proof: hash the leaf with its siblings, on the side the
  position says, up to the root.
\<close>

fun climb :: "('h \<Rightarrow> 'h \<Rightarrow> 'h) \<Rightarrow> nat \<Rightarrow> 'h \<Rightarrow> 'h list \<Rightarrow> 'h" where
  "climb h cur x [] = x"
| "climb h cur x (s # ss) = climb h (cur div 2) (if cur mod 2 = 0 then h x s else h s x) ss"

section \<open>Levels\<close>

lemma merkle_levels_one: "length level \<le> 1 \<Longrightarrow> merkle_levels h level = [level]"
  by (simp add: merkle_levels.simps [of h level])

lemma merkle_levels_more:
  "1 < length level \<Longrightarrow> merkle_levels h level = level # merkle_levels h (next_level h level)"
  by (simp add: merkle_levels.simps [of h level])

lemma merkle_levels_nonempty [simp]: "merkle_levels h level \<noteq> []"
  by (subst merkle_levels.simps) simp

lemma last_level_length: "level \<noteq> [] \<Longrightarrow> length (last (merkle_levels h level)) = 1"
proof (induction h level rule: merkle_levels.induct)
  case (1 h level)
  show ?case
  proof (cases "1 < length level")
    case True
    with 1 True show ?thesis by (simp add: merkle_levels_more)
  next
    case False
    with 1 have "length level = 1" by (cases level) auto
    then show ?thesis by (simp add: merkle_levels_one)
  qed
qed

lemma merkle_root_more:
  "1 < length level \<Longrightarrow> merkle_root h level = merkle_root h (next_level h level)"
  by (simp add: merkle_root_def merkle_levels_more)

lemma merkle_root_single [simp]: "merkle_root h [x] = x"
  by (simp add: merkle_root_def merkle_levels_one)

text \<open>The tree over \<open>n\<close> leaves has \<open>k + 1\<close> levels, where \<open>2 ^ k\<close> is the least power not below \<open>n\<close>.\<close>

lemma merkle_depth_le: "length level \<le> 2 ^ k \<Longrightarrow> length (merkle_levels h level) \<le> k + 1"
proof (induction k arbitrary: level)
  case 0
  then show ?case by (simp add: merkle_levels_one)
next
  case (Suc k)
  show ?case
  proof (cases "1 < length level")
    case True
    moreover have "length (next_level h level) \<le> 2 ^ k" using Suc.prems by simp
    ultimately show ?thesis using Suc.IH by (simp add: merkle_levels_more)
  next
    case False
    then show ?thesis by (simp add: merkle_levels_one)
  qed
qed

lemma length_siblings [simp]: "length (siblings cur levels) = length levels"
  by (induction levels arbitrary: cur) auto

lemma length_inclusion_path: "length (inclusion_path h leaves idx) = length (merkle_levels h leaves) - 1"
  by (simp add: inclusion_path_def)

section \<open>Inclusion\<close>

lemma next_level_nth:
  "cur < length level \<Longrightarrow>
   next_level h level ! (cur div 2) =
     (if cur mod 2 = 0 then h (level ! cur) (sibling_at cur level)
      else h (sibling_at cur level) (level ! cur))"
proof (induction h level arbitrary: cur rule: next_level.induct)
  case (1 h)
  then show ?case by simp
next
  case (2 h x)
  then show ?case by simp
next
  case (3 h x y xs)
  show ?case
  proof (cases "cur < 2")
    case True
    then have "cur = 0 \<or> cur = 1" by auto
    then show ?thesis by auto
  next
    case False
    then obtain c where c: "cur = Suc (Suc c)" by (metis add_2_eq_Suc le_Suc_ex not_less)
    with 3 have "next_level h xs ! (c div 2) =
      (if c mod 2 = 0 then h (xs ! c) (sibling_at c xs) else h (sibling_at c xs) (xs ! c))" by simp
    moreover have "sibling_at cur (x # y # xs) = sibling_at c xs"
      using c by (cases c) auto
    ultimately show ?thesis using c by simp
  qed
qed

lemma inclusion_correct:
  "cur < length leaves \<Longrightarrow>
   climb h cur (leaves ! cur) (inclusion_path h leaves cur) = merkle_root h leaves"
proof (induction h leaves arbitrary: cur rule: merkle_levels.induct)
  case (1 h level)
  show ?case
  proof (cases "1 < length level")
    case True
    have "cur div 2 < length (next_level h level)" using 1(2) by simp
    with 1 True have IH: "climb h (cur div 2) (next_level h level ! (cur div 2))
        (inclusion_path h (next_level h level) (cur div 2)) = merkle_root h (next_level h level)"
      by blast
    have "inclusion_path h level cur =
        sibling_at cur level # inclusion_path h (next_level h level) (cur div 2)"
      using True by (simp add: inclusion_path_def merkle_levels_more)
    then have "climb h cur (level ! cur) (inclusion_path h level cur) =
        climb h (cur div 2) (next_level h level ! (cur div 2))
          (inclusion_path h (next_level h level) (cur div 2))"
      using next_level_nth [OF 1(2), of h] by (simp del: sibling_at.simps)
    with IH True show ?thesis by (simp add: merkle_root_more)
  next
    case False
    with 1(2) obtain x where "level = [x]" and "cur = 0" by (cases level) auto
    then show ?thesis by (simp add: inclusion_path_def merkle_levels_one)
  qed
qed

section \<open>Binding\<close>

text \<open>
  The pairs that are hashed on the way to the root. A pair hash that tells these finitely
  many pairs apart makes the root determine the leaves.
\<close>

fun level_pairs :: "'h list \<Rightarrow> ('h \<times> 'h) set" where
  "level_pairs [] = {}"
| "level_pairs [x] = {(x, x)}"
| "level_pairs (x # y # xs) = Set.insert (x, y) (level_pairs xs)"

definition tree_pairs :: "('h \<Rightarrow> 'h \<Rightarrow> 'h) \<Rightarrow> 'h list \<Rightarrow> ('h \<times> 'h) set" where
  "tree_pairs h leaves = (\<Union>level \<in> set (butlast (merkle_levels h leaves)). level_pairs level)"

definition tells_apart :: "('h \<Rightarrow> 'h \<Rightarrow> 'h) \<Rightarrow> ('h \<times> 'h) set \<Rightarrow> bool" where
  "tells_apart h ps \<longleftrightarrow> inj_on (\<lambda>(a, b). h a b) ps"

lemma tells_apartD:
  "tells_apart h ps \<Longrightarrow> h a b = h c d \<Longrightarrow> (a, b) \<in> ps \<Longrightarrow> (c, d) \<in> ps \<Longrightarrow> a = c \<and> b = d"
  unfolding tells_apart_def using inj_onD [of "\<lambda>(a, b). h a b" ps "(a, b)" "(c, d)"] by auto

lemma tells_apart_subset: "tells_apart h ps \<Longrightarrow> qs \<subseteq> ps \<Longrightarrow> tells_apart h qs"
  unfolding tells_apart_def by (rule inj_on_subset)

lemma tree_pairs_more:
  "1 < length level \<Longrightarrow> tree_pairs h level = level_pairs level \<union> tree_pairs h (next_level h level)"
  by (simp add: tree_pairs_def merkle_levels_more)

lemma level_pairs_set: "(a, b) \<in> level_pairs xs \<Longrightarrow> a \<in> set xs \<and> b \<in> set xs"
  by (induction xs rule: level_pairs.induct) auto

lemma next_level_inj:
  "length xs = length ys \<Longrightarrow> next_level h xs = next_level h ys \<Longrightarrow>
   tells_apart h (level_pairs xs \<union> level_pairs ys) \<Longrightarrow> xs = ys"
proof (induction h xs arbitrary: ys rule: next_level.induct)
  case (1 h)
  then show ?case by simp
next
  case (2 h x)
  then obtain y where "ys = [y]" by (cases ys) auto
  with 2 tells_apartD [OF 2(3), of x x y y] show ?case by auto
next
  case (3 h x x' xs)
  then obtain y y' zs where ys: "ys = y # y' # zs" by (metis Suc_length_conv length_Cons)
  with 3 tells_apartD [OF 3(4), of x x' y y'] have "x = y \<and> x' = y'" by auto
  moreover have "tells_apart h (level_pairs xs \<union> level_pairs zs)"
    using 3(4) ys by (auto elim!: tells_apart_subset)
  with 3 ys have "xs = zs" by auto
  ultimately show ?case using ys by simp
qed

lemma merkle_root_binding:
  "length xs = length ys \<Longrightarrow> merkle_root h xs = merkle_root h ys \<Longrightarrow> xs \<noteq> [] \<Longrightarrow>
   tells_apart h (tree_pairs h xs \<union> tree_pairs h ys) \<Longrightarrow> xs = ys"
proof (induction h xs arbitrary: ys rule: merkle_levels.induct)
  case (1 h xs)
  show ?case
  proof (cases "1 < length xs")
    case True
    with 1(2) have pairs: "tree_pairs h xs = level_pairs xs \<union> tree_pairs h (next_level h xs)"
      "tree_pairs h ys = level_pairs ys \<union> tree_pairs h (next_level h ys)"
      by (simp_all add: tree_pairs_more)
    from 1(5) have up: "tells_apart h (tree_pairs h (next_level h xs) \<union> tree_pairs h (next_level h ys))"
      unfolding pairs by (rule tells_apart_subset) blast
    from 1(5) have here: "tells_apart h (level_pairs xs \<union> level_pairs ys)"
      unfolding pairs by (rule tells_apart_subset) blast
    have "next_level h xs = next_level h ys"
    proof (rule 1(1) [OF True _ _ _ up])
      show "length (next_level h xs) = length (next_level h ys)" using 1(2) by simp
      show "merkle_root h (next_level h xs) = merkle_root h (next_level h ys)"
        using True 1(2,3) by (simp add: merkle_root_more)
      show "next_level h xs \<noteq> []" using 1(4) by simp
    qed
    from next_level_inj [OF 1(2) this here] show ?thesis .
  next
    case False
    with 1 obtain x y where "xs = [x]" "ys = [y]" by (cases xs; cases ys) auto
    with 1 show ?thesis by simp
  qed
qed

section \<open>Repeating the last leaf\<close>

lemma next_level_repeat_last:
  "odd (length xs) \<Longrightarrow> next_level h (xs @ [last xs]) = next_level h xs"
  by (induction h xs rule: next_level.induct) auto

lemma merkle_root_repeat_last:
  assumes "odd (length xs)" and "1 < length xs"
  shows "merkle_root h (xs @ [last xs]) = merkle_root h xs"
proof -
  have "merkle_root h (xs @ [last xs]) = merkle_root h (next_level h (xs @ [last xs]))"
    using assms(2) by (intro merkle_root_more) auto
  also have "\<dots> = merkle_root h xs"
    by (metis assms next_level_repeat_last merkle_root_more)
  finally show ?thesis .
qed

end
