(* ===== verification/Kernel_Run.thy ===== *)
theory Kernel_Run
  imports Kernel_Ops Merkle
begin

text \<open>
  The run of a plan: \<open>execute\<close> and \<open>execute_inner\<close>, the proof over the assertions and the
  rendering of the output.

  Two library calls of this part can panic: \<open>build_proof\<close> unwraps \<open>hex::decode\<close> and copies
  it into 32 bytes, and \<open>render_narrative_template\<close> slices the template at the positions
  the regex reports. A function that can panic returns an option, \<open>None\<close> being the
  panic; inside it is the Rust \<open>Result\<close>.
\<close>

section \<open>Hashing and the proof\<close>

definition sha256_hex :: "kernel_env \<Rightarrow> string \<Rightarrow> string" where
  "sha256_hex E bytes = env_hex_encode E (env_sha256 E bytes)"

definition canonical_assertion_bytes :: "kernel_env \<Rightarrow> verified_assertion \<Rightarrow> string" where
  "canonical_assertion_bytes E a =
     env_encode_assertion E (a\<lparr>va_citations := sort_key cc_anchor_digest (va_citations a)\<rparr>)"

definition canonical_assertion_hash :: "kernel_env \<Rightarrow> verified_assertion \<Rightarrow> string" where
  "canonical_assertion_hash E a = sha256_hex E (canonical_assertion_bytes E a)"

definition hash_pair :: "kernel_env \<Rightarrow> string \<Rightarrow> string \<Rightarrow> string" where
  "hash_pair E left right = env_sha256 E (left @ right)"

definition assertion_leaf :: "kernel_env \<Rightarrow> verified_assertion \<Rightarrow> string option" where
  "assertion_leaf E a =
     (case env_hex_decode E (canonical_assertion_hash E a) of
        None \<Rightarrow> None
      | Some hash \<Rightarrow> if length hash = 32 then Some hash else None)"

definition merkle_root_and_inclusion ::
  "kernel_env \<Rightarrow> string list \<Rightarrow> string \<times> inclusion_proof list" where
  "merkle_root_and_inclusion E leaves =
     (if leaves = [] then (sha256_hex E [], [])
      else (env_hex_encode E (merkle_root (hash_pair E) leaves),
            map (\<lambda>idx. \<lparr>ip_assertion_index = word_of_nat idx,
                  ip_sibling_hashes =
                    map (env_hex_encode E) (inclusion_path (hash_pair E) leaves idx)\<rparr>)
              [0..<length leaves]))"

definition build_proof ::
  "kernel_env \<Rightarrow> verified_assertion list \<Rightarrow> string list \<Rightarrow> assertion_merkle_proof option" where
  "build_proof E assertions trace_tokens =
     (case those (map (assertion_leaf E) assertions) of
        None \<Rightarrow> None
      | Some leaves \<Rightarrow>
          let (semantic_root, inclusion) = merkle_root_and_inclusion E leaves in
          Some \<lparr>mp_semantic_root = semantic_root,
                mp_trace_root = sha256_hex E (join ''\<newline>'' trace_tokens),
                mp_inclusion = inclusion\<rparr>)"

section \<open>Narrative templates\<close>

definition bsl :: string where "bsl = [CHR 0x5C]"

text \<open>
  The three patterns of \<open>valid_narrative_template\<close> and the pattern of
  \<open>render_narrative_template\<close>, which has two groups.
\<close>

definition binding_pattern :: string where
  "binding_pattern =
     bsl @ ''{A'' @ bsl @ ''['' @ bsl @ ''d+'' @ bsl @ '']'' @ bsl @ ''.[a-zA-Z_][a-zA-Z0-9_]*'' @ bsl @ ''}''"

definition macro_pattern :: string where
  "macro_pattern =
     bsl @ ''{'' @ bsl @ ''{macro'' @ bsl @ ''.[a-zA-Z_][a-zA-Z0-9_.-]*'' @ bsl @ ''}'' @ bsl @ ''}''"

definition prose_pattern :: string where
  "prose_pattern = ''^[a-z'' @ bsl @ ''s'' @ bsl @ ''.,!'' @ bsl @ ''?]*$''"

definition binding_groups_pattern :: string where
  "binding_groups_pattern =
     bsl @ ''{A'' @ bsl @ ''[('' @ bsl @ ''d+)'' @ bsl @ '']'' @ bsl @ ''.([a-zA-Z_][a-zA-Z0-9_]*)'' @ bsl @ ''}''"

definition valid_narrative_template :: "kernel_env \<Rightarrow> string \<Rightarrow> bool" where
  "valid_narrative_template E template =
     env_is_match E prose_pattern
       (env_replace_all E macro_pattern (env_replace_all E binding_pattern template []) [])"

definition is_char_boundary :: "string \<Rightarrow> nat \<Rightarrow> bool" where
  "is_char_boundary s i \<longleftrightarrow>
     i = length s \<or> (i < length s \<and> \<not> (0x80 \<le> byte (s ! i) \<and> byte (s ! i) < 0xC0))"

text \<open>\<open>&s[a..b]\<close>, which panics out of range or inside a character.\<close>

definition slice :: "string \<Rightarrow> nat \<Rightarrow> nat \<Rightarrow> string option" where
  "slice s a b =
     (if a \<le> b \<and> b \<le> length s \<and> is_char_boundary s a \<and> is_char_boundary s b
      then Some (take (b - a) (drop a s)) else None)"

definition cap_group :: "re_capture \<Rightarrow> nat \<Rightarrow> string option" where
  "cap_group c k = (if k - 1 < length (cap_groups c) then cap_groups c ! (k - 1) else None)"

definition assertion_field :: "verified_assertion list \<Rightarrow> nat \<Rightarrow> string \<Rightarrow> value option" where
  "assertion_field assertions idx field =
     (if idx < length assertions then bm_get (va_fields (assertions ! idx)) field else None)"

fun narrative_loop ::
  "kernel_env \<Rightarrow> string \<Rightarrow> verified_assertion list \<Rightarrow> string \<Rightarrow> nat \<Rightarrow> re_capture list \<Rightarrow>
   (exec_stop + string) option" where
  "narrative_loop E template assertions rendered last_end [] =
     map_option (\<lambda>rest. Ok (rendered @ rest)) (slice template last_end (length template))"
| "narrative_loop E template assertions rendered last_end (c # cs) =
     (case slice template last_end (cap_start c) of
        None \<Rightarrow> None
      | Some prose \<Rightarrow>
          (case Option.bind (cap_group c 1) parse_usize of
             None \<Rightarrow> Some (Err (fail_rejected SchemaViolation ''invalid narrative assertion index''))
           | Some idx \<Rightarrow>
               (case cap_group c 2 of
                  None \<Rightarrow> Some (Err (fail_rejected SchemaViolation ''invalid narrative field''))
                | Some field \<Rightarrow>
                    (case assertion_field assertions idx field of
                       None \<Rightarrow> Some (Err (fail_rejected FieldRedacted
                         ''narrative binding field missing''))
                     | Some x \<Rightarrow>
                         narrative_loop E template assertions
                           (rendered @ prose @ value_to_string E x) (cap_end c) cs))))"

definition render_narrative_template ::
  "kernel_env \<Rightarrow> string \<Rightarrow> verified_assertion list \<Rightarrow> (exec_stop + string) option" where
  "render_narrative_template E template assertions =
     narrative_loop E template assertions [] 0
       (env_captures_iter E binding_groups_pattern template)"

section \<open>Rendering\<close>

definition assertion_block :: "kernel_env \<Rightarrow> verified_assertion \<Rightarrow> string" where
  "assertion_block E a =
     assertion_type_as_str_name (assertion_type_from_i32 (va_assertion_type a)) @ '': '' @
     join '', '' (map (\<lambda>(k, x). k @ ''='' @ value_to_string E x) (va_fields a))"

definition verified_blocks ::
  "kernel_env \<Rightarrow> output_spec list \<Rightarrow> regs \<Rightarrow> verified_assertion list \<Rightarrow> string list" where
  "verified_blocks E outputs regs assertions =
     (if assertions = []
      then concat (map (\<lambda>out. case bm_get regs (os_reg out) of
             None \<Rightarrow> []
           | Some reg \<Rightarrow> [os_reg out @ ''='' @ reg_to_string E (rv_data reg)]) outputs)
      else map (assertion_block E) assertions)"

fun narrative_blocks ::
  "kernel_env \<Rightarrow> verified_assertion list \<Rightarrow> string list \<Rightarrow> (exec_stop + string list) option" where
  "narrative_blocks E assertions [] = Some (Ok [])"
| "narrative_blocks E assertions (template # templates) =
     (if \<not> valid_narrative_template E template
      then Some (Err (fail_rejected DataLeakPrevention ''narrative template violates grammar guard''))
      else case render_narrative_template E template assertions of
          None \<Rightarrow> None
        | Some (Err e) \<Rightarrow> Some (Err e)
        | Some (Ok block) \<Rightarrow>
            map_option (\<lambda>r. res_bind r (\<lambda>blocks. Ok (block # blocks)))
              (narrative_blocks E assertions templates))"

definition render_output ::
  "kernel_env \<Rightarrow> output_spec list \<Rightarrow> regs \<Rightarrow> verified_assertion list \<Rightarrow> execute_options \<Rightarrow>
   (exec_stop + rendered_output) option" where
  "render_output E outputs regs assertions opts =
     map_option (\<lambda>r. res_bind r (\<lambda>blocks. Ok
         \<lparr>ro_verified_blocks = verified_blocks E outputs regs assertions,
          ro_narrative_blocks = blocks\<rparr>))
       (narrative_blocks E assertions (narrative_templates opts))"

section \<open>The steps\<close>

fun exec_op ::
  "public_manifest \<Rightarrow> normalized_budget \<Rightarrow> execute_options \<Rightarrow> regs \<Rightarrow> op \<Rightarrow>
   exec_stop + (reg_value \<times> verified_assertion option)" where
  "exec_op manifest budget opts regs (OpFetch href) =
     res_bind (exec_fetch href (handles_index (pm_handles manifest)) opts) (\<lambda>r. Ok (r, None))"
| "exec_op manifest budget opts regs (OpApplySelector sref ps) =
     res_bind (exec_apply_selector sref ps manifest (selectors_index (pm_selectors manifest)) budget)
       (\<lambda>r. Ok (r, None))"
| "exec_op manifest budget opts regs (OpResolve in_reg pol) =
     res_bind (exec_resolve in_reg pol regs) (\<lambda>r. Ok (r, None))"
| "exec_op manifest budget opts regs (OpFilter in_reg fref ps) =
     res_bind (exec_filter in_reg fref ps regs budget) (\<lambda>r. Ok (r, None))"
| "exec_op manifest budget opts regs (OpJoin l r edge) =
     res_bind (exec_join l r edge regs budget) (\<lambda>v. Ok (v, None))"
| "exec_op manifest budget opts regs (OpProject in_reg paths) =
     res_bind (exec_project in_reg paths regs) (\<lambda>r. Ok (r, None))"
| "exec_op manifest budget opts regs (OpAssert at binds cites) =
     res_bind (exec_assert at binds cites regs opts) (\<lambda>(r, a). Ok (r, Some a))"

fun op_name :: "op \<Rightarrow> string" where
  "op_name (OpFetch h) = ''FETCH''"
| "op_name (OpApplySelector s ps) = ''APPLY_SELECTOR''"
| "op_name (OpResolve r p) = ''RESOLVE''"
| "op_name (OpFilter r f ps) = ''FILTER''"
| "op_name (OpJoin l r e) = ''JOIN''"
| "op_name (OpProject r ps) = ''PROJECT''"
| "op_name (OpAssert a bs cs) = ''ASSERT''"

text \<open>The local variables of the loop of \<open>execute_inner\<close>.\<close>

record run_state =
  rn_regs :: regs
  rn_assertions :: "verified_assertion list"
  rn_trace :: "string list"

definition run_init :: run_state where
  "run_init = \<lparr>rn_regs = [], rn_assertions = [], rn_trace = []\<rparr>"

definition run_step ::
  "public_manifest \<Rightarrow> normalized_budget \<Rightarrow> execute_options \<Rightarrow> run_state \<Rightarrow> nat \<times> step \<Rightarrow>
   exec_stop + run_state" where
  "run_step manifest budget opts rs is =
     res_bind (ok_or (fail_rejected SchemaViolation ''step missing op'') (st_op (snd is)))
       (\<lambda>op. res_bind (exec_op manifest budget opts (rn_regs rs) op)
         (\<lambda>(r, a). Ok
           \<lparr>rn_regs = bm_insert (st_out (snd is)) r (rn_regs rs),
            rn_assertions = rn_assertions rs @ (case a of None \<Rightarrow> [] | Some x \<Rightarrow> [x]),
            rn_trace = rn_trace rs @
              [show_nat (fst is) @ '':'' @ st_out (snd is) @ '':'' @ op_name op]\<rparr>))"

definition run_steps ::
  "public_manifest \<Rightarrow> normalized_budget \<Rightarrow> execute_options \<Rightarrow> step list \<Rightarrow> exec_stop + run_state" where
  "run_steps manifest budget opts steps =
     foldM (run_step manifest budget opts) run_init (List.enumerate 0 steps)"

section \<open>Execute\<close>

definition id_mismatch :: "public_manifest \<Rightarrow> rmvm_plan \<Rightarrow> bool" where
  "id_mismatch manifest plan \<longleftrightarrow>
     pm_request_id manifest \<noteq> [] \<and> pl_request_id plan \<noteq> [] \<and>
     pm_request_id manifest \<noteq> pl_request_id plan"

text \<open>The part of \<open>execute_inner\<close> up to the end of the loop.\<close>

definition run_plan ::
  "kernel_env \<Rightarrow> public_manifest \<Rightarrow> rmvm_plan \<Rightarrow> execute_options \<Rightarrow> exec_stop + run_state" where
  "run_plan E manifest plan opts =
     (if id_mismatch manifest plan
      then Err (fail_rejected SchemaViolation ''manifest and plan request_id mismatch'')
      else
        let budget = normalize_budget (pm_budget manifest);
            sels = selectors_index (pm_selectors manifest) in
        res_bind (validate_static E manifest plan budget sels)
          (\<lambda>_. run_steps manifest budget opts (pl_steps plan)))"

definition execute_inner ::
  "kernel_env \<Rightarrow> execute_request \<Rightarrow> execute_options \<Rightarrow>
   (exec_stop + (verified_assertion list \<times> assertion_merkle_proof \<times> rendered_output)) option" where
  "execute_inner E req opts =
     (case er_manifest req of
        None \<Rightarrow> Some (Err (fail_rejected SchemaViolation ''missing manifest''))
      | Some manifest \<Rightarrow>
          (case er_plan req of
             None \<Rightarrow> Some (Err (fail_rejected SchemaViolation ''missing plan''))
           | Some plan \<Rightarrow>
               (case run_plan E manifest plan opts of
                  Err e \<Rightarrow> Some (Err e)
                | Ok rs \<Rightarrow>
                    (case build_proof E (rn_assertions rs) (rn_trace rs) of
                       None \<Rightarrow> None
                     | Some proof \<Rightarrow>
                         map_option
                           (\<lambda>r. res_bind r (\<lambda>rendered. Ok (rn_assertions rs, proof, rendered)))
                           (render_output E (pl_outputs plan) (rn_regs rs) (rn_assertions rs) opts)))))"

fun response_of ::
  "exec_stop + (verified_assertion list \<times> assertion_merkle_proof \<times> rendered_output) \<Rightarrow>
   execute_response" where
  "response_of (Ok (assertions, proof, rendered)) =
     \<lparr>rs_status = execution_status_to_i32 StatusOk, rs_assertions = assertions,
      rs_proof = Some proof, rs_rendered = Some rendered, rs_stall = None, rs_error = None\<rparr>"
| "response_of (Err (ExecStall stall)) =
     \<lparr>rs_status = execution_status_to_i32 StatusStall, rs_assertions = [],
      rs_proof = None, rs_rendered = None, rs_stall = Some stall, rs_error = None\<rparr>"
| "response_of (Err (ExecFailure f)) =
     \<lparr>rs_status = execution_status_to_i32 (kf_status f), rs_assertions = [],
      rs_proof = None, rs_rendered = None, rs_stall = None,
      rs_error = Some \<lparr>ee_code = error_code_to_i32 (kf_code f), ee_message = kf_message f,
        ee_hints = kf_hints f\<rparr>\<rparr>"

definition execute ::
  "kernel_env \<Rightarrow> execute_request \<Rightarrow> execute_options \<Rightarrow> execute_response option" where
  "execute E req opts = map_option response_of (execute_inner E req opts)"

end
