(* ===== verification/Kernel_Support.thy ===== *)
theory Kernel_Support
  imports Kernel_Invariants
begin

text \<open>
  What a register value may rest on. A handle \<open>backs\<close> a register when it is a handle of the
  manifest, its reference is in the register's provenance, its taint classes are among the
  register's and the register claims no more trust than it has. \<open>supported\<close> asks this of the
  handles a register holds and of the source of every value of a struct. All operations keep
  it (the instance \<open>support\<close> of \<open>op_invariant\<close>), and what an assertion inherits from it is
  \<open>assertion_supported\<close>.
\<close>

section \<open>Support\<close>

definition backs ::
  "public_manifest \<Rightarrow> string bset \<Rightarrow> i32 bset \<Rightarrow> trust_tier \<Rightarrow> handle_ref \<Rightarrow> bool" where
  "backs mf prov taint trust h \<longleftrightarrow>
     h \<in> set (pm_handles mf) \<and> h_ref h \<in> set prov \<and> set (handle_taint h) \<subseteq> set taint \<and>
     trust \<le> handle_trust h"

definition value_backed ::
  "public_manifest \<Rightarrow> value set \<Rightarrow> string bset \<Rightarrow> i32 bset \<Rightarrow> trust_tier \<Rightarrow> value \<Rightarrow> bool" where
  "value_backed mf lits prov taint trust x \<longleftrightarrow>
     (\<exists>h path. backs mf prov taint trust h \<and> handle_field h path = Some x) \<or>
     (\<exists>n. x = Some (V_I64 n)) \<or> x \<in> lits"

definition supported :: "public_manifest \<Rightarrow> value set \<Rightarrow> reg_value \<Rightarrow> bool" where
  "supported mf lits r \<longleftrightarrow>
     set (rv_provenance r) \<subseteq> h_ref ` set (pm_handles mf) \<and>
     (case rv_data r of
        RHandle h \<Rightarrow> backs mf (rv_provenance r) (rv_taint r) (rv_min_trust r) h
      | RHandleSet hs \<Rightarrow> \<forall>h \<in> set hs. backs mf (rv_provenance r) (rv_taint r) (rv_min_trust r) h
      | RStruct fs \<Rightarrow> \<forall>x \<in> snd ` set fs.
          value_backed mf lits (rv_provenance r) (rv_taint r) (rv_min_trust r) x)"

definition assertion_supported ::
  "public_manifest \<Rightarrow> value set \<Rightarrow> execute_options \<Rightarrow> verified_assertion \<Rightarrow> bool" where
  "assertion_supported mf lits opts a \<longleftrightarrow>
     (\<exists>prov taint trust.
        set prov \<subseteq> h_ref ` set (pm_handles mf) \<and>
        (\<forall>x \<in> snd ` set (va_fields a). value_backed mf lits prov taint trust x) \<and>
        (\<forall>href \<in> set prov. \<not> broken opts href) \<and>
        (assertion_requires_tier2 (assertion_type_from_i32 (va_assertion_type a)) \<longrightarrow>
           Tier2Verified \<le> trust \<and> \<not> has_untrusted_taint taint))"

text \<open>The parameters of the plan that a selector with return type \<open>STRUCT\<close> copies to its result.\<close>

definition struct_params :: "public_manifest \<Rightarrow> op set \<Rightarrow> value set" where
  "struct_params mf ops =
     {x. \<exists>sref ps sel k. OpApplySelector sref ps \<in> ops \<and>
        bm_get (selectors_index (pm_selectors mf)) sref = Some sel \<and>
        selector_return_from_i32 (sel_return_type sel) = ReturnStruct \<and> (k, x) \<in> set ps}"

lemma backs_mono:
  "backs mf prov taint trust h \<Longrightarrow> set prov \<subseteq> set prov' \<Longrightarrow> set taint \<subseteq> set taint' \<Longrightarrow>
   trust' \<le> trust \<Longrightarrow> backs mf prov' taint' trust' h"
  by (auto simp: backs_def)

lemma value_backed_mono:
  "value_backed mf lits prov taint trust x \<Longrightarrow> set prov \<subseteq> set prov' \<Longrightarrow> set taint \<subseteq> set taint' \<Longrightarrow>
   trust' \<le> trust \<Longrightarrow> value_backed mf lits prov' taint' trust' x"
  unfolding value_backed_def using backs_mono by blast

text \<open>The lowest trust among the matched handles bounds each of them from below.\<close>

lemma min_trust_fold_le:
  "foldl (\<lambda>t h. min_tier t (handle_trust h)) t hs \<le> t \<and>
   (\<forall>h \<in> set hs. foldl (\<lambda>t h. min_tier t (handle_trust h)) t hs \<le> handle_trust h)"
proof (induction hs arbitrary: t)
  case Nil
  show ?case by simp
next
  case (Cons h hs)
  from Cons [of "min_tier t (handle_trust h)"] show ?case
    by (auto simp: min_tier_min intro: order_trans)
qed

lemma min_trust_of_le: "h \<in> set hs \<Longrightarrow> min_trust_of hs \<le> handle_trust h"
  using min_trust_fold_le by (auto simp: min_trust_of_def)

section \<open>The operations\<close>

lemma exec_fetch_supported:
  assumes "exec_fetch href (handles_index (pm_handles mf)) opts = Ok r"
  shows "supported mf lits r"
proof -
  from assms obtain h where h: "bm_get (handles_index (pm_handles mf)) href = Some h"
    by (auto simp: exec_fetch_def)
  then have "h \<in> set (pm_handles mf)"
    by (auto simp: handles_index_def dest: bm_collect_get_Some)
  with assms h show ?thesis by (auto simp: exec_fetch_def supported_def backs_def split: if_splits)
qed

lemma set_matched_handles:
  "set (matched_handles mf ps) = {h \<in> set (pm_handles mf). selector_match h ps}"
  by (simp add: matched_handles_def)

lemma matched_backs:
  "h \<in> set (matched_handles mf ps) \<Longrightarrow>
   backs mf (bs_extend [] (map h_ref (matched_handles mf ps)))
     (bs_extend [] (concat (map handle_taint (matched_handles mf ps))))
     (min_trust_of (matched_handles mf ps)) h"
  by (auto simp: backs_def set_matched_handles min_trust_of_le)

lemma foldl_insert_values:
  "x \<in> snd ` set (foldl (\<lambda>out (k, x). bm_insert k x out) out ps) \<Longrightarrow>
   x \<in> snd ` set out \<or> x \<in> snd ` set ps"
proof (induction ps arbitrary: out)
  case Nil
  then show ?case by simp
next
  case (Cons p ps)
  then have "x \<in> snd ` set (foldl (\<lambda>out (k, x). bm_insert k x out) (bm_insert (fst p) (snd p) out) ps)"
    by (cases p) simp
  from Cons.IH [OF this] bm_insert_values [of "fst p" "snd p" out] show ?case by auto
qed

lemma exec_apply_selector_supported:
  assumes "exec_apply_selector sref ps mf (selectors_index (pm_selectors mf)) budget = Ok r"
    and "OpApplySelector sref ps \<in> ops"
  shows "supported mf (struct_params mf ops) r"
proof -
  let ?m = "matched_handles mf ps"
  from assms(1) obtain sel data where
    sel: "bm_get (selectors_index (pm_selectors mf)) sref = Some sel" and
    r: "r = \<lparr>rv_data = data, rv_provenance = bs_extend [] (map h_ref ?m),
             rv_taint = bs_extend [] (concat (map handle_taint ?m)),
             rv_min_trust = min_trust_of ?m, rv_join_depth = 0, rv_source = SrcApplySelector\<rparr>" and
    data: "(\<exists>h hs. ?m = h # hs \<and> data = RHandle h) \<or> data = RHandleSet ?m \<or>
      selector_return_from_i32 (sel_return_type sel) = ReturnStruct \<and>
      data = RStruct (foldl (\<lambda>out (k, x). bm_insert k x out)
        [(''matched_count'', Some (V_I64 (word_of_nat (length (pm_handles mf)))))] ps)"
    by (auto simp: exec_apply_selector_def Let_def split: if_splits selector_return.splits list.splits)
  have prov: "set (rv_provenance r) \<subseteq> h_ref ` set (pm_handles mf)"
    using r by (auto simp: set_matched_handles)
  have backs: "backs mf (rv_provenance r) (rv_taint r) (rv_min_trust r) h" if "h \<in> set ?m" for h
    using that r by (simp add: matched_backs)
  have lit: "x \<in> struct_params mf ops"
    if "selector_return_from_i32 (sel_return_type sel) = ReturnStruct" and "x \<in> snd ` set ps" for x
    using that sel assms(2) by (force simp: struct_params_def)
  from data consider (handle) h hs where "?m = h # hs" "data = RHandle h" | (set) "data = RHandleSet ?m"
    | (struct) "selector_return_from_i32 (sel_return_type sel) = ReturnStruct"
      "data = RStruct (foldl (\<lambda>out (k, x). bm_insert k x out)
        [(''matched_count'', Some (V_I64 (word_of_nat (length (pm_handles mf)))))] ps)" by blast
  then show ?thesis
  proof cases
    case handle
    then show ?thesis using prov backs [of h] r by (simp add: supported_def)
  next
    case set
    then show ?thesis using prov backs r by (simp add: supported_def)
  next
    case struct
    have "value_backed mf (struct_params mf ops) p t tr x" if "x \<in> snd ` set (foldl
        (\<lambda>out (k, x). bm_insert k x out)
        [(''matched_count'', Some (V_I64 (word_of_nat (length (pm_handles mf)))))] ps)" for p t tr x
      using foldl_insert_values [OF that] lit [OF struct(1)] by (auto simp: value_backed_def)
    then show ?thesis using prov struct r by (simp add: supported_def)
  qed
qed

lemma as_handles_backs:
  "supported mf lits r \<Longrightarrow> as_handles r = Ok hs \<Longrightarrow> h \<in> set hs \<Longrightarrow>
   backs mf (rv_provenance r) (rv_taint r) (rv_min_trust r) h"
  by (auto simp: supported_def as_handles_def split: reg_data.splits)

lemma supported_provenance:
  "supported mf lits r \<Longrightarrow> set (rv_provenance r) \<subseteq> h_ref ` set (pm_handles mf)"
  by (simp add: supported_def)

lemma exec_resolve_OkE:
  assumes "exec_resolve in_reg pol regs = Ok r"
  obtains x hs w rest where "bm_get regs in_reg = Some x" and "as_handles x = Ok hs"
    and "sort_key resolve_key hs = w # rest"
    and "\<And>y ys. rest = y # ys \<Longrightarrow> resolve_trust w \<noteq> resolve_trust y \<or> resolve_ts w \<noteq> resolve_ts y"
    and "r = \<lparr>rv_data = RHandle w, rv_provenance = rv_provenance x, rv_taint = rv_taint x,
         rv_min_trust = rv_min_trust x, rv_join_depth = rv_join_depth x, rv_source = SrcResolve\<rparr>"
proof -
  from assms obtain x hs where x: "bm_get regs in_reg = Some x" "as_handles x = Ok hs"
    by (auto simp: exec_resolve_def)
  show thesis
  proof (cases "sort_key resolve_key hs")
    case Nil
    with assms x show thesis by (simp add: exec_resolve_def)
  next
    case (Cons w rest)
    show thesis
    proof (rule that [OF x Cons])
      fix y ys
      assume "rest = y # ys"
      then show "resolve_trust w \<noteq> resolve_trust y \<or> resolve_ts w \<noteq> resolve_ts y"
        using assms x Cons by (auto simp: exec_resolve_def)
    next
      show "r = \<lparr>rv_data = RHandle w, rv_provenance = rv_provenance x, rv_taint = rv_taint x,
         rv_min_trust = rv_min_trust x, rv_join_depth = rv_join_depth x, rv_source = SrcResolve\<rparr>"
        using assms x Cons by (simp add: exec_resolve_def split: if_splits)
    qed
  qed
qed

lemma exec_resolve_supported:
  assumes "exec_resolve in_reg pol regs = Ok r"
    and "\<And>k x. bm_get regs k = Some x \<Longrightarrow> supported mf lits x"
  shows "supported mf lits r"
proof -
  from assms(1) obtain x hs w rest where x: "bm_get regs in_reg = Some x" "as_handles x = Ok hs"
    "sort_key resolve_key hs = w # rest" and
    r: "r = \<lparr>rv_data = RHandle w, rv_provenance = rv_provenance x, rv_taint = rv_taint x,
         rv_min_trust = rv_min_trust x, rv_join_depth = rv_join_depth x, rv_source = SrcResolve\<rparr>"
    by (rule exec_resolve_OkE)
  have "w \<in> set hs" using x(3) by (metis list.set_intros(1) set_sort)
  from as_handles_backs [OF assms(2) [OF x(1)] x(2) this] supported_provenance [OF assms(2) [OF x(1)]]
  show ?thesis using r by (simp add: supported_def)
qed

lemma exec_filter_supported:
  assumes "exec_filter in_reg fref ps regs budget = Ok r"
    and "\<And>k x. bm_get regs k = Some x \<Longrightarrow> supported mf lits x"
  shows "supported mf lits r"
proof -
  from assms(1) obtain x hs kept where x: "bm_get regs in_reg = Some x" "as_handles x = Ok hs"
    "filterM (\<lambda>h. matches_filter h fref ps) hs = Ok kept" and
    r: "r = \<lparr>rv_data = RHandleSet (sort_key h_ref kept), rv_provenance = rv_provenance x,
         rv_taint = rv_taint x, rv_min_trust = rv_min_trust x, rv_join_depth = rv_join_depth x,
         rv_source = SrcFilter\<rparr>"
    by (auto simp: exec_filter_def Let_def split: if_splits)
  have "set kept \<subseteq> set hs" using filterM_Ok [OF x(3)] by auto
  then have "backs mf (rv_provenance r) (rv_taint r) (rv_min_trust r) h" if "h \<in> set kept" for h
    using that as_handles_backs [OF assms(2) [OF x(1)] x(2), of h] r by auto
  with supported_provenance [OF assms(2) [OF x(1)]] r show ?thesis by (simp add: supported_def)
qed

text \<open>JOIN keeps handles of its two sides only.\<close>

lemma join_pair_values:
  "snd ` set (join_pair edge l joined r) \<subseteq> snd ` set joined \<union> {l, r}"
  using bm_insert_values [of "h_ref r" r "bm_insert (h_ref l) l joined"]
    bm_insert_values [of "h_ref l" l joined]
  by (auto simp: join_pair_def)

lemma join_row_values:
  "snd ` set (foldl (join_pair edge l) joined rights) \<subseteq> snd ` set joined \<union> {l} \<union> set rights"
proof (induction rights arbitrary: joined)
  case Nil
  show ?case by auto
next
  case (Cons r rights)
  from Cons [of "join_pair edge l joined r"] join_pair_values [of edge l joined r] show ?case by auto
qed

lemma join_rows_values:
  "snd ` set (foldl (\<lambda>joined l. foldl (join_pair edge l) joined rights) joined lefts) \<subseteq>
   snd ` set joined \<union> set lefts \<union> set rights"
proof (induction lefts arbitrary: joined)
  case Nil
  show ?case by simp
next
  case (Cons l lefts)
  from Cons [of "foldl (join_pair edge l) joined rights"] join_row_values [of edge l joined rights]
  show ?case by auto
qed

lemma join_handles_values: "snd ` set (join_handles edge ls rs) \<subseteq> set ls \<union> set rs"
  using join_rows_values [of edge rs "[]" ls] by (simp add: join_handles_def)

lemma exec_join_supported:
  assumes "exec_join lreg rreg et regs budget = Ok r"
    and "\<And>k x. bm_get regs k = Some x \<Longrightarrow> supported mf lits x"
  shows "supported mf lits r"
proof -
  from assms(1) obtain x y hx hy where x: "bm_get regs lreg = Some x" "as_handles x = Ok hx"
    and y: "bm_get regs rreg = Some y" "as_handles y = Ok hy" and
    r: "r = \<lparr>rv_data = RHandleSet (bm_values (join_handles (edge_type_from_i32 et) hx hy)),
         rv_provenance = bs_extend (rv_provenance x) (rv_provenance y),
         rv_taint = bs_extend (rv_taint x) (rv_taint y),
         rv_min_trust = min_tier (rv_min_trust x) (rv_min_trust y),
         rv_join_depth = max (rv_join_depth x) (rv_join_depth y) + 1, rv_source = SrcJoin\<rparr>"
    by (auto simp: exec_join_def Let_def split: if_splits)
  have sx: "supported mf lits x" and sy: "supported mf lits y" using assms(2) x(1) y(1) by blast+
  have "backs mf (rv_provenance r) (rv_taint r) (rv_min_trust r) h" if "h \<in> set hx \<union> set hy" for h
    using that as_handles_backs [OF sx x(2), of h] as_handles_backs [OF sy y(2), of h] r
    by (auto simp: min_tier_min elim!: backs_mono)
  then show ?thesis
    using r supported_provenance [OF sx] supported_provenance [OF sy]
      join_handles_values [of "edge_type_from_i32 et" hx hy]
    unfolding supported_def by (auto simp: bm_values_def)
qed


text \<open>A projected value is a field of the handle, of the first of the set, or of the struct.\<close>

lemma project_paths_values:
  assumes "project_paths get msg out paths = Ok fs" and "x \<in> snd ` set fs"
  shows "x \<in> snd ` set out \<or> (\<exists>path \<in> set paths. get path = Some x)"
proof -
  let ?I = "\<lambda>m. \<forall>x \<in> snd ` set m. x \<in> snd ` set out \<or> (\<exists>path \<in> set paths. get path = Some x)"
  have "?I fs"
  proof (rule foldM_invariant [OF assms(1) [unfolded project_paths_def], of ?I])
    fix path t t'
    assume "path \<in> set paths" and "?I t"
      and "res_bind (ok_or (fail_rejected FieldRedacted msg) (get path)) (\<lambda>x. Ok (bm_insert path x t)) = Ok t'"
    moreover from this(3) obtain y where "get path = Some y" "t' = bm_insert path y t" by auto
    ultimately show "?I t'" using bm_insert_values [of path y t] by blast
  qed simp
  with assms(2) show ?thesis by blast
qed

lemma project_data_values:
  assumes "project_data d paths = Ok fs" and "x \<in> snd ` set fs"
  shows "(\<exists>n. x = Some (V_I64 n)) \<or>
    (case d of RHandle h \<Rightarrow> \<exists>path. handle_field h path = Some x
     | RHandleSet hs \<Rightarrow> \<exists>h \<in> set hs. \<exists>path. handle_field h path = Some x
     | RStruct vs \<Rightarrow> x \<in> snd ` set vs)"
proof (cases d)
  case (RHandle h)
  with assms show ?thesis by (auto dest: project_paths_values)
next
  case (RStruct vs)
  with assms show ?thesis by (force dest!: project_paths_values bm_get_in)
next
  case (RHandleSet hs)
  show ?thesis
  proof (cases hs)
    case Nil
    with RHandleSet assms show ?thesis by auto
  next
    case (Cons h tl)
    with RHandleSet assms(1) obtain out where
      out: "project_paths (handle_field h) ''PROJECT field path missing'' []
        (filter (\<lambda>p. p \<noteq> ''set_count'') paths) = Ok out"
      and fs: "fs = bm_insert ''set_count'' (Some (V_I64 (word_of_nat (length hs)))) out" by auto
    from assms(2) bm_insert_values [of "''set_count''" _ out] fs
    have "(\<exists>n. x = Some (V_I64 n)) \<or> x \<in> snd ` set out" by blast
    moreover have "\<exists>path. handle_field h path = Some x" if "x \<in> snd ` set out"
      using project_paths_values [OF out that] by auto
    ultimately show ?thesis using Cons RHandleSet by auto
  qed
qed

lemma exec_project_supported:
  assumes "exec_project in_reg paths regs = Ok r"
    and "\<And>k x. bm_get regs k = Some x \<Longrightarrow> supported mf lits x"
  shows "supported mf lits r"
proof -
  from assms(1) obtain x fs where x: "bm_get regs in_reg = Some x" "project_data (rv_data x) paths = Ok fs"
    and r: "r = \<lparr>rv_data = RStruct fs, rv_provenance = rv_provenance x, rv_taint = rv_taint x,
         rv_min_trust = rv_min_trust x, rv_join_depth = rv_join_depth x, rv_source = SrcProject\<rparr>"
    by (auto simp: exec_project_def)
  have sx: "supported mf lits x" using assms(2) x(1) .
  have "value_backed mf lits (rv_provenance x) (rv_taint x) (rv_min_trust x) v"
    if "v \<in> snd ` set fs" for v
    using project_data_values [OF x(2) that] sx
    by (cases "rv_data x") (auto simp: supported_def value_backed_def)
  with supported_provenance [OF sx] r show ?thesis by (simp add: supported_def)
qed

text \<open>The bindings of an assertion: what has been bound is backed by what has been collected.\<close>

definition acc_backed :: "public_manifest \<Rightarrow> value set \<Rightarrow> assert_acc \<Rightarrow> bool" where
  "acc_backed mf lits acc \<longleftrightarrow>
     set (acc_provenance acc) \<subseteq> h_ref ` set (pm_handles mf) \<and>
     (\<forall>x \<in> snd ` set (acc_fields acc).
        value_backed mf lits (acc_provenance acc) (acc_taint acc) (acc_min_trust acc) x)"

lemma extract_backed:
  assumes "supported mf lits r" and "extract_binding_value r path = Ok x"
  shows "value_backed mf lits (rv_provenance r) (rv_taint r) (rv_min_trust r) x"
proof (cases "rv_data r")
  case (RHandle h)
  with assms show ?thesis by (auto simp: extract_binding_value_def supported_def value_backed_def)
next
  case (RStruct fs)
  with assms show ?thesis
    by (force simp: extract_binding_value_def supported_def dest: bm_get_in)
next
  case (RHandleSet hs)
  with assms show ?thesis by (simp add: extract_binding_value_def)
qed

lemma assert_binding_backed:
  assumes "assert_binding regs acc b = Ok acc'" and "acc_backed mf lits acc"
    and "\<And>k x. bm_get regs k = Some x \<Longrightarrow> supported mf lits x"
  shows "acc_backed mf lits acc'"
proof -
  from assms(1) obtain r x where r: "bm_get regs (vr_reg (snd b)) = Some r"
    "extract_binding_value r (vr_field_path (snd b)) = Ok x"
    and acc': "acc' = \<lparr>acc_fields = bm_insert (fst b) x (acc_fields acc),
       acc_provenance = bs_extend (acc_provenance acc) (rv_provenance r),
       acc_taint = bs_extend (acc_taint acc) (rv_taint r),
       acc_min_trust = min_tier (acc_min_trust acc) (rv_min_trust r)\<rparr>"
    by (auto simp: assert_binding_def split: if_splits)
  have sr: "supported mf lits r" using assms(3) r(1) .
  have "value_backed mf lits (acc_provenance acc') (acc_taint acc') (acc_min_trust acc') v"
    if v: "v \<in> snd ` set (acc_fields acc')" for v
  proof -
    from v acc' bm_insert_values [of "fst b" x "acc_fields acc"]
    have "v = x \<or> v \<in> snd ` set (acc_fields acc)" by auto
    then show ?thesis
    proof
      assume "v = x"
      with extract_backed [OF sr r(2)] acc' show ?thesis
        by (auto simp: min_tier_min elim!: value_backed_mono)
    next
      assume "v \<in> snd ` set (acc_fields acc)"
      with assms(2) acc' show ?thesis
        by (auto simp: min_tier_min acc_backed_def elim!: value_backed_mono)
    qed
  qed
  with assms(2) supported_provenance [OF sr] acc' show ?thesis by (auto simp: acc_backed_def)
qed

lemma assert_bindings_backed:
  assumes "foldM (assert_binding regs) assert_acc_init binds = Ok acc"
    and "\<And>k x. bm_get regs k = Some x \<Longrightarrow> supported mf lits x"
  shows "acc_backed mf lits acc"
  using foldM_invariant [OF assms(1), of "acc_backed mf lits"] assert_binding_backed [OF _ _ assms(2)]
  by (simp add: acc_backed_def assert_acc_init_def)


lemma exec_assert_OkE:
  assumes "exec_assert at_raw binds cites regs opts = Ok (r, a)"
  obtains at acc cits trust where "at = assertion_type_from_i32 at_raw"
    and "at \<noteq> AssertionTypeUnspecified"
    and "foldM (assert_binding regs) assert_acc_init binds = Ok acc"
    and "trust = (if acc_fields acc = [] then TrustTierUnspecified else acc_min_trust acc)"
    and "assertion_requires_tier2 at \<Longrightarrow> Tier2Verified \<le> trust"
    and "assertion_requires_tier2 at \<Longrightarrow> \<not> has_untrusted_taint (acc_taint acc)"
    and "\<And>href. href \<in> set (acc_provenance acc) \<Longrightarrow> \<not> broken opts href"
    and "canonicalize_citations cites (acc_provenance acc) opts = Ok cits"
    and "r = \<lparr>rv_data = RStruct (acc_fields acc), rv_provenance = acc_provenance acc,
           rv_taint = acc_taint acc, rv_min_trust = trust, rv_join_depth = 0, rv_source = SrcAssert\<rparr>"
    and "a = \<lparr>va_assertion_type = assertion_type_to_i32 at, va_fields = acc_fields acc,
           va_citations = cits\<rparr>"
proof -
  define at where "at = assertion_type_from_i32 at_raw"
  have at: "at \<noteq> AssertionTypeUnspecified"
    using assms by (auto simp: exec_assert_def at_def)
  with assms obtain acc where acc: "foldM (assert_binding regs) assert_acc_init binds = Ok acc"
    by (auto simp: exec_assert_def Let_def at_def)
  define trust where "trust = (if acc_fields acc = [] then TrustTierUnspecified else acc_min_trust acc)"
  from assms at acc obtain cits where
    cits: "canonicalize_citations cites (acc_provenance acc) opts = Ok cits"
    by (auto simp: exec_assert_def Let_def at_def split: if_splits)
  from assms at acc cits show thesis
    by (intro that [OF at_def at acc trust_def _ _ _ cits])
      (auto simp: exec_assert_def Let_def broken_def less_eq_trust_tier_def list_ex_iff
        at_def [symmetric] trust_def [symmetric] split: if_splits)
qed

lemma exec_assert_supported:
  assumes "exec_assert at_raw binds cites regs opts = Ok (r, a)"
    and "\<And>k x. bm_get regs k = Some x \<Longrightarrow> supported mf lits x"
  shows "supported mf lits r \<and> assertion_supported mf lits opts a"
proof -
  from assms(1) obtain at acc cits trust where acc:
    "foldM (assert_binding regs) assert_acc_init binds = Ok acc"
    and trust: "trust = (if acc_fields acc = [] then TrustTierUnspecified else acc_min_trust acc)"
    and gate: "assertion_requires_tier2 at \<Longrightarrow> Tier2Verified \<le> trust"
      "assertion_requires_tier2 at \<Longrightarrow> \<not> has_untrusted_taint (acc_taint acc)"
    and lineage: "\<And>href. href \<in> set (acc_provenance acc) \<Longrightarrow> \<not> broken opts href"
    and ra: "r = \<lparr>rv_data = RStruct (acc_fields acc), rv_provenance = acc_provenance acc,
           rv_taint = acc_taint acc, rv_min_trust = trust, rv_join_depth = 0, rv_source = SrcAssert\<rparr>"
      "a = \<lparr>va_assertion_type = assertion_type_to_i32 at, va_fields = acc_fields acc,
           va_citations = cits\<rparr>"
    by (rule exec_assert_OkE) blast
  from assert_bindings_backed [OF acc assms(2)] have prov: "acc_backed mf lits acc" .
  then have vals: "value_backed mf lits (acc_provenance acc) (acc_taint acc) trust x"
    if "x \<in> snd ` set (acc_fields acc)" for x
    using that trust by (auto simp: acc_backed_def)
  have "supported mf lits r" using prov vals ra by (simp add: supported_def acc_backed_def)
  moreover have "assertion_supported mf lits opts a"
    unfolding assertion_supported_def
    using prov vals gate lineage ra(2)
    by (intro exI [of _ "acc_provenance acc"] exI [of _ "acc_taint acc"] exI [of _ trust])
      (auto simp: acc_backed_def)
  ultimately show ?thesis ..
qed

section \<open>The instance\<close>

interpretation support: op_invariant mf budget opts ops "supported mf (struct_params mf ops)"
  "assertion_supported mf (struct_params mf ops) opts"
  for mf budget opts ops
proof
  fix op regs r a
  assume op: "op \<in> ops" and regs: "\<And>k x. bm_get regs k = Some x \<Longrightarrow> supported mf (struct_params mf ops) x"
    and ex: "exec_op mf budget opts regs op = Ok (r, a)"
  show "supported mf (struct_params mf ops) r \<and>
    pred_option (assertion_supported mf (struct_params mf ops) opts) a"
  proof (cases op)
    case (OpFetch href)
    with ex show ?thesis by (auto intro: exec_fetch_supported)
  next
    case (OpApplySelector sref ps)
    with ex op show ?thesis by (auto intro: exec_apply_selector_supported)
  next
    case (OpResolve in_reg pol)
    with ex regs show ?thesis by (auto intro: exec_resolve_supported)
  next
    case (OpFilter in_reg fref ps)
    with ex regs show ?thesis by (auto intro: exec_filter_supported)
  next
    case (OpJoin l rr edge)
    with ex regs show ?thesis by (auto intro: exec_join_supported)
  next
    case (OpProject in_reg paths)
    with ex regs show ?thesis by (auto intro: exec_project_supported)
  next
    case (OpAssert at binds cites)
    with ex obtain a' where "exec_assert at binds cites regs opts = Ok (r, a')" "a = Some a'" by auto
    with exec_assert_supported [OF _ regs] show ?thesis by auto
  qed
qed

end
