(* ===== verification/Kernel_Citations.thy ===== *)
theory Kernel_Citations
  imports Kernel_Support
begin

text \<open>
  What \<open>canonicalize_citations\<close> computes, with and without explicit citations, and what
  the citations of an assertion are when the plan leaves them to the kernel.
\<close>

section \<open>The canonical list\<close>

fun anchor_of :: "cite \<Rightarrow> string" where
  "anchor_of (CiteHandleRef href) = handle_anchor href"
| "anchor_of (CiteAnchorRef anchor) = anchor"

text \<open>A citation that is accepted: it has a variant, and a cited handle is not broken.\<close>

definition cite_ok :: "execute_options \<Rightarrow> citation_ref \<Rightarrow> bool" where
  "cite_ok opts c \<longleftrightarrow> c \<noteq> None \<and> (\<forall>href. c = Some (CiteHandleRef href) \<longrightarrow> \<not> broken opts href)"

lemma cite_step_Ok_iff:
  "cite_step opts u c = Ok u' \<longleftrightarrow> cite_ok opts c \<and> u' = bs_insert (anchor_of (the c)) u"
  by (cases "(opts, u, c)" rule: cite_step.cases) (auto simp: cite_ok_def)

lemma cite_steps_Ok_iff:
  "foldM (cite_step opts) u cites = Ok u' \<longleftrightarrow>
   (\<forall>c \<in> set cites. cite_ok opts c) \<and> u' = bs_extend u (map (anchor_of \<circ> the) cites)"
  by (induction cites arbitrary: u) (auto simp: cite_step_Ok_iff bs_extend_def)

lemma default_cites_Ok_iff:
  "foldM (\<lambda>u href. if broken opts href
      then Err (fail_rejected ErrorBrokenLineage ''citation includes broken-lineage handle'')
      else Ok (bs_insert (handle_anchor href) u)) u prov = Ok u' \<longleftrightarrow>
   (\<forall>href \<in> set prov. \<not> broken opts href) \<and> u' = bs_extend u (map handle_anchor prov)"
  by (induction prov arbitrary: u) (auto simp: bs_extend_def)

lemma map_anchor_make: "map cc_anchor_digest (map canonical_citation.make u) = u"
  by (induction u) (simp_all add: canonical_citation.defs)

lemma map_make_anchor: "map canonical_citation.make (map cc_anchor_digest cits) = cits"
  by (induction cits) (simp_all add: canonical_citation.defs)

lemma map_make_eq_iff:
  "cits = map canonical_citation.make u \<longleftrightarrow> map cc_anchor_digest cits = u"
  using map_anchor_make map_make_anchor by metis

lemma canonicalize_Ok_iff:
  "canonicalize_citations cites prov opts = Ok cits \<longleftrightarrow>
   (if cites = [] then \<forall>href \<in> set prov. \<not> broken opts href else \<forall>c \<in> set cites. cite_ok opts c) \<and>
   map cc_anchor_digest cits = bs_extend []
     (if cites = [] then map handle_anchor prov else map (anchor_of \<circ> the) cites)"
  by (auto simp: canonicalize_citations_def cite_steps_Ok_iff default_cites_Ok_iff
      map_make_eq_iff [symmetric])

text \<open>The canonical list is strictly ascending, so it has no duplicates.\<close>

lemma canonicalize_sorted:
  "canonicalize_citations cites prov opts = Ok cits \<Longrightarrow> sorted_wrt (<) (map cc_anchor_digest cits)"
  using bs_ok_extend [of "[] :: string bset"] by (auto simp: canonicalize_Ok_iff bs_ok_def)

section \<open>Default citations\<close>

definition defaults_citations :: "op \<Rightarrow> bool" where
  "defaults_citations op \<longleftrightarrow> (\<forall>at binds cites. op = OpAssert at binds cites \<longrightarrow> cites = [])"

definition cites_manifest :: "public_manifest \<Rightarrow> execute_options \<Rightarrow> verified_assertion \<Rightarrow> bool" where
  "cites_manifest mf opts a \<longleftrightarrow>
     sorted_wrt (<) (map cc_anchor_digest (va_citations a)) \<and>
     (\<forall>c \<in> set (va_citations a). \<exists>h \<in> set (pm_handles mf).
        cc_anchor_digest c = handle_anchor (h_ref h) \<and> \<not> broken opts (h_ref h))"

lemma exec_assert_cites:
  assumes "exec_assert at_raw binds [] regs opts = Ok (r, a)"
    and "\<And>k x. bm_get regs k = Some x \<Longrightarrow> supported mf lits x"
  shows "cites_manifest mf opts a"
proof -
  from assms(1) obtain acc cits where acc: "foldM (assert_binding regs) assert_acc_init binds = Ok acc"
    and cits: "canonicalize_citations [] (acc_provenance acc) opts = Ok cits" "va_citations a = cits"
    by (rule exec_assert_OkE) auto
  have prov: "set (acc_provenance acc) \<subseteq> h_ref ` set (pm_handles mf)"
    using assert_bindings_backed [OF acc assms(2)] by (simp add: acc_backed_def)
  have anchors: "cc_anchor_digest ` set cits = handle_anchor ` set (acc_provenance acc)"
    using cits(1) by (simp add: canonicalize_Ok_iff flip: set_map)
  show ?thesis
    unfolding cites_manifest_def
  proof (intro conjI ballI)
    show "sorted_wrt (<) (map cc_anchor_digest (va_citations a))"
      using canonicalize_sorted [OF cits(1)] cits(2) by simp
  next
    fix c
    assume "c \<in> set (va_citations a)"
    then have "cc_anchor_digest c \<in> handle_anchor ` set (acc_provenance acc)"
      using anchors cits(2) by blast
    then obtain href where "href \<in> set (acc_provenance acc)" "cc_anchor_digest c = handle_anchor href"
      by blast
    moreover from this cits(1) have "\<not> broken opts href" by (simp add: canonicalize_Ok_iff)
    ultimately show "\<exists>h \<in> set (pm_handles mf).
        cc_anchor_digest c = handle_anchor (h_ref h) \<and> \<not> broken opts (h_ref h)"
      using prov by blast
  qed
qed

interpretation citing: op_invariant mf budget opts "{op \<in> ops. defaults_citations op}"
  "supported mf (struct_params mf ops)" "cites_manifest mf opts"
  for mf budget opts ops
proof
  fix op regs r a
  assume op: "op \<in> {op \<in> ops. defaults_citations op}"
    and regs: "\<And>k x. bm_get regs k = Some x \<Longrightarrow> supported mf (struct_params mf ops) x"
    and ex: "exec_op mf budget opts regs op = Ok (r, a)"
  have "supported mf (struct_params mf ops) r"
    using support.op_keeps [of op ops regs mf budget opts r a] op regs ex by blast
  moreover have "pred_option (cites_manifest mf opts) a"
    using op ex exec_assert_cites [OF _ regs]
    by (cases op) (auto simp: defaults_citations_def)
  ultimately show "supported mf (struct_params mf ops) r \<and> pred_option (cites_manifest mf opts) a" ..
qed

end
