(* ===== verification/Kernel_Fanout.thy ===== *)
theory Kernel_Fanout
  imports Kernel_Support
begin

text \<open>
  The fanout bound: no handle set in a register is larger than the budget's \<open>max_fanout\<close>.
  The code compares lengths cast to \<open>u32\<close>, so the bound needs a manifest with fewer than
  \<open>2 ^ 32\<close> handles; then no length that is compared is cut off.
\<close>

section \<open>The bound\<close>

definition fanout_ok :: "normalized_budget \<Rightarrow> reg_value \<Rightarrow> bool" where
  "fanout_ok budget r \<longleftrightarrow>
     (\<forall>hs. rv_data r = RHandleSet hs \<longrightarrow> length hs \<le> unat (max_fanout budget))"

lemma not_above_fanout:
  "\<not> word_of_nat n > max_fanout budget \<Longrightarrow> n < 2 ^ 32 \<Longrightarrow> n \<le> unat (max_fanout budget)"
  by (simp add: word_less_nat_alt not_less unat_of_nat)

lemma fanout_set_bound: "unat (max_fanout budget) < 2 ^ 32"
  using unsigned_less [of "max_fanout budget"] by simp

text \<open>A joined map holds each reference once, and the references are those of the manifest.\<close>

definition keyed :: "(string, handle_ref) bmap \<Rightarrow> bool" where
  "keyed m \<longleftrightarrow> bm_ok m \<and> (\<forall>e \<in> set m. fst e = h_ref (snd e))"

lemma keyed_insert: "keyed m \<Longrightarrow> keyed (bm_insert (h_ref h) h m)"
  using bm_insert_entries [of "h_ref h" h m] by (auto simp: keyed_def)

lemma join_pair_keyed: "keyed m \<Longrightarrow> keyed (join_pair edge l m r)"
  by (simp add: join_pair_def keyed_insert)

lemma foldl_keeps: "I s \<Longrightarrow> (\<And>t x. I t \<Longrightarrow> I (f t x)) \<Longrightarrow> I (foldl f s xs)"
  by (induction xs arbitrary: s) auto

lemma join_handles_keyed: "keyed (join_handles edge ls rs)"
  unfolding join_handles_def
  by (intro foldl_keeps [where I = keyed] join_pair_keyed) (simp_all add: keyed_def)

lemma join_handles_length:
  assumes "set ls \<subseteq> set hs" and "set rs \<subseteq> set hs"
  shows "length (join_handles edge ls rs) \<le> length hs"
proof -
  let ?j = "join_handles edge ls rs"
  have d: "distinct (map fst ?j)"
    using join_handles_keyed [of edge ls rs] by (auto simp: keyed_def bm_ok_def strict_sorted_iff)
  have "fst ` set ?j \<subseteq> h_ref ` set hs"
  proof
    fix k
    assume "k \<in> fst ` set ?j"
    then obtain e where e: "e \<in> set ?j" "k = fst e" by blast
    with join_handles_keyed [of edge ls rs] have "k = h_ref (snd e)" by (simp add: keyed_def)
    moreover have "snd e \<in> set hs" using join_handles_values [of edge ls rs] e(1) assms by blast
    ultimately show "k \<in> h_ref ` set hs" by blast
  qed
  then have "card (fst ` set ?j) \<le> card (h_ref ` set hs)" by (intro card_mono) auto
  also have "\<dots> \<le> length hs" by (metis card_image_le card_length finite_set order_trans)
  finally show ?thesis using distinct_card [OF d] by simp
qed

lemma as_handles_in:
  "supported mf lits r \<Longrightarrow> as_handles r = Ok hs \<Longrightarrow> set hs \<subseteq> set (pm_handles mf)"
  using as_handles_backs by (auto simp: backs_def)

section \<open>The instance\<close>

lemma exec_op_fanout:
  assumes len: "length (pm_handles mf) < 2 ^ 32"
    and regs: "\<And>k x. bm_get regs k = Some x \<Longrightarrow> supported mf lits x \<and> fanout_ok budget x"
    and ex: "exec_op mf budget opts regs op = Ok (r, a)"
  shows "fanout_ok budget r"
proof (cases op)
  case (OpFetch href)
  with ex show ?thesis by (auto simp: exec_fetch_def fanout_ok_def split: if_splits)
next
  case (OpApplySelector sref ps)
  have "length (matched_handles mf ps) \<le> length (pm_handles mf)"
    by (simp add: matched_handles_def length_filter_le)
  with len have "length (matched_handles mf ps) < 2 ^ 32" by linarith
  with OpApplySelector ex not_above_fanout [where n = "length (matched_handles mf ps)" and budget = budget] show ?thesis
    by (auto simp: exec_apply_selector_def Let_def fanout_ok_def
        split: if_splits selector_return.splits list.splits)
next
  case (OpResolve in_reg pol)
  with ex show ?thesis by (auto simp: fanout_ok_def elim: exec_resolve_OkE)
next
  case (OpFilter in_reg fref ps)
  with ex obtain x hs kept where x: "bm_get regs in_reg = Some x" "as_handles x = Ok hs"
    "filterM (\<lambda>h. matches_filter h fref ps) hs = Ok kept"
    "\<not> word_of_nat (length kept) > max_fanout budget" and data: "rv_data r = RHandleSet (sort_key h_ref kept)"
    by (auto simp: exec_filter_def Let_def split: if_splits)
  have "length kept \<le> length hs" using filterM_Ok [OF x(3)] by auto
  moreover have "length hs \<le> max 1 (unat (max_fanout budget))"
    using x(2) regs [OF x(1)] by (auto simp: as_handles_def fanout_ok_def split: reg_data.splits)
  ultimately have "length kept < 2 ^ 32" using fanout_set_bound [of budget] by simp
  with not_above_fanout [OF x(4)] data show ?thesis by (simp add: fanout_ok_def)
next
  case (OpJoin l rr edge)
  with ex obtain x y hx hy where x: "bm_get regs l = Some x" "as_handles x = Ok hx"
    and y: "bm_get regs rr = Some y" "as_handles y = Ok hy" and
    n: "\<not> word_of_nat (length (join_handles (edge_type_from_i32 edge) hx hy)) > max_fanout budget" and
    data: "rv_data r = RHandleSet (bm_values (join_handles (edge_type_from_i32 edge) hx hy))"
    by (auto simp: exec_join_def Let_def split: if_splits)
  have "length (join_handles (edge_type_from_i32 edge) hx hy) \<le> length (pm_handles mf)"
    using as_handles_in x y regs by (intro join_handles_length) blast+
  with len have "length (join_handles (edge_type_from_i32 edge) hx hy) < 2 ^ 32" by linarith
  with not_above_fanout [OF n] data show ?thesis by (simp add: fanout_ok_def bm_values_def)
next
  case (OpProject in_reg paths)
  with ex show ?thesis by (auto simp: exec_project_def fanout_ok_def)
next
  case (OpAssert at binds cites)
  with ex show ?thesis by (auto simp: fanout_ok_def elim: exec_assert_OkE)
qed

interpretation fanning: op_invariant mf budget opts "{op \<in> ops. length (pm_handles mf) < 2 ^ 32}"
  "\<lambda>r. supported mf (struct_params mf ops) r \<and> fanout_ok budget r" "\<lambda>_. True"
  for mf budget opts ops
proof
  fix op regs r a
  assume op: "op \<in> {op \<in> ops. length (pm_handles mf) < 2 ^ 32}"
    and regs: "\<And>k x. bm_get regs k = Some x \<Longrightarrow>
      supported mf (struct_params mf ops) x \<and> fanout_ok budget x"
    and ex: "exec_op mf budget opts regs op = Ok (r, a)"
  have "supported mf (struct_params mf ops) r"
    using support.op_keeps [of op ops regs mf budget opts r a] op regs ex by blast
  moreover have "fanout_ok budget r"
    using exec_op_fanout [of mf regs "struct_params mf ops" budget opts op r a] regs ex op by blast
  ultimately show "(supported mf (struct_params mf ops) r \<and> fanout_ok budget r) \<and>
      pred_option (\<lambda>_. True) a"
    by (simp add: option.pred_True)
qed

end
