(* ===== verification/Kernel_Spec.thy ===== *)
theory Kernel_Spec
  imports Kernel_Fanout
begin

text \<open>
  What single operations mean, without the sorting and the maps they are computed with:
  RESOLVE returns the handle that outranks all others, JOIN returns the handles of either
  side that have a partner on the other, and no operation depends on the order in which the
  manifest lists its handles.
\<close>

section \<open>RESOLVE\<close>

definition resolve_rank :: "handle_ref \<Rightarrow> int \<times> int" where
  "resolve_rank h = (sint (resolve_trust h), sint (resolve_ts h))"

lemma resolve_key_le:
  "resolve_key w \<le> resolve_key h \<Longrightarrow> resolve_rank h \<le> resolve_rank w"
  by (auto simp: resolve_key_def resolve_rank_def)

lemma resolve_rank_less: "resolve_rank h < resolve_rank w \<Longrightarrow> resolve_key w < resolve_key h"
  by (auto simp: resolve_key_def resolve_rank_def)

lemma resolve_rank_eq:
  "resolve_rank h = resolve_rank w \<longleftrightarrow>
   resolve_trust h = resolve_trust w \<and> resolve_ts h = resolve_ts w"
  by (auto simp: resolve_rank_def intro: signed_word_eqI)

lemma sort_key_first:
  assumes "\<forall>h \<in> set pre \<union> set post. f w < f h"
  shows "sort_key f (pre @ w # post) = w # sort_key f (pre @ post)"
proof -
  have "sort_key f (w # (pre @ post)) = insort_key f w (sort_key f (pre @ post))" by simp
  also have "\<dots> = w # sort_key f (pre @ post)"
    using assms by (intro insort_is_Cons) (auto intro: less_imp_le)
  finally have "sort_key f (w # (pre @ post)) = w # sort_key f (pre @ post)" .
  moreover have "sort_key f (pre @ w # post) = sort_key f (w # (pre @ post))"
    using assms
  proof (induction pre)
    case Nil
    show ?case by simp
  next
    case (Cons p pre)
    then have "f w < f p" and IH: "sort_key f (pre @ w # post) = sort_key f (w # pre @ post)" by auto
    have "sort_key f ((p # pre) @ w # post) = insort_key f p (insort_key f w (sort_key f (pre @ post)))"
      using IH by simp
    also have "\<dots> = insort_key f w (insort_key f p (sort_key f (pre @ post)))"
      using \<open>f w < f p\<close> by (intro insort_key_left_comm) simp
    finally show ?case by simp
  qed
  ultimately show ?thesis by simp
qed

lemma resolve_winner_iff:
  "(\<exists>rest. sort_key resolve_key hs = w # rest \<and>
      (\<forall>y ys. rest = y # ys \<longrightarrow> resolve_rank w \<noteq> resolve_rank y)) \<longleftrightarrow>
   (\<exists>pre post. hs = pre @ w # post \<and> (\<forall>h \<in> set pre \<union> set post. resolve_rank h < resolve_rank w))"
  (is "?L \<longleftrightarrow> ?R")
proof
  assume ?L
  then obtain rest where rest: "sort_key resolve_key hs = w # rest"
    and top: "\<And>y ys. rest = y # ys \<Longrightarrow> resolve_rank w \<noteq> resolve_rank y" by blast
  have sorted: "sorted (map resolve_key (w # rest))" using rest by (metis sorted_sort_key)
  have below: "resolve_rank h < resolve_rank w" if h: "h \<in> set rest" for h
  proof (cases rest)
    case Nil
    with h show ?thesis by simp
  next
    case (Cons y ys)
    with sorted have "resolve_key w \<le> resolve_key y" by simp
    from resolve_key_le [OF this] top [OF Cons] have "resolve_rank y < resolve_rank w"
      by (metis le_neq_trans)
    moreover have "resolve_key y \<le> resolve_key h" using sorted Cons h by auto
    from resolve_key_le [OF this] have "resolve_rank h \<le> resolve_rank y" .
    ultimately show ?thesis by (metis le_less_trans)
  qed
  have "w \<in> set hs" using rest by (metis list.set_intros(1) set_sort)
  then obtain pre post where hs: "hs = pre @ w # post" by (auto dest: split_list)
  have "mset (w # rest) = mset hs" using rest by (metis mset_sort)
  then have "mset rest = mset (pre @ post)" using hs by simp
  then have "set rest = set pre \<union> set post" by (metis set_append set_mset_mset)
  with below hs show ?R by blast
next
  assume ?R
  then obtain pre post where hs: "hs = pre @ w # post"
    and top: "\<forall>h \<in> set pre \<union> set post. resolve_rank h < resolve_rank w" by blast
  then have "sort_key resolve_key hs = w # sort_key resolve_key (pre @ post)"
    using sort_key_first [of pre post resolve_key w] resolve_rank_less by simp
  moreover have "resolve_rank w \<noteq> resolve_rank y" if "sort_key resolve_key (pre @ post) = y # ys" for y ys
  proof -
    have "y \<in> set (sort_key resolve_key (pre @ post))" using that by simp
    with top show ?thesis by auto
  qed
  ultimately show ?L by blast
qed

lemma exec_resolve_iff:
  assumes "bm_get regs in_reg = Some x" and "as_handles x = Ok hs"
  shows "exec_resolve in_reg pol regs = Ok r \<longleftrightarrow>
    (\<exists>pre w post. hs = pre @ w # post \<and> (\<forall>h \<in> set pre \<union> set post. resolve_rank h < resolve_rank w) \<and>
       r = \<lparr>rv_data = RHandle w, rv_provenance = rv_provenance x, rv_taint = rv_taint x,
            rv_min_trust = rv_min_trust x, rv_join_depth = rv_join_depth x, rv_source = SrcResolve\<rparr>)"
    (is "_ \<longleftrightarrow> (\<exists>pre w post. _ \<and> _ \<and> r = ?v w)")
proof -
  have "exec_resolve in_reg pol regs = Ok r \<longleftrightarrow>
    (\<exists>w rest. sort_key resolve_key hs = w # rest \<and>
       (\<forall>y ys. rest = y # ys \<longrightarrow> resolve_rank w \<noteq> resolve_rank y) \<and> r = ?v w)"
  proof (cases "sort_key resolve_key hs")
    case Nil
    with assms show ?thesis by (simp add: exec_resolve_def)
  next
    case (Cons w rest)
    with assms show ?thesis
      by (cases rest) (auto simp: exec_resolve_def resolve_rank_eq)
  qed
  also have "\<dots> \<longleftrightarrow> (\<exists>w. (\<exists>rest. sort_key resolve_key hs = w # rest \<and>
       (\<forall>y ys. rest = y # ys \<longrightarrow> resolve_rank w \<noteq> resolve_rank y)) \<and> r = ?v w)" by blast
  also have "\<dots> \<longleftrightarrow> (\<exists>pre w post. hs = pre @ w # post \<and>
      (\<forall>h \<in> set pre \<union> set post. resolve_rank h < resolve_rank w) \<and> r = ?v w)"
    unfolding resolve_winner_iff by blast
  finally show ?thesis .
qed

section \<open>JOIN\<close>

lemma bm_get_join_pair:
  "bm_get (join_pair edge l m r) k =
   (if join_include edge l r \<and> k = h_ref r then Some r
    else if join_include edge l r \<and> k = h_ref l then Some l else bm_get m k)"
  by (simp add: join_pair_def)

text \<open>With references that tell handles apart, a joined map is determined by its handles.\<close>

definition holds :: "handle_ref set \<Rightarrow> (string, handle_ref) bmap \<Rightarrow> handle_ref set \<Rightarrow> bool" where
  "holds U m S \<longleftrightarrow> S \<subseteq> U \<and> (\<forall>k x. bm_get m k = Some x \<longleftrightarrow> x \<in> S \<and> h_ref x = k)"

lemma holds_pair:
  assumes "holds U m S" and "inj_on h_ref U" and "l \<in> U" and "r \<in> U"
  shows "holds U (join_pair edge l m r) (if join_include edge l r then S \<union> {l, r} else S)"
  using assms unfolding holds_def by (auto simp: bm_get_join_pair dest: inj_onD)

lemma holds_row:
  assumes "inj_on h_ref U" and "l \<in> U"
  shows "holds U m S \<Longrightarrow> set rs \<subseteq> U \<Longrightarrow>
    holds U (foldl (join_pair edge l) m rs) (S \<union> (\<Union>r \<in> {r \<in> set rs. join_include edge l r}. {l, r}))"
proof (induction rs arbitrary: m S)
  case Nil
  then show ?case by simp
next
  case (Cons r rs)
  let ?S = "if join_include edge l r then S \<union> {l, r} else S"
  have "holds U (join_pair edge l m r) ?S" using Cons.prems assms by (intro holds_pair) auto
  from Cons.IH [OF this] Cons.prems(2)
  have "holds U (foldl (join_pair edge l) m (r # rs))
      (?S \<union> (\<Union>r \<in> {r \<in> set rs. join_include edge l r}. {l, r}))" by simp
  moreover have "?S \<union> (\<Union>r \<in> {r \<in> set rs. join_include edge l r}. {l, r}) =
      S \<union> (\<Union>r \<in> {x \<in> set (r # rs). join_include edge l x}. {l, r})" by auto
  ultimately show ?case by simp
qed

definition joined_pairs :: "edge_type \<Rightarrow> handle_ref set \<Rightarrow> handle_ref set \<Rightarrow> handle_ref set" where
  "joined_pairs edge L R =
     {l \<in> L. \<exists>r \<in> R. join_include edge l r} \<union> {r \<in> R. \<exists>l \<in> L. join_include edge l r}"

lemma holds_rows:
  assumes "inj_on h_ref U" and "set rs \<subseteq> U"
  shows "holds U m S \<Longrightarrow> set ls \<subseteq> U \<Longrightarrow>
    holds U (foldl (\<lambda>m l. foldl (join_pair edge l) m rs) m ls) (S \<union> joined_pairs edge (set ls) (set rs))"
proof (induction ls arbitrary: m S)
  case Nil
  then show ?case by (simp add: joined_pairs_def)
next
  case (Cons l ls)
  let ?S = "S \<union> (\<Union>r \<in> {r \<in> set rs. join_include edge l r}. {l, r})"
  have "holds U (foldl (join_pair edge l) m rs) ?S" using Cons.prems assms by (intro holds_row) auto
  from Cons.IH [OF this] Cons.prems(2)
  have "holds U (foldl (\<lambda>m l. foldl (join_pair edge l) m rs) m (l # ls))
      (?S \<union> joined_pairs edge (set ls) (set rs))" by simp
  moreover have "?S \<union> joined_pairs edge (set ls) (set rs) = S \<union> joined_pairs edge (set (l # ls)) (set rs)"
    by (auto simp: joined_pairs_def)
  ultimately show ?case by simp
qed

lemma join_handles_holds:
  assumes "inj_on h_ref (set ls \<union> set rs)"
  shows "holds (set ls \<union> set rs) (join_handles edge ls rs) (joined_pairs edge (set ls) (set rs))"
  using holds_rows [OF assms, of rs "[]" "{}" ls edge] by (simp add: join_handles_def holds_def)

lemma join_handles_values_set:
  assumes "inj_on h_ref (set ls \<union> set rs)"
  shows "set (bm_values (join_handles edge ls rs)) = joined_pairs edge (set ls) (set rs)"
proof -
  have ok: "keyed (join_handles edge ls rs)" by (rule join_handles_keyed)
  have "x \<in> set (bm_values (join_handles edge ls rs)) \<longleftrightarrow>
      bm_get (join_handles edge ls rs) (h_ref x) = Some x" for x
    using ok by (force simp: bm_values_def keyed_def bm_get_iff image_iff)
  then show ?thesis using join_handles_holds [OF assms, of edge] by (auto simp: holds_def)
qed

lemma join_handles_values_sorted:
  "sorted_wrt (<) (map h_ref (bm_values (join_handles edge ls rs)))"
proof -
  have "map h_ref (bm_values (join_handles edge ls rs)) = map fst (join_handles edge ls rs)"
    using join_handles_keyed [of edge ls rs] by (auto simp: bm_values_def keyed_def)
  then show ?thesis using join_handles_keyed [of edge ls rs] by (simp add: keyed_def bm_ok_def)
qed

section \<open>The order of the manifest\<close>

text \<open>Two manifests that list the same handles, each reference once, in different orders.\<close>

definition reordered :: "public_manifest \<Rightarrow> public_manifest \<Rightarrow> bool" where
  "reordered mf mf' \<longleftrightarrow>
     (\<exists>hs. mf' = mf\<lparr>pm_handles := hs\<rparr> \<and> mset hs = mset (pm_handles mf)) \<and>
     distinct (map h_ref (pm_handles mf))"

lemma reordered_parts:
  assumes "reordered mf mf'"
  shows "mset (pm_handles mf') = mset (pm_handles mf)"
    and "length (pm_handles mf') = length (pm_handles mf)"
    and "pm_selectors mf' = pm_selectors mf" and "pm_budget mf' = pm_budget mf"
    and "pm_request_id mf' = pm_request_id mf"
  using assms by (auto simp: reordered_def dest: mset_eq_length)

lemma reordered_index: "reordered mf mf' \<Longrightarrow> handles_index (pm_handles mf') = handles_index (pm_handles mf)"
  unfolding handles_index_def
  by (rule bm_collect_perm [symmetric]) (auto simp: reordered_def o_def)

lemma reordered_matched: "reordered mf mf' \<Longrightarrow> matched_handles mf' ps = matched_handles mf ps"
  unfolding matched_handles_def
  by (rule sort_key_perm [symmetric]) (auto simp: reordered_def distinct_map elim: inj_on_subset)

lemma reordered_selector:
  assumes "reordered mf mf'"
  shows "exec_apply_selector sref ps mf' sels b = exec_apply_selector sref ps mf sels b"
  unfolding exec_apply_selector_def reordered_matched [OF assms] reordered_parts(2) [OF assms] ..

lemma reordered_cost:
  assumes "reordered mf mf'"
  shows "selector_cost E sel mf' b = selector_cost E sel mf b"
  unfolding selector_cost_def estimate_selector_rows_def reordered_parts(2) [OF assms] ..

lemma reordered_exec_op:
  assumes "reordered mf mf'"
  shows "exec_op mf' b opts regs op = exec_op mf b opts regs op"
  using reordered_parts [OF assms] reordered_index [OF assms] reordered_selector [OF assms]
  by (cases op) simp_all

lemma reordered_static_op:
  assumes "reordered mf mf'"
  shows "static_op E mf' b sels decl jd c op = static_op E mf b sels decl jd c op"
  using reordered_parts [OF assms] list_ex_perm [of "pm_handles mf'" "pm_handles mf"]
  by (cases op) (simp_all add: reordered_cost [OF assms])

lemma reordered_static:
  assumes "reordered mf mf'"
  shows "validate_static E mf' plan b sels = validate_static E mf plan b sels"
proof -
  have "static_step E mf' b sels = static_step E mf b sels"
    by (intro ext) (simp add: static_step_def reordered_static_op [OF assms])
  then show ?thesis by (simp add: validate_static_def)
qed

lemma reordered_run_plan:
  assumes "reordered mf mf'"
  shows "run_plan E mf' plan opts = run_plan E mf plan opts"
proof -
  have "run_step mf' b opts = run_step mf b opts" for b
    by (intro ext) (simp add: run_step_def reordered_exec_op [OF assms])
  then show ?thesis
    using reordered_parts [OF assms]
    by (simp add: run_plan_def id_mismatch_def run_steps_def reordered_static [OF assms])
qed

end
