(* ===== verification/Kernel_Progress.thy ===== *)
theory Kernel_Progress
  imports Kernel_Support
begin

text \<open>
  What the static checks are good for. The static loop and the run go over the same steps;
  \<open>in_step\<close> relates their states: the declared registers are those that have a value, and
  the static join depth of a register is the one its value carries. From it: the join depth
  of a value never passes the budget, and an accepted plan in which no step reads its own
  output can stop in the ways of \<open>run_failures\<close> only. None of these is a register, handle
  or selector that is missing.
\<close>

section \<open>The two loops in step\<close>

definition in_step :: "static_state \<Rightarrow> run_state \<Rightarrow> bool" where
  "in_step st rs \<longleftrightarrow>
     (\<forall>k. bm_get (rn_regs rs) k \<noteq> None \<longleftrightarrow> k \<in> set (declared st)) \<and>
     (\<forall>k x. bm_get (rn_regs rs) k = Some x \<longrightarrow> rv_join_depth x = depth_of (join_depths st) k) \<and>
     (\<forall>k. bm_get (join_depths st) k \<noteq> None \<longrightarrow> k \<in> set (declared st))"

lemma in_step_init: "in_step static_init run_init"
  by (simp add: in_step_def static_init_def run_init_def)

text \<open>One operation gives its result the depth that was computed for it.\<close>

lemma exec_op_depth:
  assumes "exec_op mf b opts regs op = Ok (r, a)"
    and "static_op E mf b sels decl jd c op = Ok (d, c')"
    and "\<And>k x. bm_get regs k = Some x \<Longrightarrow> rv_join_depth x = depth_of jd k"
  shows "rv_join_depth r = d"
proof (cases op)
  case (OpFetch href)
  with assms(1,2) show ?thesis by (auto simp: exec_fetch_def split: if_splits)
next
  case (OpApplySelector sref ps)
  with assms(1,2) show ?thesis by (auto simp: exec_apply_selector_def Let_def split: if_splits)
next
  case (OpResolve in_reg pol)
  with assms show ?thesis by (auto elim!: exec_resolve_OkE split: if_splits)
next
  case (OpFilter in_reg fref ps)
  with assms show ?thesis by (auto simp: exec_filter_def Let_def split: if_splits)
next
  case (OpJoin l rr edge)
  with assms show ?thesis by (auto simp: exec_join_def Let_def split: if_splits)
next
  case (OpProject in_reg paths)
  with assms show ?thesis by (auto simp: exec_project_def split: if_splits)
next
  case (OpAssert at binds cites)
  with assms(1,2) show ?thesis by (auto elim!: exec_assert_OkE split: if_splits)
qed

lemma in_step_step:
  assumes "static_step E mf b sels st s = Ok st'" and "run_step mf b opts rs (i, s) = Ok rs'"
    and "in_step st rs"
  shows "in_step st' rs'"
proof -
  from assms(1) obtain op d c where s: "st_op s = Some op" "st_out s \<notin> set (declared st)"
    "declared st' = bs_insert (st_out s) (declared st)"
    "static_op E mf b sels (declared st') (join_depths st) (total_cost st) op = Ok (d, c)"
    "join_depths st' = (if d > 0 then bm_insert (st_out s) d (join_depths st) else join_depths st)"
    by (rule static_step_Ok)
  from assms(2) s(1) obtain r a where ex: "exec_op mf b opts (rn_regs rs) op = Ok (r, a)"
    and regs: "rn_regs rs' = bm_insert (st_out s) r (rn_regs rs)"
    by (auto simp: run_step_def)
  have "rv_join_depth r = d"
    using exec_op_depth [OF ex s(4)] assms(3) by (simp add: in_step_def)
  moreover have "depth_of (join_depths st') k = (if k = st_out s then d else depth_of (join_depths st) k)" for k
  proof -
    have "bm_get (join_depths st) (st_out s) = None" using assms(3) s(2) by (auto simp: in_step_def)
    then have "depth_of (join_depths st) (st_out s) = 0" by (simp add: depth_of_def default_to_def)
    then show ?thesis using s(5) by (auto simp: depth_of_insert word_gt_0)
  qed
  ultimately show ?thesis
    using assms(3) s(3,5) regs by (auto simp: in_step_def)
qed

lemma in_step_loops:
  "foldM (static_step E mf b sels) st steps = Ok st' \<Longrightarrow>
   foldM (run_step mf b opts) rs (List.enumerate n steps) = Ok rs' \<Longrightarrow>
   in_step st rs \<Longrightarrow> in_step st' rs'"
proof (induction steps arbitrary: st rs n)
  case Nil
  then show ?case by simp
next
  case (Cons s steps)
  from Cons.prems obtain t q where "static_step E mf b sels st s = Ok t" "run_step mf b opts rs (n, s) = Ok q"
    and rest: "foldM (static_step E mf b sels) t steps = Ok st'"
      "foldM (run_step mf b opts) q (List.enumerate (Suc n) steps) = Ok rs'"
    by auto
  with Cons.prems(3) have "in_step t q" by (blast intro: in_step_step)
  with Cons.IH rest show ?case by blast
qed

section \<open>How a run can fail\<close>

definition run_failures :: "(error_code \<times> string) list" where
  "run_failures =
     [(GraphTraversalLimit, ''selector fanout exceeded max_fanout''),
      (TypeMismatch, ''selector returned zero rows''),
      (SchemaViolation, ''selector return_type unspecified''),
      (TypeMismatch, ''operation requires HANDLE or HANDLE_SET''),
      (AmbiguousConflict, ''RESOLVE candidates empty''),
      (AmbiguousConflict, ''RESOLVE tie cannot be broken''),
      (SchemaViolation, ''by_subject requires subject string''),
      (SchemaViolation, ''by_type requires type_id string''),
      (SchemaViolation, ''by_scope requires scope enum/string''),
      (SchemaViolation, ''trust_at_least requires tier''),
      (SchemaViolation, ''unknown filter_ref''),
      (GraphTraversalLimit, ''filter fanout exceeded max_fanout''),
      (SchemaViolation, ''JOIN edge_type unspecified''),
      (GraphTraversalLimit, ''join fanout exceeded max_fanout''),
      (FieldRedacted, ''PROJECT field path missing''),
      (FieldRedacted, ''PROJECT field missing''),
      (SchemaViolation, ''ASSERT assertion_type unspecified''),
      (SchemaViolation, ''ASSERT bindings must trace to FETCH or PROJECT''),
      (FieldRedacted, ''binding path missing on handle''),
      (FieldRedacted, ''binding path missing in struct''),
      (TypeMismatch, ''cannot bind directly from handle set''),
      (UntrustedProvenance, ''assertion requires trust tier >= TIER_2''),
      (DataLeakPrevention, ''policy-impacting assertion cannot sink web-untrusted tainted data''),
      (ErrorBrokenLineage, ''ASSERT references broken-lineage provenance''),
      (ErrorBrokenLineage, ''citation includes broken-lineage handle''),
      (SchemaViolation, ''citation is missing variant'')]"

definition run_failure :: "exec_stop \<Rightarrow> bool" where
  "run_failure e \<longleftrightarrow> (\<exists>(c, m) \<in> set run_failures. e = fail_rejected c m)"

lemma run_failureI: "(c, m) \<in> set run_failures \<Longrightarrow> run_failure (fail_rejected c m)"
  by (auto simp: run_failure_def)

text \<open>Failing parts shared by the operations.\<close>

lemma as_handles_Err: "as_handles x = Err e \<Longrightarrow> run_failure e"
  by (auto simp: as_handles_def split: reg_data.splits intro!: run_failureI simp: run_failures_def)

lemma matches_filter_Err: "matches_filter h f ps = Err e \<Longrightarrow> run_failure e"
  by (auto simp: matches_filter_def res_bind_Err_iff split: if_splits
      intro!: run_failureI simp: run_failures_def)

lemma filterM_Err: "filterM p xs = Err e \<Longrightarrow> \<exists>x \<in> set xs. p x = Err e"
  by (induction xs) (auto simp: res_bind_Err_iff)

lemma project_paths_Err: "project_paths get msg out paths = Err e \<Longrightarrow> e = fail_rejected FieldRedacted msg"
  unfolding project_paths_def by (drule foldM_Err_split) (auto simp: res_bind_Err_iff)

lemma project_data_Err: "project_data d paths = Err e \<Longrightarrow> run_failure e"
  by (cases "(d, paths)" rule: project_data.cases)
    (auto simp: res_bind_Err_iff split: list.splits dest!: project_paths_Err
      intro!: run_failureI simp: run_failures_def)

lemma extract_Err: "extract_binding_value x path = Err e \<Longrightarrow> run_failure e"
  by (auto simp: extract_binding_value_def split: reg_data.splits
      intro!: run_failureI simp: run_failures_def)

lemma cite_step_Err: "cite_step opts u c = Err e \<Longrightarrow> run_failure e"
  by (cases "(opts, u, c)" rule: cite_step.cases)
    (auto split: if_splits intro!: run_failureI simp: run_failures_def)

lemma canonicalize_Err: "canonicalize_citations cites prov opts = Err e \<Longrightarrow> run_failure e"
  by (auto simp: canonicalize_citations_def res_bind_Err_iff split: if_splits
      dest!: foldM_Err_split cite_step_Err intro!: run_failureI simp: run_failures_def)

lemma assert_bindings_Err:
  assumes "foldM (assert_binding regs) acc binds = Err e"
    and "\<And>vr. vr \<in> set (bm_values binds) \<Longrightarrow> bm_get regs (vr_reg vr) \<noteq> None"
  shows "run_failure e"
proof -
  from foldM_Err_split [OF assms(1)] obtain pre b post t where
    "binds = pre @ b # post" "assert_binding regs t b = Err e" by blast
  moreover from this(1) assms(2) have "bm_get regs (vr_reg (snd b)) \<noteq> None"
    by (auto simp: bm_values_def)
  ultimately show ?thesis
    by (auto simp: assert_binding_def res_bind_Err_iff split: if_splits dest: extract_Err
        intro!: run_failureI simp: run_failures_def)
qed

lemma exec_resolve_Err:
  assumes "exec_resolve in_reg pol regs = Err e" and "bm_get regs in_reg = Some x"
  shows "run_failure e"
proof (cases "as_handles x")
  case (Inl e')
  with assms show ?thesis by (auto simp: exec_resolve_def intro: as_handles_Err)
next
  case (Inr hs)
  show ?thesis
  proof (cases "sort_key resolve_key hs")
    case Nil
    with assms Inr have "e = fail_rejected AmbiguousConflict ''RESOLVE candidates empty''"
      by (simp add: exec_resolve_def)
    then show ?thesis by (simp add: run_failureI run_failures_def)
  next
    case (Cons w rest)
    with assms Inr have "e = fail_rejected AmbiguousConflict ''RESOLVE tie cannot be broken''"
      by (simp add: exec_resolve_def split: if_split_asm)
    then show ?thesis by (simp add: run_failureI run_failures_def)
  qed
qed

text \<open>An operation whose registers, handle and selector are there.\<close>

definition op_ready :: "public_manifest \<Rightarrow> regs \<Rightarrow> op \<Rightarrow> bool" where
  "op_ready mf regs op \<longleftrightarrow>
     (\<forall>k \<in> set (op_reads op). bm_get regs k \<noteq> None) \<and>
     (\<forall>h. op = OpFetch h \<longrightarrow> h \<in> h_ref ` set (pm_handles mf)) \<and>
     (\<forall>s ps. op = OpApplySelector s ps \<longrightarrow>
        (\<exists>sel. bm_get (selectors_index (pm_selectors mf)) s = Some sel \<and>
           validate_param_specs (sel_params sel) ps = Ok ()))"

definition stalls_on :: "public_manifest \<Rightarrow> execute_options \<Rightarrow> exec_stop \<Rightarrow> bool" where
  "stalls_on mf opts e \<longleftrightarrow>
     \<not> allow_partial_on_stall opts \<and>
     (\<exists>h \<in> set (pm_handles mf). availability_from_i32 (h_availability h) \<noteq> Ready \<and>
        e = ExecStall (stall_of h))"

lemma handles_index_None_iff:
  "bm_get (handles_index hs) href = None \<longleftrightarrow> href \<notin> h_ref ` set hs"
  by (simp add: handles_index_def bm_collect_get_None_iff image_image)

lemma exec_op_Err:
  assumes "op_ready mf regs op" and "exec_op mf b opts regs op = Err e"
  shows "run_failure e \<or> stalls_on mf opts e"
proof (cases op)
  case (OpFetch href)
  with assms(1) obtain h where "bm_get (handles_index (pm_handles mf)) href = Some h"
    using handles_index_None_iff [of "pm_handles mf" href] by (auto simp: op_ready_def)
  moreover from this have "h \<in> set (pm_handles mf)"
    by (auto simp: handles_index_def dest: bm_collect_get_Some)
  ultimately show ?thesis
    using OpFetch assms(2) by (auto simp: exec_fetch_def stalls_on_def split: if_splits)
next
  case (OpApplySelector sref ps)
  with assms show ?thesis
    by (auto simp: op_ready_def exec_apply_selector_def Let_def res_bind_Err_iff
        split: if_splits selector_return.splits list.splits intro!: run_failureI simp: run_failures_def)
next
  case (OpResolve in_reg pol)
  with assms show ?thesis
    by (auto simp: op_ready_def res_bind_Err_iff intro: exec_resolve_Err)
next
  case (OpFilter in_reg fref ps)
  with assms show ?thesis
    by (auto simp: op_ready_def exec_filter_def Let_def res_bind_Err_iff split: if_splits
        dest: as_handles_Err dest!: filterM_Err matches_filter_Err intro!: run_failureI simp: run_failures_def)
next
  case (OpJoin l r edge)
  with assms show ?thesis
    by (auto simp: op_ready_def exec_join_def Let_def res_bind_Err_iff split: if_splits
        dest: as_handles_Err intro!: run_failureI simp: run_failures_def)
next
  case (OpProject in_reg paths)
  with assms show ?thesis
    by (auto simp: op_ready_def exec_project_def res_bind_Err_iff dest: project_data_Err)
next
  case (OpAssert at binds cites)
  with assms show ?thesis
    by (auto simp: op_ready_def exec_assert_def Let_def res_bind_Err_iff split: if_splits
        dest: canonicalize_Err assert_bindings_Err intro!: run_failureI simp: run_failures_def)
qed


section \<open>Progress\<close>

definition no_self_reads :: "step list \<Rightarrow> bool" where
  "no_self_reads steps \<longleftrightarrow>
     (\<forall>s \<in> set steps. \<forall>op. st_op s = Some op \<longrightarrow> st_out s \<notin> set (op_reads op))"

lemma static_op_ready:
  assumes "static_op E mf b (selectors_index (pm_selectors mf)) decl jd c op = Ok (d, c')"
    and "\<forall>k \<in> set (op_reads op). k \<in> set decl \<longrightarrow> bm_get regs k \<noteq> None"
  shows "op_ready mf regs op"
proof -
  have "\<forall>k \<in> set (op_reads op). bm_get regs k \<noteq> None"
    using static_op_Ok_reads [OF assms(1)] assms(2) by blast
  moreover have "h \<in> h_ref ` set (pm_handles mf)" if "op = OpFetch h" for h
    using assms(1) static_op_Ok_fetch unfolding that by blast
  moreover have "\<exists>sel. bm_get (selectors_index (pm_selectors mf)) s = Some sel \<and>
      validate_param_specs (sel_params sel) ps = Ok ()" if "op = OpApplySelector s ps" for s ps
    using assms(1) static_op_Ok_selector unfolding that by blast
  ultimately show ?thesis unfolding op_ready_def by blast
qed

lemma static_step_run_Err:
  assumes "static_step E mf b (selectors_index (pm_selectors mf)) st s = Ok st'"
    and "run_step mf b opts rs (i, s) = Err e" and "in_step st rs" and "no_self_reads [s]"
  shows "run_failure e \<or> stalls_on mf opts e"
proof -
  from assms(1) obtain op d c where s: "st_op s = Some op"
    "declared st' = bs_insert (st_out s) (declared st)"
    "static_op E mf b (selectors_index (pm_selectors mf)) (declared st') (join_depths st)
       (total_cost st) op = Ok (d, c)"
    by (rule static_step_Ok)
  have "\<forall>k \<in> set (op_reads op). k \<in> set (declared st') \<longrightarrow> bm_get (rn_regs rs) k \<noteq> None"
    using assms(3,4) s(1,2) by (auto simp: in_step_def no_self_reads_def)
  from static_op_ready [OF s(3) this] have "op_ready mf (rn_regs rs) op" .
  moreover have "exec_op mf b opts (rn_regs rs) op = Err e"
    using assms(2) s(1) by (auto simp: run_step_def res_bind_Err_iff)
  ultimately show ?thesis by (rule exec_op_Err)
qed

lemma static_loop_run_Err:
  "foldM (static_step E mf b (selectors_index (pm_selectors mf))) st steps = Ok st' \<Longrightarrow>
   foldM (run_step mf b opts) rs (List.enumerate n steps) = Err e \<Longrightarrow>
   in_step st rs \<Longrightarrow> no_self_reads steps \<Longrightarrow> run_failure e \<or> stalls_on mf opts e"
proof (induction steps arbitrary: st rs n)
  case Nil
  then show ?case by simp
next
  case (Cons s steps)
  from Cons.prems(1) obtain t where t: "static_step E mf b (selectors_index (pm_selectors mf)) st s = Ok t"
    "foldM (static_step E mf b (selectors_index (pm_selectors mf))) t steps = Ok st'" by auto
  have self: "no_self_reads [s]" "no_self_reads steps" using Cons.prems(4) by (auto simp: no_self_reads_def)
  show ?case
  proof (cases "run_step mf b opts rs (n, s)")
    case (Inl e')
    with Cons.prems(2) have "run_step mf b opts rs (n, s) = Err e" by simp
    with t(1) Cons.prems(3) self(1) show ?thesis by (intro static_step_run_Err)
  next
    case (Inr q)
    with Cons.prems(2) have "foldM (run_step mf b opts) q (List.enumerate (Suc n) steps) = Err e" by simp
    moreover have "in_step t q" using t(1) Inr Cons.prems(3) by (rule in_step_step)
    ultimately show ?thesis using Cons.IH t(2) self(2) by blast
  qed
qed

lemma accepted_run_Err:
  assumes "validate_static E mf plan (normalize_budget (pm_budget mf))
      (selectors_index (pm_selectors mf)) = Ok ()"
    and "no_self_reads (pl_steps plan)"
    and "run_steps mf (normalize_budget (pm_budget mf)) opts (pl_steps plan) = Err e"
  shows "run_failure e \<or> stalls_on mf opts e"
proof -
  from validate_static_Ok [OF assms(1)] obtain st where
    "foldM (static_step E mf (normalize_budget (pm_budget mf)) (selectors_index (pm_selectors mf)))
       static_init (pl_steps plan) = Ok st" by metis
  from static_loop_run_Err [OF this assms(3) [unfolded run_steps_def] in_step_init assms(2)]
  show ?thesis .
qed

lemma completed_run_depth:
  assumes "run_plan E mf plan opts = Ok rs" and "bm_get (rn_regs rs) k = Some x"
  shows "rv_join_depth x \<le> max_join_depth (normalize_budget (pm_budget mf))"
proof -
  from validate_static_Ok [OF run_plan_Ok(1) [OF assms(1)]] obtain st where
    st: "foldM (static_step E mf (normalize_budget (pm_budget mf)) (selectors_index (pm_selectors mf)))
       static_init (pl_steps plan) = Ok st"
    and inv: "static_inv (normalize_budget (pm_budget mf)) (pl_steps plan) st" by metis
  have "in_step st rs"
    by (rule in_step_loops [OF st run_plan_Ok(2) [OF assms(1), unfolded run_steps_def] in_step_init])
  with inv assms(2) show ?thesis by (auto simp: in_step_def static_inv_def)
qed

end
