(* ===== verification/Kernel_Proof.thy ===== *)
theory Kernel_Proof
  imports Kernel_Invariants
begin

text \<open>
  The proof object of a response: when building it cannot panic, what its inclusion proofs
  are worth, and what its root determines. \<open>hash_env_ok\<close> states what is documented of the
  \<open>sha2\<close> and \<open>hex\<close> crates: a SHA-256 digest has 32 bytes, and decoding what \<open>hex::encode\<close>
  printed gives the bytes back. \<open>captures_ok\<close> states what is documented of
  \<open>captures_iter\<close>: successive non-overlapping matches in order, at character boundaries.
\<close>

section \<open>The libraries\<close>

definition hash_env_ok :: "kernel_env \<Rightarrow> bool" where
  "hash_env_ok E \<longleftrightarrow>
     (\<forall>s. length (env_sha256 E s) = 32 \<and> env_hex_decode E (env_hex_encode E s) = Some s)"

fun captures_from :: "string \<Rightarrow> nat \<Rightarrow> re_capture list \<Rightarrow> bool" where
  "captures_from s from [] = True"
| "captures_from s from (c # cs) =
     (from \<le> cap_start c \<and> cap_start c \<le> cap_end c \<and> cap_end c \<le> length s \<and>
      is_char_boundary s (cap_start c) \<and> is_char_boundary s (cap_end c) \<and>
      captures_from s (cap_end c) cs)"

definition captures_ok :: "kernel_env \<Rightarrow> string \<Rightarrow> bool" where
  "captures_ok E template \<longleftrightarrow>
     captures_from template 0 (env_captures_iter E binding_groups_pattern template) \<and>
     is_char_boundary template 0"

section \<open>The leaves\<close>

definition leaf_digest :: "kernel_env \<Rightarrow> verified_assertion \<Rightarrow> string" where
  "leaf_digest E a = env_sha256 E (canonical_assertion_bytes E a)"

lemma hash_env_sha [simp]: "hash_env_ok E \<Longrightarrow> length (env_sha256 E s) = 32"
  by (simp add: hash_env_ok_def)

lemma hash_env_hex [simp]: "hash_env_ok E \<Longrightarrow> env_hex_decode E (env_hex_encode E s) = Some s"
  by (simp add: hash_env_ok_def)

lemma hex_encode_inj: "hash_env_ok E \<Longrightarrow> env_hex_encode E s = env_hex_encode E t \<Longrightarrow> s = t"
  by (metis hash_env_hex option.inject)

lemma assertion_leaf_eq: "hash_env_ok E \<Longrightarrow> assertion_leaf E a = Some (leaf_digest E a)"
  by (simp add: assertion_leaf_def canonical_assertion_hash_def sha256_hex_def leaf_digest_def)

lemma assertion_leaves_eq:
  "hash_env_ok E \<Longrightarrow> those (map (assertion_leaf E) as) = Some (map (leaf_digest E) as)"
  by (induction as) (simp_all add: assertion_leaf_eq)

lemma build_proof_eq:
  "hash_env_ok E \<Longrightarrow> build_proof E as trace = Some
     \<lparr>mp_semantic_root = fst (merkle_root_and_inclusion E (map (leaf_digest E) as)),
      mp_trace_root = sha256_hex E (join ''\<newline>'' trace),
      mp_inclusion = snd (merkle_root_and_inclusion E (map (leaf_digest E) as))\<rparr>"
  by (simp add: build_proof_def assertion_leaves_eq case_prod_beta)

lemma build_proof_semantic_root:
  "hash_env_ok E \<Longrightarrow> build_proof E as trace = Some pf \<Longrightarrow> as \<noteq> [] \<Longrightarrow>
   mp_semantic_root pf = env_hex_encode E (merkle_root (hash_pair E) (map (leaf_digest E) as))"
  by (auto simp: build_proof_eq merkle_root_and_inclusion_def)

lemma build_proof_inclusion:
  "hash_env_ok E \<Longrightarrow> build_proof E as trace = Some pf \<Longrightarrow> i < length as \<Longrightarrow>
   length (mp_inclusion pf) = length as \<and>
   mp_inclusion pf ! i = \<lparr>ip_assertion_index = word_of_nat i,
     ip_sibling_hashes = map (env_hex_encode E)
       (inclusion_path (hash_pair E) (map (leaf_digest E) as) i)\<rparr>"
  by (cases "as = []") (auto simp: build_proof_eq merkle_root_and_inclusion_def)

section \<open>Binding\<close>

text \<open>The strings that are hashed for the semantic root.\<close>

definition hashed_strings :: "kernel_env \<Rightarrow> verified_assertion list \<Rightarrow> string set" where
  "hashed_strings E as =
     canonical_assertion_bytes E ` set as \<union>
     (\<lambda>(a, b). a @ b) ` tree_pairs (hash_pair E) (map (leaf_digest E) as)"

lemma levels_length:
  "hash_env_ok E \<Longrightarrow> \<forall>x \<in> set level. length x = 32 \<Longrightarrow>
   lv \<in> set (merkle_levels (hash_pair E) level) \<Longrightarrow> x \<in> set lv \<Longrightarrow> length x = 32"
proof (induction "hash_pair E" level rule: merkle_levels.induct)
  case (1 level)
  have next32: "\<forall>x \<in> set (next_level (hash_pair E) xs). length x = 32"
    if "\<forall>x \<in> set xs. length x = 32" for xs
    using that 1(2) by (induction "hash_pair E" xs rule: next_level.induct) (auto simp: hash_pair_def)
  show ?case
  proof (cases "1 < length level")
    case True
    with 1(4) have "lv = level \<or> lv \<in> set (merkle_levels (hash_pair E) (next_level (hash_pair E) level))"
      by (simp add: merkle_levels_more)
    with 1 True next32 show ?thesis by blast
  next
    case False
    with 1 show ?thesis by (simp add: merkle_levels_one)
  qed
qed

lemma tree_pairs_length:
  assumes "hash_env_ok E" and "(a, b) \<in> tree_pairs (hash_pair E) (map (leaf_digest E) as)"
  shows "length a = 32 \<and> length b = 32"
proof -
  from assms(2) obtain lv where "lv \<in> set (merkle_levels (hash_pair E) (map (leaf_digest E) as))"
    and "(a, b) \<in> level_pairs lv"
    by (auto simp: tree_pairs_def dest: in_set_butlastD)
  with levels_length [OF assms(1), of "map (leaf_digest E) as"] show ?thesis
    using level_pairs_set [of a b lv] assms(1) by (auto simp: leaf_digest_def)
qed

lemma digests_bytes:
  "length as = length bs \<Longrightarrow> map (leaf_digest E) as = map (leaf_digest E) bs \<Longrightarrow>
   inj_on (env_sha256 E) (hashed_strings E as \<union> hashed_strings E bs) \<Longrightarrow>
   map (canonical_assertion_bytes E) as = map (canonical_assertion_bytes E) bs"
proof -
  assume "map (leaf_digest E) as = map (leaf_digest E) bs"
    and inj: "inj_on (env_sha256 E) (hashed_strings E as \<union> hashed_strings E bs)"
  then have "map (env_sha256 E) (map (canonical_assertion_bytes E) as) =
      map (env_sha256 E) (map (canonical_assertion_bytes E) bs)"
    by (simp add: leaf_digest_def [abs_def] o_def)
  then show ?thesis
    by (rule map_inj_on) (rule inj_on_subset [OF inj], auto simp: hashed_strings_def)
qed

lemma semantic_root_binding:
  assumes E: "hash_env_ok E" and len: "length as = length bs" and ne: "as \<noteq> []"
    and root: "merkle_root (hash_pair E) (map (leaf_digest E) as) =
      merkle_root (hash_pair E) (map (leaf_digest E) bs)"
    and inj: "inj_on (env_sha256 E) (hashed_strings E as \<union> hashed_strings E bs)"
  shows "map (canonical_assertion_bytes E) as = map (canonical_assertion_bytes E) bs"
proof -
  let ?P = "tree_pairs (hash_pair E) (map (leaf_digest E) as) \<union>
    tree_pairs (hash_pair E) (map (leaf_digest E) bs)"
  have "tells_apart (hash_pair E) ?P"
    unfolding tells_apart_def
  proof (rule inj_onI)
    fix p q
    assume p: "p \<in> ?P" and q: "q \<in> ?P" and eq: "(\<lambda>(a, b). hash_pair E a b) p = (\<lambda>(a, b). hash_pair E a b) q"
    obtain a b c d where pq: "p = (a, b)" "q = (c, d)" by (cases p; cases q) auto
    have "a @ b \<in> hashed_strings E as \<union> hashed_strings E bs"
      "c @ d \<in> hashed_strings E as \<union> hashed_strings E bs"
      using p q pq by (auto simp: hashed_strings_def)
    then have "a @ b = c @ d" using inj eq pq by (auto simp: hash_pair_def dest: inj_onD)
    moreover have "length a = length c"
      using p q pq tree_pairs_length [OF E] by (metis Un_iff)
    ultimately show "p = q" using pq by simp
  qed
  with len ne root have "map (leaf_digest E) as = map (leaf_digest E) bs"
    by (intro merkle_root_binding [where h = "hash_pair E"]) auto
  then show ?thesis using inj by (rule digests_bytes [OF len])
qed

section \<open>No panic\<close>

lemma narrative_loop_total:
  "captures_from template last_end cs \<Longrightarrow> last_end \<le> length template \<Longrightarrow>
   is_char_boundary template last_end \<Longrightarrow>
   narrative_loop E template as rendered last_end cs \<noteq> None"
proof (induction cs arbitrary: last_end rendered)
  case Nil
  then show ?case by (simp add: slice_def is_char_boundary_def)
next
  case (Cons c cs)
  have "slice template last_end (cap_start c) \<noteq> None"
    using Cons.prems by (auto simp: slice_def)
  moreover have "narrative_loop E template as r (cap_end c) cs \<noteq> None" for r
    using Cons.prems by (intro Cons.IH) auto
  ultimately show ?case by (auto split: option.splits)
qed

lemma narrative_blocks_total:
  "\<forall>t \<in> set templates. captures_ok E t \<Longrightarrow> narrative_blocks E as templates \<noteq> None"
proof (induction templates)
  case Nil
  show ?case by simp
next
  case (Cons t templates)
  then have "render_narrative_template E t as \<noteq> None"
    using narrative_loop_total [of t 0 "env_captures_iter E binding_groups_pattern t" E as "[]"]
    by (simp add: render_narrative_template_def captures_ok_def)
  with Cons show ?case by (auto split: option.splits sum.splits)
qed

lemma execute_inner_total:
  assumes "hash_env_ok E" and "\<forall>t \<in> set (narrative_templates opts). captures_ok E t"
  shows "execute_inner E req opts \<noteq> None"
  using narrative_blocks_total [OF assms(2)] assms(1)
  by (auto simp: execute_inner_def build_proof_eq render_output_def split: option.splits sum.splits)

text \<open>Without narrative templates a completed run gives an OK response.\<close>

lemma execute_completes:
  assumes "hash_env_ok E" and "er_manifest req = Some mf" and "er_plan req = Some plan"
    and "run_plan E mf plan opts = Ok rs" and "narrative_templates opts = []"
  shows "\<exists>resp pf. execute E req opts = Some resp \<and> rs_assertions resp = rn_assertions rs \<and>
    rs_status resp = execution_status_to_i32 StatusOk \<and> rs_proof resp = Some pf \<and>
    build_proof E (rn_assertions rs) (rn_trace rs) = Some pf \<and>
    rs_rendered resp = Some \<lparr>ro_verified_blocks =
      verified_blocks E (pl_outputs plan) (rn_regs rs) (rn_assertions rs), ro_narrative_blocks = []\<rparr>"
  using assms by (simp add: execute_def execute_inner_def build_proof_eq render_output_def)

end
