(* ===== verification/Kernel_Shape.thy ===== *)
theory Kernel_Shape
  imports Kernel_Progress Kernel_Proof
begin

text \<open>
  The ways a request can end. Every failure in the kernel is built by \<open>fail_rejected\<close>, and
  a stall comes from a FETCH of a handle that is not ready only; so a response is OK, STALL
  or REJECTED, with the fields that go with it and no other. \<open>fails_in\<close> is a predicate on
  results that goes through the \<open>?\<close> operator and the loops; its rules are collected in
  \<open>res_intros\<close>.
\<close>

section \<open>Results that stop by rejecting or stalling\<close>

definition fails_in :: "exec_stop set \<Rightarrow> exec_stop + 'a \<Rightarrow> bool" where
  "fails_in S m \<longleftrightarrow> (\<forall>e. m = Err e \<longrightarrow> e \<in> S \<or> (\<exists>c msg. e = fail_rejected c msg))"

lemma fails_in_Ok [res_intros]: "fails_in S (Ok a)"
  by (simp add: fails_in_def)

lemma fails_in_reject [res_intros]: "fails_in S (Err (fail_rejected c msg))"
  by (auto simp: fails_in_def)

lemma fails_in_ok_or [res_intros]: "fails_in S (ok_or (fail_rejected c msg) x)"
  by (auto simp: fails_in_def)

lemma fails_in_bind [res_intros]:
  "fails_in S m \<Longrightarrow> (\<And>a. m = Ok a \<Longrightarrow> fails_in S (f a)) \<Longrightarrow> fails_in S (res_bind m f)"
  by (auto simp: fails_in_def res_bind_Err_iff)

lemma fails_in_if [res_intros]:
  "(b \<Longrightarrow> fails_in S m) \<Longrightarrow> (\<not> b \<Longrightarrow> fails_in S m') \<Longrightarrow> fails_in S (if b then m else m')"
  by simp

lemma fails_in_foldM [res_intros]:
  "(\<And>s x. x \<in> set xs \<Longrightarrow> fails_in S (f s x)) \<Longrightarrow> fails_in S (foldM f s xs)"
  by (induction xs arbitrary: s) (auto intro!: res_intros)

lemma fails_in_filterM [res_intros]:
  "(\<And>x. x \<in> set xs \<Longrightarrow> fails_in S (p x)) \<Longrightarrow> fails_in S (filterM p xs)"
  by (induction xs) (auto intro!: res_intros)

section \<open>The operations\<close>

lemma as_handles_fails [res_intros]: "fails_in S (as_handles x)"
  by (auto simp: as_handles_def split: reg_data.splits intro!: res_intros)

lemma extract_fails [res_intros]: "fails_in S (extract_binding_value x path)"
  by (auto simp: extract_binding_value_def split: reg_data.splits intro!: res_intros)

lemma matches_filter_fails [res_intros]: "fails_in S (matches_filter h f ps)"
  unfolding matches_filter_def by (intro res_intros)

lemma validate_param_specs_fails [res_intros]: "fails_in S (validate_param_specs specs ps)"
  unfolding validate_param_specs_def Let_def by (auto intro!: res_intros)

lemma exec_fetch_fails:
  "fails_in {e. stalls_on mf opts e} (exec_fetch href (handles_index (pm_handles mf)) opts)"
proof -
  have "h \<in> set (pm_handles mf)" if "bm_get (handles_index (pm_handles mf)) href = Some h" for h
    using that by (auto simp: handles_index_def dest: bm_collect_get_Some)
  then show ?thesis by (auto simp: exec_fetch_def fails_in_def res_bind_Err_iff stalls_on_def split: if_splits)
qed

lemma exec_apply_selector_fails [res_intros]: "fails_in S (exec_apply_selector sref ps mf sels b)"
  unfolding exec_apply_selector_def Let_def
  by (intro res_intros) (auto split: selector_return.splits list.splits intro!: res_intros)

lemma exec_resolve_fails [res_intros]: "fails_in S (exec_resolve in_reg pol regs)"
proof -
  have "fails_in S (case xs of [] \<Rightarrow> Err (fail_rejected c m)
      | w # rest \<Rightarrow> if g w rest then Err (fail_rejected c' m') else Ok (f w))" for xs c m c' m' g f
    by (cases xs) (auto intro!: res_intros)
  then show ?thesis unfolding exec_resolve_def by (intro res_intros) auto
qed

lemma exec_filter_fails [res_intros]: "fails_in S (exec_filter in_reg fref ps regs b)"
  unfolding exec_filter_def Let_def by (intro res_intros)

lemma exec_join_fails [res_intros]: "fails_in S (exec_join l r et regs b)"
  unfolding exec_join_def Let_def by (intro res_intros)

lemma project_paths_fails [res_intros]: "fails_in S (project_paths get msg out paths)"
  unfolding project_paths_def by (intro res_intros)

lemma project_data_fails [res_intros]: "fails_in S (project_data d paths)"
  by (cases "(d, paths)" rule: project_data.cases) (auto split: list.split intro!: res_intros)

lemma exec_project_fails [res_intros]: "fails_in S (exec_project in_reg paths regs)"
  unfolding exec_project_def by (intro res_intros)

lemma cite_step_fails [res_intros]: "fails_in S (cite_step opts u c)"
  by (cases "(opts, u, c)" rule: cite_step.cases) (auto intro!: res_intros)

lemma canonicalize_fails [res_intros]: "fails_in S (canonicalize_citations cites prov opts)"
  unfolding canonicalize_citations_def by (intro res_intros)

lemma assert_binding_fails [res_intros]: "fails_in S (assert_binding regs acc b)"
  unfolding assert_binding_def by (intro res_intros)

lemma exec_assert_fails [res_intros]: "fails_in S (exec_assert at binds cites regs opts)"
  unfolding exec_assert_def Let_def by (intro res_intros)

lemma exec_op_fails [res_intros]: "fails_in {e. stalls_on mf opts e} (exec_op mf b opts regs op)"
  by (cases op) (auto intro!: res_intros exec_fetch_fails split: prod.split)

lemma run_step_fails [res_intros]: "fails_in {e. stalls_on mf opts e} (run_step mf b opts rs is)"
  unfolding run_step_def by (auto intro!: res_intros split: prod.split)

lemma static_op_fails [res_intros]: "fails_in S (static_op E mf b sels decl jd c op)"
  by (cases op) (auto simp: Let_def intro!: res_intros)

lemma static_step_fails [res_intros]: "fails_in S (static_step E mf b sels st s)"
  unfolding static_step_def Let_def by (auto intro!: res_intros split: prod.split)

lemma validate_static_fails [res_intros]: "fails_in S (validate_static E mf plan b sels)"
  unfolding validate_static_def by (intro res_intros)

lemma run_plan_fails [res_intros]: "fails_in {e. stalls_on mf opts e} (run_plan E mf plan opts)"
  unfolding run_plan_def Let_def run_steps_def by (intro res_intros)

section \<open>Rendering\<close>

lemma narrative_loop_fails:
  "narrative_loop E template as rendered last_end cs = Some m \<Longrightarrow> fails_in S m"
  by (induction E template as rendered last_end cs rule: narrative_loop.induct)
    (auto split: option.splits intro!: res_intros)

lemma narrative_blocks_fails: "narrative_blocks E as templates = Some m \<Longrightarrow> fails_in S m"
proof (induction templates arbitrary: m)
  case Nil
  then show ?case by (auto intro!: res_intros)
next
  case (Cons t templates)
  show ?case
  proof (cases "render_narrative_template E t as")
    case None
    with Cons.prems show ?thesis by (auto split: if_splits intro!: res_intros)
  next
    case (Some r)
    then have r: "fails_in S r" by (auto simp: render_narrative_template_def intro: narrative_loop_fails)
    show ?thesis
    proof (cases r)
      case (Inl e)
      with r Some Cons.prems show ?thesis by (auto simp: fails_in_def split: if_splits)
    next
      case (Inr block)
      with Some Cons show ?thesis by (auto split: if_splits intro!: res_intros)
    qed
  qed
qed

lemma narrative_blocks_Ok:
  "narrative_blocks E as templates = Some (Ok blocks) \<Longrightarrow>
   length blocks = length templates \<and>
   (\<forall>i < length templates. valid_narrative_template E (templates ! i) \<and>
      render_narrative_template E (templates ! i) as = Some (Ok (blocks ! i)))"
proof (induction templates arbitrary: blocks)
  case Nil
  then show ?case by simp
next
  case (Cons t templates)
  from Cons.prems have valid: "valid_narrative_template E t" by (auto split: if_splits)
  with Cons.prems obtain b bs where b: "render_narrative_template E t as = Some (Ok b)"
    "narrative_blocks E as templates = Some (Ok bs)" "blocks = b # bs"
    by (auto split: option.splits sum.splits)
  with Cons.IH [OF b(2)] valid show ?case by (auto simp: nth_Cons split: nat.split)
qed

lemma execute_inner_fails:
  assumes "execute_inner E req opts = Some m"
  shows "fails_in {e. \<exists>mf. er_manifest req = Some mf \<and> stalls_on mf opts e} m"
proof (cases "er_manifest req")
  case None
  with assms show ?thesis by (auto simp: execute_inner_def intro!: res_intros)
next
  case (Some mf)
  show ?thesis
  proof (cases "er_plan req")
    case None
    with Some assms show ?thesis by (auto simp: execute_inner_def intro!: res_intros)
  next
    case plan: (Some plan)
    have "fails_in {e. stalls_on mf opts e} (run_plan E mf plan opts)" by (rule res_intros)
    then show ?thesis
      using Some plan assms narrative_blocks_fails
      by (auto simp: execute_inner_def render_output_def split: option.splits sum.splits
          intro!: res_intros) (auto simp: fails_in_def)
  qed
qed

text \<open>How a request can end, with the fields of the response.\<close>

lemma response_cases:
  assumes "execute E req opts = Some resp"
  shows "(rs_status resp = execution_status_to_i32 StatusOk \<and> rs_proof resp \<noteq> None \<and>
      rs_rendered resp \<noteq> None \<and> rs_stall resp = None \<and> rs_error resp = None) \<or>
    (rs_status resp = execution_status_to_i32 StatusStall \<and> rs_assertions resp = [] \<and>
      rs_proof resp = None \<and> rs_rendered resp = None \<and> rs_error resp = None \<and>
      \<not> allow_partial_on_stall opts \<and>
      (\<exists>mf h. er_manifest req = Some mf \<and> h \<in> set (pm_handles mf) \<and>
         availability_from_i32 (h_availability h) \<noteq> Ready \<and>
         rs_stall resp = Some \<lparr>si_handle_ref = h_ref h, si_availability = h_availability h,
           si_estimated_ready_at = None, si_retrieval_ticket = ''ticket:'' @ h_ref h\<rparr>)) \<or>
    (rs_status resp = execution_status_to_i32 StatusRejected \<and> rs_assertions resp = [] \<and>
      rs_proof resp = None \<and> rs_rendered resp = None \<and> rs_stall resp = None \<and>
      (\<exists>c msg. rs_error resp = Some \<lparr>ee_code = error_code_to_i32 c, ee_message = msg, ee_hints = []\<rparr>))"
proof -
  from assms obtain m where m: "execute_inner E req opts = Some m" and resp: "resp = response_of m"
    by (auto simp: execute_def)
  note fails = execute_inner_fails [OF m]
  show ?thesis
  proof (cases m)
    case (Inr out)
    then show ?thesis using resp by (cases out) simp
  next
    case (Inl e)
    with fails have "(\<exists>mf. er_manifest req = Some mf \<and> stalls_on mf opts e) \<or>
        (\<exists>c msg. e = fail_rejected c msg)" by (simp add: fails_in_def)
    then show ?thesis
    proof (elim disjE exE conjE)
      fix mf
      assume "er_manifest req = Some mf" and "stalls_on mf opts e"
      then show ?thesis using resp Inl by (auto simp: stalls_on_def stall_of_def)
    next
      fix c msg
      assume "e = fail_rejected c msg"
      then have "resp = \<lparr>rs_status = execution_status_to_i32 StatusRejected, rs_assertions = [],
          rs_proof = None, rs_rendered = None, rs_stall = None,
          rs_error = Some \<lparr>ee_code = error_code_to_i32 c, ee_message = msg, ee_hints = []\<rparr>\<rparr>"
        using resp Inl by (simp add: fail_rejected_def)
      then show ?thesis by (simp del: execution_status_to_i32.simps) blast
    qed
  qed
qed

end
