(* ===== verification/Kernel_Accept.thy ===== *)
theory Kernel_Accept
  imports Kernel_Static
begin

text \<open>
  The plans that \<open>validate_static\<close> accepts, said without its loop: a condition on each step
  and the steps before it, a join depth in natural numbers, and the cost as a sum. The
  registers of a step are looked up among the outputs of the steps up to and including
  itself, as the code does. \<open>static_accepts_iff\<close> holds for plans of fewer than \<open>2 ^ 32\<close>
  steps, for which the \<open>u32\<close> lengths and depths of the code do not wrap.
\<close>

section \<open>The specification\<close>

fun op_depth :: "(string \<Rightarrow> nat) \<Rightarrow> op \<Rightarrow> nat" where
  "op_depth f (OpJoin l r e) = max (f l) (f r) + 1"
| "op_depth f (OpResolve r p) = f r"
| "op_depth f (OpFilter r g ps) = f r"
| "op_depth f (OpProject r paths) = f r"
| "op_depth f (OpFetch h) = 0"
| "op_depth f (OpApplySelector s ps) = 0"
| "op_depth f (OpAssert at bs cs) = 0"

definition depth_after :: "(string \<Rightarrow> nat) \<Rightarrow> step \<Rightarrow> string \<Rightarrow> nat" where
  "depth_after f s = f(st_out s := (case st_op s of None \<Rightarrow> 0 | Some op \<Rightarrow> op_depth f op))"

definition depths :: "step list \<Rightarrow> string \<Rightarrow> nat" where
  "depths steps = foldl depth_after (\<lambda>_. 0) steps"

fun op_cost ::
  "kernel_env \<Rightarrow> public_manifest \<Rightarrow> normalized_budget \<Rightarrow> (string, selector_ref) bmap \<Rightarrow> op \<Rightarrow> fl" where
  "op_cost E mf b sels (OpApplySelector s ps) =
     (case bm_get sels s of None \<Rightarrow> fl_zero | Some sel \<Rightarrow> selector_cost E sel mf b)"
| "op_cost E mf b sels (OpJoin l r e) = fl_of_nat 2"
| "op_cost E mf b sels _ = fl_of_nat 1"

definition plan_cost ::
  "kernel_env \<Rightarrow> public_manifest \<Rightarrow> normalized_budget \<Rightarrow> (string, selector_ref) bmap \<Rightarrow> step list \<Rightarrow> fl" where
  "plan_cost E mf b sels steps =
     foldl (\<lambda>c s. case st_op s of None \<Rightarrow> c | Some op \<Rightarrow> fl_add c (op_cost E mf b sels op)) fl_zero steps"

definition step_good ::
  "public_manifest \<Rightarrow> normalized_budget \<Rightarrow> (string, selector_ref) bmap \<Rightarrow> step list \<Rightarrow> step \<Rightarrow> bool" where
  "step_good mf b sels seen s \<longleftrightarrow>
     trim (st_out s) \<noteq> [] \<and> st_out s \<notin> st_out ` set seen \<and>
     (\<exists>op. st_op s = Some op \<and>
        set (op_reads op) \<subseteq> st_out ` set (seen @ [s]) \<and>
        (\<forall>h. op = OpFetch h \<longrightarrow> h \<in> h_ref ` set (pm_handles mf)) \<and>
        (\<forall>n ps. op = OpApplySelector n ps \<longrightarrow>
           (\<exists>sel. bm_get sels n = Some sel \<and> validate_param_specs (sel_params sel) ps = Ok ())) \<and>
        (\<forall>l r e. op = OpJoin l r e \<longrightarrow> op_depth (depths seen) op \<le> unat (max_join_depth b)))"

definition steps_good ::
  "public_manifest \<Rightarrow> normalized_budget \<Rightarrow> (string, selector_ref) bmap \<Rightarrow> step list \<Rightarrow> bool" where
  "steps_good mf b sels steps \<longleftrightarrow>
     (\<forall>i < length steps. step_good mf b sels (take i steps) (steps ! i))"

section \<open>The loop\<close>

lemma depths_snoc: "depths (seen @ [s]) = depth_after (depths seen) s"
  by (simp add: depths_def)

lemma depths_le: "depths seen k \<le> length seen"
proof (induction seen arbitrary: k rule: rev_induct)
  case Nil
  show ?case by (simp add: depths_def)
next
  case (snoc s seen)
  have "op_depth (depths seen) op \<le> Suc (length seen)" for op
    using snoc by (cases op) (auto simp: le_SucI)
  with snoc show ?case by (auto simp: depths_snoc depth_after_def le_SucI split: option.splits)
qed

lemma steps_good_snoc:
  "steps_good mf b sels (steps @ [s]) \<longleftrightarrow> steps_good mf b sels steps \<and> step_good mf b sels steps s"
  by (auto simp: steps_good_def nth_append less_Suc_eq)

text \<open>What the loop's state says of the steps it has seen.\<close>

definition static_sees ::
  "kernel_env \<Rightarrow> public_manifest \<Rightarrow> normalized_budget \<Rightarrow> (string, selector_ref) bmap \<Rightarrow>
   step list \<Rightarrow> static_state \<Rightarrow> bool" where
  "static_sees E mf b sels seen st \<longleftrightarrow>
     set (declared st) = st_out ` set seen \<and>
     (\<forall>k. unat (depth_of (join_depths st) k) = depths seen k) \<and>
     (\<forall>k. bm_get (join_depths st) k \<noteq> None \<longrightarrow> k \<in> set (declared st)) \<and>
     total_cost st = plan_cost E mf b sels seen"

lemma unat_max: "unat (max a b) = max (unat a) (unat (b :: 'a::len word))"
  by (auto simp: max_def word_le_nat_alt)

lemma depth_Suc:
  assumes "unat a \<le> n" and "unat b \<le> n" and "n < 2 ^ 32 - 1"
  shows "unat (max a b + (1 :: u32)) = max (unat a) (unat b) + 1"
proof -
  have "unat (max a b) \<le> n" using assms(1,2) by (simp add: unat_max)
  with assms(3) have "unat (max a b) + unat (1 :: u32) < 2 ^ LENGTH(32)" by simp
  then have "unat (max a b + 1) = unat (max a b) + unat (1 :: u32)"
    by (simp only: unat_add_lem)
  then show ?thesis by (simp add: unat_max)
qed

text \<open>The \<open>match\<close> of the loop body meets the specification of the operation.\<close>

lemma static_op_iff:
  assumes sees: "static_sees E mf b sels seen st" and n: "length seen < 2 ^ 32 - 1"
    and decl: "set decl = st_out ` set (seen @ [s])"
  shows "static_op E mf b sels decl (join_depths st) (total_cost st) op = Ok (d, c) \<longleftrightarrow>
    set (op_reads op) \<subseteq> st_out ` set (seen @ [s]) \<and>
    (\<forall>h. op = OpFetch h \<longrightarrow> h \<in> h_ref ` set (pm_handles mf)) \<and>
    (\<forall>n ps. op = OpApplySelector n ps \<longrightarrow>
       (\<exists>sel. bm_get sels n = Some sel \<and> validate_param_specs (sel_params sel) ps = Ok ())) \<and>
    (\<forall>l r e. op = OpJoin l r e \<longrightarrow> op_depth (depths seen) op \<le> unat (max_join_depth b)) \<and>
    unat d = op_depth (depths seen) op \<and>
    c = fl_add (plan_cost E mf b sels seen) (op_cost E mf b sels op)"
proof -
  have dep: "unat (depth_of (join_depths st) k) = depths seen k" for k
    using sees by (simp add: static_sees_def)
  have cost: "total_cost st = plan_cost E mf b sels seen" using sees by (simp add: static_sees_def)
  have le: "unat (depth_of (join_depths st) k) \<le> length seen" for k
    unfolding dep by (rule depths_le)
  have eq: "x = y \<longleftrightarrow> unat x = unat y" for x y :: u32 by (simp add: word_unat_eq_iff)
  show ?thesis
  proof (cases op)
    case (OpJoin l r e)
    have "unat (max (depth_of (join_depths st) l) (depth_of (join_depths st) r) + 1) =
        max (depths seen l) (depths seen r) + 1"
      using depth_Suc [OF le le n, of l r] by (simp only: dep)
    then show ?thesis
      using OpJoin decl cost by (auto simp: Let_def word_less_nat_alt eq)
  qed (use decl cost in \<open>auto simp: list_ex_iff image_iff eq dep split: if_splits option.splits\<close>)
qed

lemma static_sees_init: "static_sees E mf b sels [] static_init"
  by (simp add: static_sees_def static_init_def depths_def plan_cost_def depth_of_def default_to_def)

lemma static_step_good:
  assumes "static_sees E mf b sels seen st" and "length seen < 2 ^ 32 - 1"
    and "static_step E mf b sels st s = Ok st'"
  shows "step_good mf b sels seen s \<and> static_sees E mf b sels (seen @ [s]) st'"
proof -
  from assms(3) obtain op d c where s: "st_op s = Some op" "trim (st_out s) \<noteq> []"
    "st_out s \<notin> set (declared st)" "declared st' = bs_insert (st_out s) (declared st)"
    "static_op E mf b sels (declared st') (join_depths st) (total_cost st) op = Ok (d, c)"
    "join_depths st' = (if d > 0 then bm_insert (st_out s) d (join_depths st) else join_depths st)"
    "total_cost st' = c"
    by (rule static_step_Ok)
  have decl: "set (declared st') = st_out ` set (seen @ [s])"
    using s(4) assms(1) by (simp add: static_sees_def)
  note op = static_op_iff [OF assms(1,2) decl, of op d c, THEN iffD1, OF s(5)]
  have fresh: "bm_get (join_depths st) (st_out s) = None"
    using assms(1) s(3) by (auto simp: static_sees_def)
  have "unat (depth_of (join_depths st') k) = depths (seen @ [s]) k" for k
    using op assms(1) s(1,6) fresh
    by (auto simp: depths_snoc depth_after_def static_sees_def depth_of_insert word_gt_0
        depth_of_def default_to_def)
  moreover have "total_cost st' = plan_cost E mf b sels (seen @ [s])"
    using op s(1,7) by (simp add: plan_cost_def)
  moreover have "\<forall>k. bm_get (join_depths st') k \<noteq> None \<longrightarrow> k \<in> set (declared st')"
    using assms(1) s(4,6) by (auto simp: static_sees_def)
  moreover have "step_good mf b sels seen s"
    using op s(1-3) assms(1) by (auto simp: step_good_def static_sees_def)
  ultimately show ?thesis using decl by (simp add: static_sees_def)
qed

lemma static_step_accepts:
  assumes "static_sees E mf b sels seen st" and "length seen < 2 ^ 32 - 1"
    and "step_good mf b sels seen s"
  shows "\<exists>st'. static_step E mf b sels st s = Ok st'"
proof -
  from assms(3) obtain op where op: "st_op s = Some op" "trim (st_out s) \<noteq> []"
    "st_out s \<notin> st_out ` set seen" and good: "step_good mf b sels seen s"
    by (auto simp: step_good_def)
  have decl: "set (bs_insert (st_out s) (declared st)) = st_out ` set (seen @ [s])"
    using assms(1) by (simp add: static_sees_def)
  have bound: "op_depth (depths seen) op < 2 ^ 32"
  proof -
    have "op_depth (depths seen) op \<le> Suc (length seen)"
      using depths_le [of seen] by (cases op) (auto simp: le_SucI)
    with assms(2) show ?thesis by simp
  qed
  then have "unat (word_of_nat (op_depth (depths seen) op) :: u32) = op_depth (depths seen) op"
    by (simp add: unat_of_nat)
  with static_op_iff [OF assms(1,2) decl, of op "word_of_nat (op_depth (depths seen) op)"
      "fl_add (plan_cost E mf b sels seen) (op_cost E mf b sels op)"] good op(1)
  have "static_op E mf b sels (bs_insert (st_out s) (declared st)) (join_depths st) (total_cost st) op =
      Ok (word_of_nat (op_depth (depths seen) op), fl_add (plan_cost E mf b sels seen) (op_cost E mf b sels op))"
    by (auto simp: step_good_def)
  moreover have "st_out s \<notin> set (declared st)" using op(3) assms(1) by (simp add: static_sees_def)
  ultimately show ?thesis using op(1,2) by (simp add: static_step_def Let_def)
qed

lemma static_loop_iff:
  "length steps < 2 ^ 32 \<Longrightarrow>
   (is_ok (foldM (static_step E mf b sels) static_init steps) \<longleftrightarrow> steps_good mf b sels steps) \<and>
   (\<forall>st. foldM (static_step E mf b sels) static_init steps = Ok st \<longrightarrow> static_sees E mf b sels steps st)"
proof (induction steps rule: rev_induct)
  case Nil
  show ?case by (simp add: steps_good_def static_sees_init)
next
  case (snoc s steps)
  then have n: "length steps < 2 ^ 32 - 1" by simp
  note IH = snoc.IH
  show ?case
  proof (cases "foldM (static_step E mf b sels) static_init steps")
    case (Inl e)
    with IH n have "\<not> steps_good mf b sels steps" by simp
    with Inl show ?thesis by (simp add: foldM_append steps_good_snoc)
  next
    case (Inr st)
    with IH n have good: "steps_good mf b sels steps" and sees: "static_sees E mf b sels steps st"
      by simp_all
    have "is_ok (static_step E mf b sels st s) \<longleftrightarrow> step_good mf b sels steps s"
      using static_step_good [OF sees n] static_step_accepts [OF sees n] by (auto simp: is_ok_iff)
    moreover have "static_step E mf b sels st s = Ok st' \<Longrightarrow> static_sees E mf b sels (steps @ [s]) st'" for st'
      using static_step_good [OF sees n] by blast
    ultimately show ?thesis
      using Inr good by (cases "static_step E mf b sels st s") (auto simp: foldM_append steps_good_snoc)
  qed
qed

lemma static_accepts:
  assumes "length (pl_steps plan) < 2 ^ 32"
  shows "validate_static E mf plan b sels = Ok () \<longleftrightarrow>
    length (pl_steps plan) \<le> unat (max_ops b) \<and>
    steps_good mf b sels (pl_steps plan) \<and>
    \<not> fl_gt (plan_cost E mf b sels (pl_steps plan)) (max_total_cost b) \<and>
    (\<forall>out \<in> set (pl_outputs plan). os_reg out \<in> st_out ` set (pl_steps plan))"
proof -
  have len: "\<not> word_of_nat (length (pl_steps plan)) > max_ops b \<longleftrightarrow> length (pl_steps plan) \<le> unat (max_ops b)"
    using assms by (simp add: word_less_nat_alt not_less unat_of_nat)
  show ?thesis
  proof (cases "foldM (static_step E mf b sels) static_init (pl_steps plan)")
    case (Inl e)
    with static_loop_iff [OF assms, of E mf b sels] show ?thesis by (simp add: validate_static_def)
  next
    case (Inr st)
    with static_loop_iff [OF assms, of E mf b sels]
    have good: "steps_good mf b sels (pl_steps plan)" and sees: "static_sees E mf b sels (pl_steps plan) st"
      by simp_all
    show ?thesis
      using good sees Inr len
      by (auto simp: validate_static_def foldM_unit_iff static_sees_def)
  qed
qed

section \<open>The cost of a plan without selectors\<close>

text \<open>Small integers are exact in \<open>f64\<close>, so the cost is the number of steps and joins.\<close>

lemma plan_cost_exact:
  "selects steps = 0 \<Longrightarrow> \<forall>s \<in> set steps. st_op s \<noteq> None \<Longrightarrow> length steps + joins steps < 2 ^ 53 \<Longrightarrow>
   plan_cost E mf b sels steps = fl_of_nat (length steps + joins steps)"
proof (induction steps rule: rev_induct)
  case Nil
  show ?case by (simp add: plan_cost_def joins_def)
next
  case (snoc s steps)
  from snoc.prems(2) obtain op where op: "st_op s = Some op" by auto
  have parts: "selects steps = 0" "\<forall>s \<in> set steps. st_op s \<noteq> None"
    "joins (steps @ [s]) = joins steps + (case op of OpJoin _ _ _ \<Rightarrow> 1 | _ \<Rightarrow> 0)"
    using snoc.prems(1,2) op by (auto simp: selects_def joins_def split: op.splits)
  have nosel: "op_cost E mf b sels op = fl_of_nat (1 + (case op of OpJoin _ _ _ \<Rightarrow> 1 | _ \<Rightarrow> 0))"
    using snoc.prems(1) op by (cases op) (simp_all add: selects_def numeral_2_eq_2)
  have "plan_cost E mf b sels (steps @ [s]) =
      fl_add (plan_cost E mf b sels steps) (op_cost E mf b sels op)"
    using op by (simp add: plan_cost_def)
  also have "\<dots> = fl_add (fl_of_nat (length steps + joins steps))
      (fl_of_nat (1 + (case op of OpJoin _ _ _ \<Rightarrow> 1 | _ \<Rightarrow> 0)))"
    using snoc.IH parts(1,2) snoc.prems(3) by (simp add: parts(3) nosel)
  also have "\<dots> = fl_of_nat (length steps + joins steps + (1 + (case op of OpJoin _ _ _ \<Rightarrow> 1 | _ \<Rightarrow> 0)))"
    using snoc.prems(3) by (intro fl_add_of_nat) (simp add: parts(3))
  finally show ?case by (simp add: parts(3) add_ac)
qed

end
