(* ===== verification/Demo_Env.thy ===== *)
theory Demo_Env
  imports Kernel_Run
begin

text \<open>
  An environment whose functions compute, for the concrete runs. Its hash pads or cuts to 32
  bytes and its hex coding is the identity; no property depends on these choices.
\<close>

definition demo_env :: kernel_env where
  "demo_env =
     \<lparr>env_sha256 = (\<lambda>s. take 32 (s @ replicate 32 CHR 0x00)),
      env_hex_encode = (\<lambda>s. s), env_hex_decode = Some,
      env_encode_assertion = (\<lambda>a. concat (map fst (va_fields a))),
      env_show_f64 = (\<lambda>_. ''1.5''), env_powf = (\<lambda>a b. a),
      env_captures_iter = (\<lambda>_ _. []), env_replace_all = (\<lambda>_ s _. s),
      env_is_match = (\<lambda>_ s. list_all (\<lambda>c. 97 \<le> byte c \<and> byte c \<le> 122 \<or> c = CHR '' '') s)\<rparr>"

end
