(* ===== verification/Kernel_Demo.thy ===== *)
theory Kernel_Demo
  imports Demo_Env Kernel_Proof Kernel_Support "HOL-Library.Code_Target_Nat"
begin

text \<open>
  A concrete run, for the witnesses, in the environment of \<open>Demo_Env\<close>: a manifest with three
  handles (two confirmed by the user, one read from the web), two selectors, and plans over them.
\<close>

definition demo_meta :: "string \<Rightarrow> trust_tier \<Rightarrow> i32 list \<Rightarrow> nat \<Rightarrow> handle_meta" where
  "demo_meta subject tier taint seconds =
     \<lparr>hm_subject = subject, hm_predicate_label = ''prefers'',
      hm_trust_tier = trust_tier_to_i32 tier, hm_taint = taint,
      hm_temporal = Some \<lparr>tb_valid_from = Some \<lparr>ts_seconds = word_of_nat seconds, ts_nanos = 0\<rparr>,
        tb_valid_to = None, tb_open_end = True\<rparr>,
      hm_scope = scope_to_i32 ScopeGlobal\<rparr>"

definition demo_handle :: "string \<Rightarrow> string \<Rightarrow> trust_tier \<Rightarrow> i32 list \<Rightarrow> nat \<Rightarrow> handle_ref" where
  "demo_handle ref subject tier taint seconds =
     \<lparr>h_ref = ref, h_type_id = ''memory'', h_availability = handle_availability_to_i32 Ready,
      h_meta = Some (demo_meta subject tier taint seconds),
      h_signature_summary = ''sig'', h_conflict_group_id = ''g''\<rparr>"

definition demo_h1 :: handle_ref where
  "demo_h1 = demo_handle ''H1'' ''user'' Tier3Confirmed [taint_class_to_i32 TaintUser] 5"

definition demo_h2 :: handle_ref where
  "demo_h2 = demo_handle ''H2'' ''user'' Tier3Confirmed [] 9"

definition demo_h3 :: handle_ref where
  "demo_h3 = demo_handle ''H3'' ''web'' Tier1Asserted [taint_class_to_i32 TaintWebUntrusted] 2"

definition demo_select :: "string \<Rightarrow> selector_return \<Rightarrow> selector_ref" where
  "demo_select name ret =
     \<lparr>sel_sel = name, sel_description = [],
      sel_params = [\<lparr>ps_name = ''subject'', ps_type = param_type_to_i32 ParamString, ps_enum_values = []\<rparr>],
      sel_cost_weight = 0, sel_return_type = selector_return_to_i32 ret\<rparr>"

definition demo_manifest :: public_manifest where
  "demo_manifest =
     \<lparr>pm_request_id = ''req'', pm_handles = [demo_h1, demo_h2, demo_h3],
      pm_selectors = [demo_select ''S'' ReturnHandleSet, demo_select ''T'' ReturnStruct],
      pm_context = [], pm_budget = None\<rparr>"

definition demo_step :: "string \<Rightarrow> op \<Rightarrow> step" where
  "demo_step out op = \<lparr>st_out = out, st_op = Some op\<rparr>"

definition demo_bind :: "string \<Rightarrow> string \<Rightarrow> string \<Rightarrow> (string, value_ref) bmap" where
  "demo_bind key reg path = [(key, \<lparr>vr_reg = reg, vr_field_path = path\<rparr>)]"

text \<open>Select the user's handles, keep the one that wins, project a field and assert it.\<close>

definition demo_steps :: "step list" where
  "demo_steps =
     [demo_step ''r0'' (OpApplySelector ''S'' [(''subject'', Some (V_S ''user''))]),
      demo_step ''r1'' (OpFetch ''H1''),
      demo_step ''r2'' (OpJoin ''r0'' ''r1'' (edge_type_to_i32 EdgeSameEntity)),
      demo_step ''r3'' (OpResolve ''r2'' ''default''),
      demo_step ''r4'' (OpProject ''r3'' [''meta.subject'', ''ref'']),
      demo_step ''r5'' (OpAssert (assertion_type_to_i32 AssertUserPreference)
        (demo_bind ''who'' ''r4'' ''meta.subject'') [])]"

definition demo_plan_of :: "step list \<Rightarrow> rmvm_plan" where
  "demo_plan_of steps =
     \<lparr>pl_request_id = ''req'', pl_steps = steps, pl_outputs = [\<lparr>os_reg = st_out (last steps)\<rparr>]\<rparr>"

definition demo_req_of :: "step list \<Rightarrow> execute_request" where
  "demo_req_of steps = \<lparr>er_manifest = Some demo_manifest, er_plan = Some (demo_plan_of steps)\<rparr>"

definition demo_assertion :: verified_assertion where
  "demo_assertion =
     \<lparr>va_assertion_type = assertion_type_to_i32 AssertUserPreference,
      va_fields = [(''who'', Some (V_S ''user''))],
      va_citations = [\<lparr>cc_anchor_digest = ''handle:H1''\<rparr>, \<lparr>cc_anchor_digest = ''handle:H2''\<rparr>]\<rparr>"

lemma demo_assertion_policy:
  "assertion_requires_tier2 (assertion_type_from_i32 (va_assertion_type demo_assertion))"
  by code_simp

lemma demo_assertion_fields: "va_fields demo_assertion = [(''who'', Some (V_S ''user''))]"
  by (simp add: demo_assertion_def)

lemma demo_hash [simp]: "hash_env_ok demo_env"
  by (auto simp: hash_env_ok_def demo_env_def min_def)

definition demo_budget :: normalized_budget where
  "demo_budget = normalize_budget None"

lemma demo_budget [simp]: "normalize_budget (pm_budget demo_manifest) = demo_budget"
  by (simp add: demo_budget_def demo_manifest_def)

definition demo_selectors :: "(string, selector_ref) bmap" where
  "demo_selectors = [(''S'', demo_select ''S'' ReturnHandleSet), (''T'', demo_select ''T'' ReturnStruct)]"

lemma demo_selectors [simp]: "selectors_index (pm_selectors demo_manifest) = demo_selectors"
  by code_simp

lemma demo_struct_sel: "selector_return_from_i32 (sel_return_type (demo_select ''S'' ReturnHandleSet)) = ReturnHandleSet"
  by code_simp

text \<open>A plan runs on the demo manifest when its two stages do.\<close>

definition demo_run :: "step list \<Rightarrow> execute_options \<Rightarrow> exec_stop + run_state" where
  "demo_run steps opts = run_steps demo_manifest demo_budget opts steps"

definition demo_static :: "step list \<Rightarrow> exec_stop + unit" where
  "demo_static steps =
     validate_static demo_env demo_manifest (demo_plan_of steps) demo_budget demo_selectors"

lemma demo_run_plan:
  "demo_static steps = Ok () \<Longrightarrow>
   run_plan demo_env demo_manifest (demo_plan_of steps) opts = demo_run steps opts"
  by (simp add: run_plan_def demo_static_def demo_run_def)
    (simp add: id_mismatch_def demo_plan_of_def demo_manifest_def)

lemma demo_req [simp]:
  "er_manifest (demo_req_of steps) = Some demo_manifest"
  "er_plan (demo_req_of steps) = Some (demo_plan_of steps)"
  by (simp_all add: demo_req_of_def)

definition demo_state :: run_state where
  "demo_state = (case demo_run demo_steps default_options of Ok rs \<Rightarrow> rs | Err _ \<Rightarrow> run_init)"

lemma demo_steps_static: "demo_static demo_steps = Ok ()"
  by code_simp

lemma demo_steps_run: "demo_run demo_steps default_options = Ok demo_state"
proof -
  have "is_ok (demo_run demo_steps default_options)" by code_simp
  then show ?thesis by (auto simp: demo_state_def is_ok_iff)
qed

lemma demo_state_assertions: "rn_assertions demo_state = [demo_assertion]"
  by code_simp

lemma demo_plan_run: "run_plan demo_env demo_manifest (demo_plan_of demo_steps) default_options = Ok demo_state"
  by (simp add: demo_run_plan demo_steps_static demo_steps_run)

text \<open>An accepted plan that completes on the demo manifest gives a response with a proof.\<close>

lemma demo_completes:
  assumes "demo_static steps = Ok ()" and "demo_run steps default_options = Ok rs"
  shows "\<exists>resp pf. execute demo_env (demo_req_of steps) default_options = Some resp \<and>
     rs_assertions resp = rn_assertions rs \<and> rs_proof resp = Some pf \<and>
     build_proof demo_env (rn_assertions rs) (rn_trace rs) = Some pf"
  using execute_completes [OF demo_hash demo_req, of steps default_options rs] assms
  by (auto simp: demo_run_plan default_options_def)

lemma demo_execute:
  "\<exists>resp pf. execute demo_env (demo_req_of demo_steps) default_options = Some resp \<and>
     rs_assertions resp = [demo_assertion] \<and> rs_proof resp = Some pf"
  using demo_completes [OF demo_steps_static demo_steps_run] by (auto simp: demo_state_assertions)

text \<open>A shorter plan that asserts the same fields.\<close>

definition demo_short :: "step list" where
  "demo_short =
     [demo_step ''r0'' (OpFetch ''H1''),
      demo_step ''r1'' (OpAssert (assertion_type_to_i32 AssertUserPreference)
        (demo_bind ''who'' ''r0'' ''meta.subject'') [])]"

definition demo_short_state :: run_state where
  "demo_short_state = (case demo_run demo_short default_options of Ok rs \<Rightarrow> rs | Err _ \<Rightarrow> run_init)"

definition demo_short_assertion :: verified_assertion where
  "demo_short_assertion =
     \<lparr>va_assertion_type = assertion_type_to_i32 AssertUserPreference,
      va_fields = [(''who'', Some (V_S ''user''))],
      va_citations = [\<lparr>cc_anchor_digest = ''handle:H1''\<rparr>]\<rparr>"

lemma demo_short_static: "demo_static demo_short = Ok ()"
  by code_simp

lemma demo_short_run: "demo_run demo_short default_options = Ok demo_short_state"
proof -
  have "is_ok (demo_run demo_short default_options)" by code_simp
  then show ?thesis by (auto simp: demo_short_state_def is_ok_iff)
qed

lemma demo_short_assertions: "rn_assertions demo_short_state = [demo_short_assertion]"
  by code_simp

lemma demo_short_execute:
  "\<exists>resp pf. execute demo_env (demo_req_of demo_short) default_options = Some resp \<and>
     rs_assertions resp = [demo_short_assertion] \<and> rs_proof resp = Some pf"
  using demo_completes [OF demo_short_static demo_short_run] by (auto simp: demo_short_assertions)

lemma demo_same_bytes:
  "canonical_assertion_bytes demo_env demo_short_assertion = ''who''"
  "canonical_assertion_bytes demo_env demo_assertion = ''who''"
  by code_simp+

text \<open>The demo plan has no selector that returns a struct.\<close>

lemma demo_no_struct: "struct_params demo_manifest (plan_ops (demo_plan_of demo_steps)) = {}"
  using demo_struct_sel
  by (auto simp: struct_params_def plan_ops_def demo_plan_of_def demo_steps_def demo_step_def
      demo_selectors_def bm_get_def)

end
