(* ===== verification/Kernel_Properties.thy ===== *)
theory Kernel_Properties
  imports Kernel_Citations Kernel_Fanout Kernel_Spec Kernel_Shape Kernel_Accept Kernel_Demo
begin

text \<open>
  The properties of the kernel: what an assertion that leaves \<open>execute\<close> rests on, what its
  proof is worth, which plans are accepted, how a request can end, and what RESOLVE and JOIN
  compute. Each is a few steps over the lemmas of the kernel theories; its witness applies
  it to the run of \<open>Kernel_Demo\<close>.
\<close>

section \<open>Assertions\<close>

text \<open>C1. The trust gate, end to end. Every value in an assertion that can change the
  user's policy (a preference, a decision or a procedure) in an OK response is a field of a
  handle of the manifest whose trust is at least \<open>TIER_2_VERIFIED\<close> and whose taint classes
  contain neither \<open>WEB_UNTRUSTED\<close> nor \<open>MIXED\<close>; or it is an integer (a count), or it is a
  parameter the plan gave to a selector that returns a struct.\<close>

theorem policy_assertions_trusted:
  assumes "execute E req opts = Some resp" and "a \<in> set (rs_assertions resp)"
    and "er_manifest req = Some mf" and "er_plan req = Some plan"
    and "assertion_requires_tier2 (assertion_type_from_i32 (va_assertion_type a))"
    and "x \<in> snd ` set (va_fields a)"
  shows "(\<exists>h \<in> set (pm_handles mf). (\<exists>path. handle_field h path = Some x) \<and>
       Tier2Verified \<le> handle_trust h \<and> \<not> has_untrusted_taint (handle_taint h)) \<or>
     (\<exists>n. x = Some (V_I64 n)) \<or> x \<in> struct_params mf (plan_ops plan)"
proof -
  have "assertion_supported mf (struct_params mf (plan_ops plan)) opts a"
    by (rule support.response_keeps [OF assms(1-4) refl subset_refl])
  then obtain prov taint trust where
    "value_backed mf (struct_params mf (plan_ops plan)) prov taint trust x"
    "Tier2Verified \<le> trust" "\<not> has_untrusted_taint taint"
    using assms(5,6) by (auto simp: assertion_supported_def)
  then show ?thesis
    by (auto simp: value_backed_def backs_def has_untrusted_taint_def intro: order_trans)
qed

lemma policy_assertions_trusted_witness:
  "\<exists>h \<in> set (pm_handles demo_manifest). (\<exists>path. handle_field h path = Some (Some (V_S ''user''))) \<and>
     Tier2Verified \<le> handle_trust h \<and> \<not> has_untrusted_taint (handle_taint h)"
proof -
  from demo_execute obtain resp where
    resp: "execute demo_env (demo_req_of demo_steps) default_options = Some resp"
      "rs_assertions resp = [demo_assertion]" by blast
  from policy_assertions_trusted [OF resp(1) _ demo_req demo_assertion_policy, of "Some (V_S ''user'')"]
  show ?thesis using resp(2) by (simp add: demo_no_struct demo_assertion_fields)
qed

text \<open>C2. No invented facts. Every value in any assertion of an OK response is a field of a
  handle of the manifest whose lineage is not broken (unless the kernel runs in degraded
  mode), or an integer, or a parameter the plan gave to a selector that returns a struct.\<close>

theorem assertion_values_grounded:
  assumes "execute E req opts = Some resp" and "a \<in> set (rs_assertions resp)"
    and "er_manifest req = Some mf" and "er_plan req = Some plan"
    and "x \<in> snd ` set (va_fields a)"
  shows "(\<exists>h \<in> set (pm_handles mf). (\<exists>path. handle_field h path = Some x) \<and>
       \<not> broken opts (h_ref h)) \<or>
     (\<exists>n. x = Some (V_I64 n)) \<or> x \<in> struct_params mf (plan_ops plan)"
proof -
  have "assertion_supported mf (struct_params mf (plan_ops plan)) opts a"
    by (rule support.response_keeps [OF assms(1-4) refl subset_refl])
  with assms(5) show ?thesis
    unfolding assertion_supported_def value_backed_def backs_def by blast
qed

lemma assertion_values_grounded_witness:
  "\<exists>h \<in> set (pm_handles demo_manifest). (\<exists>path. handle_field h path = Some (Some (V_S ''user''))) \<and>
     \<not> broken default_options (h_ref h)"
proof -
  from demo_execute obtain resp where
    resp: "execute demo_env (demo_req_of demo_steps) default_options = Some resp"
      "rs_assertions resp = [demo_assertion]" by blast
  from assertion_values_grounded [OF resp(1) _ demo_req, of demo_assertion "Some (V_S ''user'')"]
  show ?thesis using resp(2) by (simp add: demo_no_struct demo_assertion_fields)
qed

text \<open>C17. Citations the kernel makes. When no ASSERT of the plan names citations, the
  citations of every assertion are in strictly ascending order, and each is the anchor of a
  handle of the manifest whose lineage is not broken.\<close>

theorem default_citations_sound:
  assumes "execute E req opts = Some resp" and "a \<in> set (rs_assertions resp)"
    and "er_manifest req = Some mf" and "er_plan req = Some plan"
    and "\<forall>op \<in> plan_ops plan. defaults_citations op"
  shows "sorted_wrt (<) (map cc_anchor_digest (va_citations a)) \<and>
     (\<forall>c \<in> set (va_citations a). \<exists>h \<in> set (pm_handles mf).
        cc_anchor_digest c = ''handle:'' @ h_ref h \<and> \<not> broken opts (h_ref h))"
proof -
  have "plan_ops plan \<subseteq> {op \<in> plan_ops plan. defaults_citations op}" using assms(5) by blast
  from citing.response_keeps [OF assms(1-4) refl this] show ?thesis
    by (simp add: cites_manifest_def handle_anchor_def)
qed

lemma default_citations_sound_witness:
  "\<exists>h \<in> set (pm_handles demo_manifest). ''handle:H1'' = ''handle:'' @ h_ref h \<and>
     \<not> broken default_options (h_ref h)"
proof -
  from demo_execute obtain resp where
    resp: "execute demo_env (demo_req_of demo_steps) default_options = Some resp"
      "rs_assertions resp = [demo_assertion]" by blast
  have "\<forall>op \<in> plan_ops (demo_plan_of demo_steps). defaults_citations op"
    by (auto simp: plan_ops_def demo_plan_of_def demo_steps_def demo_step_def defaults_citations_def)
  from default_citations_sound [OF resp(1) _ demo_req this, of demo_assertion]
  have "\<forall>c \<in> set (va_citations demo_assertion). \<exists>h \<in> set (pm_handles demo_manifest).
      cc_anchor_digest c = ''handle:'' @ h_ref h \<and> \<not> broken default_options (h_ref h)"
    using resp(2) by simp
  then have "\<exists>h \<in> set (pm_handles demo_manifest).
      cc_anchor_digest \<lparr>cc_anchor_digest = ''handle:H1''\<rparr> = ''handle:'' @ h_ref h \<and>
      \<not> broken default_options (h_ref h)"
    by (rule bspec) (simp add: demo_assertion_def)
  then show ?thesis by (simp only: canonical_citation.simps)
qed

section \<open>The proof\<close>

lemma response_proof_built:
  assumes "execute E req opts = Some resp" and "rs_proof resp = Some pf"
  shows "\<exists>trace. build_proof E (rs_assertions resp) trace = Some pf"
proof -
  have "rs_proof resp \<noteq> None" using assms(2) by simp
  with assms(1) show ?thesis
  proof (rule execute_proofE)
    fix rs pf'
    assume "build_proof E (rn_assertions rs) (rn_trace rs) = Some pf'" and "rs_proof resp = Some pf'"
      and "rs_assertions resp = rn_assertions rs"
    with assms(2) show ?thesis by auto
  qed
qed

text \<open>C5. Inclusion proofs verify. An OK response has one inclusion proof for each assertion;
  hashing the canonical bytes of the assertion and climbing with its sibling hashes, on the
  sides its index says, ends at the semantic root. With at most \<open>2 ^ k\<close> assertions a proof
  has at most \<open>k\<close> siblings.\<close>

theorem inclusion_proofs_verify:
  assumes "hash_env_ok E" and "execute E req opts = Some resp" and "rs_proof resp = Some pf"
    and "i < length (rs_assertions resp)" and "length (rs_assertions resp) \<le> 2 ^ k"
  shows "length (mp_inclusion pf) = length (rs_assertions resp) \<and>
    ip_assertion_index (mp_inclusion pf ! i) = word_of_nat i \<and>
    (\<exists>sibs. ip_sibling_hashes (mp_inclusion pf ! i) = map (env_hex_encode E) sibs \<and> length sibs \<le> k \<and>
       mp_semantic_root pf = env_hex_encode E (climb (hash_pair E) i
         (env_sha256 E (canonical_assertion_bytes E (rs_assertions resp ! i))) sibs))"
proof -
  from response_proof_built [OF assms(2,3)] obtain trace where
    pf: "build_proof E (rs_assertions resp) trace = Some pf" ..
  let ?ls = "map (leaf_digest E) (rs_assertions resp)"
  let ?sibs = "inclusion_path (hash_pair E) ?ls i"
  have "length ?sibs \<le> k"
    using merkle_depth_le [of ?ls k "hash_pair E"] assms(5) by (simp add: length_inclusion_path)
  moreover have "climb (hash_pair E) i (?ls ! i) ?sibs = merkle_root (hash_pair E) ?ls"
    using assms(4) by (intro inclusion_correct) simp
  moreover have "rs_assertions resp \<noteq> []" using assms(4) by auto
  ultimately show ?thesis
    using build_proof_inclusion [OF assms(1) pf assms(4)] build_proof_semantic_root [OF assms(1) pf] assms(4)
    by (intro conjI exI [of _ ?sibs]) (auto simp: leaf_digest_def)
qed

lemma inclusion_proofs_verify_witness:
  "\<exists>resp pf sibs. execute demo_env (demo_req_of demo_steps) default_options = Some resp \<and>
     rs_proof resp = Some pf \<and> ip_sibling_hashes (mp_inclusion pf ! 0) = map (env_hex_encode demo_env) sibs \<and>
     length sibs \<le> 0"
proof -
  from demo_execute obtain resp pf where
    resp: "execute demo_env (demo_req_of demo_steps) default_options = Some resp"
      "rs_assertions resp = [demo_assertion]" "rs_proof resp = Some pf" by blast
  from inclusion_proofs_verify [OF demo_hash resp(1,3), of 0 0] resp show ?thesis by auto
qed

text \<open>C15. The semantic root determines the assertions. Two OK responses with the same number
  of assertions and the same semantic root have the same canonical assertion bytes in the
  same order, provided SHA-256 has no collision among the strings hashed for the two roots.\<close>

theorem semantic_root_determines:
  assumes "hash_env_ok E" and "execute E req opts = Some resp" and "execute E req' opts' = Some resp'"
    and "rs_proof resp = Some pf" and "rs_proof resp' = Some pf'"
    and "mp_semantic_root pf = mp_semantic_root pf'"
    and "length (rs_assertions resp) = length (rs_assertions resp')" and "rs_assertions resp \<noteq> []"
    and "inj_on (env_sha256 E) (hashed_strings E (rs_assertions resp) \<union> hashed_strings E (rs_assertions resp'))"
  shows "map (canonical_assertion_bytes E) (rs_assertions resp) =
    map (canonical_assertion_bytes E) (rs_assertions resp')"
proof -
  from response_proof_built [OF assms(2,4)] obtain trace where
    pf: "build_proof E (rs_assertions resp) trace = Some pf" ..
  from response_proof_built [OF assms(3,5)] obtain trace' where
    pf': "build_proof E (rs_assertions resp') trace' = Some pf'" ..
  have "rs_assertions resp' \<noteq> []" using assms(7,8) by auto
  note roots = build_proof_semantic_root [OF assms(1) pf assms(8)]
    build_proof_semantic_root [OF assms(1) pf' this]
  have "merkle_root (hash_pair E) (map (leaf_digest E) (rs_assertions resp)) =
      merkle_root (hash_pair E) (map (leaf_digest E) (rs_assertions resp'))"
    by (rule hex_encode_inj [OF assms(1) assms(6) [unfolded roots]])
  from semantic_root_binding [OF assms(1,7,8) this assms(9)] show ?thesis .
qed

lemma semantic_root_determines_witness:
  "\<exists>resp resp'. execute demo_env (demo_req_of demo_steps) default_options = Some resp \<and>
     execute demo_env (demo_req_of demo_short) default_options = Some resp' \<and>
     rs_assertions resp \<noteq> rs_assertions resp' \<and>
     map (canonical_assertion_bytes demo_env) (rs_assertions resp) =
       map (canonical_assertion_bytes demo_env) (rs_assertions resp')"
proof -
  from demo_execute obtain resp pf where
    r: "execute demo_env (demo_req_of demo_steps) default_options = Some resp"
      "rs_assertions resp = [demo_assertion]" "rs_proof resp = Some pf" by blast
  from demo_short_execute obtain resp' pf' where
    r': "execute demo_env (demo_req_of demo_short) default_options = Some resp'"
      "rs_assertions resp' = [demo_short_assertion]" "rs_proof resp' = Some pf'" by blast
  from response_proof_built [OF r(1,3)] response_proof_built [OF r'(1,3)] obtain t t' where
    t: "build_proof demo_env [demo_assertion] t = Some pf"
    "build_proof demo_env [demo_short_assertion] t' = Some pf'" unfolding r(2) r'(2) by blast
  have root: "mp_semantic_root pf = mp_semantic_root pf'"
    using build_proof_semantic_root [OF demo_hash t(1)] build_proof_semantic_root [OF demo_hash t(2)]
    by (simp add: leaf_digest_def demo_same_bytes)
  have "hashed_strings demo_env (rs_assertions resp) \<union> hashed_strings demo_env (rs_assertions resp') = {''who''}"
    unfolding r(2) r'(2) by (simp add: hashed_strings_def tree_pairs_def merkle_levels_one demo_same_bytes)
  then have inj: "inj_on (env_sha256 demo_env)
      (hashed_strings demo_env (rs_assertions resp) \<union> hashed_strings demo_env (rs_assertions resp'))"
    by (simp only: inj_on_def) simp
  have len: "length (rs_assertions resp) = length (rs_assertions resp')" "rs_assertions resp \<noteq> []"
    by (simp_all only: r(2) r'(2)) simp_all
  have "rs_assertions resp \<noteq> rs_assertions resp'"
    unfolding r(2) r'(2) by (simp add: demo_assertion_def demo_short_assertion_def)
  with semantic_root_determines [OF demo_hash r(1) r'(1) r(3) r'(3) root len inj] r(1) r'(1)
  show ?thesis by blast
qed

section \<open>Accepted plans\<close>

text \<open>C6. What the static checks accept. For a plan of fewer than \<open>2 ^ 32\<close> steps,
  \<open>validate_static\<close> succeeds exactly when the plan has at most \<open>max_ops\<close> steps; each step has
  an operation and a new, non-blank output register, reads registers declared by then, fetches
  a handle of the manifest, applies a selector of the manifest with parameters that fit its
  specification, and joins within \<open>max_join_depth\<close>; the summed cost is not above
  \<open>max_total_cost\<close>; and every output register is declared.\<close>

theorem static_accepts_iff:
  assumes "length (pl_steps plan) < 2 ^ 32"
  shows "validate_static E mf plan b sels = Ok () \<longleftrightarrow>
    length (pl_steps plan) \<le> unat (max_ops b) \<and>
    steps_good mf b sels (pl_steps plan) \<and>
    \<not> fl_gt (plan_cost E mf b sels (pl_steps plan)) (max_total_cost b) \<and>
    (\<forall>out \<in> set (pl_outputs plan). os_reg out \<in> st_out ` set (pl_steps plan))"
  by (rule static_accepts [OF assms])

lemma demo_plan_parts [simp]:
  "pl_steps (demo_plan_of steps) = steps"
  "pl_outputs (demo_plan_of steps) = [\<lparr>os_reg = st_out (last steps)\<rparr>]"
  by (simp_all add: demo_plan_of_def)

lemma demo_steps_length: "length demo_steps = 6"
  by (simp add: demo_steps_def)

lemma static_accepts_iff_witness:
  "steps_good demo_manifest demo_budget demo_selectors demo_steps \<and>
   \<not> fl_gt (plan_cost demo_env demo_manifest demo_budget demo_selectors demo_steps) (max_total_cost demo_budget)"
  using static_accepts_iff [of "demo_plan_of demo_steps" demo_env demo_manifest demo_budget demo_selectors]
    demo_steps_static
  by (simp add: demo_static_def demo_steps_length)

text \<open>C7. Accepted plans do not get lost. When the static checks accept a plan in which no step
  reads its own output register, the run can only stop with one of the 26 failures listed in
  \<open>run_failures\<close>, none of which is a missing register, handle, selector or parameter, or with
  the stall of a handle of the manifest that is not ready.\<close>

theorem accepted_plan_failures:
  assumes "validate_static E mf plan (normalize_budget (pm_budget mf))
      (selectors_index (pm_selectors mf)) = Ok ()"
    and "\<forall>s \<in> set (pl_steps plan). \<forall>op. st_op s = Some op \<longrightarrow> st_out s \<notin> set (op_reads op)"
    and "run_steps mf (normalize_budget (pm_budget mf)) opts (pl_steps plan) = Err e"
  shows "(\<exists>(c, m) \<in> set run_failures. e = fail_rejected c m) \<or>
     \<not> allow_partial_on_stall opts \<and>
     (\<exists>h \<in> set (pm_handles mf). availability_from_i32 (h_availability h) \<noteq> Ready \<and>
        e = ExecStall (stall_of h))"
  using accepted_run_Err [OF assms(1) _ assms(3)] assms(2)
  by (simp add: no_self_reads_def run_failure_def stalls_on_def)

definition demo_web :: "step list" where
  "demo_web =
     [demo_step ''r0'' (OpFetch ''H3''),
      demo_step ''r1'' (OpAssert (assertion_type_to_i32 AssertUserPreference)
        (demo_bind ''who'' ''r0'' ''meta.subject'') [])]"

lemma demo_web_static: "demo_static demo_web = Ok ()"
  by code_simp

lemma demo_web_run:
  "demo_run demo_web default_options =
     Err (fail_rejected UntrustedProvenance ''assertion requires trust tier >= TIER_2'')"
  by code_simp

lemma accepted_plan_failures_witness:
  "\<exists>(c, m) \<in> set run_failures.
     demo_run demo_web default_options = Err (fail_rejected c m)"
proof -
  have "\<forall>s \<in> set demo_web. \<forall>op. st_op s = Some op \<longrightarrow> st_out s \<notin> set (op_reads op)"
    by (simp add: demo_web_def demo_step_def demo_bind_def bm_values_def)
  from accepted_plan_failures [of demo_env demo_manifest "demo_plan_of demo_web" default_options, OF _ _ ]
    demo_web_static demo_web_run this
  show ?thesis by (simp add: demo_static_def demo_run_def)
qed

text \<open>C18. The join depth at run time. Every register of a completed run carries a join depth of
  at most the budget's \<open>max_join_depth\<close>: the depths the static checks computed are the ones
  the operations compute.\<close>

theorem join_depth_bounded:
  assumes "run_plan E mf plan opts = Ok rs" and "bm_get (rn_regs rs) k = Some x"
  shows "rv_join_depth x \<le> max_join_depth (normalize_budget (pm_budget mf))"
  by (rule completed_run_depth [OF assms])

lemma demo_state_r2:
  "\<exists>x. bm_get (rn_regs demo_state) ''r2'' = Some x \<and> rv_join_depth x = 1 \<and> rv_data x = RHandleSet [demo_h1, demo_h2]"
proof -
  have "map_option (\<lambda>x. (rv_join_depth x, rv_data x)) (bm_get (rn_regs demo_state) ''r2'') =
      Some (1, RHandleSet [demo_h1, demo_h2])" by code_simp
  then show ?thesis by auto
qed

lemma join_depth_bounded_witness:
  "\<exists>x. bm_get (rn_regs demo_state) ''r2'' = Some x \<and> rv_join_depth x = 1 \<and> rv_join_depth x \<le> max_join_depth demo_budget"
  using demo_state_r2 join_depth_bounded [OF demo_plan_run, of "''r2''"] by auto

text \<open>C19. The fanout bound. For a manifest of fewer than \<open>2 ^ 32\<close> handles, every handle set in
  a register of a completed run has at most \<open>max_fanout\<close> handles.\<close>

theorem fanout_bounded:
  assumes "run_plan E mf plan opts = Ok rs" and "bm_get (rn_regs rs) k = Some x"
    and "rv_data x = RHandleSet hs" and "length (pm_handles mf) < 2 ^ 32"
  shows "length hs \<le> unat (max_fanout (normalize_budget (pm_budget mf)))"
proof -
  let ?b = "normalize_budget (pm_budget mf)"
  have "plan_ops plan \<subseteq> {op \<in> plan_ops plan. length (pm_handles mf) < 2 ^ 32}" using assms(4) by blast
  from fanning.plan_keeps [OF assms(1) refl this] assms(2) have "fanout_ok ?b x"
    unfolding fanning.run_ok_def by blast
  with assms(3) show ?thesis by (simp add: fanout_ok_def)
qed

lemma fanout_bounded_witness:
  "\<exists>x. bm_get (rn_regs demo_state) ''r2'' = Some x \<and> rv_data x = RHandleSet [demo_h1, demo_h2] \<and>
     length [demo_h1, demo_h2] \<le> unat (max_fanout demo_budget)"
proof -
  from demo_state_r2 obtain x where x: "bm_get (rn_regs demo_state) ''r2'' = Some x"
    "rv_data x = RHandleSet [demo_h1, demo_h2]" by blast
  have "length (pm_handles demo_manifest) < 2 ^ 32" by (simp add: demo_manifest_def)
  from fanout_bounded [OF demo_plan_run x this] x show ?thesis by auto
qed

text \<open>The cost of a plan without selectors. It is the number of steps plus the number of
  joins, exactly; so the cost guard accepts such a plan when that sum is at most an integer
  \<open>max_total_cost\<close>, and rejects it when it is larger.\<close>

theorem selector_free_cost:
  assumes "length (pl_steps plan) < 2 ^ 32" and "steps_good mf b sels (pl_steps plan)"
    and "length (pl_steps plan) \<le> unat (max_ops b)"
    and "\<forall>out \<in> set (pl_outputs plan). os_reg out \<in> st_out ` set (pl_steps plan)"
    and "selects (pl_steps plan) = 0" and "max_total_cost b = fl_of_nat budget"
  shows "validate_static E mf plan b sels = Ok () \<longleftrightarrow>
    length (pl_steps plan) + joins (pl_steps plan) \<le> budget"
proof -
  have "\<forall>s \<in> set (pl_steps plan). st_op s \<noteq> None"
    using assms(2) unfolding steps_good_def step_good_def by (metis in_set_conv_nth option.discI)
  moreover have "joins (pl_steps plan) \<le> length (pl_steps plan)" by (simp add: joins_def)
  ultimately have "plan_cost E mf b sels (pl_steps plan) =
      fl_of_nat (length (pl_steps plan) + joins (pl_steps plan))"
    using assms(1,5) by (intro plan_cost_exact) auto
  then show ?thesis using static_accepts [OF assms(1), of E mf b sels] assms by (simp add: not_less)
qed

lemma selector_free_cost_witness:
  "length demo_short + joins demo_short = 2 \<and> length demo_short + joins demo_short \<le> 512"
proof -
  have small: "length demo_short < 2 ^ 32" "selects demo_short = 0" "joins demo_short = 0"
    "length demo_short = 2"
    by (simp_all add: demo_short_def demo_step_def selects_def joins_def)
  have ok: "validate_static demo_env demo_manifest (demo_plan_of demo_short) demo_budget demo_selectors = Ok ()"
    using demo_short_static by (simp add: demo_static_def)
  have cost: "max_total_cost demo_budget = fl_of_nat 512"
    by (simp add: demo_budget_def normalize_budget_def default_to_def)
  from ok static_accepts [of "demo_plan_of demo_short" demo_env demo_manifest demo_budget demo_selectors] small
  have "steps_good demo_manifest demo_budget demo_selectors demo_short"
    "length demo_short \<le> unat (max_ops demo_budget)"
    "\<forall>out \<in> set (pl_outputs (demo_plan_of demo_short)). os_reg out \<in> st_out ` set demo_short" by simp_all
  with selector_free_cost [of "demo_plan_of demo_short" demo_manifest demo_budget demo_selectors 512 demo_env]
    ok small cost
  show ?thesis by simp
qed

end
