(* ===== verification/Kernel_Meaning.thy ===== *)
theory Kernel_Meaning
  imports Kernel_Spec Kernel_Shape Kernel_Accept Kernel_Demo
begin

text \<open>
  More properties of the kernel: how a request can end, and what RESOLVE and JOIN compute
  and do not depend on.
\<close>

section \<open>How a request ends\<close>

text \<open>C20. A response is OK, STALL or REJECTED, each with the fields that go with it and no
  others: OK has a proof and rendered output, no stall and no error; STALL has the stall of a
  handle of the manifest that is not ready, with ticket \<open>ticket:<ref>\<close>, and only when partial
  answers are not allowed; REJECTED has an error and nothing else.\<close>

theorem response_shape:
  assumes "execute E req opts = Some resp"
  shows "(rs_status resp = execution_status_to_i32 StatusOk \<and> rs_proof resp \<noteq> None \<and>
      rs_rendered resp \<noteq> None \<and> rs_stall resp = None \<and> rs_error resp = None) \<or>
    (rs_status resp = execution_status_to_i32 StatusStall \<and> rs_assertions resp = [] \<and>
      rs_proof resp = None \<and> rs_rendered resp = None \<and> rs_error resp = None \<and>
      \<not> allow_partial_on_stall opts \<and>
      (\<exists>mf h. er_manifest req = Some mf \<and> h \<in> set (pm_handles mf) \<and>
         availability_from_i32 (h_availability h) \<noteq> Ready \<and>
         rs_stall resp = Some \<lparr>si_handle_ref = h_ref h, si_availability = h_availability h,
           si_estimated_ready_at = None, si_retrieval_ticket = ''ticket:'' @ h_ref h\<rparr>)) \<or>
    (rs_status resp = execution_status_to_i32 StatusRejected \<and> rs_assertions resp = [] \<and>
      rs_proof resp = None \<and> rs_rendered resp = None \<and> rs_stall resp = None \<and>
      (\<exists>c msg. rs_error resp = Some \<lparr>ee_code = error_code_to_i32 c, ee_message = msg, ee_hints = []\<rparr>))"
  by (rule response_cases [OF assms])

lemma response_shape_witness:
  "\<exists>resp. execute demo_env (demo_req_of demo_short) default_options = Some resp \<and>
     rs_status resp = execution_status_to_i32 StatusOk \<and> rs_stall resp = None \<and> rs_error resp = None"
proof -
  from demo_short_execute obtain resp pf where
    r: "execute demo_env (demo_req_of demo_short) default_options = Some resp"
      "rs_proof resp = Some pf" by blast
  with response_shape [OF r(1)] show ?thesis by auto
qed

text \<open>C21. The kernel does not panic. With the documented behaviour of the hash, hex and regex
  libraries every request gets a response, whatever the manifest, the plan and the options.\<close>

theorem execute_total:
  assumes "hash_env_ok E" and "\<forall>t \<in> set (narrative_templates opts). captures_ok E t"
  shows "\<exists>resp. execute E req opts = Some resp"
  using execute_inner_total [OF assms, of req] by (auto simp: execute_def)

lemma execute_total_witness:
  "\<exists>resp. execute demo_env \<lparr>er_manifest = None, er_plan = None\<rparr>
     (default_options\<lparr>narrative_templates := [''hello'']\<rparr>) = Some resp"
proof (rule execute_total [OF demo_hash])
  show "\<forall>t \<in> set (narrative_templates (default_options\<lparr>narrative_templates := [''hello'']\<rparr>)).
      captures_ok demo_env t"
    by (simp add: captures_ok_def demo_env_def is_char_boundary_def byte_def)
qed

text \<open>C22. The narrative guard. In an OK response there is one narrative block for each
  template of the options, and every template passed the grammar: with its bindings and
  macros removed it matches the prose pattern.\<close>

theorem narrative_guarded:
  assumes "execute E req opts = Some resp" and "rs_rendered resp = Some ro"
  shows "length (ro_narrative_blocks ro) = length (narrative_templates opts) \<and>
    (\<forall>i < length (narrative_templates opts).
       valid_narrative_template E (narrative_templates opts ! i) \<and>
       render_narrative_template E (narrative_templates opts ! i) (rs_assertions resp) =
         Some (Ok (ro_narrative_blocks ro ! i)))"
proof -
  from assms(1) obtain m where m: "execute_inner E req opts = Some m" "resp = response_of m"
    by (auto simp: execute_def)
  with assms(2) obtain as pf where ok: "m = Ok (as, pf, ro)"
    by (cases m rule: response_of.cases) auto
  with m have "\<exists>blocks. narrative_blocks E as (narrative_templates opts) = Some (Ok blocks) \<and>
      ro_narrative_blocks ro = blocks"
    by (auto simp: execute_inner_def render_output_def split: option.splits sum.splits)
  with narrative_blocks_Ok [of E as "narrative_templates opts"] m(2) ok show ?thesis by auto
qed

definition demo_story :: execute_options where
  "demo_story = default_options\<lparr>narrative_templates := [''hello'']\<rparr>"

lemma demo_story_parts:
  "is_ok (demo_run demo_short demo_story)"
  "narrative_blocks demo_env as (narrative_templates demo_story) = Some (Ok [''hello''])"
  by code_simp+

lemma narrative_guarded_witness:
  "\<exists>resp ro. execute demo_env (demo_req_of demo_short) demo_story = Some resp \<and>
     rs_rendered resp = Some ro \<and> length (ro_narrative_blocks ro) = 1 \<and>
     valid_narrative_template demo_env ''hello''"
proof -
  from demo_story_parts(1) obtain rs where "demo_run demo_short demo_story = Ok rs"
    by (auto simp: is_ok_iff)
  then have "run_plan demo_env demo_manifest (demo_plan_of demo_short) demo_story = Ok rs"
    by (simp add: demo_run_plan demo_short_static)
  then obtain resp ro where r: "execute demo_env (demo_req_of demo_short) demo_story = Some resp"
    "rs_rendered resp = Some ro"
    by (auto simp: execute_def execute_inner_def build_proof_eq render_output_def demo_story_parts(2))
  from narrative_guarded [OF this] r show ?thesis by (auto simp: demo_story_def)
qed

section \<open>RESOLVE, JOIN and the order of handles\<close>

text \<open>C23. RESOLVE picks the unique winner. On the handles of its input register RESOLVE
  succeeds exactly when one of them outranks every other by trust tier and then by the start
  of its validity, and then it returns that handle with the provenance, taint, trust and join
  depth of the input.\<close>

theorem resolve_unique_winner:
  assumes "bm_get regs in_reg = Some x" and "as_handles x = Ok hs"
  shows "exec_resolve in_reg pol regs = Ok r \<longleftrightarrow>
    (\<exists>pre w post. hs = pre @ w # post \<and>
       (\<forall>h \<in> set pre \<union> set post. (sint (resolve_trust h), sint (resolve_ts h)) <
          (sint (resolve_trust w), sint (resolve_ts w))) \<and>
       r = x\<lparr>rv_data := RHandle w, rv_source := SrcResolve\<rparr>)"
proof -
  have upd: "x\<lparr>rv_data := RHandle w, rv_source := SrcResolve\<rparr> =
      \<lparr>rv_data = RHandle w, rv_provenance = rv_provenance x, rv_taint = rv_taint x,
       rv_min_trust = rv_min_trust x, rv_join_depth = rv_join_depth x, rv_source = SrcResolve\<rparr>" for w
    by (cases x) simp
  show ?thesis unfolding upd exec_resolve_iff [OF assms] resolve_rank_def ..
qed

definition demo_reg :: reg_value where
  "demo_reg = \<lparr>rv_data = RHandleSet [demo_h1, demo_h2], rv_provenance = [''H1'', ''H2''],
     rv_taint = [], rv_min_trust = Tier3Confirmed, rv_join_depth = 1, rv_source = SrcJoin\<rparr>"

lemma demo_reg_ranks:
  "resolve_trust demo_h1 = resolve_trust demo_h2" "sint (resolve_ts demo_h1) < sint (resolve_ts demo_h2)"
  by code_simp+

lemma resolve_unique_winner_witness:
  "exec_resolve ''r'' ''p'' [(''r'', demo_reg)] = Ok (demo_reg\<lparr>rv_data := RHandle demo_h2, rv_source := SrcResolve\<rparr>)"
proof -
  have reg: "bm_get [(''r'', demo_reg)] ''r'' = Some demo_reg" "as_handles demo_reg = Ok [demo_h1, demo_h2]"
    by (simp_all add: bm_get_def as_handles_def demo_reg_def)
  show ?thesis
    unfolding resolve_unique_winner [OF reg]
    by (intro exI [of _ "[demo_h1]"] exI [of _ demo_h2] exI [of _ "[]"]) (simp add: demo_reg_ranks)
qed

text \<open>C24. JOIN is a semi-join. When the references of the handles on both sides tell them
  apart, a JOIN that succeeds returns the handles of either side that have a partner across
  the edge on the other side, and no others, in ascending order of their references, with
  the provenance and taint of both sides and the lower of their trust tiers.\<close>

theorem join_semi_join:
  assumes "exec_join lreg rreg et regs b = Ok out"
    and "bm_get regs lreg = Some x" and "as_handles x = Ok ls"
    and "bm_get regs rreg = Some y" and "as_handles y = Ok rs"
    and "inj_on h_ref (set ls \<union> set rs)"
  shows "\<exists>hs. rv_data out = RHandleSet hs \<and> sorted_wrt (<) (map h_ref hs) \<and>
    set hs = {l \<in> set ls. \<exists>r \<in> set rs. join_include (edge_type_from_i32 et) l r} \<union>
             {r \<in> set rs. \<exists>l \<in> set ls. join_include (edge_type_from_i32 et) l r} \<and>
    set (rv_provenance out) = set (rv_provenance x) \<union> set (rv_provenance y) \<and>
    set (rv_taint out) = set (rv_taint x) \<union> set (rv_taint y) \<and>
    rv_min_trust out = min (rv_min_trust x) (rv_min_trust y)"
  using assms(1-5) join_handles_values_set [OF assms(6), of "edge_type_from_i32 et"]
    join_handles_values_sorted [of "edge_type_from_i32 et" ls rs]
  by (auto simp: exec_join_def Let_def joined_pairs_def min_tier_min split: if_splits)

definition demo_left :: reg_value where
  "demo_left = demo_reg\<lparr>rv_data := RHandleSet [demo_h1, demo_h3]\<rparr>"

lemma demo_join:
  "is_ok (exec_join ''l'' ''r'' (edge_type_to_i32 EdgeSameEntity) [(''l'', demo_left), (''r'', demo_reg)] demo_budget)"
  "join_include (edge_type_from_i32 (edge_type_to_i32 EdgeSameEntity)) demo_h1 demo_h2"
  "\<not> join_include (edge_type_from_i32 (edge_type_to_i32 EdgeSameEntity)) demo_h3 demo_h1"
  "\<not> join_include (edge_type_from_i32 (edge_type_to_i32 EdgeSameEntity)) demo_h3 demo_h2"
  "\<not> join_include (edge_type_from_i32 (edge_type_to_i32 EdgeSameEntity)) demo_h1 demo_h3"
  by code_simp+

lemma demo_refs: "h_ref demo_h1 = ''H1''" "h_ref demo_h2 = ''H2''" "h_ref demo_h3 = ''H3''"
  by (simp_all add: demo_h1_def demo_h2_def demo_h3_def demo_handle_def)

lemma join_semi_join_witness:
  "\<exists>out hs. exec_join ''l'' ''r'' (edge_type_to_i32 EdgeSameEntity)
       [(''l'', demo_left), (''r'', demo_reg)] demo_budget = Ok out \<and>
     rv_data out = RHandleSet hs \<and> demo_h1 \<in> set hs \<and> demo_h3 \<notin> set hs"
proof -
  from demo_join(1) obtain out where out: "exec_join ''l'' ''r'' (edge_type_to_i32 EdgeSameEntity)
      [(''l'', demo_left), (''r'', demo_reg)] demo_budget = Ok out"
    by (auto simp: is_ok_iff)
  have regs: "bm_get [(''l'', demo_left), (''r'', demo_reg)] ''l'' = Some demo_left"
    "as_handles demo_left = Ok [demo_h1, demo_h3]"
    "bm_get [(''l'', demo_left), (''r'', demo_reg)] ''r'' = Some demo_reg"
    "as_handles demo_reg = Ok [demo_h1, demo_h2]"
    by (simp_all add: bm_get_def as_handles_def demo_reg_def demo_left_def)
  have inj: "inj_on h_ref (set [demo_h1, demo_h3] \<union> set [demo_h1, demo_h2])"
    by (simp add: inj_on_def demo_refs)
  have "demo_h3 \<noteq> demo_h1" "demo_h3 \<noteq> demo_h2" using demo_refs by auto
  with join_semi_join [OF out regs inj] out demo_join(2-) show ?thesis by auto
qed

text \<open>C25. The order in which the manifest lists its handles does not matter: when each
  reference occurs once, a manifest with the same handles in another order gets the same
  response, to the byte.\<close>

theorem handle_order_irrelevant:
  assumes "er_manifest req = Some mf" and "distinct (map h_ref (pm_handles mf))"
    and "mset hs = mset (pm_handles mf)"
  shows "execute E (req\<lparr>er_manifest := Some (mf\<lparr>pm_handles := hs\<rparr>)\<rparr>) opts = execute E req opts"
proof -
  have "reordered mf (mf\<lparr>pm_handles := hs\<rparr>)" using assms(2,3) by (auto simp: reordered_def)
  from reordered_run_plan [OF this] assms(1) show ?thesis
    by (cases "er_plan req") (simp_all add: execute_def execute_inner_def)
qed

lemma handle_order_irrelevant_witness:
  "\<exists>resp. execute demo_env ((demo_req_of demo_steps)\<lparr>er_manifest :=
       Some (demo_manifest\<lparr>pm_handles := [demo_h3, demo_h2, demo_h1]\<rparr>)\<rparr>) default_options = Some resp \<and>
     rs_assertions resp = [demo_assertion]"
proof -
  have "distinct (map h_ref (pm_handles demo_manifest))"
    "mset [demo_h3, demo_h2, demo_h1] = mset (pm_handles demo_manifest)"
    by (simp_all add: demo_manifest_def demo_refs)
  from handle_order_irrelevant [OF demo_req(1) this] demo_execute show ?thesis by metis
qed

end
