(* ===== verification/Kernel_Findings.thy ===== *)
theory Kernel_Findings
  imports Kernel_Meaning
begin

text \<open>
  Where the kernel does not do what it seems meant to do, each as a lemma about the model:
  a step may read its own output register as far as the static checks are concerned; a
  selector that returns a struct hands plan-supplied values to an assertion and reports the
  number of all handles as its \<open>matched_count\<close>; a budget that is not a number switches the
  cost guard off, and a budget of the manifest may pass the documented bounds; a plan without
  assertions has its output registers rendered as verified blocks; and the semantic root of an odd list of assertions is that of the list with its last repeated.
\<close>

section \<open>Reading one's own output\<close>

definition self_reading :: "step list" where
  "self_reading = [demo_step ''r0'' (OpResolve ''r0'' ''p'')]"

lemma self_reading_accepted: "demo_static self_reading = Ok ()"
  by code_simp

lemma self_reading_fails:
  "demo_run self_reading opts = Err (fail_rejected SchemaViolation ''RESOLVE input register missing'')"
  by (simp add: demo_run_def run_steps_def self_reading_def run_step_def demo_step_def exec_resolve_def
      run_init_def)

section \<open>Structs\<close>

definition note_selector :: selector_ref where
  "note_selector = (demo_select ''U'' ReturnStruct)\<lparr>sel_params :=
     [\<lparr>ps_name = ''note'', ps_type = param_type_to_i32 ParamString, ps_enum_values = []\<rparr>]\<rparr>"

definition note_manifest :: public_manifest where
  "note_manifest = demo_manifest\<lparr>pm_handles := [demo_h1], pm_selectors := [note_selector]\<rparr>"

definition smuggling :: "step list" where
  "smuggling =
     [demo_step ''r0'' (OpApplySelector ''U'' [(''note'', Some (V_S ''made up''))]),
      demo_step ''r1'' (OpProject ''r0'' [''note'', ''matched_count'']),
      demo_step ''r2'' (OpAssert (assertion_type_to_i32 AssertUserPreference)
        (demo_bind ''who'' ''r1'' ''note'') [])]"

text \<open>The user's preference is text of the plan, cited to a trusted handle that does not say it.\<close>

lemma smuggling_run:
  "validate_static demo_env note_manifest (demo_plan_of smuggling) demo_budget [(''U'', note_selector)] = Ok () \<and>
   (\<exists>rs. run_steps note_manifest demo_budget default_options smuggling = Ok rs \<and>
     rn_assertions rs =
       [\<lparr>va_assertion_type = assertion_type_to_i32 AssertUserPreference,
         va_fields = [(''who'', Some (V_S ''made up''))],
         va_citations = [\<lparr>cc_anchor_digest = ''handle:H1''\<rparr>]\<rparr>])"
proof -
  have "(case run_steps note_manifest demo_budget default_options smuggling of
       Err e \<Rightarrow> None | Ok rs \<Rightarrow> Some (rn_assertions rs)) =
     Some [\<lparr>va_assertion_type = assertion_type_to_i32 AssertUserPreference,
         va_fields = [(''who'', Some (V_S ''made up''))],
         va_citations = [\<lparr>cc_anchor_digest = ''handle:H1''\<rparr>]\<rparr>]" by code_simp
  moreover have "validate_static demo_env note_manifest (demo_plan_of smuggling) demo_budget
      [(''U'', note_selector)] = Ok ()" by code_simp
  ultimately show ?thesis by (auto split: sum.splits)
qed

text \<open>\<open>matched_count\<close> counts the handles of the manifest, not those that matched.\<close>

lemma matched_count_counts_all:
  "map_option rv_data (case exec_apply_selector ''T'' [(''subject'', Some (V_S ''web''))]
       demo_manifest demo_selectors demo_budget of Ok r \<Rightarrow> Some r | Err e \<Rightarrow> None) =
     Some (RStruct [(''matched_count'', Some (V_I64 3)), (''subject'', Some (V_S ''web''))]) \<and>
   length (matched_handles demo_manifest [(''subject'', Some (V_S ''web''))]) = 1"
  by (intro conjI) code_simp+

section \<open>The budget\<close>

lemma nan_budget_never_rejects:
  assumes "length (pl_steps plan) < 2 ^ 32" and "max_total_cost b = FNan"
  shows "validate_static E mf plan b sels = Ok () \<longleftrightarrow>
    length (pl_steps plan) \<le> unat (max_ops b) \<and> steps_good mf b sels (pl_steps plan) \<and>
    (\<forall>out \<in> set (pl_outputs plan). os_reg out \<in> st_out ` set (pl_steps plan))"
  using static_accepts [OF assms(1), of E mf b sels] assms(2) by simp

lemma nan_budget_is_kept:
  "max_total_cost (normalize_budget (Some \<lparr>pb_max_ops = 1, pb_max_join_depth = 1, pb_max_fanout = 1,
     pb_max_total_cost = 0x7FF8000000000000\<rparr>)) = FNan"
  by (simp add: normalize_budget_def default_to_def fl_of_bits_def)

lemma budget_has_no_ceiling:
  "n \<noteq> 0 \<Longrightarrow> d \<noteq> 0 \<Longrightarrow>
   max_ops (normalize_budget (Some \<lparr>pb_max_ops = n, pb_max_join_depth = d, pb_max_fanout = f,
     pb_max_total_cost = c\<rparr>)) = n \<and>
   max_join_depth (normalize_budget (Some \<lparr>pb_max_ops = n, pb_max_join_depth = d, pb_max_fanout = f,
     pb_max_total_cost = c\<rparr>)) = d"
  by (simp add: normalize_budget_def default_to_def non_zero_def)

section \<open>Outputs without assertions\<close>

text \<open>A plan that asserts nothing still answers: its output registers are rendered as verified
  blocks, here a field of the handle that was read from the web, without a gate or a citation.\<close>

definition unasserted :: "step list" where
  "unasserted = [demo_step ''r0'' (OpFetch ''H3''), demo_step ''r1'' (OpProject ''r0'' [''meta.subject''])]"

lemma unasserted_output_rendered:
  "\<exists>resp. execute demo_env (demo_req_of unasserted) default_options = Some resp \<and> rs_assertions resp = [] \<and>
     map_option ro_verified_blocks (rs_rendered resp) = Some [''r1=STRUCT(meta.subject:web)'']"
proof -
  have "map_option (\<lambda>r. (rs_assertions r, map_option ro_verified_blocks (rs_rendered r)))
      (execute demo_env (demo_req_of unasserted) default_options) =
    Some ([], Some [''r1=STRUCT(meta.subject:web)''])" by code_simp
  then show ?thesis by auto
qed

section \<open>The semantic root\<close>

lemma semantic_root_repeat_last:
  assumes "hash_env_ok E" and "odd (length as)" and "1 < length as"
    and "build_proof E as tr = Some pf" and "build_proof E (as @ [last as]) tr' = Some pf'"
  shows "mp_semantic_root pf' = mp_semantic_root pf"
proof -
  have ne: "as \<noteq> []" using assms(3) by auto
  have "merkle_root (hash_pair E) (map (leaf_digest E) (as @ [last as])) =
      merkle_root (hash_pair E) (map (leaf_digest E) as)"
    using merkle_root_repeat_last [of "map (leaf_digest E) as" "hash_pair E"] assms(2,3) ne
    by (simp add: last_map)
  then show ?thesis
    using build_proof_semantic_root [OF assms(1,4) ne] build_proof_semantic_root [OF assms(1,5)] by simp
qed

end
