(* ===== verification/Json.thy ===== *)
theory Json
  imports Proto Rust_Str Float64
begin

text \<open>
  \<open>serde_json::Value\<close> and the accessors the planner guard uses. A number is what
  \<open>serde_json\<close> keeps of it: a \<open>u64\<close>, a negative \<open>i64\<close> or an \<open>f64\<close>; an object is a
  \<open>BTreeMap\<close>, its entries in ascending order of the keys (the feature
  \<open>preserve_order\<close> is off). \<open>find_sub\<close> and the two searches for a character are
  \<open>str::find\<close> and \<open>str::rfind\<close> on the bytes.
\<close>

section \<open>Values\<close>

datatype json_number = NPos u64 | NNeg i64 | NFloat f64

datatype json =
    JNull
  | JBool bool
  | JNum json_number
  | JStr string
  | JArr "json list"
  | JObj "(string \<times> json) list"

type_synonym json_map = "(string, json) bmap"

fun as_str :: "json \<Rightarrow> string option" where
  "as_str (JStr s) = Some s"
| "as_str _ = None"

fun as_bool :: "json \<Rightarrow> bool option" where
  "as_bool (JBool b) = Some b"
| "as_bool _ = None"

fun as_array :: "json \<Rightarrow> json list option" where
  "as_array (JArr js) = Some js"
| "as_array _ = None"

fun as_object :: "json \<Rightarrow> json_map option" where
  "as_object (JObj m) = Some m"
| "as_object _ = None"

fun as_i64 :: "json \<Rightarrow> i64 option" where
  "as_i64 (JNum (NPos n)) = (if unat n < 2 ^ 63 then Some n else None)"
| "as_i64 (JNum (NNeg i)) = Some i"
| "as_i64 _ = None"

text \<open>\<open>as f64\<close> on integers, to the bit pattern: the nearest double, ties to even.\<close>

definition f64_of_int :: "int \<Rightarrow> f64" where
  "f64_of_int k =
     (if k = 0 then 0
      else
        let a = nat \<bar>k\<bar>; l = bit_length a;
            q = (if l \<le> 53 then a * 2 ^ (53 - l) else round_even a (l - 53));
            m = (if q = 2 ^ 53 then 2 ^ 52 else q);
            e = (if q = 2 ^ 53 then l else l - 1)
        in word_of_int ((if k < 0 then 2 ^ 63 else 0) + (int e + 1023) * 2 ^ 52 + (int m - 2 ^ 52)))"

fun as_f64 :: "json \<Rightarrow> f64 option" where
  "as_f64 (JNum (NPos n)) = Some (f64_of_int (uint n))"
| "as_f64 (JNum (NNeg i)) = Some (f64_of_int (sint i))"
| "as_f64 (JNum (NFloat f)) = Some f"
| "as_f64 _ = None"

text \<open>\<open>Value::get\<close> with a string key: nothing unless the value is an object.\<close>

definition json_get :: "json \<Rightarrow> string \<Rightarrow> json option" where
  "json_get j k = Option.bind (as_object j) (\<lambda>m. bm_get m k)"

section \<open>Searching in a string\<close>

fun find_sub :: "string \<Rightarrow> string \<Rightarrow> nat option" where
  "find_sub pat [] = (if pat = [] then Some 0 else None)"
| "find_sub pat (c # s) =
     (if prefix pat (c # s) then Some 0 else map_option Suc (find_sub pat s))"

definition find_char :: "char \<Rightarrow> string \<Rightarrow> nat option" where
  "find_char c s = find_sub [c] s"

fun rfind_char :: "char \<Rightarrow> string \<Rightarrow> nat option" where
  "rfind_char c [] = None"
| "rfind_char c (x # s) =
     (case rfind_char c s of Some i \<Rightarrow> Some (Suc i) | None \<Rightarrow> if x = c then Some 0 else None)"

definition starts_with :: "string \<Rightarrow> char \<Rightarrow> bool" where
  "starts_with s c \<longleftrightarrow> s \<noteq> [] \<and> hd s = c"

definition ends_with :: "string \<Rightarrow> char \<Rightarrow> bool" where
  "ends_with s c \<longleftrightarrow> s \<noteq> [] \<and> last s = c"

lemma find_sub_Some: "find_sub pat s = Some i \<Longrightarrow> i \<le> length s \<and> prefix pat (drop i s)"
  by (induction pat s arbitrary: i rule: find_sub.induct) (auto split: if_splits)

lemma find_char_Some: "find_char c s = Some i \<Longrightarrow> i < length s \<and> s ! i = c"
proof -
  assume "find_char c s = Some i"
  then have "prefix [c] (drop i s)" by (simp add: find_char_def find_sub_Some)
  then show ?thesis by (cases "i < length s") (auto simp: prefix_def Cons_nth_drop_Suc [symmetric])
qed

lemma rfind_char_Some: "rfind_char c s = Some i \<Longrightarrow> i < length s \<and> s ! i = c"
  by (induction s arbitrary: i) (auto split: option.splits if_splits)

lemma find_char_None: "find_char c s = None \<longleftrightarrow> c \<notin> set s"
  unfolding find_char_def by (induction s) auto

lemma rfind_char_None: "rfind_char c s = None \<longleftrightarrow> c \<notin> set s"
  by (induction s) (auto split: option.splits)

end
