(* ===== verification/Planner_Guard.thy ===== *)
theory Planner_Guard
  imports Json Kernel_Base
begin

text \<open>
  The planner guard (\<open>crates/planner-guard/src/lib.rs\<close>): the prompt for the planner model,
  finding a JSON object in what it answers, reading a plan from it in two styles, checking
  the plan against the manifest, and the plan used without a planner. \<open>serde_json\<close>'s parser
  is the parameter \<open>from_str\<close>. An \<open>anyhow\<close> error is its message.
\<close>

type_synonym 'a result = "string + 'a"

section \<open>The prompt\<close>

definition build_plan_only_prompt :: "string \<Rightarrow> public_manifest \<Rightarrow> string" where
  "build_plan_only_prompt user_message manifest =
     (let handles = join '', '' (map h_ref (pm_handles manifest));
          selectors = join '', '' (map sel_sel (pm_selectors manifest)) in
      join ''\<newline>''
        [''Return plan JSON only. Do not include prose or markdown.'',
         ''Use schema: {requestId, steps:[{out, op:{kind,...}}], outputs:[string]}.'',
         ''Allowed op.kind values: fetch, applySelector, resolve, filter, join, project, assert.'',
         ''assert bindings shape: bindings.{field} = {reg, fieldPath}.'',
         ''User message: '' @ user_message,
         ''Allowed handle refs: ['' @ handles @ '']'',
         ''Allowed selector refs: ['' @ selectors @ '']'',
         ''Every fetch.handleRef must be from allowed handle refs.'',
         ''Every applySelector.selectorRef must be from allowed selector refs.''])"

section \<open>The JSON object in an answer\<close>

definition braced :: "string \<Rightarrow> bool" where
  "braced s \<longleftrightarrow> starts_with s CHR ''{'' \<and> ends_with s CHR ''}''"

text \<open>The body of the first fenced block, when there is one and it is a braced text.\<close>

definition after_fence :: "string \<Rightarrow> nat \<Rightarrow> string" where
  "after_fence trimmed start =
     (let rest = drop (start + 3) trimmed in
      trim_start (case strip_prefix ''json'' rest of None \<Rightarrow> rest | Some r \<Rightarrow> r))"

definition fenced_body :: "string \<Rightarrow> string option" where
  "fenced_body trimmed =
     (case find_sub ''```'' trimmed of
        None \<Rightarrow> None
      | Some start \<Rightarrow>
          (case find_sub ''```'' (after_fence trimmed start) of
             None \<Rightarrow> None
           | Some end \<Rightarrow>
               let body = trim (take end (after_fence trimmed start)) in
               if braced body then Some body else None))"

definition extract_json_object :: "string \<Rightarrow> string result" where
  "extract_json_object input =
     (let trimmed = trim input in
      if braced trimmed then Ok trimmed
      else case fenced_body trimmed of
          Some body \<Rightarrow> Ok body
        | None \<Rightarrow>
            res_bind (ok_or ''planner output did not include a JSON object''
                (find_char CHR ''{'' trimmed))
              (\<lambda>first. res_bind (ok_or ''planner output did not include a JSON object end''
                  (rfind_char CHR ''}'' trimmed))
                (\<lambda>last. if first \<ge> last
                  then Err ''planner output JSON boundaries are invalid''
                  else Ok (take (last - first + 1) (drop first trimmed)))))"

section \<open>Reading values\<close>

fun get_string :: "json_map \<Rightarrow> string list \<Rightarrow> string option" where
  "get_string obj [] = None"
| "get_string obj (key # keys) =
     (case Option.bind (bm_get obj key) as_str of Some s \<Rightarrow> Some s | None \<Rightarrow> get_string obj keys)"

definition require :: "json_map \<Rightarrow> string list \<Rightarrow> string \<Rightarrow> string result" where
  \<comment> \<open>\<open>get_string(obj, keys).ok_or_else(|| anyhow!(msg))\<close>\<close>
  "require obj keys msg = ok_or msg (get_string obj keys)"

definition parse_edge_type :: "string \<Rightarrow> i32 result" where
  "parse_edge_type s =
     (if s = ''EDGE_CONFLICTS_WITH'' then Ok (edge_type_to_i32 EdgeConflictsWith)
      else if s = ''EDGE_SUPERSEDES'' then Ok (edge_type_to_i32 EdgeSupersedes)
      else if s = ''EDGE_PROVENANCE'' then Ok (edge_type_to_i32 EdgeProvenance)
      else if s = ''EDGE_SAME_ENTITY'' then Ok (edge_type_to_i32 EdgeSameEntity)
      else Err (''unsupported edge type: '' @ s))"

definition parse_assertion_type :: "string \<Rightarrow> i32 result" where
  "parse_assertion_type s =
     (if s = ''ASSERT_USER_PREFERENCE'' then Ok (assertion_type_to_i32 AssertUserPreference)
      else if s = ''ASSERT_WORLD_FACT'' then Ok (assertion_type_to_i32 AssertWorldFact)
      else if s = ''ASSERT_DECISION'' then Ok (assertion_type_to_i32 AssertDecision)
      else if s = ''ASSERT_PROCEDURE'' then Ok (assertion_type_to_i32 AssertProcedure)
      else if s = ''ASSERT_CONFLICT_EXPLANATION'' then Ok (assertion_type_to_i32 AssertConflictExplanation)
      else Err (''unsupported assertion type: '' @ s))"

fun first_some :: "'a option list \<Rightarrow> 'a option" where
  "first_some [] = None"
| "first_some (x # xs) = (case x of Some a \<Rightarrow> Some a | None \<Rightarrow> first_some xs)"

text \<open>The tagged forms in the order they are tried, then the plain ones.\<close>

definition tagged_value :: "json_map \<Rightarrow> v option" where
  "tagged_value obj = first_some
     [map_option V_S (Option.bind (bm_get obj ''s'') as_str),
      map_option V_B (Option.bind (bm_get obj ''b'') as_bool),
      map_option V_I64 (Option.bind (bm_get obj ''i64'') as_i64),
      map_option V_F64 (Option.bind (bm_get obj ''f64'') as_f64),
      map_option V_E (Option.bind (bm_get obj ''e'') as_str)]"

definition json_to_rmvm_value :: "json \<Rightarrow> value option" where
  "json_to_rmvm_value j = map_option Some (first_some
     [Option.bind (as_object j) tagged_value,
      map_option V_S (as_str j), map_option V_B (as_bool j),
      map_option V_I64 (as_i64 j), map_option V_F64 (as_f64 j)])"

definition parse_param_map :: "json option \<Rightarrow> params" where
  "parse_param_map x =
     (case Option.bind x as_object of
        None \<Rightarrow> []
      | Some obj \<Rightarrow> foldl (\<lambda>out (k, j). case json_to_rmvm_value j of
            None \<Rightarrow> out | Some y \<Rightarrow> bm_insert k y out) [] obj)"

definition parse_field_paths :: "json option \<Rightarrow> string \<Rightarrow> string list result" where
  "parse_field_paths x msg =
     res_bind (ok_or msg (Option.bind x as_array)) (\<lambda>js. Ok (List.map_filter as_str js))"

fun or_else :: "'a option \<Rightarrow> 'a option \<Rightarrow> 'a option" where
  "or_else (Some a) y = Some a"
| "or_else None y = y"

section \<open>Operations\<close>

definition parse_binding ::
  "(string, value_ref) bmap \<Rightarrow> string \<times> json \<Rightarrow> (string, value_ref) bmap result" where
  "parse_binding binds kj =
     res_bind (ok_or ''assert binding entries must be objects'' (as_object (snd kj)))
       (\<lambda>b. res_bind (require b [''reg''] ''binding.reg missing'')
         (\<lambda>reg. res_bind (require b [''fieldPath'', ''field_path''] ''binding.fieldPath missing'')
           (\<lambda>path. Ok (bm_insert (fst kj) \<lparr>vr_reg = reg, vr_field_path = path\<rparr> binds))))"

definition parse_citation :: "citation_ref list \<Rightarrow> json \<Rightarrow> citation_ref list result" where
  "parse_citation cites c =
     res_bind (ok_or ''citation entries must be objects'' (as_object c))
       (\<lambda>cobj. case get_string cobj [''handleRef'', ''handle_ref''] of
            Some h \<Rightarrow> Ok (cites @ [Some (CiteHandleRef h)])
          | None \<Rightarrow>
              (case get_string cobj [''anchorRef'', ''anchor_ref''] of
                 Some a \<Rightarrow> Ok (cites @ [Some (CiteAnchorRef a)])
               | None \<Rightarrow> Ok cites))"

definition parse_unified_assert :: "json_map \<Rightarrow> op result" where
  "parse_unified_assert obj =
     res_bind (res_bind (require obj [''assertionType'', ''assertion_type''] ''assert.assertionType is required'')
         parse_assertion_type)
       (\<lambda>at. res_bind (ok_or ''assert.bindings must be an object''
           (Option.bind (bm_get obj ''bindings'') as_object))
         (\<lambda>bobj. res_bind (foldM parse_binding [] bobj)
           (\<lambda>binds. res_bind
             (case Option.bind (bm_get obj ''citations'') as_array of
                None \<Rightarrow> Ok [] | Some cs \<Rightarrow> foldM parse_citation [] cs)
             (\<lambda>cites. Ok (OpAssert at binds cites)))))"

definition parse_unified_op :: "json \<Rightarrow> op result" where
  "parse_unified_op j =
     res_bind (ok_or ''step.op must be an object'' (as_object j))
       (\<lambda>obj. res_bind (require obj [''kind''] ''step.op.kind is required'')
         (\<lambda>kind.
           if kind = ''fetch'' then
             res_bind (require obj [''handleRef'', ''handle_ref''] ''fetch.handleRef is required'')
               (\<lambda>h. Ok (OpFetch h))
           else if kind = ''applySelector'' then
             res_bind (require obj [''selectorRef'', ''selector_ref''] ''applySelector.selectorRef is required'')
               (\<lambda>s. Ok (OpApplySelector s (parse_param_map (bm_get obj ''params''))))
           else if kind = ''resolve'' then
             res_bind (require obj [''inReg'', ''in_reg''] ''resolve.inReg is required'')
               (\<lambda>r. Ok (OpResolve r (default_to [] (get_string obj [''policyId'', ''policy_id'']))))
           else if kind = ''filter'' then
             res_bind (require obj [''inReg'', ''in_reg''] ''filter.inReg is required'')
               (\<lambda>r. res_bind (require obj [''filterRef'', ''filter_ref''] ''filter.filterRef is required'')
                 (\<lambda>f. Ok (OpFilter r f (parse_param_map (bm_get obj ''params'')))))
           else if kind = ''join'' then
             res_bind (require obj [''leftReg'', ''left_reg''] ''join.leftReg is required'')
               (\<lambda>l. res_bind (require obj [''rightReg'', ''right_reg''] ''join.rightReg is required'')
                 (\<lambda>r. res_bind (res_bind (require obj [''edgeType'', ''edge_type''] ''join.edgeType is required'')
                     parse_edge_type)
                   (\<lambda>e. Ok (OpJoin l r e))))
           else if kind = ''project'' then
             res_bind (require obj [''inReg'', ''in_reg''] ''project.inReg is required'')
               (\<lambda>r. res_bind (parse_field_paths (or_else (bm_get obj ''fieldPaths'') (bm_get obj ''field_paths''))
                   ''project.fieldPaths must be an array'')
                 (\<lambda>ps. Ok (OpProject r ps)))
           else if kind = ''assert'' then parse_unified_assert obj
           else Err (''unsupported step.op.kind: '' @ kind)))"

text \<open>The object that \<open>json!\<close> builds for the older spelling of an assertion.\<close>

definition assert_as_unified :: "json \<Rightarrow> json" where
  "assert_as_unified j = JObj (bm_collect
     [(''kind'', JStr ''assert''),
      (''assertion_type'', default_to JNull (json_get j ''assertion_type'')),
      (''bindings'', default_to (JObj []) (json_get j ''bindings'')),
      (''citations'', default_to (JArr []) (json_get j ''citations''))])"

definition parse_proto_style_op :: "json_map \<Rightarrow> op result" where
  "parse_proto_style_op obj =
     (case bm_get obj ''fetch'' of
        Some j \<Rightarrow>
          res_bind (ok_or ''fetch must be object'' (as_object j))
            (\<lambda>o'. res_bind (require o' [''handle_ref'', ''handleRef''] ''fetch.handle_ref missing'')
              (\<lambda>h. Ok (OpFetch h)))
      | None \<Rightarrow>
     (case bm_get obj ''apply_selector'' of
        Some j \<Rightarrow>
          res_bind (ok_or ''apply_selector must be object'' (as_object j))
            (\<lambda>o'. res_bind (require o' [''selector_ref'', ''selectorRef''] ''apply_selector.selector_ref missing'')
              (\<lambda>s. Ok (OpApplySelector s (parse_param_map (bm_get o' ''params'')))))
      | None \<Rightarrow>
     (case bm_get obj ''resolve'' of
        Some j \<Rightarrow>
          res_bind (ok_or ''resolve must be object'' (as_object j))
            (\<lambda>o'. res_bind (require o' [''in_reg'', ''inReg''] ''resolve.in_reg missing'')
              (\<lambda>r. Ok (OpResolve r (default_to [] (get_string o' [''policy_id'', ''policyId''])))))
      | None \<Rightarrow>
     (case bm_get obj ''filter'' of
        Some j \<Rightarrow>
          res_bind (ok_or ''filter must be object'' (as_object j))
            (\<lambda>o'. res_bind (require o' [''in_reg'', ''inReg''] ''filter.in_reg missing'')
              (\<lambda>r. res_bind (require o' [''filter_ref'', ''filterRef''] ''filter.filter_ref missing'')
                (\<lambda>f. Ok (OpFilter r f (parse_param_map (bm_get o' ''params''))))))
      | None \<Rightarrow>
     (case bm_get obj ''join'' of
        Some j \<Rightarrow>
          res_bind (ok_or ''join must be object'' (as_object j))
            (\<lambda>o'. res_bind (require o' [''left_reg'', ''leftReg''] ''join.left_reg missing'')
              (\<lambda>l. res_bind (require o' [''right_reg'', ''rightReg''] ''join.right_reg missing'')
                (\<lambda>r. res_bind (res_bind (require o' [''edge_type'', ''edgeType''] ''join.edge_type missing'')
                    parse_edge_type)
                  (\<lambda>e. Ok (OpJoin l r e)))))
      | None \<Rightarrow>
     (case bm_get obj ''project'' of
        Some j \<Rightarrow>
          res_bind (ok_or ''project must be object'' (as_object j))
            (\<lambda>o'. res_bind (require o' [''in_reg'', ''inReg''] ''project.in_reg missing'')
              (\<lambda>r. res_bind (parse_field_paths (or_else (bm_get o' ''field_paths'') (bm_get o' ''fieldPaths''))
                  ''project.field_paths missing'')
                (\<lambda>ps. Ok (OpProject r ps))))
      | None \<Rightarrow>
     (case bm_get obj ''assert_op'' of
        Some j \<Rightarrow> parse_unified_op (assert_as_unified j)
      | None \<Rightarrow> Err ''step missing supported operation'')))))))"

section \<open>Plans\<close>

definition parse_step :: "json \<Rightarrow> step result" where
  "parse_step j =
     res_bind (ok_or ''plan.steps entries must be objects'' (as_object j))
       (\<lambda>obj. res_bind (require obj [''out''] ''plan step missing out'')
         (\<lambda>out. res_bind (case bm_get obj ''op'' of
               Some u \<Rightarrow> parse_unified_op u | None \<Rightarrow> parse_proto_style_op obj)
           (\<lambda>op. Ok \<lparr>st_out = out, st_op = Some op\<rparr>)))"

definition parse_output :: "json \<Rightarrow> output_spec result" where
  "parse_output j =
     (case as_str j of
        Some reg \<Rightarrow> Ok \<lparr>os_reg = reg\<rparr>
      | None \<Rightarrow>
          res_bind (ok_or ''plan.outputs entries must be strings or objects'' (as_object j))
            (\<lambda>obj. res_bind (require obj [''reg''] ''output missing reg'') (\<lambda>reg. Ok \<lparr>os_reg = reg\<rparr>)))"

definition parse_outputs :: "json option \<Rightarrow> output_spec list result" where
  "parse_outputs outs =
     res_bind (ok_or ''plan.outputs must be an array'' (Option.bind outs as_array))
       (\<lambda>arr. mapM parse_output arr)"

text \<open>The part of \<open>parse_plan_json\<close> after the text has been parsed.\<close>

definition plan_of_json :: "json \<Rightarrow> string \<Rightarrow> rmvm_plan result" where
  "plan_of_json root fallback =
     res_bind (ok_or ''plan root must be an object'' (as_object root))
       (\<lambda>obj. res_bind (ok_or ''plan.steps must be an array'' (Option.bind (bm_get obj ''steps'') as_array))
         (\<lambda>steps_v. res_bind (mapM parse_step steps_v)
           (\<lambda>steps. res_bind (parse_outputs (bm_get obj ''outputs''))
             (\<lambda>outs. Ok \<lparr>pl_request_id = default_to fallback (get_string obj [''requestId'', ''request_id'']),
                         pl_steps = steps, pl_outputs = outs\<rparr>))))"

definition parse_plan_json :: "(string \<Rightarrow> json result) \<Rightarrow> string \<Rightarrow> string \<Rightarrow> rmvm_plan result" where
  "parse_plan_json from_str plan_json fallback =
     res_bind (from_str plan_json) (\<lambda>root. plan_of_json root fallback)"

section \<open>The check against the manifest\<close>

fun guard_op :: "string bset \<Rightarrow> string bset \<Rightarrow> string bset \<Rightarrow> op \<Rightarrow> unit result" where
  "guard_op handles sels regs (OpFetch h) =
     (if h \<notin> set handles then Err (''invalid plan: unknown handle ref '' @ h) else Ok ())"
| "guard_op handles sels regs (OpApplySelector s ps) =
     (if s \<notin> set sels then Err (''invalid plan: unknown selector ref '' @ s) else Ok ())"
| "guard_op handles sels regs (OpResolve r p) =
     (if r \<notin> set regs then Err (''invalid plan: input register not defined ('' @ r @ '')'') else Ok ())"
| "guard_op handles sels regs (OpFilter r f ps) =
     (if r \<notin> set regs then Err (''invalid plan: input register not defined ('' @ r @ '')'') else Ok ())"
| "guard_op handles sels regs (OpJoin l r e) =
     (if l \<notin> set regs \<or> r \<notin> set regs then Err ''invalid plan: join registers not defined'' else Ok ())"
| "guard_op handles sels regs (OpProject r paths) =
     (if r \<notin> set regs then Err (''invalid plan: input register not defined ('' @ r @ '')'') else Ok ())"
| "guard_op handles sels regs (OpAssert at bs cs) =
     foldM (\<lambda>_ b. if vr_reg b \<notin> set regs
         then Err (''invalid plan: assert binding register not defined ('' @ vr_reg b @ '')'') else Ok ())
       () (bm_values bs)"

definition guard_step :: "string bset \<Rightarrow> string bset \<Rightarrow> string bset \<Rightarrow> step \<Rightarrow> string bset result" where
  "guard_step handles sels regs s =
     (if trim (st_out s) = [] then Err ''invalid plan: step.out is required''
      else if st_out s \<in> set regs then Err (''invalid plan: register redefined ('' @ st_out s @ '')'')
      else
        let regs' = bs_insert (st_out s) regs in
        res_bind (ok_or ''invalid plan: step.op is required'' (st_op s))
          (\<lambda>op. res_bind (guard_op handles sels regs' op) (\<lambda>_. Ok regs')))"

definition validate_plan_against_manifest :: "rmvm_plan \<Rightarrow> public_manifest \<Rightarrow> unit result" where
  "validate_plan_against_manifest plan manifest =
     (let handles = bs_extend [] (map h_ref (pm_handles manifest));
          sels = bs_extend [] (map sel_sel (pm_selectors manifest)) in
      res_bind (foldM (guard_step handles sels) [] (pl_steps plan)) (\<lambda>_. Ok ()))"

section \<open>The plan without a planner\<close>

definition fact_steps :: "op \<Rightarrow> string \<Rightarrow> step list" where
  "fact_steps first path =
     [\<lparr>st_out = ''r0'', st_op = Some first\<rparr>,
      \<lparr>st_out = ''r1'', st_op = Some (OpProject ''r0'' [path])\<rparr>,
      \<lparr>st_out = ''r2'', st_op = Some (OpAssert (assertion_type_to_i32 AssertWorldFact)
         [(''subject'', \<lparr>vr_reg = ''r1'', vr_field_path = path\<rparr>)] [])\<rparr>]"

definition deterministic_plan_from_manifest ::
  "string \<Rightarrow> string \<Rightarrow> public_manifest \<Rightarrow> rmvm_plan result" where
  "deterministic_plan_from_manifest request_id subject manifest =
     (case pm_handles manifest of
        h # _ \<Rightarrow>
          Ok \<lparr>pl_request_id = request_id, pl_steps = fact_steps (OpFetch (h_ref h)) ''meta.subject'',
              pl_outputs = [\<lparr>os_reg = ''r2''\<rparr>]\<rparr>
      | [] \<Rightarrow>
          (case pm_selectors manifest of
             [] \<Rightarrow> Err ''manifest has no handles/selectors for deterministic fallback''
           | sel # _ \<Rightarrow>
               Ok \<lparr>pl_request_id = request_id,
                   pl_steps = fact_steps (OpApplySelector (sel_sel sel) [(''subject'', Some (V_S subject))])
                     ''set_count'',
                   pl_outputs = [\<lparr>os_reg = ''r2''\<rparr>]\<rparr>))"

end
