(* ===== verification/Guard_Facts.thy ===== *)
theory Guard_Facts
  imports Planner_Guard Kernel_Static
begin

text \<open>
  Facts about the planner guard: what it accepts and how that compares with the static
  checks of the kernel; which plans can be read from JSON at all (\<open>expressible\<close>), with a
  printer for exactly these; and what a text found in an answer looks like.
\<close>

section \<open>The guard and the kernel\<close>

lemma guard_op_iff:
  "guard_op handles sels regs op = Ok () \<longleftrightarrow>
   set (op_reads op) \<subseteq> set regs \<and>
   (\<forall>h. op = OpFetch h \<longrightarrow> h \<in> set handles) \<and> (\<forall>s ps. op = OpApplySelector s ps \<longrightarrow> s \<in> set sels)"
  by (cases op) (auto simp: foldM_unit_iff split: if_splits)

lemma guard_step_Ok_iff:
  "guard_step handles sels regs s = Ok regs' \<longleftrightarrow>
   trim (st_out s) \<noteq> [] \<and> st_out s \<notin> set regs \<and> regs' = bs_insert (st_out s) regs \<and>
   (\<exists>op. st_op s = Some op \<and> guard_op handles sels regs' op = Ok ())"
  by (auto simp: guard_step_def Let_def)

text \<open>The specification of the guard, step by step.\<close>

definition guarded :: "public_manifest \<Rightarrow> step list \<Rightarrow> step \<Rightarrow> bool" where
  "guarded mf seen s \<longleftrightarrow>
     trim (st_out s) \<noteq> [] \<and> st_out s \<notin> st_out ` set seen \<and>
     (\<exists>op. st_op s = Some op \<and> set (op_reads op) \<subseteq> st_out ` set (seen @ [s]) \<and>
        (\<forall>h. op = OpFetch h \<longrightarrow> h \<in> h_ref ` set (pm_handles mf)) \<and>
        (\<forall>n ps. op = OpApplySelector n ps \<longrightarrow> n \<in> sel_sel ` set (pm_selectors mf)))"

lemma guard_loop:
  "(is_ok (foldM (guard_step (bs_extend [] (map h_ref (pm_handles mf)))
       (bs_extend [] (map sel_sel (pm_selectors mf)))) [] steps) \<longleftrightarrow>
     (\<forall>i < length steps. guarded mf (take i steps) (steps ! i))) \<and>
   (\<forall>regs. foldM (guard_step (bs_extend [] (map h_ref (pm_handles mf)))
       (bs_extend [] (map sel_sel (pm_selectors mf)))) [] steps = Ok regs \<longrightarrow> set regs = st_out ` set steps)"
  (is "(is_ok (foldM ?g [] steps) \<longleftrightarrow> _) \<and> _")
proof (induction steps rule: rev_induct)
  case Nil
  show ?case by simp
next
  case (snoc s steps)
  have split: "(\<forall>i < length (steps @ [s]). guarded mf (take i (steps @ [s])) ((steps @ [s]) ! i)) \<longleftrightarrow>
      (\<forall>i < length steps. guarded mf (take i steps) (steps ! i)) \<and> guarded mf steps s"
    by (auto simp: nth_append less_Suc_eq)
  show ?case
  proof (cases "foldM ?g [] steps")
    case (Inl e)
    with snoc.IH have "\<not> (\<forall>i < length steps. guarded mf (take i steps) (steps ! i))" by simp
    with Inl show ?thesis unfolding split by (simp add: foldM_append)
  next
    case (Inr regs)
    with snoc.IH have good: "\<forall>i < length steps. guarded mf (take i steps) (steps ! i)"
      and regs: "set regs = st_out ` set steps" by simp_all
    have "is_ok (?g regs s) \<longleftrightarrow> guarded mf steps s"
      using regs by (auto simp: is_ok_iff guard_step_Ok_iff guard_op_iff guarded_def)
    with Inr good regs show ?thesis
      unfolding split by (auto simp: foldM_append is_ok_iff guard_step_Ok_iff)
  qed
qed

lemma guard_loop_iff:
  "validate_plan_against_manifest plan mf = Ok () \<longleftrightarrow>
   (\<forall>i < length (pl_steps plan). guarded mf (take i (pl_steps plan)) (pl_steps plan ! i))"
  using guard_loop [of mf "pl_steps plan"]
  by (auto simp: validate_plan_against_manifest_def Let_def is_ok_iff)

lemma selectors_index_Some: "bm_get (selectors_index sels) s = Some sel \<Longrightarrow> s \<in> sel_sel ` set sels"
  by (auto simp: selectors_index_def dest!: bm_collect_get_Some)

text \<open>One step: what the kernel's static check accepts, the guard accepts.\<close>

lemma static_step_guard:
  assumes "static_step E mf b (selectors_index (pm_selectors mf)) st s = Ok st'"
    and "declared st = regs"
  shows "guard_step (bs_extend [] (map h_ref (pm_handles mf))) (bs_extend [] (map sel_sel (pm_selectors mf)))
    regs s = Ok (declared st')"
proof -
  from assms(1) obtain op d c where s: "st_op s = Some op" "trim (st_out s) \<noteq> []"
    "st_out s \<notin> set (declared st)" "declared st' = bs_insert (st_out s) (declared st)"
    "static_op E mf b (selectors_index (pm_selectors mf)) (declared st') (join_depths st)
       (total_cost st) op = Ok (d, c)"
    by (rule static_step_Ok)
  have "guard_op (bs_extend [] (map h_ref (pm_handles mf))) (bs_extend [] (map sel_sel (pm_selectors mf)))
      (declared st') op = Ok ()"
    unfolding guard_op_iff
    using static_op_Ok_reads [OF s(5)] s(5) static_op_Ok_fetch static_op_Ok_selector
    by (auto dest!: selectors_index_Some)
  with s assms(2) show ?thesis by (simp add: guard_step_Ok_iff)
qed

lemma static_loop_guard:
  "foldM (static_step E mf b (selectors_index (pm_selectors mf))) st steps = Ok st' \<Longrightarrow>
   foldM (guard_step (bs_extend [] (map h_ref (pm_handles mf))) (bs_extend [] (map sel_sel (pm_selectors mf))))
     (declared st) steps = Ok (declared st')"
proof (induction steps arbitrary: st)
  case Nil
  then show ?case by simp
next
  case (Cons s steps)
  then obtain t where t: "static_step E mf b (selectors_index (pm_selectors mf)) st s = Ok t"
    "foldM (static_step E mf b (selectors_index (pm_selectors mf))) t steps = Ok st'" by auto
  from static_step_guard [OF t(1) refl] Cons.IH [OF t(2)] show ?case by simp
qed

section \<open>The plans JSON can express\<close>

fun value_expressible :: "value \<Rightarrow> bool" where
  "value_expressible None = False"
| "value_expressible (Some (V_Ts t)) = False"
| "value_expressible (Some _) = True"

definition params_expressible :: "params \<Rightarrow> bool" where
  "params_expressible ps \<longleftrightarrow> bm_ok ps \<and> list_all (\<lambda>(k, x). value_expressible x) ps"

fun op_expressible :: "op \<Rightarrow> bool" where
  "op_expressible (OpApplySelector s ps) = params_expressible ps"
| "op_expressible (OpFilter r f ps) = params_expressible ps"
| "op_expressible (OpJoin l r e) = (\<exists>t. t \<noteq> EdgeTypeUnspecified \<and> e = edge_type_to_i32 t)"
| "op_expressible (OpAssert at bs cs) =
     ((\<exists>t. t \<noteq> AssertionTypeUnspecified \<and> at = assertion_type_to_i32 t) \<and> bm_ok bs \<and> None \<notin> set cs)"
| "op_expressible _ = True"

definition expressible :: "rmvm_plan \<Rightarrow> bool" where
  "expressible plan \<longleftrightarrow>
     (\<forall>s \<in> set (pl_steps plan). \<exists>op. st_op s = Some op \<and> op_expressible op)"

section \<open>A printer\<close>

fun value_json :: "value \<Rightarrow> json" where
  "value_json (Some (V_S s)) = JObj [(''s'', JStr s)]"
| "value_json (Some (V_B b)) = JObj [(''b'', JBool b)]"
| "value_json (Some (V_I64 i)) = JObj [(''i64'', JNum (if 0 \<le> sint i then NPos i else NNeg i))]"
| "value_json (Some (V_F64 f)) = JObj [(''f64'', JNum (NFloat f))]"
| "value_json (Some (V_E e)) = JObj [(''e'', JStr e)]"
| "value_json _ = JNull"

definition params_json :: "params \<Rightarrow> json" where
  "params_json ps = JObj (map (\<lambda>(k, x). (k, value_json x)) ps)"

definition binding_json :: "value_ref \<Rightarrow> json" where
  "binding_json vr = JObj (bm_collect [(''reg'', JStr (vr_reg vr)), (''fieldPath'', JStr (vr_field_path vr))])"

fun citation_json :: "citation_ref \<Rightarrow> json" where
  "citation_json (Some (CiteHandleRef h)) = JObj [(''handleRef'', JStr h)]"
| "citation_json (Some (CiteAnchorRef a)) = JObj [(''anchorRef'', JStr a)]"
| "citation_json None = JNull"

fun op_json :: "op \<Rightarrow> json" where
  "op_json (OpFetch h) = JObj (bm_collect [(''kind'', JStr ''fetch''), (''handleRef'', JStr h)])"
| "op_json (OpApplySelector s ps) = JObj (bm_collect
     [(''kind'', JStr ''applySelector''), (''selectorRef'', JStr s), (''params'', params_json ps)])"
| "op_json (OpResolve r p) = JObj (bm_collect
     [(''kind'', JStr ''resolve''), (''inReg'', JStr r), (''policyId'', JStr p)])"
| "op_json (OpFilter r f ps) = JObj (bm_collect
     [(''kind'', JStr ''filter''), (''inReg'', JStr r), (''filterRef'', JStr f), (''params'', params_json ps)])"
| "op_json (OpJoin l r e) = JObj (bm_collect
     [(''kind'', JStr ''join''), (''leftReg'', JStr l), (''rightReg'', JStr r),
      (''edgeType'', JStr (edge_type_as_str_name (edge_type_from_i32 e)))])"
| "op_json (OpProject r paths) = JObj (bm_collect
     [(''kind'', JStr ''project''), (''inReg'', JStr r), (''fieldPaths'', JArr (map JStr paths))])"
| "op_json (OpAssert at bs cs) = JObj (bm_collect
     [(''kind'', JStr ''assert''),
      (''assertionType'', JStr (assertion_type_as_str_name (assertion_type_from_i32 at))),
      (''bindings'', JObj (map (\<lambda>(k, vr). (k, binding_json vr)) bs)),
      (''citations'', JArr (map citation_json cs))])"

definition step_json :: "step \<Rightarrow> json" where
  "step_json s = JObj (bm_collect [(''out'', JStr (st_out s)), (''op'', op_json (the (st_op s)))])"

definition plan_json :: "rmvm_plan \<Rightarrow> json" where
  "plan_json plan = JObj (bm_collect
     [(''requestId'', JStr (pl_request_id plan)), (''steps'', JArr (map step_json (pl_steps plan))),
      (''outputs'', JArr (map (\<lambda>out. JStr (os_reg out)) (pl_outputs plan)))])"

section \<open>What is printed is read\<close>

lemma value_json_read: "value_expressible x \<Longrightarrow> json_to_rmvm_value (value_json x) = Some x"
proof (cases x rule: value_json.cases)
  case (3 i)
  have "unat i < 2 ^ 63" if "0 \<le> sint i"
  proof -
    have "sint i < 2 ^ 63" using sint_less [of i] by simp
    with that have "uint i = sint i" by (simp add: uint_sint take_bit_int_eq_self)
    with \<open>sint i < 2 ^ 63\<close> have "int (unat i) < int (2 ^ 63)" by simp
    then show ?thesis by (simp only: of_nat_less_iff)
  qed
  with 3 show ?thesis by (simp add: json_to_rmvm_value_def tagged_value_def bm_get_def)
qed (auto simp: json_to_rmvm_value_def tagged_value_def bm_get_def)

text \<open>Inserting the entries of a map in order gives the map.\<close>

lemma bm_collect_self: "bm_ok m \<Longrightarrow> bm_collect m = m"
proof (rule bmap.map_extensional [OF bm_collect_ok])
  fix k
  assume "bm_ok m"
  then have "map_of (rev m) k = map_of m k"
    by (metis bm_ok_def distinct_rev map_of_inject_set rev_map set_rev strict_sorted_iff)
  then show "bm_get (bm_collect m) k = bm_get m k" by (simp only: bm_collect_get) (simp add: bm_get_def)
qed

lemma params_json_read:
  assumes "params_expressible ps"
  shows "parse_param_map (Some (params_json ps)) = ps"
proof -
  have "foldl (\<lambda>out (k, j). case json_to_rmvm_value j of None \<Rightarrow> out | Some y \<Rightarrow> bm_insert k y out) out
      (map (\<lambda>(k, x). (k, value_json x)) xs) = foldl (\<lambda>m kv. bm_insert (fst kv) (snd kv) m) out xs"
    if "list_all (\<lambda>(k, x). value_expressible x) xs" for out xs
    using that by (induction xs arbitrary: out) (auto simp: value_json_read)
  from this [of ps "[]"] assms bm_collect_self [of ps] show ?thesis
    by (simp add: parse_param_map_def params_json_def params_expressible_def bm_collect_def)
qed

lemma bindings_json_read:
  assumes "bm_ok bs"
  shows "foldM parse_binding [] (map (\<lambda>(k, vr). (k, binding_json vr)) bs) = Ok bs"
proof -
  have "foldM parse_binding m (map (\<lambda>(k, vr). (k, binding_json vr)) xs) =
      Ok (foldl (\<lambda>m kv. bm_insert (fst kv) (snd kv) m) m xs)" for m xs
  proof (induction xs arbitrary: m)
    case Nil
    show ?case by simp
  next
    case (Cons x xs)
    have "parse_binding m (fst x, binding_json (snd x)) = Ok (bm_insert (fst x) (snd x) m)" for m
      by (cases "snd x") (simp add: parse_binding_def binding_json_def require_def bm_collect_get)
    with Cons show ?case by (cases x) simp
  qed
  with bm_collect_self [OF assms] show ?thesis by (simp add: bm_collect_def)
qed

lemma citations_json_read:
  assumes "None \<notin> set cs"
  shows "foldM parse_citation [] (map citation_json cs) = Ok cs"
proof -
  have "parse_citation acc (citation_json c) = Ok (acc @ [c])" if "c \<noteq> None" for acc c
    using that by (cases c rule: citation_json.cases) (auto simp: parse_citation_def bm_get_def)
  then have "foldM parse_citation acc (map citation_json cs) = Ok (acc @ cs)" for acc
    using assms by (induction cs arbitrary: acc) (auto simp del: not_None_eq)
  then show ?thesis by simp
qed

lemma map_filter_JStr: "List.map_filter as_str (map JStr paths) = paths"
  by (induction paths) (auto simp: List.map_filter_simps)

lemma edge_name_read:
  "t \<noteq> EdgeTypeUnspecified \<Longrightarrow> parse_edge_type (edge_type_as_str_name t) = Ok (edge_type_to_i32 t)"
  by (cases t) (simp_all add: parse_edge_type_def)

lemma assertion_name_read:
  "t \<noteq> AssertionTypeUnspecified \<Longrightarrow>
   parse_assertion_type (assertion_type_as_str_name t) = Ok (assertion_type_to_i32 t)"
  by (cases t) (simp_all add: parse_assertion_type_def)

lemma op_json_read:
  assumes "op_expressible op"
  shows "parse_unified_op (op_json op) = Ok op"
proof (cases op)
  case (OpJoin l r e)
  with assms show ?thesis
    by (auto simp: parse_unified_op_def require_def bm_collect_get edge_name_read
        simp del: edge_type_to_i32.simps edge_type_as_str_name.simps)
next
  case (OpAssert at bs cs)
  with assms show ?thesis
    by (auto simp: parse_unified_op_def parse_unified_assert_def require_def bm_collect_get
        assertion_name_read bindings_json_read citations_json_read
        simp del: assertion_type_to_i32.simps assertion_type_as_str_name.simps)
qed (use assms in \<open>auto simp: parse_unified_op_def require_def bm_collect_get params_json_read
    default_to_def parse_field_paths_def map_filter_JStr\<close>)

lemma step_json_read:
  "st_op s = Some op \<Longrightarrow> op_expressible op \<Longrightarrow> parse_step (step_json s) = Ok s"
  by (cases s) (auto simp: parse_step_def step_json_def require_def bm_collect_get op_json_read)

lemma mapM_map_Ok: "(\<And>x. x \<in> set xs \<Longrightarrow> f (g x) = Ok x) \<Longrightarrow> mapM f (map g xs) = Ok xs"
  by (induction xs) auto

lemma plan_json_read:
  assumes "expressible plan"
  shows "plan_of_json (plan_json plan) fallback = Ok plan"
proof -
  have "mapM parse_step (map step_json (pl_steps plan)) = Ok (pl_steps plan)"
    using assms by (intro mapM_map_Ok) (auto simp: expressible_def step_json_read)
  moreover have "mapM parse_output (map (\<lambda>out. JStr (os_reg out)) (pl_outputs plan)) = Ok (pl_outputs plan)"
    by (intro mapM_map_Ok) (simp add: parse_output_def)
  ultimately show ?thesis
    by (cases plan) (simp add: plan_of_json_def plan_json_def bm_collect_get parse_outputs_def default_to_def)
qed

section \<open>What is read can be printed\<close>

lemma tagged_value_expressible: "tagged_value obj = Some y \<Longrightarrow> value_expressible (Some y)"
  by (auto simp: tagged_value_def split: option.splits)

lemma json_value_expressible:
  assumes "json_to_rmvm_value j = Some x"
  shows "value_expressible x"
proof (cases "Option.bind (as_object j) tagged_value")
  case None
  with assms show ?thesis by (auto simp: json_to_rmvm_value_def split: option.splits)
next
  case (Some y)
  then have "value_expressible (Some y)" by (auto simp: bind_eq_Some_conv intro: tagged_value_expressible)
  with Some assms show ?thesis by (simp add: json_to_rmvm_value_def)
qed

lemma parse_param_map_expressible: "params_expressible (parse_param_map x)"
proof -
  have "params_expressible (foldl (\<lambda>out (k, j). case json_to_rmvm_value j of
      None \<Rightarrow> out | Some y \<Rightarrow> bm_insert k y out) out obj)" if "params_expressible out" for out obj
    using that
    by (induction obj arbitrary: out)
      (auto simp: params_expressible_def list_all_bm_insert json_value_expressible split: option.split)
  then show ?thesis
    by (auto simp: parse_param_map_def params_expressible_def split: option.split)
qed

lemma parse_edge_type_known:
  "parse_edge_type s = Ok e \<Longrightarrow> \<exists>t. t \<noteq> EdgeTypeUnspecified \<and> e = edge_type_to_i32 t"
  unfolding parse_edge_type_def by (auto split: if_splits simp del: edge_type_to_i32.simps)

lemma parse_assertion_type_known:
  "parse_assertion_type s = Ok at \<Longrightarrow> \<exists>t. t \<noteq> AssertionTypeUnspecified \<and> at = assertion_type_to_i32 t"
  unfolding parse_assertion_type_def by (auto split: if_splits simp del: assertion_type_to_i32.simps)

lemma parse_bindings_ok: "foldM parse_binding [] bobj = Ok bs \<Longrightarrow> bm_ok bs"
  by (rule foldM_invariant [of parse_binding "[]" bobj bs bm_ok]) (auto simp: parse_binding_def)

lemma parse_citations_ok: "foldM parse_citation [] cs = Ok cites \<Longrightarrow> None \<notin> set cites"
  by (rule foldM_invariant [of parse_citation "[]" cs cites "\<lambda>cs. None \<notin> set cs"])
    (auto simp: parse_citation_def split: option.splits)

lemma parse_unified_assert_expressible: "parse_unified_assert obj = Ok op \<Longrightarrow> op_expressible op"
  by (auto simp: parse_unified_assert_def split: option.splits
      dest!: parse_assertion_type_known parse_bindings_ok parse_citations_ok)

lemma parse_unified_op_expressible: "parse_unified_op j = Ok op \<Longrightarrow> op_expressible op"
  by (auto simp: parse_unified_op_def parse_param_map_expressible split: if_splits
      dest: parse_edge_type_known parse_unified_assert_expressible)

lemma parse_proto_style_op_expressible: "parse_proto_style_op obj = Ok op \<Longrightarrow> op_expressible op"
  by (auto simp: parse_proto_style_op_def parse_param_map_expressible split: option.splits
      dest: parse_edge_type_known parse_unified_op_expressible)

lemma parse_step_expressible:
  assumes "parse_step j = Ok s"
  shows "\<exists>op. st_op s = Some op \<and> op_expressible op"
proof -
  from assms obtain obj op where "st_op s = Some op"
    and "(case bm_get obj ''op'' of Some u \<Rightarrow> parse_unified_op u | None \<Rightarrow> parse_proto_style_op obj) = Ok op"
    by (auto simp: parse_step_def)
  then show ?thesis
    using parse_unified_op_expressible parse_proto_style_op_expressible by (auto split: option.splits)
qed

lemma parsed_expressible:
  assumes "plan_of_json root fallback = Ok plan"
  shows "expressible plan"
proof -
  from assms obtain steps_v where "mapM parse_step steps_v = Ok (pl_steps plan)"
    by (auto simp: plan_of_json_def)
  then show ?thesis using parse_step_expressible by (auto simp: expressible_def dest: mapM_Ok_in)
qed

section \<open>Texts found in an answer\<close>

lemma trim_infix: "sublist (trim s) s"
  unfolding trim_def
  by (rule infix_trans [OF prefix_imp_sublist [OF trim_end_prefix] suffix_imp_sublist [OF trim_start_suffix]])

lemma strip_infix: "sublist (case strip_prefix p s of None \<Rightarrow> s | Some r \<Rightarrow> r) s"
  by (auto split: option.split simp: strip_prefix_Some)

lemma after_fence_infix: "sublist (after_fence s start) s"
  unfolding after_fence_def Let_def
  by (rule infix_trans [OF suffix_imp_sublist [OF trim_start_suffix] infix_trans [OF strip_infix sublist_drop]])

lemma fenced_body_Some:
  assumes "fenced_body s = Some body"
  shows "braced body \<and> sublist body s"
proof -
  from assms obtain start e where "body = trim (take e (after_fence s start))" and "braced body"
    unfolding fenced_body_def Let_def by (auto split: option.splits if_splits)
  then show ?thesis
    using infix_trans [OF infix_trans [OF trim_infix sublist_take] after_fence_infix] by blast
qed

lemma find_span:
  assumes "find_char a t = Some i" and "rfind_char b t = Some j" and "i < j"
  shows "sublist (take (j - i + 1) (drop i t)) t" and "starts_with (take (j - i + 1) (drop i t)) a"
    and "ends_with (take (j - i + 1) (drop i t)) b"
proof -
  let ?s = "take (j - i + 1) (drop i t)"
  note i = find_char_Some [OF assms(1)] and j = rfind_char_Some [OF assms(2)]
  have len: "length ?s = j - i + 1" using assms(3) j by (auto simp: min_def)
  have nth: "?s ! k = t ! (i + k)" if "k < j - i + 1" for k using that j i assms(3) by (simp add: nth_drop)
  have ne: "?s \<noteq> []" using len by (metis add_is_0 list.size(3) one_neq_zero)
  show "sublist ?s t" by (rule infix_trans [OF sublist_take sublist_drop])
  show "starts_with ?s a" using ne nth [of 0] i by (simp add: starts_with_def hd_conv_nth)
  have "last ?s = ?s ! (j - i)" using ne len by (simp add: last_conv_nth)
  also have "\<dots> = b" using nth [of "j - i"] j assms(3) by simp
  finally show "ends_with ?s b" using ne by (simp add: ends_with_def)
qed

lemma extract_infix_braced:
  assumes "extract_json_object input = Ok s"
  shows "sublist s input \<and> braced s"
proof (cases "braced (trim input)")
  case True
  with assms have "s = trim input" by (simp add: extract_json_object_def)
  with True show ?thesis using trim_infix by blast
next
  case outer: False
  show ?thesis
  proof (cases "fenced_body (trim input)")
    case (Some body)
    with assms outer have "s = body" by (simp add: extract_json_object_def)
    with fenced_body_Some [OF Some] infix_trans [OF _ trim_infix] show ?thesis by blast
  next
    case None
    with assms outer obtain i j where "find_char CHR ''{'' (trim input) = Some i"
      "rfind_char CHR ''}'' (trim input) = Some j" "i < j"
      and s: "s = take (j - i + 1) (drop i (trim input))"
      by (auto simp: extract_json_object_def Let_def not_le split: if_splits)
    from find_span [OF this(1-3)] s infix_trans [OF _ trim_infix [of input]] show ?thesis
      by (simp add: braced_def)
  qed
qed

end
