(* ===== verification/Deterministic_Plan.thy ===== *)
theory Deterministic_Plan
  imports Guard_Facts Kernel_Proof
begin

text \<open>
  The plan that is used without a planner, through the guard and through the kernel.
\<close>

lemma trim_regs [simp]: "trim ''r0'' = ''r0''" "trim ''r1'' = ''r1''" "trim ''r2'' = ''r2''"
  by code_simp+

lemma fact_steps_guarded:
  assumes "guard_op handles sels [''r0''] first = Ok ()"
  shows "foldM (guard_step handles sels) [] (fact_steps first path) = Ok [''r0'', ''r1'', ''r2'']"
  using assms by (simp add: fact_steps_def guard_step_def bm_values_def)

lemma deterministic_guarded:
  assumes "deterministic_plan_from_manifest request_id subject mf = Ok plan"
  shows "validate_plan_against_manifest plan mf = Ok ()"
proof -
  from assms obtain first path where "pl_steps plan = fact_steps first path"
    and "guard_op (bs_extend [] (map h_ref (pm_handles mf))) (bs_extend [] (map sel_sel (pm_selectors mf)))
      [''r0''] first = Ok ()"
    by (auto simp: deterministic_plan_from_manifest_def split: list.splits)
  then show ?thesis by (simp add: validate_plan_against_manifest_def fact_steps_guarded)
qed

text \<open>The budget admits three steps.\<close>

definition admits_three :: "normalized_budget \<Rightarrow> bool" where
  "admits_three b \<longleftrightarrow> 3 \<le> max_ops b \<and> \<not> fl_gt (fl_of_nat 3) (max_total_cost b)"

lemma fact_static:
  assumes "list_ex (\<lambda>h. h_ref h = href) (pm_handles mf)" and "admits_three b"
  shows "validate_static E mf \<lparr>pl_request_id = rid, pl_steps = fact_steps (OpFetch href) path,
      pl_outputs = [\<lparr>os_reg = ''r2''\<rparr>]\<rparr> b sels = Ok ()"
proof -
  have "foldM (static_step E mf b sels) static_init (fact_steps (OpFetch href) path) =
      Ok \<lparr>declared = [''r0'', ''r1'', ''r2''], join_depths = [], total_cost = fl_of_nat 3\<rparr>"
    using assms(1)
    by (simp add: fact_steps_def static_step_def static_init_def bm_values_def fl_add_of_nat
        depth_of_def default_to_def numeral_3_eq_3)
  moreover have "\<not> 3 > max_ops b" using assms(2) by (simp add: admits_three_def not_less)
  moreover have "length (fact_steps (OpFetch href) path) = 3" by (simp add: fact_steps_def)
  ultimately show ?thesis
    using assms(2) by (simp add: validate_static_def admits_three_def)
qed

definition world_fact :: "string \<Rightarrow> string \<Rightarrow> verified_assertion" where
  "world_fact subject href =
     \<lparr>va_assertion_type = assertion_type_to_i32 AssertWorldFact,
      va_fields = [(''subject'', Some (V_S subject))],
      va_citations = [\<lparr>cc_anchor_digest = handle_anchor href\<rparr>]\<rparr>"

lemma fact_run:
  assumes "bm_get (handles_index (pm_handles mf)) (h_ref h) = Some h"
    and "availability_from_i32 (h_availability h) = Ready" and "h_meta h = Some m"
    and "\<not> broken opts (h_ref h)"
  shows "\<exists>rs. run_steps mf b opts (fact_steps (OpFetch (h_ref h)) ''meta.subject'') = Ok rs \<and>
    rn_assertions rs = [world_fact (hm_subject m) (h_ref h)]"
  using assms
  by (simp add: run_steps_def fact_steps_def run_init_def run_step_def exec_fetch_def exec_project_def
      bm_get_def project_paths_def handle_field_def exec_assert_def assert_binding_def
      assert_acc_init_def extract_binding_value_def canonicalize_citations_def world_fact_def
      broken_def bs_extend_def canonical_citation.defs assertion_type_from_i32_def
      assertion_type_try_from_def)

text \<open>Through the guard and the kernel.\<close>

lemma deterministic_plan_renders:
  assumes "hash_env_ok E" and "narrative_templates opts = []"
    and "pm_handles mf = h # hs" and "bm_get (handles_index (pm_handles mf)) (h_ref h) = Some h"
    and "availability_from_i32 (h_availability h) = Ready" and "h_meta h = Some m"
    and "\<not> broken opts (h_ref h)" and "admits_three (normalize_budget (pm_budget mf))"
    and "rid = [] \<or> pm_request_id mf = rid"
  shows "\<exists>plan resp. deterministic_plan_from_manifest rid subject mf = Ok plan \<and>
    validate_plan_against_manifest plan mf = Ok () \<and>
    execute E \<lparr>er_manifest = Some mf, er_plan = Some plan\<rparr> opts = Some resp \<and>
    rs_status resp = execution_status_to_i32 StatusOk \<and>
    rs_assertions resp = [\<lparr>va_assertion_type = assertion_type_to_i32 AssertWorldFact,
      va_fields = [(''subject'', Some (V_S (hm_subject m)))],
      va_citations = [\<lparr>cc_anchor_digest = ''handle:'' @ h_ref h\<rparr>]\<rparr>] \<and>
    rs_rendered resp = Some \<lparr>ro_verified_blocks = [''ASSERT_WORLD_FACT: subject='' @ hm_subject m],
      ro_narrative_blocks = []\<rparr>"
proof -
  let ?plan = "\<lparr>pl_request_id = rid, pl_steps = fact_steps (OpFetch (h_ref h)) ''meta.subject'',
      pl_outputs = [\<lparr>os_reg = ''r2''\<rparr>]\<rparr>"
  have plan: "deterministic_plan_from_manifest rid subject mf = Ok ?plan"
    using assms(3) by (simp add: deterministic_plan_from_manifest_def)
  have static: "validate_static E mf ?plan (normalize_budget (pm_budget mf))
      (selectors_index (pm_selectors mf)) = Ok ()"
    using assms(3,8) by (intro fact_static) simp_all
  from fact_run [OF assms(4-7)] obtain rs where
    rs: "run_steps mf (normalize_budget (pm_budget mf)) opts (pl_steps ?plan) = Ok rs"
      "rn_assertions rs = [world_fact (hm_subject m) (h_ref h)]" by auto
  have "\<not> id_mismatch mf ?plan" using assms(9) by (auto simp: id_mismatch_def)
  then have "run_plan E mf ?plan opts = Ok rs" using static rs(1) by (simp add: run_plan_def)
  from execute_completes [OF assms(1) _ _ this assms(2)] obtain resp where
    "execute E \<lparr>er_manifest = Some mf, er_plan = Some ?plan\<rparr> opts = Some resp"
    "rs_assertions resp = rn_assertions rs" "rs_status resp = execution_status_to_i32 StatusOk"
    "rs_rendered resp = Some \<lparr>ro_verified_blocks =
      verified_blocks E (pl_outputs ?plan) (rn_regs rs) (rn_assertions rs), ro_narrative_blocks = []\<rparr>"
    by (metis execute_request.select_convs(1) execute_request.select_convs(2))
  with plan deterministic_guarded [OF plan] rs(2) show ?thesis
    by (simp add: world_fact_def handle_anchor_def verified_blocks_def assertion_block_def
        assertion_type_from_i32_def assertion_type_try_from_def del: execution_status_to_i32.simps)
qed

lemma deterministic_plan_runs:
  assumes "hash_env_ok E" and "narrative_templates opts = []"
    and "pm_handles mf = h # hs" and "bm_get (handles_index (pm_handles mf)) (h_ref h) = Some h"
    and "availability_from_i32 (h_availability h) = Ready" and "h_meta h = Some m"
    and "\<not> broken opts (h_ref h)" and "admits_three (normalize_budget (pm_budget mf))"
    and "rid = [] \<or> pm_request_id mf = rid"
  shows "\<exists>plan resp. deterministic_plan_from_manifest rid subject mf = Ok plan \<and>
    validate_plan_against_manifest plan mf = Ok () \<and>
    execute E \<lparr>er_manifest = Some mf, er_plan = Some plan\<rparr> opts = Some resp \<and>
    rs_status resp = execution_status_to_i32 StatusOk \<and>
    rs_assertions resp = [\<lparr>va_assertion_type = assertion_type_to_i32 AssertWorldFact,
      va_fields = [(''subject'', Some (V_S (hm_subject m)))],
      va_citations = [\<lparr>cc_anchor_digest = ''handle:'' @ h_ref h\<rparr>]\<rparr>]"
  using deterministic_plan_renders [OF assms] by blast

end
