(* ===== verification/Guard_Properties.thy ===== *)
theory Guard_Properties
  imports Deterministic_Plan Kernel_Demo
begin

text \<open>
  The properties of the planner guard, alone and together with the kernel.
\<close>

text \<open>C26. The guard is not stricter than the kernel: a plan that the kernel's static checks
  accept passes \<open>validate_plan_against_manifest\<close>, so the guard never costs a good plan.\<close>

theorem kernel_accepts_guard_accepts:
  assumes "validate_static E mf plan b (selectors_index (pm_selectors mf)) = Ok ()"
  shows "validate_plan_against_manifest plan mf = Ok ()"
proof -
  from validate_static_Ok [OF assms] obtain st where
    "foldM (static_step E mf b (selectors_index (pm_selectors mf))) static_init (pl_steps plan) = Ok st"
    by metis
  from static_loop_guard [OF this] show ?thesis
    by (simp add: validate_plan_against_manifest_def static_init_def)
qed

lemma kernel_accepts_guard_accepts_witness:
  "validate_plan_against_manifest (demo_plan_of demo_steps) demo_manifest = Ok ()"
  by (rule kernel_accepts_guard_accepts [of demo_env demo_manifest "demo_plan_of demo_steps" demo_budget])
    (use demo_steps_static in \<open>simp add: demo_static_def\<close>)

text \<open>C27. What the guard accepts: each step has an operation and a new, non-blank output
  register, reads registers declared by then, itself included, fetches a handle of the
  manifest and applies a selector of the manifest.\<close>

theorem guard_accepts_iff:
  "validate_plan_against_manifest plan mf = Ok () \<longleftrightarrow>
   (\<forall>i < length (pl_steps plan). guarded mf (take i (pl_steps plan)) (pl_steps plan ! i))"
  by (rule guard_loop_iff)

lemma guard_accepts_iff_witness:
  "guarded demo_manifest [] (demo_step ''r0'' (OpFetch ''H1''))"
proof -
  have "validate_plan_against_manifest (demo_plan_of [demo_step ''r0'' (OpFetch ''H1'')]) demo_manifest = Ok ()"
    by code_simp
  then show ?thesis unfolding guard_accepts_iff by (simp add: demo_plan_of_def)
qed

text \<open>C28. The reader reads what the printer prints: every plan whose steps have an operation,
  with a known edge and assertion type, parameters that are strings, booleans, integers,
  floats or enums, and citations with a variant, is read back from its JSON unchanged.\<close>

theorem plan_json_roundtrip:
  assumes "expressible plan"
  shows "plan_of_json (plan_json plan) fallback = Ok plan"
  by (rule plan_json_read [OF assms])

lemma plan_json_roundtrip_witness:
  "plan_of_json (plan_json (demo_plan_of demo_steps)) ''x'' = Ok (demo_plan_of demo_steps)"
proof (rule plan_json_roundtrip)
  have "\<exists>t. t \<noteq> EdgeTypeUnspecified \<and> edge_type_to_i32 EdgeSameEntity = edge_type_to_i32 t"
    "\<exists>t. t \<noteq> AssertionTypeUnspecified \<and> assertion_type_to_i32 AssertUserPreference = assertion_type_to_i32 t"
    by blast+
  then show "expressible (demo_plan_of demo_steps)"
    by (simp add: expressible_def demo_plan_of_def demo_steps_def demo_step_def demo_bind_def
        params_expressible_def bm_ok_def del: edge_type_to_i32.simps assertion_type_to_i32.simps)
qed

text \<open>C29. Nothing else is ever read: a plan comes out of \<open>parse_plan_json\<close>, whatever the text and
  in either of the two styles, only if it is such a plan. So the kernel never sees a step
  without an operation, an unspecified edge or assertion type or an empty citation from the
  planner.\<close>

theorem parsed_plans_expressible:
  assumes "parse_plan_json from_str text fallback = Ok plan"
  shows "expressible plan"
  using assms by (auto simp: parse_plan_json_def intro: parsed_expressible)

lemma parsed_plans_expressible_witness:
  "expressible \<lparr>pl_request_id = ''f'', pl_steps = [\<lparr>st_out = ''r0'', st_op = Some (OpFetch ''H1'')\<rparr>],
     pl_outputs = [\<lparr>os_reg = ''r0''\<rparr>]\<rparr>"
  by (rule parsed_plans_expressible [of "\<lambda>_. Ok (JObj [(''outputs'', JArr [JStr ''r0'']),
      (''steps'', JArr [JObj [(''fetch'', JObj [(''handle_ref'', JStr ''H1'')]), (''out'', JStr ''r0'')]])])"
      "[]" "''f''"])
    (simp add: parse_plan_json_def plan_of_json_def bm_get_def parse_step_def require_def
      parse_proto_style_op_def parse_outputs_def parse_output_def default_to_def)

text \<open>What \<open>extract_json_object\<close> returns is a contiguous part of the planner's answer that
  starts with an opening and ends with a closing brace: nothing is rewritten.\<close>

theorem extract_json_braced_part:
  assumes "extract_json_object input = Ok s"
  shows "\<exists>before after. input = before @ s @ after \<and> s \<noteq> [] \<and> hd s = CHR ''{'' \<and> last s = CHR ''}''"
  using extract_infix_braced [OF assms]
  by (auto simp: braced_def starts_with_def ends_with_def sublist_def)

lemma extract_json_braced_part_witness:
  "\<exists>before after. ''ok: ```json {a} ``` done'' = before @ ''{a}'' @ after"
proof -
  have "extract_json_object ''ok: ```json {a} ``` done'' = Ok ''{a}''" by code_simp
  from extract_json_braced_part [OF this] show ?thesis by blast
qed

text \<open>The plan without a planner works. When the first handle of the manifest is ready,
  has metadata, is the one its reference stands for, and is not broken, and the budget admits
  three steps, then the deterministic plan passes the guard and the kernel answers it with OK
  and the single assertion of the handle's subject, citing the handle.\<close>

theorem deterministic_plan_succeeds:
  assumes "hash_env_ok E" and "narrative_templates opts = []"
    and "pm_handles mf = h # hs" and "bm_get (handles_index (pm_handles mf)) (h_ref h) = Some h"
    and "availability_from_i32 (h_availability h) = Ready" and "h_meta h = Some m"
    and "\<not> broken opts (h_ref h)" and "admits_three (normalize_budget (pm_budget mf))"
    and "rid = [] \<or> pm_request_id mf = rid"
  shows "\<exists>plan resp. deterministic_plan_from_manifest rid subject mf = Ok plan \<and>
    validate_plan_against_manifest plan mf = Ok () \<and>
    execute E \<lparr>er_manifest = Some mf, er_plan = Some plan\<rparr> opts = Some resp \<and>
    rs_status resp = execution_status_to_i32 StatusOk \<and>
    rs_assertions resp = [\<lparr>va_assertion_type = assertion_type_to_i32 AssertWorldFact,
      va_fields = [(''subject'', Some (V_S (hm_subject m)))],
      va_citations = [\<lparr>cc_anchor_digest = ''handle:'' @ h_ref h\<rparr>]\<rparr>]"
  by (rule deterministic_plan_runs [OF assms])

lemma deterministic_plan_succeeds_witness:
  "\<exists>plan resp. deterministic_plan_from_manifest ''req'' ''u'' demo_manifest = Ok plan \<and>
    execute demo_env \<lparr>er_manifest = Some demo_manifest, er_plan = Some plan\<rparr> default_options = Some resp \<and>
    rs_status resp = execution_status_to_i32 StatusOk"
proof -
  have h: "pm_handles demo_manifest = demo_h1 # [demo_h2, demo_h3]"
    "h_meta demo_h1 = Some (demo_meta ''user'' Tier3Confirmed [taint_class_to_i32 TaintUser] 5)"
    "pm_request_id demo_manifest = ''req''"
    by (simp_all add: demo_manifest_def demo_h1_def demo_handle_def)
  have k: "bm_get (handles_index (pm_handles demo_manifest)) (h_ref demo_h1) = Some demo_h1"
    "availability_from_i32 (h_availability demo_h1) = Ready" by code_simp+
  have b: "\<not> broken default_options (h_ref demo_h1)" "narrative_templates default_options = []"
    by (simp_all add: broken_def default_options_def)
  have n: "admits_three (normalize_budget (pm_budget demo_manifest))"
    unfolding demo_budget admits_three_def
    by (simp add: demo_budget_def normalize_budget_def default_to_def)
  from deterministic_plan_succeeds [OF demo_hash b(2) h(1) k h(2) b(1) n, of "''req''" "''u''"] h(3)
  show ?thesis by blast
qed

end
