(* ===== verification/Grpc_Service.thy ===== *)
theory Grpc_Service
  imports Kernel_Run
begin

text \<open>
  The gRPC service in front of the kernel (\<open>rmvm-grpc/src/lib.rs\<close>): its state behind the
  mutex and the four requests. Each request takes the lock for its whole duration, so a
  request is one step from state to state. Requests and responses are records with the
  fields of \<open>proto/cortex_rmvm_v3_1_service.proto\<close>.
\<close>

section \<open>State and messages\<close>

record service_state =
  next_event_id :: u64
  next_handle_id :: u64
  svc_handles :: "(string, handle_ref) bmap"

definition service_default :: service_state where
  "service_default = \<lparr>next_event_id = 0, next_handle_id = 0, svc_handles = []\<rparr>"

record append_event_request =
  ae_request_id :: string
  ae_subject :: string
  ae_text :: string
  ae_scope :: i32

record append_event_response =
  aer_event_id :: string
  aer_handle_refs :: "string list"

record forget_request =
  fg_request_id :: string
  fg_subject :: string
  fg_predicate_label :: string
  fg_scope :: i32
  fg_reason :: string

record forget_response =
  fgr_status :: i32
  fgr_assertions :: "verified_assertion list"
  fgr_rendered :: "rendered_output option"
  fgr_error :: "execution_error option"

section \<open>APPEND EVENT\<close>

text \<open>The loop over the two prefixes; the text is sliced where the lower-cased text matched.\<close>

fun parse_preference_with :: "string list \<Rightarrow> string \<Rightarrow> (string \<times> string) option" where
  "parse_preference_with [] normalized = None"
| "parse_preference_with (p # ps) normalized =
     (case strip_prefix p (to_ascii_lowercase normalized) of
        None \<Rightarrow> parse_preference_with ps normalized
      | Some rest \<Rightarrow>
          let val = (if length normalized \<ge> length p then trim (drop (length p) normalized)
                     else trim rest)
          in if val \<noteq> [] then Some (''prefers_beverage'', val)
             else parse_preference_with ps normalized)"

definition parse_preference :: "string \<Rightarrow> (string \<times> string) option" where
  "parse_preference txt = parse_preference_with [''i prefer '', ''prefer ''] (trim txt)"

definition event_subject :: "append_event_request \<Rightarrow> string" where
  "event_subject req = (if trim (ae_subject req) = [] then ''user:unknown'' else ae_subject req)"

definition event_scope :: "append_event_request \<Rightarrow> scope" where
  "event_scope req = default_to ScopeGlobal (scope_try_from (ae_scope req))"

definition preference_handle :: "string \<Rightarrow> string \<Rightarrow> string \<Rightarrow> string \<Rightarrow> scope \<Rightarrow> handle_ref" where
  "preference_handle ref subject label preference sc =
     \<lparr>h_ref = ref, h_type_id = ''normative.preference'',
      h_availability = handle_availability_to_i32 Ready,
      h_meta = Some \<lparr>hm_subject = subject, hm_predicate_label = label,
        hm_trust_tier = trust_tier_to_i32 Tier3Confirmed, hm_taint = [taint_class_to_i32 TaintUser],
        hm_temporal = Some \<lparr>tb_valid_from = None, tb_valid_to = None, tb_open_end = True\<rparr>,
        hm_scope = scope_to_i32 sc\<rparr>,
      h_signature_summary = label @ ''='' @ preference,
      h_conflict_group_id = ''conflict:'' @ label @ '':'' @ subject @ '':'' @ scope_as_str_name sc\<rparr>"

definition append_event ::
  "service_state \<Rightarrow> append_event_request \<Rightarrow> service_state \<times> append_event_response" where
  "append_event st req =
     (let st1 = st\<lparr>next_event_id := next_event_id st + 1\<rparr>;
          event_id = ''EVT'' @ show_nat (unat (next_event_id st1)) in
      case parse_preference (ae_text req) of
        None \<Rightarrow> (st1, \<lparr>aer_event_id = event_id, aer_handle_refs = []\<rparr>)
      | Some (label, preference) \<Rightarrow>
          let st2 = st1\<lparr>next_handle_id := next_handle_id st1 + 1\<rparr>;
              ref = ''H'' @ show_nat (unat (next_handle_id st2));
              handle = preference_handle ref (event_subject req) label preference (event_scope req)
          in (st2\<lparr>svc_handles := bm_insert ref handle (svc_handles st2)\<rparr>,
              \<lparr>aer_event_id = event_id, aer_handle_refs = [ref]\<rparr>))"

section \<open>GET MANIFEST and EXECUTE\<close>

text \<open>The bit patterns are those of \<open>1.25\<close> and \<open>256.0\<close>.\<close>

definition service_selector :: selector_ref where
  "service_selector =
     \<lparr>sel_sel = ''S0'', sel_description = ''Find preferences for subject'',
      sel_params = [\<lparr>ps_name = ''subject'', ps_type = param_type_to_i32 ParamString,
        ps_enum_values = []\<rparr>],
      sel_cost_weight = 0x3FF4000000000000,
      sel_return_type = selector_return_to_i32 ReturnHandleSet\<rparr>"

definition service_budget :: plan_budget where
  "service_budget = \<lparr>pb_max_ops = 128, pb_max_join_depth = 3, pb_max_fanout = 64,
     pb_max_total_cost = 0x4070000000000000\<rparr>"

definition get_manifest :: "service_state \<Rightarrow> string \<Rightarrow> public_manifest" where
  "get_manifest st request_id =
     \<lparr>pm_request_id = request_id, pm_handles = sort_key h_ref (bm_values (svc_handles st)),
      pm_selectors = [service_selector], pm_context = [], pm_budget = Some service_budget\<rparr>"

text \<open>EXECUTE does not touch the state; the manifest is the one the client sends.\<close>

definition service_execute ::
  "kernel_env \<Rightarrow> execute_options \<Rightarrow> execute_request \<Rightarrow> execute_response option" where
  "service_execute E opts req = execute E req opts"

section \<open>FORGET\<close>

text \<open>An empty subject or label and an unspecified scope match everything.\<close>

definition forget_matches :: "forget_request \<Rightarrow> handle_ref \<Rightarrow> bool" where
  "forget_matches req h =
     (case h_meta h of
        None \<Rightarrow> False
      | Some m \<Rightarrow>
          let scope_filter = default_to ScopeUnspecified (scope_try_from (fg_scope req)) in
          \<not> (fg_subject req \<noteq> [] \<and> hm_subject m \<noteq> fg_subject req) \<and>
          \<not> (fg_predicate_label req \<noteq> [] \<and> hm_predicate_label m \<noteq> fg_predicate_label req) \<and>
          \<not> (scope_filter \<noteq> ScopeUnspecified \<and> hm_scope m \<noteq> scope_to_i32 scope_filter))"

definition forget_keys :: "service_state \<Rightarrow> forget_request \<Rightarrow> string list" where
  "forget_keys st req = sort (map fst (filter (\<lambda>e. forget_matches req (snd e)) (svc_handles st)))"

definition value_string :: "string \<Rightarrow> value" where
  "value_string s = Some (V_S s)"

definition forget :: "service_state \<Rightarrow> forget_request \<Rightarrow> service_state \<times> forget_response" where
  "forget st req =
     (let remove_keys = forget_keys st req;
          st' = st\<lparr>svc_handles := foldl (\<lambda>m k. bm_remove k m) (svc_handles st) remove_keys\<rparr>;
          assertion = \<lparr>va_assertion_type = assertion_type_to_i32 AssertDecision,
            va_fields = bm_collect
              [(''action'', value_string ''suppressed_preference''),
               (''subject'', value_string (fg_subject req)),
               (''predicate_label'', value_string (fg_predicate_label req)),
               (''suppressed_count'', Some (V_I64 (word_of_nat (length remove_keys))))],
            va_citations = map (\<lambda>h. \<lparr>cc_anchor_digest = ''handle:'' @ h\<rparr>) remove_keys\<rparr>;
          block = ''Suppressed '' @ show_nat (length remove_keys) @ '' preference handles for '' @
            fg_subject req @ '' / '' @ fg_predicate_label req @ ''.''
      in (st', \<lparr>fgr_status = execution_status_to_i32 StatusOk, fgr_assertions = [assertion],
                fgr_rendered = Some \<lparr>ro_verified_blocks = [block], ro_narrative_blocks = []\<rparr>,
                fgr_error = None\<rparr>))"

section \<open>The service as a transition system\<close>

datatype request =
    Append append_event_request
  | Manifest string
  | Execute execute_request
  | Forget forget_request

inductive serves :: "service_state \<Rightarrow> request \<Rightarrow> service_state \<Rightarrow> bool" where
  serves_append: "append_event st req = (st', resp) \<Longrightarrow> serves st (Append req) st'"
| serves_manifest: "serves st (Manifest rid) st"
| serves_execute: "serves st (Execute req) st"
| serves_forget: "forget st req = (st', resp) \<Longrightarrow> serves st (Forget req) st'"

inductive_cases serves_AppendE: "serves st (Append req) st'"
inductive_cases serves_ForgetE: "serves st (Forget req) st'"
inductive_simps serves_Manifest: "serves st (Manifest rid) st'"
inductive_simps serves_Execute: "serves st (Execute req) st'"

inductive serves_all :: "service_state \<Rightarrow> request list \<Rightarrow> service_state \<Rightarrow> bool" where
  serves_nil: "serves_all st [] st"
| serves_snoc: "serves_all st rs st' \<Longrightarrow> serves st' r st'' \<Longrightarrow> serves_all st (rs @ [r]) st''"

end
