(* ===== verification/Grpc_Facts.thy ===== *)
theory Grpc_Facts
  imports Grpc_Service Kernel_Proof
begin

text \<open>
  Facts about the gRPC service: the invariant of its reachable states (every handle was made
  by an APPEND, under a reference of its own), what APPEND and FORGET do to the handles, and
  that a reference is never used twice. The counters are \<open>u64\<close>; the bound on the number of
  requests says they have not wrapped.
\<close>

section \<open>The preference parser\<close>

lemma parse_preference_with_Some:
  "parse_preference_with ps s = Some (l, v) \<Longrightarrow>
   l = ''prefers_beverage'' \<and> v \<noteq> [] \<and>
   (\<exists>p \<in> set ps. prefix p (to_ascii_lowercase s) \<and> v = trim (drop (length p) s))"
proof (induction ps s rule: parse_preference_with.induct)
  case (1 s)
  then show ?case by simp
next
  case (2 p ps s)
  show ?case
  proof (cases "strip_prefix p (to_ascii_lowercase s)")
    case None
    with 2 show ?thesis by auto
  next
    case (Some rest)
    then have pre: "to_ascii_lowercase s = p @ rest" by (simp add: strip_prefix_Some)
    then have "length p \<le> length s" by (metis length_append length_to_ascii_lowercase le_add1)
    with 2 Some pre show ?thesis by (cases "trim (drop (length p) s) = []") auto
  qed
qed

section \<open>The invariant\<close>

text \<open>A handle that APPEND made as number \<open>i\<close>.\<close>

definition made_as :: "nat \<Rightarrow> string \<Rightarrow> handle_ref \<Rightarrow> bool" where
  "made_as i k h \<longleftrightarrow> k = ''H'' @ show_nat i \<and>
     (\<exists>s v sc. v \<noteq> [] \<and> h = preference_handle k s ''prefers_beverage'' v sc)"

definition service_ok :: "nat \<Rightarrow> service_state \<Rightarrow> bool" where
  "service_ok n st \<longleftrightarrow>
     bm_ok (svc_handles st) \<and> unat (next_event_id st) \<le> n \<and> unat (next_handle_id st) \<le> n \<and>
     (\<forall>k h. bm_get (svc_handles st) k = Some h \<longrightarrow>
        (\<exists>i. 0 < i \<and> i \<le> unat (next_handle_id st) \<and> made_as i k h))"

lemma service_ok_default: "service_ok 0 service_default"
  by (simp add: service_ok_def service_default_def)

lemma service_ok_mono: "service_ok n st \<Longrightarrow> n \<le> m \<Longrightarrow> service_ok m st"
  unfolding service_ok_def by (meson order_trans)

lemma unat_plus_1: "unat (w :: u64) \<le> n \<Longrightarrow> n < 2 ^ 64 - 1 \<Longrightarrow> unat (w + 1) = unat w + 1"
proof -
  assume "unat w \<le> n" and "n < 2 ^ 64 - 1"
  then have "unat w + unat (1 :: u64) < 2 ^ LENGTH(64)" by simp
  then have "unat (w + 1) = unat w + unat (1 :: u64)" by (simp only: unat_add_lem)
  then show ?thesis by simp
qed

text \<open>The two outcomes of an APPEND.\<close>

lemma append_event_None:
  "parse_preference (ae_text req) = None \<Longrightarrow>
   fst (append_event st req) = st\<lparr>next_event_id := next_event_id st + 1\<rparr>"
  by (simp add: append_event_def Let_def)

definition next_ref :: "service_state \<Rightarrow> string" where
  "next_ref st = ''H'' @ show_nat (unat (next_handle_id st + 1))"

lemma append_event_Some:
  assumes "parse_preference (ae_text req) = Some (l, v)"
  shows "fst (append_event st req) =
    \<lparr>next_event_id = next_event_id st + 1, next_handle_id = next_handle_id st + 1,
     svc_handles = bm_insert (next_ref st)
       (preference_handle (next_ref st) (event_subject req) l v (event_scope req)) (svc_handles st)\<rparr>"
    and "aer_handle_refs (snd (append_event st req)) = [next_ref st]"
  using assms by (simp_all add: append_event_def Let_def next_ref_def)

lemma show_handle_inj: "''H'' @ show_nat i = ''H'' @ show_nat j \<longleftrightarrow> i = j"
  by (simp add: show_nat_inj)

lemma append_service_ok:
  assumes "service_ok n st" and "n < 2 ^ 64 - 1"
  shows "service_ok (Suc n) (fst (append_event st req))"
proof (cases "parse_preference (ae_text req)")
  case None
  with assms unat_plus_1 [of "next_event_id st" n] show ?thesis
    by (auto simp: append_event_None service_ok_def)
next
  case (Some lv)
  obtain l v where lv: "parse_preference (ae_text req) = Some (l, v)" using Some by (cases lv) auto
  have l: "l = ''prefers_beverage''" "v \<noteq> []"
    using parse_preference_with_Some lv unfolding parse_preference_def by blast+
  have nxt: "unat (next_handle_id st + 1) = unat (next_handle_id st) + 1"
    "unat (next_event_id st + 1) = unat (next_event_id st) + 1"
    using assms unat_plus_1 unfolding service_ok_def by blast+
  have old: "\<exists>i. 0 < i \<and> i \<le> unat (next_handle_id st) + 1 \<and> made_as i k h"
    if "bm_get (svc_handles st) k = Some h" for k h
    using that assms(1) unfolding service_ok_def by (meson le_SucI Suc_eq_plus1 trans_le_add1)
  show ?thesis
    using assms(1) old nxt l unfolding append_event_Some(1) [OF lv]
    by (auto simp: service_ok_def made_as_def next_ref_def)
qed

lemma get_removed:
  "bm_get (foldl (\<lambda>m k. bm_remove k m) m ks) k = (if k \<in> set ks then None else bm_get m k)"
  by (induction ks arbitrary: m) auto

lemma bm_ok_removed: "bm_ok m \<Longrightarrow> bm_ok (foldl (\<lambda>m k. bm_remove k m) m ks)"
  by (induction ks arbitrary: m) auto

lemma forget_handles:
  assumes "bm_ok (svc_handles st)"
  shows "bm_get (svc_handles (fst (forget st req))) k =
    (case bm_get (svc_handles st) k of
       Some h \<Rightarrow> if forget_matches req h then None else Some h | None \<Rightarrow> None)"
proof -
  have "k \<in> set (forget_keys st req) \<longleftrightarrow>
      (\<exists>h. bm_get (svc_handles st) k = Some h \<and> forget_matches req h)"
    using assms by (force simp: forget_keys_def bm_get_iff image_iff)
  then show ?thesis by (auto simp: forget_def Let_def get_removed split: option.split)
qed

lemma forget_service_ok: "service_ok n st \<Longrightarrow> service_ok n (fst (forget st req))"
  using forget_handles [of st req]
  by (auto simp: service_ok_def forget_def Let_def bm_ok_removed split: option.splits if_splits)

lemma serves_ok:
  assumes "serves st r st'" and "service_ok n st" and "n < 2 ^ 64 - 1"
  shows "service_ok (Suc n) st'"
  using assms
proof cases
  case (serves_append req resp)
  with append_service_ok [OF assms(2,3), of req] show ?thesis by simp
next
  case (serves_forget req resp)
  with forget_service_ok [OF assms(2), of req] service_ok_mono [of n st' "Suc n"] show ?thesis by simp
qed (use service_ok_mono [OF assms(2)] in auto)

lemma serves_all_ok:
  "serves_all st rs st' \<Longrightarrow> service_ok n st \<Longrightarrow> n + length rs < 2 ^ 64 \<Longrightarrow> service_ok (n + length rs) st'"
  by (induction rule: serves_all.induct) (auto intro: serves_ok)

section \<open>References are not reused\<close>

lemma serves_next_mono:
  assumes "serves st r st'" and "service_ok n st" and "n < 2 ^ 64 - 1"
  shows "unat (next_handle_id st) \<le> unat (next_handle_id st')"
  using assms
proof cases
  case (serves_append req resp)
  then have st': "st' = fst (append_event st req)" by simp
  have "unat (next_handle_id st + 1) = unat (next_handle_id st) + 1"
    using assms(2,3) unat_plus_1 unfolding service_ok_def by blast
  then show ?thesis
    unfolding st' by (auto simp: append_event_def Let_def split: option.split)
next
  case (serves_forget req resp)
  then show ?thesis by (auto simp: forget_def Let_def)
qed simp_all

text \<open>A number that has been given out and is free stays free.\<close>

definition retired :: "nat \<Rightarrow> service_state \<Rightarrow> bool" where
  "retired i st \<longleftrightarrow> i \<le> unat (next_handle_id st) \<and> bm_get (svc_handles st) (''H'' @ show_nat i) = None"

lemma serves_retired:
  assumes "serves st r st'" and "service_ok n st" and "n < 2 ^ 64 - 1" and "retired i st"
  shows "retired i st'"
proof -
  have "bm_get (svc_handles st') (''H'' @ show_nat i) = None"
    using assms(1)
  proof cases
    case (serves_append req resp)
    then have st': "st' = fst (append_event st req)" by simp
    have "unat (next_handle_id st + 1) = unat (next_handle_id st) + 1"
      using assms(2,3) unat_plus_1 unfolding service_ok_def by blast
    then have "i \<noteq> unat (next_handle_id st + 1)" using assms(4) by (simp add: retired_def)
    then show ?thesis
      using assms(4) unfolding st'
      by (cases "parse_preference (ae_text req)")
        (auto simp: append_event_None append_event_Some retired_def next_ref_def show_nat_inj)
  next
    case (serves_forget req resp)
    then have "st' = fst (forget st req)" by simp
    then show ?thesis
      using assms(2,4) by (simp add: forget_handles service_ok_def retired_def)
  qed (use assms(4) in \<open>auto simp: retired_def\<close>)
  with serves_next_mono [OF assms(1-3)] assms(4) show ?thesis by (simp add: retired_def)
qed

lemma serves_all_retired:
  "serves_all st rs st' \<Longrightarrow> service_ok n st \<Longrightarrow> n + length rs < 2 ^ 64 \<Longrightarrow> retired i st \<Longrightarrow> retired i st'"
proof (induction rule: serves_all.induct)
  case (serves_nil st)
  then show ?case by simp
next
  case (serves_snoc st rs st' r st'')
  have "service_ok (n + length rs) st'"
    using serves_snoc by (intro serves_all_ok [of st]) auto
  moreover have "n + length rs < 2 ^ 64 - 1" using serves_snoc.prems(2) by simp
  moreover have "retired i st'" using serves_snoc by auto
  ultimately show ?case using serves_retired [OF serves_snoc.hyps(2)] by blast
qed

section \<open>The manifest\<close>

lemma service_handles_sorted:
  assumes "service_ok n st"
  shows "pm_handles (get_manifest st rid) = bm_values (svc_handles st)"
    and "map h_ref (bm_values (svc_handles st)) = map fst (svc_handles st)"
proof -
  have "snd e = preference_handle (fst e) s l v sc \<Longrightarrow> h_ref (snd e) = fst e" for e s l v sc
    by (simp add: preference_handle_def)
  then have ref: "h_ref (snd e) = fst e" if "e \<in> set (svc_handles st)" for e
    using that assms unfolding service_ok_def made_as_def by (metis bm_get_iff prod.collapse)
  then show refs: "map h_ref (bm_values (svc_handles st)) = map fst (svc_handles st)"
    by (simp add: bm_values_def)
  have "sorted (map fst (svc_handles st))"
    using assms by (auto simp: service_ok_def bm_ok_def strict_sorted_imp_sorted)
  then show "pm_handles (get_manifest st rid) = bm_values (svc_handles st)"
    using refs by (simp add: get_manifest_def sort_key_id_if_sorted)
qed

lemma service_refs_distinct:
  assumes "service_ok n st"
  shows "distinct (map h_ref (pm_handles (get_manifest st rid)))"
  using assms service_handles_sorted [OF assms]
  by (simp add: service_ok_def bm_ok_def strict_sorted_iff)

lemma service_handle_in:
  assumes "service_ok n st"
  shows "h \<in> set (pm_handles (get_manifest st rid)) \<longleftrightarrow> bm_get (svc_handles st) (h_ref h) = Some h"
proof -
  have ok: "bm_ok (svc_handles st)" using assms by (simp add: service_ok_def)
  have "h \<in> snd ` set (svc_handles st) \<longleftrightarrow> (h_ref h, h) \<in> set (svc_handles st)"
  proof
    assume "h \<in> snd ` set (svc_handles st)"
    then obtain k where k: "(k, h) \<in> set (svc_handles st)" by auto
    with assms ok have "\<exists>i. made_as i k h" unfolding service_ok_def by (metis bm_get_iff)
    then have "h_ref h = k" by (auto simp: made_as_def preference_handle_def)
    with k show "(h_ref h, h) \<in> set (svc_handles st)" by simp
  qed force
  then show ?thesis
    using service_handles_sorted(1) [OF assms] ok by (simp add: bm_values_def bm_get_iff)
qed

lemma service_handle_ref:
  assumes "service_ok n st" and "bm_get (svc_handles st) k = Some h"
  shows "h_ref h = k"
proof -
  from assms obtain s v sc where "h = preference_handle k s ''prefers_beverage'' v sc"
    unfolding service_ok_def made_as_def by blast
  then show ?thesis by (simp add: preference_handle_def)
qed

lemma forget_keys_sorted: "bm_ok (svc_handles st) \<Longrightarrow> sorted_wrt (<) (forget_keys st req)"
  using bm_ok_filter [of "svc_handles st" "\<lambda>e. forget_matches req (snd e)"]
  by (simp add: forget_keys_def bm_ok_def strict_sorted_iff sorted_sort_id)

lemma forget_keys_refs:
  assumes "service_ok n st"
  shows "set (forget_keys st req) =
    h_ref ` {h \<in> set (pm_handles (get_manifest st rid)). forget_matches req h}"
proof -
  have "k \<in> set (forget_keys st req) \<longleftrightarrow>
      (\<exists>h. bm_get (svc_handles st) k = Some h \<and> forget_matches req h)" for k
    using assms by (force simp: forget_keys_def bm_get_iff image_iff service_ok_def)
  then show ?thesis
    using service_handle_ref [OF assms] unfolding service_handle_in [OF assms]
    by (auto simp: image_iff) metis+
qed

lemma execute_answers:
  assumes "hash_env_ok E" and "narrative_templates opts = []"
  obtains resp where "execute E req opts = Some resp"
  using execute_inner_total [of E opts req] assms by (auto simp: execute_def)

text \<open>A plan that the kernel accepts fetches handles of the manifest only.\<close>

lemma static_loop_fetches:
  "foldM (static_step E mf b sels) st steps = Ok st' \<Longrightarrow> s \<in> set steps \<Longrightarrow>
   st_op s = Some (OpFetch href) \<Longrightarrow> href \<in> h_ref ` set (pm_handles mf)"
proof (induction steps arbitrary: st)
  case Nil
  then show ?case by simp
next
  case (Cons x steps)
  then obtain t where t: "static_step E mf b sels st x = Ok t" "foldM (static_step E mf b sels) t steps = Ok st'"
    by auto
  show ?case
  proof (cases "s = x")
    case True
    from t(1) obtain op d c where "st_op x = Some op"
      "static_op E mf b sels (declared t) (join_depths st) (total_cost st) op = Ok (d, c)"
      by (rule static_step_Ok)
    with True Cons.prems(3) static_op_Ok_fetch show ?thesis by auto
  next
    case False
    with Cons t(2) show ?thesis by auto
  qed
qed

end
