(* ===== verification/Grpc_Fixture.thy ===== *)
theory Grpc_Fixture
  imports Deterministic_Plan
begin

text \<open>
  The golden request of \<open>rmvm-grpc/src/fixture_data.rs\<close>, which the round trip over gRPC sends.
  The bit patterns are those of \<open>1.25\<close> and \<open>256.0\<close>.
\<close>

definition golden_handle :: handle_ref where
  "golden_handle =
     \<lparr>h_ref = ''H0'', h_type_id = ''normative.preference'',
      h_availability = handle_availability_to_i32 Ready,
      h_meta = Some \<lparr>hm_subject = ''user:vinz'', hm_predicate_label = ''prefers_beverage'',
        hm_trust_tier = trust_tier_to_i32 Tier3Confirmed, hm_taint = [],
        hm_temporal = Some \<lparr>tb_valid_from = None, tb_valid_to = None, tb_open_end = True\<rparr>,
        hm_scope = scope_to_i32 ScopeGlobal\<rparr>,
      h_signature_summary = ''User stated a hot drink preference'',
      h_conflict_group_id = ''conflict:prefers_beverage:user:vinz:global''\<rparr>"

definition golden_manifest :: public_manifest where
  "golden_manifest =
     \<lparr>pm_request_id = ''golden-req-001'', pm_handles = [golden_handle],
      pm_selectors =
        [\<lparr>sel_sel = ''S0'', sel_description = ''Find preferences by subject'',
          sel_params = [\<lparr>ps_name = ''subject'', ps_type = param_type_to_i32 ParamString,
            ps_enum_values = []\<rparr>],
          sel_cost_weight = 0x3FF4000000000000,
          sel_return_type = selector_return_to_i32 ReturnHandleSet\<rparr>],
      pm_context = [\<lparr>cv_name = ''scope'', cv_value = Some (Some (V_E ''SCOPE_GLOBAL''))\<rparr>],
      pm_budget = Some \<lparr>pb_max_ops = 128, pb_max_join_depth = 3, pb_max_fanout = 64,
        pb_max_total_cost = 0x4070000000000000\<rparr>\<rparr>"

definition golden_plan :: rmvm_plan where
  "golden_plan =
     \<lparr>pl_request_id = ''golden-req-001'',
      pl_steps =
        [\<lparr>st_out = ''r0'', st_op = Some (OpFetch ''H0'')\<rparr>,
         \<lparr>st_out = ''r1'', st_op = Some (OpProject ''r0'' [''meta.subject''])\<rparr>,
         \<lparr>st_out = ''r2'', st_op = Some (OpAssert (assertion_type_to_i32 AssertWorldFact)
            (bm_insert ''subject'' \<lparr>vr_reg = ''r1'', vr_field_path = ''meta.subject''\<rparr> []) [])\<rparr>],
      pl_outputs = [\<lparr>os_reg = ''r2''\<rparr>]\<rparr>"

definition golden_execute_request :: execute_request where
  "golden_execute_request = \<lparr>er_manifest = Some golden_manifest, er_plan = Some golden_plan\<rparr>"

lemma golden_plan_deterministic:
  "deterministic_plan_from_manifest ''golden-req-001'' subject golden_manifest = Ok golden_plan"
  by (simp add: deterministic_plan_from_manifest_def golden_manifest_def golden_handle_def
      golden_plan_def fact_steps_def)

lemma golden_budget_admits: "admits_three (normalize_budget (pm_budget golden_manifest))"
  by (simp add: golden_manifest_def admits_three_def normalize_budget_def default_to_def non_zero_def
      fl_of_bits_def fl_of_nat_def scaled_def signed_mant_def fl_gt_def)

end
