(* ===== verification/Grpc_Properties.thy ===== *)
theory Grpc_Properties
  imports Grpc_Facts Grpc_Fixture Kernel_Demo
begin

text \<open>
  The properties of the gRPC service, alone and with the planner guard and the kernel, and
  the golden request of \<open>rmvm-grpc/src/fixture_data.rs\<close>.
\<close>

section \<open>The manifest of a reachable state\<close>

text \<open>C30. After any sequence of fewer than \<open>2 ^ 64\<close> requests the manifest is in order: its
  handles have strictly ascending, so distinct, references; each is ready, confirmed by the
  user, tainted as user input only, and labelled \<open>prefers_beverage\<close>.\<close>

theorem manifest_well_formed:
  assumes "serves_all service_default rs st" and "length rs < 2 ^ 64"
  shows "sorted_wrt (<) (map h_ref (pm_handles (get_manifest st rid))) \<and>
    (\<forall>h \<in> set (pm_handles (get_manifest st rid)).
       availability_from_i32 (h_availability h) = Ready \<and> handle_trust h = Tier3Confirmed \<and>
       handle_taint h = [taint_class_to_i32 TaintUser] \<and>
       map_option hm_predicate_label (h_meta h) = Some ''prefers_beverage'')"
proof -
  have ok: "service_ok (length rs) st"
    using serves_all_ok [OF assms(1) service_ok_default] assms(2) by simp
  have "availability_from_i32 (h_availability h) = Ready \<and> handle_trust h = Tier3Confirmed \<and>
      handle_taint h = [taint_class_to_i32 TaintUser] \<and>
      map_option hm_predicate_label (h_meta h) = Some ''prefers_beverage''"
    if "h \<in> set (pm_handles (get_manifest st rid))" for h
  proof -
    from that have "bm_get (svc_handles st) (h_ref h) = Some h" by (simp add: service_handle_in [OF ok])
    with ok obtain s v sc where "h = preference_handle (h_ref h) s ''prefers_beverage'' v sc"
      unfolding service_ok_def made_as_def by blast
    then obtain r where "h = preference_handle r s ''prefers_beverage'' v sc" by blast
    then show ?thesis
      by (simp add: preference_handle_def handle_trust_def handle_taint_def
          del: taint_class_to_i32.simps trust_tier_to_i32.simps handle_availability_to_i32.simps)
  qed
  moreover have "sorted_wrt (<) (map h_ref (pm_handles (get_manifest st rid)))"
    using ok service_handles_sorted [OF ok] by (simp add: service_ok_def bm_ok_def)
  ultimately show ?thesis by blast
qed

definition tea :: append_event_request where
  "tea = \<lparr>ae_request_id = ''r'', ae_subject = ''user:vinz'', ae_text = '' I prefer Earl Grey '', ae_scope = 0\<rparr>"

definition tea_state :: service_state where
  "tea_state = fst (append_event service_default tea)"

lemma tea_parsed: "parse_preference (ae_text tea) = Some (''prefers_beverage'', ''Earl Grey'')"
  by code_simp

lemma tea_served: "serves_all service_default [Append tea] tea_state"
proof -
  have "serves service_default (Append tea) tea_state"
    unfolding tea_state_def by (rule serves_append [OF prod.collapse [symmetric]])
  from serves_snoc [OF serves_nil this] show ?thesis by simp
qed

lemma tea_handles: "map h_ref (pm_handles (get_manifest tea_state rid)) = [''H1'']"
  by code_simp

lemma manifest_well_formed_witness:
  "\<exists>h. pm_handles (get_manifest tea_state ''r'') = [h] \<and> handle_trust h = Tier3Confirmed"
  using manifest_well_formed [OF tea_served, of "''r''"] tea_handles [of "''r''"] by auto

section \<open>Remembering and forgetting\<close>

text \<open>C31. An event that states a preference is remembered under a new reference: the manifest
  gains exactly the handle that the response names, and its reference was not in use.\<close>

theorem append_remembers:
  assumes "serves_all service_default rs st" and "length rs < 2 ^ 64 - 1"
    and "parse_preference (ae_text req) = Some (l, v)" and "append_event st req = (st', resp)"
  shows "\<exists>ref. aer_handle_refs resp = [ref] \<and>
    ref \<notin> h_ref ` set (pm_handles (get_manifest st rid)) \<and>
    set (pm_handles (get_manifest st' rid)) =
      insert (preference_handle ref (event_subject req) l v (event_scope req))
        (set (pm_handles (get_manifest st rid)))"
proof -
  have ok: "service_ok (length rs) st"
    using serves_all_ok [OF assms(1) service_ok_default] assms(2) by simp
  have st': "st' = fst (append_event st req)" and resp: "resp = snd (append_event st req)"
    using assms(4) by simp_all
  have ok': "service_ok (Suc (length rs)) st'"
    unfolding st' by (rule append_service_ok [OF ok assms(2)])
  have nxt: "unat (next_handle_id st + 1) = unat (next_handle_id st) + 1"
    using ok assms(2) unat_plus_1 unfolding service_ok_def by blast
  have fresh: "bm_get (svc_handles st) (next_ref st) = None"
  proof (rule ccontr)
    assume "bm_get (svc_handles st) (next_ref st) \<noteq> None"
    with ok obtain i where "i \<le> unat (next_handle_id st)" "next_ref st = ''H'' @ show_nat i"
      unfolding service_ok_def made_as_def by blast
    then show False using nxt by (simp add: next_ref_def show_nat_inj)
  qed
  have "set (pm_handles (get_manifest st' rid)) =
      insert (preference_handle (next_ref st) (event_subject req) l v (event_scope req))
        (set (pm_handles (get_manifest st rid)))" (is "?L = insert ?new _")
  proof -
    have ref: "h_ref ?new = next_ref st" by (simp add: preference_handle_def)
    have hs': "svc_handles st' = bm_insert (next_ref st) ?new (svc_handles st)"
      unfolding st' append_event_Some(1) [OF assms(3)] by simp
    have "h \<in> ?L \<longleftrightarrow> h = ?new \<or> h \<in> set (pm_handles (get_manifest st rid))" for h
      unfolding service_handle_in [OF ok'] service_handle_in [OF ok] hs'
      using fresh ref by auto
    then show ?thesis by blast
  qed
  moreover have "next_ref st \<notin> h_ref ` set (pm_handles (get_manifest st rid))"
    using fresh service_handle_in [OF ok] by auto
  ultimately show ?thesis using append_event_Some(2) [OF assms(3), of st] resp by blast
qed

lemma append_remembers_witness:
  "\<exists>ref. set (pm_handles (get_manifest tea_state ''r'')) =
     {preference_handle ref ''user:vinz'' ''prefers_beverage'' ''Earl Grey'' ScopeUnspecified}"
proof -
  have "event_subject tea = ''user:vinz''" "event_scope tea = ScopeUnspecified" by code_simp+
  moreover have "set (pm_handles (get_manifest service_default ''r'')) = {}"
    by (simp add: get_manifest_def service_default_def bm_values_def)
  moreover have "append_event service_default tea = (tea_state, snd (append_event service_default tea))"
    by (simp add: tea_state_def)
  ultimately show ?thesis
    using append_remembers [OF serves_nil [of service_default] _ tea_parsed, of tea_state _ "''r''"] by auto
qed

text \<open>C32. FORGET removes what it says and nothing else. The manifest loses exactly the handles
  that match the request; the response is OK with one decision, which counts them and cites
  each of them once, in ascending order.\<close>

theorem forget_exact:
  assumes "serves_all service_default rs st" and "length rs < 2 ^ 64" and "forget st req = (st', resp)"
  shows "set (pm_handles (get_manifest st' rid)) =
      {h \<in> set (pm_handles (get_manifest st rid)). \<not> forget_matches req h} \<and>
    (\<exists>removed. sorted_wrt (<) removed \<and>
       set removed = h_ref ` {h \<in> set (pm_handles (get_manifest st rid)). forget_matches req h} \<and>
       (\<exists>a. fgr_assertions resp = [a] \<and>
          bm_get (va_fields a) ''suppressed_count'' = Some (Some (V_I64 (word_of_nat (length removed)))) \<and>
          map cc_anchor_digest (va_citations a) = map (\<lambda>h. ''handle:'' @ h) removed))"
proof -
  have ok: "service_ok (length rs) st"
    using serves_all_ok [OF assms(1) service_ok_default] assms(2) by simp
  then have bm: "bm_ok (svc_handles st)" by (simp add: service_ok_def)
  have st': "st' = fst (forget st req)" and resp: "resp = snd (forget st req)" using assms(3) by simp_all
  have ok': "service_ok (length rs) st'" unfolding st' by (rule forget_service_ok [OF ok])
  have "h \<in> set (pm_handles (get_manifest st' rid)) \<longleftrightarrow>
      h \<in> set (pm_handles (get_manifest st rid)) \<and> \<not> forget_matches req h" for h
    unfolding service_handle_in [OF ok'] service_handle_in [OF ok]
    unfolding st' forget_handles [OF bm] by (auto split: option.splits)
  then have handles: "set (pm_handles (get_manifest st' rid)) =
      {h \<in> set (pm_handles (get_manifest st rid)). \<not> forget_matches req h}" by blast
  let ?ks = "forget_keys st req"
  have sorted: "sorted_wrt (<) ?ks" by (rule forget_keys_sorted [OF bm])
  note forget_keys_refs [OF ok, of req rid]
  moreover have "\<exists>a. fgr_assertions resp = [a] \<and>
      bm_get (va_fields a) ''suppressed_count'' = Some (Some (V_I64 (word_of_nat (length ?ks)))) \<and>
      map cc_anchor_digest (va_citations a) = map (\<lambda>h. ''handle:'' @ h) ?ks"
    unfolding resp forget_def Let_def by (simp add: bm_collect_get o_def)
  ultimately show ?thesis using handles sorted by blast
qed

definition forget_vinz :: forget_request where
  "forget_vinz = \<lparr>fg_request_id = [], fg_subject = ''user:vinz'', fg_predicate_label = [], fg_scope = 0,
     fg_reason = []\<rparr>"

definition empty_state :: service_state where
  "empty_state = fst (forget tea_state forget_vinz)"

lemma tea_forgotten: "forget_keys tea_state forget_vinz = [''H1'']"
  by code_simp

lemma forget_exact_witness:
  "set (pm_handles (get_manifest empty_state ''r'')) = {}"
proof -
  have "forget tea_state forget_vinz = (empty_state, snd (forget tea_state forget_vinz))"
    by (simp add: empty_state_def)
  from forget_exact [OF tea_served _ this, of "''r''"]
  have "set (pm_handles (get_manifest empty_state ''r'')) =
      {h \<in> set (pm_handles (get_manifest tea_state ''r'')). \<not> forget_matches forget_vinz h}" by simp
  moreover have "list_all (\<lambda>h. forget_matches forget_vinz h) (pm_handles (get_manifest tea_state ''r''))"
    by code_simp
  ultimately show ?thesis by (auto simp: list_all_iff)
qed

section \<open>The service with the kernel\<close>

lemma service_budget_admits: "admits_three (normalize_budget (pm_budget (get_manifest st rid)))"
  by (simp add: get_manifest_def admits_three_def service_budget_def normalize_budget_def
      default_to_def non_zero_def fl_of_bits_def fl_of_nat_def scaled_def signed_mant_def fl_gt_def)

text \<open>A plan with an answer has fetched only references of the manifest that came with it.\<close>

lemma fetched_in_manifest:
  assumes "execute E \<lparr>er_manifest = Some mf, er_plan = Some plan\<rparr> opts = Some resp"
    and "rs_proof resp \<noteq> None \<or> rs_assertions resp \<noteq> []"
    and "s \<in> set (pl_steps plan)" and "st_op s = Some (OpFetch r)"
  shows "r \<in> h_ref ` set (pm_handles mf)"
proof -
  have "rs_proof resp \<noteq> None"
    using assms(2) execute_assertion_proof [OF assms(1)] by (metis list.set_intros(1) neq_Nil_conv)
  from execute_proofE [OF assms(1) this] obtain run where "run_plan E mf plan opts = Ok run" by auto
  from validate_static_Ok [OF run_plan_Ok(1) [OF this]] obtain sst where
    "foldM (static_step E mf (normalize_budget (pm_budget mf)) (selectors_index (pm_selectors mf)))
       static_init (pl_steps plan) = Ok sst" by metis
  from static_loop_fetches [OF this assms(3,4)] show ?thesis by blast
qed

text \<open>C13. What is forgotten stays out of the manifests. After a FORGET that removes a handle, whatever
  requests follow, no manifest that the service gives out has its reference again, for a new handle
  either; and an EXECUTE whose plan fetches the reference is answered without proof and assertion,
  unless the manifest that the client sends along still has it, which then is not one that the
  service would give out now. (EXECUTE takes the client's manifest as it is, so one kept from before
  the FORGET still works: \<open>old_manifest_still_fetches\<close>.)\<close>

theorem forgotten_only_on_old_manifest:
  assumes "serves_all service_default rs st" and "h \<in> set (pm_handles (get_manifest st rid))"
    and "forget_matches req h" and "forget st req = (st1, resp1)"
    and "serves_all st1 rs' st2" and "length rs + length rs' < 2 ^ 64"
  shows "(\<forall>rid'. h_ref h \<notin> h_ref ` set (pm_handles (get_manifest st2 rid'))) \<and>
    (\<forall>E opts mf plan s resp.
       service_execute E opts \<lparr>er_manifest = Some mf, er_plan = Some plan\<rparr> = Some resp \<and>
       s \<in> set (pl_steps plan) \<and> st_op s = Some (OpFetch (h_ref h)) \<and>
       (rs_proof resp \<noteq> None \<or> rs_assertions resp \<noteq> []) \<longrightarrow>
       h_ref h \<in> h_ref ` set (pm_handles mf) \<and> (\<forall>rid'. mf \<noteq> get_manifest st2 rid'))"
proof -
  have ok: "service_ok (length rs) st"
    using serves_all_ok [OF assms(1) service_ok_default] assms(6) by simp
  have st1: "st1 = fst (forget st req)" using assms(4) by simp
  then have ok1: "service_ok (length rs) st1" using forget_service_ok [OF ok] by simp
  have ok2: "service_ok (length rs + length rs') st2" by (rule serves_all_ok [OF assms(5) ok1 assms(6)])
  have get: "bm_get (svc_handles st) (h_ref h) = Some h"
    using assms(2) by (simp add: service_handle_in [OF ok])
  with ok obtain i where i: "i \<le> unat (next_handle_id st)" "h_ref h = ''H'' @ show_nat i"
    unfolding service_ok_def made_as_def by blast
  have "bm_get (svc_handles st1) (h_ref h) = None"
    using ok get assms(3) by (simp add: st1 forget_handles service_ok_def)
  then have "retired i st1" using i by (simp add: retired_def st1 forget_def Let_def)
  from serves_all_retired [OF assms(5) ok1 assms(6) this] i(2)
  have "bm_get (svc_handles st2) (h_ref h) = None" by (simp add: retired_def)
  then have gone: "h_ref h \<notin> h_ref ` set (pm_handles (get_manifest st2 rid'))" for rid'
    using service_handle_in [OF ok2] by auto
  with fetched_in_manifest show ?thesis unfolding service_execute_def by blast
qed

lemma forgotten_only_on_old_manifest_witness:
  "\<exists>resp. service_execute demo_env default_options \<lparr>er_manifest = Some (get_manifest empty_state ''r''),
      er_plan = Some (demo_plan_of demo_short)\<rparr> = Some resp \<and>
     rs_proof resp = None \<and> rs_assertions resp = []"
proof -
  obtain h where h: "h \<in> set (pm_handles (get_manifest tea_state ''r''))" "h_ref h = ''H1''"
    using tea_handles [of "''r''"] by (cases "pm_handles (get_manifest tea_state ''r'')") auto
  have "list_all (\<lambda>h. forget_matches forget_vinz h) (pm_handles (get_manifest tea_state ''r''))"
    by code_simp
  then have m: "forget_matches forget_vinz h" using h(1) by (simp add: list_all_iff)
  have f: "forget tea_state forget_vinz = (empty_state, snd (forget tea_state forget_vinz))"
    by (simp add: empty_state_def)
  obtain resp where resp: "execute demo_env \<lparr>er_manifest = Some (get_manifest empty_state ''r''),
      er_plan = Some (demo_plan_of demo_short)\<rparr> default_options = Some resp"
    by (rule execute_answers [OF demo_hash]) (auto simp: default_options_def)
  have step: "demo_step ''r0'' (OpFetch ''H1'') \<in> set (pl_steps (demo_plan_of demo_short))"
    by (simp add: demo_plan_of_def demo_short_def)
  have "length [Append tea] + length ([] :: request list) < 2 ^ 64" by simp
  from forgotten_only_on_old_manifest [OF tea_served h(1) m f serves_nil this] h(2) resp step show ?thesis
    unfolding service_execute_def by (metis demo_step_def step.select_convs(2))
qed

lemma service_plan_renders:
  assumes "serves_all service_default rs st" and "length rs < 2 ^ 64"
    and "pm_handles (get_manifest st rid) = h # hs" and "hash_env_ok E"
    and "narrative_templates opts = []" and "\<not> broken opts (h_ref h)"
  shows "\<exists>plan resp m. deterministic_plan_from_manifest rid subject (get_manifest st rid) = Ok plan \<and>
    validate_plan_against_manifest plan (get_manifest st rid) = Ok () \<and>
    h_meta h = Some m \<and>
    execute E \<lparr>er_manifest = Some (get_manifest st rid), er_plan = Some plan\<rparr> opts = Some resp \<and>
    rs_status resp = execution_status_to_i32 StatusOk \<and>
    rs_assertions resp = [\<lparr>va_assertion_type = assertion_type_to_i32 AssertWorldFact,
      va_fields = [(''subject'', Some (V_S (hm_subject m)))],
      va_citations = [\<lparr>cc_anchor_digest = ''handle:'' @ h_ref h\<rparr>]\<rparr>] \<and>
    rs_rendered resp = Some \<lparr>ro_verified_blocks = [''ASSERT_WORLD_FACT: subject='' @ hm_subject m],
      ro_narrative_blocks = []\<rparr>"
proof -
  have ok: "service_ok (length rs) st"
    using serves_all_ok [OF assms(1) service_ok_default] assms(2) by simp
  have in_mf: "h \<in> set (pm_handles (get_manifest st rid))" using assms(3) by simp
  then have "bm_get (svc_handles st) (h_ref h) = Some h" by (simp add: service_handle_in [OF ok])
  with ok obtain s v sc r where h: "h = preference_handle r s ''prefers_beverage'' v sc"
    unfolding service_ok_def made_as_def by blast
  have ready: "availability_from_i32 (h_availability h) = Ready" "h_meta h \<noteq> None"
    by (simp_all add: h preference_handle_def del: handle_availability_to_i32.simps)
  then obtain m where m: "h_meta h = Some m" by blast
  have idx: "bm_get (handles_index (pm_handles (get_manifest st rid))) (h_ref h) = Some h"
    unfolding handles_index_def
    by (rule bm_collect_get_distinct) (use service_refs_distinct [OF ok, of rid] in_mf in \<open>auto simp: o_def\<close>)
  have b: "admits_three (normalize_budget (pm_budget (get_manifest st rid)))"
    by (rule service_budget_admits)
  have rid: "rid = [] \<or> pm_request_id (get_manifest st rid) = rid" by (simp add: get_manifest_def)
  from deterministic_plan_renders [OF assms(4,5,3) idx ready(1) m assms(6) b rid] m show ?thesis by blast
qed

text \<open>C33. What is remembered can be asserted. In every reachable state that remembers
  something, the deterministic plan over the manifest passes the guard, and the kernel answers
  it with OK and the fact about the first handle's subject, citing that handle.\<close>

theorem remembered_is_assertable:
  assumes "serves_all service_default rs st" and "length rs < 2 ^ 64"
    and "pm_handles (get_manifest st rid) = h # hs" and "hash_env_ok E"
    and "narrative_templates opts = []" and "\<not> broken opts (h_ref h)"
  shows "\<exists>plan resp m. deterministic_plan_from_manifest rid subject (get_manifest st rid) = Ok plan \<and>
    h_meta h = Some m \<and>
    execute E \<lparr>er_manifest = Some (get_manifest st rid), er_plan = Some plan\<rparr> opts = Some resp \<and>
    rs_status resp = execution_status_to_i32 StatusOk \<and>
    rs_assertions resp = [\<lparr>va_assertion_type = assertion_type_to_i32 AssertWorldFact,
      va_fields = [(''subject'', Some (V_S (hm_subject m)))],
      va_citations = [\<lparr>cc_anchor_digest = ''handle:'' @ h_ref h\<rparr>]\<rparr>]"
  using service_plan_renders [OF assms, of subject] by blast

lemma remembered_is_assertable_witness:
  "\<exists>plan resp. execute demo_env \<lparr>er_manifest = Some (get_manifest tea_state ''r''), er_plan = Some plan\<rparr>
      default_options = Some resp \<and> rs_status resp = execution_status_to_i32 StatusOk"
proof -
  obtain h where h: "pm_handles (get_manifest tea_state ''r'') = [h]"
    using tea_handles [of "''r''"] by auto
  have "narrative_templates default_options = []" "\<not> broken default_options (h_ref h)"
    by (simp_all add: default_options_def broken_def)
  from remembered_is_assertable [OF tea_served _ h demo_hash this] have
    "\<exists>plan resp. execute demo_env \<lparr>er_manifest = Some (get_manifest tea_state ''r''), er_plan = Some plan\<rparr>
      default_options = Some resp \<and> rs_status resp = execution_status_to_i32 StatusOk"
    by (simp del: execution_status_to_i32.simps) blast
  then show ?thesis .
qed

section \<open>The golden request\<close>

text \<open>The golden request of the fixtures is answered with OK and one fact, the subject of
  its handle, cited to that handle; and its plan is the one that is used without a planner.\<close>

theorem golden_response:
  assumes "hash_env_ok E" and "narrative_templates opts = []" and "\<not> broken opts ''H0''"
  shows "deterministic_plan_from_manifest ''golden-req-001'' subject golden_manifest = Ok golden_plan \<and>
    (\<exists>resp. execute E golden_execute_request opts = Some resp \<and>
      rs_status resp = execution_status_to_i32 StatusOk \<and>
      rs_assertions resp = [\<lparr>va_assertion_type = assertion_type_to_i32 AssertWorldFact,
        va_fields = [(''subject'', Some (V_S ''user:vinz''))],
        va_citations = [\<lparr>cc_anchor_digest = ''handle:H0''\<rparr>]\<rparr>])"
proof -
  have handles: "pm_handles golden_manifest = [golden_handle]" by (simp add: golden_manifest_def)
  have idx: "bm_get (handles_index (pm_handles golden_manifest)) (h_ref golden_handle) = Some golden_handle"
    by (simp add: handles handles_index_def bm_collect_get)
  have ready: "availability_from_i32 (h_availability golden_handle) = Ready"
    by (simp add: golden_handle_def del: handle_availability_to_i32.simps)
  obtain m where m: "h_meta golden_handle = Some m" "hm_subject m = ''user:vinz''"
    by (simp add: golden_handle_def)
  have ref: "h_ref golden_handle = ''H0''" by (simp add: golden_handle_def)
  have rid: "''golden-req-001'' = [] \<or> pm_request_id golden_manifest = ''golden-req-001''"
    by (simp add: golden_manifest_def)
  have "\<not> broken opts (h_ref golden_handle)" using assms(3) ref by simp
  from deterministic_plan_runs [OF assms(1,2) handles idx ready m(1) this golden_budget_admits rid, of subject]
  show ?thesis
    unfolding golden_plan_deterministic golden_execute_request_def ref m(2) by (auto simp del: execution_status_to_i32.simps)
qed

lemma golden_response_witness:
  "\<exists>resp. execute demo_env golden_execute_request default_options = Some resp \<and>
     rs_status resp = execution_status_to_i32 StatusOk"
proof -
  have "narrative_templates default_options = []" "\<not> broken default_options ''H0''"
    by (simp_all add: default_options_def broken_def)
  from golden_response [OF demo_hash this] show ?thesis by blast
qed

section \<open>Findings\<close>

text \<open>A manifest from before a FORGET still works after it: EXECUTE looks at nothing else.\<close>

lemma old_manifest_still_fetches:
  assumes "serves_all service_default rs st" and "length rs < 2 ^ 64"
    and "pm_handles (get_manifest st rid) = h # hs" and "hash_env_ok E"
    and "narrative_templates opts = []" and "\<not> broken opts (h_ref h)"
    and "forget_matches req h" and "forget st req = (st1, resp1)"
  shows "h \<notin> set (pm_handles (get_manifest st1 rid)) \<and>
    (\<exists>plan resp m. h_meta h = Some m \<and>
      service_execute E opts \<lparr>er_manifest = Some (get_manifest st rid), er_plan = Some plan\<rparr> = Some resp \<and>
      rs_assertions resp = [\<lparr>va_assertion_type = assertion_type_to_i32 AssertWorldFact,
        va_fields = [(''subject'', Some (V_S (hm_subject m)))],
        va_citations = [\<lparr>cc_anchor_digest = ''handle:'' @ h_ref h\<rparr>]\<rparr>])"
proof -
  have ok: "service_ok (length rs) st" using serves_all_ok [OF assms(1) service_ok_default] assms(2) by simp
  then have ok1: "service_ok (length rs) st1" using forget_service_ok [OF ok, of req] assms(8) by simp
  have "h \<notin> set (pm_handles (get_manifest st1 rid))"
    using ok assms(7,8) forget_handles [of st req]
    by (auto simp: service_handle_in [OF ok1] service_ok_def split: option.splits)
  with service_plan_renders [OF assms(1-6)] show ?thesis unfolding service_execute_def by blast
qed

text \<open>A FORGET request whose fields are empty, as a client that only wants to name a reason
  sends it, removes every handle.\<close>

lemma forget_empty_removes_all:
  assumes "serves_all service_default rs st" and "length rs < 2 ^ 64" and "fg_subject req = []"
    and "fg_predicate_label req = []" and "scope_try_from (fg_scope req) \<in> {None, Some ScopeUnspecified}"
  shows "svc_handles (fst (forget st req)) = []"
proof -
  have ok: "service_ok (length rs) st"
    using serves_all_ok [OF assms(1) service_ok_default] assms(2) by simp
  have "forget_matches req h" if "bm_get (svc_handles st) k = Some h" for k h
  proof -
    from that ok obtain s v sc where "h = preference_handle k s ''prefers_beverage'' v sc"
      unfolding service_ok_def made_as_def by blast
    then have "h_meta h \<noteq> None" by (simp add: preference_handle_def)
    then show ?thesis using assms(3-5) by (auto simp: forget_matches_def default_to_def split: option.splits)
  qed
  then have none: "bm_get (svc_handles (fst (forget st req))) k = None" for k
    using ok by (simp add: forget_handles service_ok_def split: option.split)
  show ?thesis
  proof (cases "svc_handles (fst (forget st req))")
    case (Cons e es)
    with none [of "fst e"] show ?thesis by (simp add: bm_get_def)
  qed simp
qed

end
