(* ===== verification/Brain_Data.thy ===== *)
theory Brain_Data
  imports Json
begin

text \<open>
  The data of the brain store (\<open>crates/brain-store/src/lib.rs\<close>): what its files hold, and
  the helpers under its operations: slugs, key derivation, encryption and the signature of
  the manifest.

  \<open>crates\<close> collects the code that is not in the repository: Argon2, XChaCha20-Poly1305,
  Ed25519, SHA-256, base64 and the serialisers that serde derives. \<open>ambient\<close> is what one
  call of an operation reads from outside: environment variables, the clock, fresh UUIDs and
  random bytes, each reading named by the place in the code that makes it, the order in which
  the system lists a directory, and which of its writes the disk carries out. A file holds the
  value that serde reads back from it, or does not exist, or is not readable as that type. An error is the message of
  \<open>anyhow!\<close> and \<open>bail!\<close>, the error of a library that \<open>?\<close> passes on, or a panic.
\<close>

section \<open>Files and errors\<close>

datatype store_error = Anyhow string | Foreign string | Panicked

type_synonym 'a stored = "store_error + 'a"

datatype 'a json_file = Absent | Garbled | Holds 'a

definition empty_file :: "'a json_file \<Rightarrow> bool" where
  "empty_file f \<longleftrightarrow> (case f of Absent \<Rightarrow> True | _ \<Rightarrow> False)"

fun read_json :: "'a json_file \<Rightarrow> 'a stored" where
  "read_json Absent = Err (Foreign ''fs'')"
| "read_json Garbled = Err (Foreign ''serde_json'')"
| "read_json (Holds a) = Ok a"

lemma read_json_Ok [simp]: "read_json f = Ok a \<longleftrightarrow> f = Holds a"
  by (cases f) auto

section \<open>Records\<close>

record brain_manifest =
  bmf_format_version :: string
  bmf_brain_id :: string
  bmf_name :: string
  bmf_tenant_id :: string
  bmf_created_at :: string
  bmf_updated_at :: string
  bmf_rmvm_proto_version :: string
  bmf_schema_migrations :: "string list"
  bmf_active_branch :: string
  bmf_kdf_salt_b64 :: string
  bmf_signing_public_key_b64 :: string
  bmf_state_sha256 :: string
  bmf_secret_env_var :: string
  bmf_signature_b64 :: string

record brain_summary =
  bsm_brain_id :: string
  bsm_name :: string
  bsm_tenant_id :: string
  bsm_updated_at :: string
  bsm_active_branch :: string

record memory_object =
  mo_id :: string
  mo_subject :: string
  mo_predicate :: string
  mo_value :: json
  mo_memory_type :: string
  mo_suppressed :: bool

record rule_entry =
  re_id :: string
  re_description :: string
  re_allowed_sinks :: "string list"

record ledger_event =
  le_id :: string
  le_ts :: string
  le_operation :: string
  le_payload :: json

record suppression_record =
  sr_id :: string
  sr_ts :: string
  sr_subject :: string
  sr_predicate :: string
  sr_scope :: string
  sr_reason :: string
  sr_suppressed_count :: nat

record attachment_grant =
  ag_agent_id :: string
  ag_model_id :: string
  ag_read_classes :: "string list"
  ag_write_classes :: "string list"
  ag_sinks :: "string list"
  ag_expires_at :: "string option"

record audit_entry =
  au_id :: string
  au_ts :: string
  au_actor :: string
  au_action :: string
  au_details :: json

record branch_state =
  br_name :: string
  br_memory_objects :: "(string, memory_object) bmap"
  br_rules :: "rule_entry list"
  br_ledger :: "ledger_event list"
  br_suppressions :: "suppression_record list"

record brain_state =
  bst_branches :: "(string, branch_state) bmap"
  bst_attachments :: "attachment_grant list"
  bst_audit :: "audit_entry list"

record encrypted_blob =
  eb_nonce_b64 :: string
  eb_ciphertext_b64 :: string

record brain_package =
  bp_package_version :: string
  bp_manifest :: brain_manifest
  bp_state :: encrypted_blob
  bp_signing_key :: encrypted_blob

record api_key_mapping =
  ak_key_hash :: string
  ak_tenant_id :: string
  ak_brain_id :: string
  ak_subject :: string

record create_brain_request =
  cb_name :: string
  cb_tenant_id :: string
  cb_passphrase_env :: "string option"

datatype merge_strategy = Ours | Theirs | Manual

record merge_report =
  mr_merged :: nat
  mr_conflicts :: "string list"

definition summary_of :: "brain_manifest \<Rightarrow> brain_summary" where
  "summary_of m = \<lparr>bsm_brain_id = bmf_brain_id m, bsm_name = bmf_name m,
     bsm_tenant_id = bmf_tenant_id m, bsm_updated_at = bmf_updated_at m,
     bsm_active_branch = bmf_active_branch m\<rparr>"

section \<open>The home directory\<close>

record brain_dir =
  bd_manifest :: "brain_manifest json_file"
  bd_state :: "encrypted_blob json_file"
  bd_signing_key :: "encrypted_blob json_file"

definition empty_dir :: brain_dir where
  "empty_dir = \<lparr>bd_manifest = Absent, bd_state = Absent, bd_signing_key = Absent\<rparr>"

record home =
  home_brains :: "(string, brain_dir) bmap"
  home_config :: "string option json_file"
  home_api_keys :: "api_key_mapping list json_file"

definition dir_at :: "home \<Rightarrow> string \<Rightarrow> brain_dir" where
  "dir_at h name = (case bm_get (home_brains h) name of Some d \<Rightarrow> d | None \<Rightarrow> empty_dir)"

section \<open>The surroundings\<close>

record crates =
  cr_argon2 :: "string \<Rightarrow> string \<Rightarrow> string + string"
  cr_seal :: "string \<Rightarrow> string \<Rightarrow> string \<Rightarrow> string \<Rightarrow> string option"
  cr_open :: "string \<Rightarrow> string \<Rightarrow> string \<Rightarrow> string \<Rightarrow> string option"
  cr_public_key :: "string \<Rightarrow> string"
  cr_sign :: "string \<Rightarrow> string \<Rightarrow> string"
  cr_key_point :: "string \<Rightarrow> bool"
  cr_verify :: "string \<Rightarrow> string \<Rightarrow> string \<Rightarrow> bool"
  cr_sha256 :: "string \<Rightarrow> string"
  cr_lower_hex :: "string \<Rightarrow> string"
  cr_b64_encode :: "string \<Rightarrow> string"
  cr_b64_decode :: "string \<Rightarrow> string option"
  cr_blob_json :: "encrypted_blob \<Rightarrow> string"
  cr_manifest_json :: "brain_manifest \<Rightarrow> string"
  cr_state_json :: "brain_state \<Rightarrow> string"
  cr_state_of_json :: "string \<Rightarrow> brain_state option"

datatype site = AtBrainId | AtCreate | AtUpdate | AtImport | AtAudit | AtSuppression
  | AtSalt | AtSigningKey | AtKeyNonce | AtStateNonce

text \<open>What \<open>fs::write\<close> can do: write the file; fail before it has opened it, which leaves the file
  as it was; or fail after it has emptied the file, which leaves a part of the text, and no part of
  the text of an object is JSON. A directory that is cut short is there without its \<open>keys\<close>.\<close>

datatype write_outcome = Written | Refused | CutShort

datatype disk_site = ToDirectory | ToManifest | ToState | ToSigningKey | ToConfig | ToApiKeys | ToPackage

record ambient =
  amb_var :: "string \<Rightarrow> string option"
  amb_uuid :: "site \<Rightarrow> string"
  amb_now :: "site \<Rightarrow> string"
  amb_random :: "site \<Rightarrow> string"
  amb_list :: "string list \<Rightarrow> string list"
  amb_disk :: "disk_site \<Rightarrow> write_outcome"

section \<open>Values\<close>

text \<open>\<open>==\<close> on \<open>serde_json::Value\<close>: floats are compared as numbers.\<close>

fun number_eq :: "json_number \<Rightarrow> json_number \<Rightarrow> bool" where
  "number_eq (NPos a) (NPos b) = (a = b)"
| "number_eq (NNeg a) (NNeg b) = (a = b)"
| "number_eq (NFloat a) (NFloat b) =
     (fl_le (fl_of_bits a) (fl_of_bits b) \<and> fl_le (fl_of_bits b) (fl_of_bits a))"
| "number_eq _ _ = False"

fun json_eq :: "json \<Rightarrow> json \<Rightarrow> bool"
  and jsons_eq :: "json list \<Rightarrow> json list \<Rightarrow> bool"
  and members_eq :: "(string \<times> json) list \<Rightarrow> (string \<times> json) list \<Rightarrow> bool" where
  "json_eq JNull JNull = True"
| "json_eq (JBool a) (JBool b) = (a = b)"
| "json_eq (JNum m) (JNum n) = number_eq m n"
| "json_eq (JStr s) (JStr t) = (s = t)"
| "json_eq (JArr xs) (JArr ys) = jsons_eq xs ys"
| "json_eq (JObj xs) (JObj ys) = members_eq xs ys"
| "json_eq _ _ = False"
| "jsons_eq [] [] = True"
| "jsons_eq (x # xs) (y # ys) = (json_eq x y \<and> jsons_eq xs ys)"
| "jsons_eq _ _ = False"
| "members_eq [] [] = True"
| "members_eq ((k, x) # xs) ((l, y) # ys) = (k = l \<and> json_eq x y \<and> members_eq xs ys)"
| "members_eq _ _ = False"

text \<open>\<open>json!\<close> on a count.\<close>

definition json_count :: "nat \<Rightarrow> json" where
  "json_count n = JNum (NPos (word_of_nat n))"

definition audit_entry_of :: "ambient \<Rightarrow> string \<Rightarrow> string \<Rightarrow> json \<Rightarrow> audit_entry" where
  "audit_entry_of A actor action details =
     \<lparr>au_id = amb_uuid A AtAudit, au_ts = amb_now A AtAudit, au_actor = actor,
      au_action = action, au_details = details\<rparr>"

section \<open>Slugs\<close>

text \<open>The loop runs over bytes: the bytes of a character outside ASCII all map to a dash, and
  only the first of adjacent dashes is kept.\<close>

definition slug_step :: "string \<times> bool \<Rightarrow> char \<Rightarrow> string \<times> bool" where
  "slug_step acc c =
     (let (out, prev_dash) = acc;
          mapped = (if is_ascii_alphanumeric c then ascii_lower_char c else CHR ''-'') in
      if mapped = CHR ''-'' then (if prev_dash then (out, prev_dash) else (out @ ''-'', True))
      else (out @ [mapped], False))"

definition trim_dashes :: "string \<Rightarrow> string" where
  "trim_dashes s = rev (dropWhile (\<lambda>c. c = CHR ''-'') (rev (dropWhile (\<lambda>c. c = CHR ''-'') s)))"

definition slugify :: "string \<Rightarrow> string" where
  "slugify input = trim_dashes (fst (foldl slug_step ([], False) input))"

section \<open>Keys, encryption, signatures\<close>

definition store_sha256_hex :: "crates \<Rightarrow> string \<Rightarrow> string" where
  "store_sha256_hex C bytes = cr_lower_hex C (cr_sha256 C bytes)"

definition env_secret :: "ambient \<Rightarrow> string \<Rightarrow> string \<Rightarrow> string stored" where
  "env_secret A var context_msg = ok_or (Anyhow context_msg) (amb_var A var)"

definition b64_decode :: "crates \<Rightarrow> string \<Rightarrow> string stored" where
  "b64_decode C s = ok_or (Foreign ''base64'') (cr_b64_decode C s)"

definition derive_key :: "crates \<Rightarrow> string \<Rightarrow> string \<Rightarrow> string stored" where
  "derive_key C secret salt =
     (case cr_argon2 C secret salt of
        Err e \<Rightarrow> Err (Anyhow (''argon2 key derivation failed: '' @ e))
      | Ok key \<Rightarrow> Ok key)"

definition encrypt_bytes ::
  "crates \<Rightarrow> string \<Rightarrow> string \<Rightarrow> string \<Rightarrow> string \<Rightarrow> encrypted_blob stored" where
  "encrypt_bytes C nonce key aad plain =
     res_bind (ok_or (Anyhow ''encryption failed'') (cr_seal C key nonce aad plain))
       (\<lambda>ct. Ok \<lparr>eb_nonce_b64 = cr_b64_encode C nonce, eb_ciphertext_b64 = cr_b64_encode C ct\<rparr>)"

text \<open>\<open>XNonce::from_slice\<close> panics unless it is given 24 bytes.\<close>

definition decrypt_bytes :: "crates \<Rightarrow> string \<Rightarrow> string \<Rightarrow> encrypted_blob \<Rightarrow> string stored" where
  "decrypt_bytes C key aad blob =
     res_bind (b64_decode C (eb_nonce_b64 blob))
       (\<lambda>nonce. res_bind (b64_decode C (eb_ciphertext_b64 blob))
         (\<lambda>ct. if length nonce \<noteq> 24 then Err Panicked
               else ok_or (Anyhow ''decryption failed'') (cr_open C key nonce aad ct)))"

definition encrypt_json ::
  "crates \<Rightarrow> string \<Rightarrow> string \<Rightarrow> string \<Rightarrow> brain_state \<Rightarrow> encrypted_blob stored" where
  "encrypt_json C nonce key aad st = encrypt_bytes C nonce key aad (cr_state_json C st)"

definition decrypt_json :: "crates \<Rightarrow> string \<Rightarrow> string \<Rightarrow> encrypted_blob \<Rightarrow> brain_state stored" where
  "decrypt_json C key aad blob =
     res_bind (decrypt_bytes C key aad blob)
       (\<lambda>bytes. ok_or (Foreign ''serde_json'') (cr_state_of_json C bytes))"

definition blob_digest :: "crates \<Rightarrow> encrypted_blob \<Rightarrow> string" where
  "blob_digest C blob = store_sha256_hex C (cr_blob_json C blob)"

definition manifest_signing_payload :: "crates \<Rightarrow> brain_manifest \<Rightarrow> string" where
  "manifest_signing_payload C m = cr_manifest_json C (m\<lparr>bmf_signature_b64 := []\<rparr>)"

definition sign_manifest :: "crates \<Rightarrow> brain_manifest \<Rightarrow> string \<Rightarrow> string" where
  "sign_manifest C m signing_key =
     cr_b64_encode C (cr_sign C signing_key (manifest_signing_payload C m))"

definition verify_manifest_signature :: "crates \<Rightarrow> brain_manifest \<Rightarrow> unit stored" where
  "verify_manifest_signature C m =
     res_bind (b64_decode C (bmf_signing_public_key_b64 m))
       (\<lambda>key. if length key \<noteq> 32 then Err (Anyhow ''invalid verifying key'')
         else if \<not> cr_key_point C key then Err (Foreign ''ed25519'')
         else res_bind (b64_decode C (bmf_signature_b64 m))
           (\<lambda>sig. if length sig \<noteq> 64 then Err (Anyhow ''invalid signature'')
             else if cr_verify C key (manifest_signing_payload C m) sig then Ok ()
             else Err (Anyhow ''manifest signature verification failed'')))"

end
