(* ===== verification/Brain_Store.thy ===== *)
theory Brain_Store
  imports Brain_Data
begin

text \<open>
  The operations of the brain store (\<open>crates/brain-store/src/lib.rs\<close>). An operation that
  writes takes the home directory and returns it changed, with its result; one that fails
  may have changed it too (\<open>create_brain\<close> leaves the directory it made, and any write may fail
  after an earlier one of the same operation was carried out).

  The operations that edit a brain are a closure that \<open>mutate_brain\<close> runs between loading
  and storing it: here a function of the manifest and the state (\<open>branch_edit\<close> and the
  others), whose result also carries what the closure leaves in the variables it captures.
\<close>

section \<open>Writing\<close>

text \<open>\<open>write_json\<close>, at a place of the home directory: \<open>put\<close> puts a file there. \<open>home_bind\<close> is \<open>?\<close>
  between steps that change the directory.\<close>

definition write_json ::
  "ambient \<Rightarrow> disk_site \<Rightarrow> ('a json_file \<Rightarrow> home \<Rightarrow> home) \<Rightarrow> 'a \<Rightarrow> home \<Rightarrow> home \<times> unit stored" where
  "write_json A place put a h =
     (case amb_disk A place of
        Written \<Rightarrow> (put (Holds a) h, Ok ())
      | Refused \<Rightarrow> (h, Err (Foreign ''fs''))
      | CutShort \<Rightarrow> (put Garbled h, Err (Foreign ''fs'')))"

definition home_bind ::
  "home \<times> 'a stored \<Rightarrow> ('a \<Rightarrow> home \<Rightarrow> home \<times> 'b stored) \<Rightarrow> home \<times> 'b stored" where
  "home_bind hr f = (case hr of (h, r) \<Rightarrow> (case r of Err e \<Rightarrow> (h, Err e) | Ok a \<Rightarrow> f a h))"

definition put_dir :: "string \<Rightarrow> (brain_dir \<Rightarrow> brain_dir) \<Rightarrow> home \<Rightarrow> home" where
  "put_dir name f h = h\<lparr>home_brains := bm_insert name (f (dir_at h name)) (home_brains h)\<rparr>"

definition put_manifest :: "string \<Rightarrow> brain_manifest json_file \<Rightarrow> home \<Rightarrow> home" where
  "put_manifest name file = put_dir name (bd_manifest_update (\<lambda>_. file))"

definition put_state :: "string \<Rightarrow> encrypted_blob json_file \<Rightarrow> home \<Rightarrow> home" where
  "put_state name file = put_dir name (bd_state_update (\<lambda>_. file))"

definition put_signing_key :: "string \<Rightarrow> encrypted_blob json_file \<Rightarrow> home \<Rightarrow> home" where
  "put_signing_key name file = put_dir name (bd_signing_key_update (\<lambda>_. file))"

definition put_config :: "string option json_file \<Rightarrow> home \<Rightarrow> home" where
  "put_config file h = h\<lparr>home_config := file\<rparr>"

definition put_api_keys :: "api_key_mapping list json_file \<Rightarrow> home \<Rightarrow> home" where
  "put_api_keys file h = h\<lparr>home_api_keys := file\<rparr>"

text \<open>\<open>fs::create_dir_all\<close> on a brain's directory.\<close>

definition make_dir :: "ambient \<Rightarrow> string \<Rightarrow> home \<Rightarrow> home \<times> unit stored" where
  "make_dir A name h =
     (case amb_disk A ToDirectory of
        Written \<Rightarrow> (put_dir name (\<lambda>d. d) h, Ok ())
      | Refused \<Rightarrow> (h, Err (Foreign ''fs''))
      | CutShort \<Rightarrow> (put_dir name (\<lambda>d. d) h, Err (Foreign ''fs'')))"

text \<open>The writes at the end of \<open>mutate_brain\<close>, and those of \<open>create_brain\<close> and \<open>import_brain\<close>.\<close>

definition write_edited :: "ambient \<Rightarrow> string \<Rightarrow> brain_manifest \<Rightarrow> encrypted_blob \<Rightarrow> home \<Rightarrow> home \<times> unit stored" where
  "write_edited A name m state_enc h =
     home_bind (write_json A ToManifest (put_manifest name) m h)
       (\<lambda>_. write_json A ToState (put_state name) state_enc)"

definition write_brain ::
  "ambient \<Rightarrow> string \<Rightarrow> brain_manifest \<Rightarrow> encrypted_blob \<Rightarrow> encrypted_blob \<Rightarrow> home \<Rightarrow> home \<times> unit stored" where
  "write_brain A name m state_enc key_enc h =
     home_bind (write_json A ToManifest (put_manifest name) m h) (\<lambda>_ h1.
     home_bind (write_json A ToState (put_state name) state_enc h1) (\<lambda>_.
     write_json A ToSigningKey (put_signing_key name) key_enc))"

section \<open>Finding brains\<close>

definition list_brains :: "ambient \<Rightarrow> home \<Rightarrow> brain_summary list stored" where
  "list_brains A h =
     res_bind (foldM (\<lambda>out name.
         let f = bd_manifest (dir_at h name) in
         if empty_file f then Ok out
         else res_bind (read_json f) (\<lambda>m. Ok (out @ [summary_of m])))
       [] (amb_list A (bm_keys (home_brains h))))
       (\<lambda>out. Ok (sort_key bsm_name out))"

definition resolve_brain :: "ambient \<Rightarrow> home \<Rightarrow> string \<Rightarrow> brain_summary stored" where
  "resolve_brain A h brain_ref =
     res_bind (list_brains A h)
       (\<lambda>all. ok_or (Anyhow (''brain not found: '' @ brain_ref))
         (find (\<lambda>b. bsm_brain_id b = brain_ref \<or> bsm_name b = brain_ref) all))"

definition read_config :: "home \<Rightarrow> string option stored" where
  "read_config h = (if empty_file (home_config h) then Ok None else read_json (home_config h))"

definition set_active_brain :: "ambient \<Rightarrow> home \<Rightarrow> string \<Rightarrow> home \<times> brain_summary stored" where
  "set_active_brain A h brain_ref =
     (case res_bind (resolve_brain A h brain_ref) (\<lambda>s. res_bind (read_config h) (\<lambda>_. Ok s)) of
        Err e \<Rightarrow> (h, Err e)
      | Ok s \<Rightarrow> home_bind (write_json A ToConfig put_config (Some (bsm_brain_id s)) h) (\<lambda>_ h'. (h', Ok s)))"

definition active_brain_id :: "home \<Rightarrow> string option stored" where
  "active_brain_id h = read_config h"

definition resolve_brain_or_active ::
  "ambient \<Rightarrow> home \<Rightarrow> string option \<Rightarrow> brain_summary stored" where
  "resolve_brain_or_active A h brain_ref =
     (case brain_ref of
        Some r \<Rightarrow> resolve_brain A h r
      | None \<Rightarrow>
          (case amb_var A ''CORTEX_BRAIN'' of
             Some v \<Rightarrow> resolve_brain A h (trim v)
           | None \<Rightarrow>
               res_bind (active_brain_id h)
                 (\<lambda>active. res_bind (ok_or (Anyhow ''no active brain; run `cortex brain use <brain>`'') active)
                   (resolve_brain A h))))"

section \<open>Loading and storing a brain\<close>

definition load_by_dir ::
  "ambient \<Rightarrow> crates \<Rightarrow> brain_dir \<Rightarrow> (brain_manifest \<times> brain_state \<times> string) stored" where
  "load_by_dir A C d =
     res_bind (read_json (bd_manifest d)) (\<lambda>m.
     res_bind (verify_manifest_signature C m) (\<lambda>_.
     res_bind (env_secret A (bmf_secret_env_var m) (''missing secret env var '' @ bmf_secret_env_var m)) (\<lambda>secret.
     res_bind (b64_decode C (bmf_kdf_salt_b64 m)) (\<lambda>salt.
     res_bind (derive_key C secret salt) (\<lambda>key.
     res_bind (read_json (bd_state d)) (\<lambda>state_enc.
     if blob_digest C state_enc \<noteq> bmf_state_sha256 m
     then Err (Anyhow (''state checksum mismatch for brain '' @ bmf_brain_id m))
     else
     res_bind (decrypt_json C key (bmf_brain_id m) state_enc) (\<lambda>st.
     res_bind (read_json (bd_signing_key d)) (\<lambda>key_enc.
     res_bind (decrypt_bytes C key (bmf_brain_id m) key_enc) (\<lambda>sk.
     if length sk \<noteq> 32 then Err (Anyhow ''invalid signing key bytes'')
     else Ok (m, st, sk))))))))))"

text \<open>The second half of \<open>mutate_brain\<close>: the manifest and the encrypted state to write.\<close>

definition seal_brain ::
  "ambient \<Rightarrow> crates \<Rightarrow> brain_manifest \<Rightarrow> brain_state \<Rightarrow> string \<Rightarrow>
   (brain_manifest \<times> encrypted_blob) stored" where
  "seal_brain A C m st sk =
     (let m1 = m\<lparr>bmf_updated_at := amb_now A AtUpdate\<rparr> in
      res_bind (env_secret A (bmf_secret_env_var m1) (''missing secret env var '' @ bmf_secret_env_var m1)) (\<lambda>secret.
      res_bind (b64_decode C (bmf_kdf_salt_b64 m1)) (\<lambda>salt.
      res_bind (derive_key C secret salt) (\<lambda>key.
      res_bind (encrypt_json C (amb_random A AtStateNonce) key (bmf_brain_id m1) st) (\<lambda>state_enc.
      let m2 = m1\<lparr>bmf_state_sha256 := blob_digest C state_enc\<rparr>;
          m3 = m2\<lparr>bmf_signature_b64 := sign_manifest C m2 sk\<rparr>
      in Ok (m3, state_enc))))))"

type_synonym 'r edit = "brain_manifest \<Rightarrow> brain_state \<Rightarrow> (brain_manifest \<times> brain_state \<times> 'r) stored"

definition mutate_brain ::
  "ambient \<Rightarrow> crates \<Rightarrow> home \<Rightarrow> string \<Rightarrow> 'r edit \<Rightarrow> home \<times> 'r stored" where
  "mutate_brain A C h brain_ref f =
     (case
        res_bind (resolve_brain A h brain_ref) (\<lambda>s.
        res_bind (load_by_dir A C (dir_at h (bsm_brain_id s))) (\<lambda>(m, st, sk).
        res_bind (f m st) (\<lambda>(m', st', r).
        res_bind (seal_brain A C m' st' sk) (\<lambda>(m3, state_enc).
        Ok (bsm_brain_id s, m3, state_enc, r)))))
      of
        Err e \<Rightarrow> (h, Err e)
      | Ok (name, m3, state_enc, r) \<Rightarrow> home_bind (write_edited A name m3 state_enc h) (\<lambda>_ h'. (h', Ok r)))"

definition audit_trace :: "ambient \<Rightarrow> crates \<Rightarrow> home \<Rightarrow> string \<Rightarrow> audit_entry list stored" where
  "audit_trace A C h brain_ref =
     res_bind (resolve_brain A h brain_ref) (\<lambda>s.
     res_bind (load_by_dir A C (dir_at h (bsm_brain_id s))) (\<lambda>(_, st, _). Ok (bst_audit st)))"

definition push_audit :: "ambient \<Rightarrow> string \<Rightarrow> json \<Rightarrow> brain_state \<Rightarrow> brain_state" where
  "push_audit A action details st =
     st\<lparr>bst_audit := bst_audit st @ [audit_entry_of A ''user'' action details]\<rparr>"

section \<open>Branches\<close>

definition branch_edit :: "ambient \<Rightarrow> string \<Rightarrow> unit edit" where
  "branch_edit A new_branch m st =
     (if bm_get (bst_branches st) new_branch \<noteq> None
      then Err (Anyhow (''branch already exists: '' @ new_branch))
      else res_bind (ok_or (Anyhow ''active branch missing'') (bm_get (bst_branches st) (bmf_active_branch m)))
        (\<lambda>source.
          let st1 = st\<lparr>bst_branches := bm_insert new_branch (source\<lparr>br_name := new_branch\<rparr>) (bst_branches st)\<rparr>
          in Ok (m, push_audit A ''brain.branch''
               (JObj (bm_collect [(''from'', JStr (bmf_active_branch m)), (''to'', JStr new_branch)])) st1, ())))"

definition branch :: "ambient \<Rightarrow> crates \<Rightarrow> home \<Rightarrow> string \<Rightarrow> string \<Rightarrow> home \<times> unit stored" where
  "branch A C h brain_ref new_branch = mutate_brain A C h brain_ref (branch_edit A new_branch)"

text \<open>One round of the merge loop, on the target's objects and the report.\<close>

definition merge_step ::
  "merge_strategy \<Rightarrow> (string, memory_object) bmap \<times> merge_report \<Rightarrow> string \<times> memory_object \<Rightarrow>
   (string, memory_object) bmap \<times> merge_report" where
  "merge_step strategy acc e =
     (let (objs, report) = acc; (oid, src_obj) = e in
      case bm_get objs oid of
        None \<Rightarrow> (bm_insert oid src_obj objs, report\<lparr>mr_merged := mr_merged report + 1\<rparr>)
      | Some dst_obj \<Rightarrow>
          if json_eq (mo_value dst_obj) (mo_value src_obj) \<and> mo_suppressed dst_obj = mo_suppressed src_obj
          then (objs, report)
          else case strategy of
              Ours \<Rightarrow> (objs, report)
            | Theirs \<Rightarrow> (bm_insert oid src_obj objs, report\<lparr>mr_merged := mr_merged report + 1\<rparr>)
            | Manual \<Rightarrow> (objs, report\<lparr>mr_conflicts := mr_conflicts report @ [oid]\<rparr>))"

definition merge_edit :: "ambient \<Rightarrow> string \<Rightarrow> string \<Rightarrow> merge_strategy \<Rightarrow> merge_report edit" where
  "merge_edit A source target strategy m st =
     res_bind (ok_or (Anyhow (''unknown source branch '' @ source)) (bm_get (bst_branches st) source)) (\<lambda>src.
     res_bind (ok_or (Anyhow (''unknown target branch '' @ target)) (bm_get (bst_branches st) target)) (\<lambda>tgt.
     let (objs, report) = foldl (merge_step strategy)
           (br_memory_objects tgt, \<lparr>mr_merged = 0, mr_conflicts = []\<rparr>) (br_memory_objects src);
         st1 = st\<lparr>bst_branches := bm_insert target (tgt\<lparr>br_memory_objects := objs\<rparr>) (bst_branches st)\<rparr>
     in if mr_conflicts report \<noteq> []
        then Err (Anyhow (''merge conflicts: '' @ join '','' (mr_conflicts report)))
        else Ok (m, push_audit A ''brain.merge''
               (JObj (bm_collect [(''source'', JStr source), (''target'', JStr target),
                  (''merged'', json_count (mr_merged report))])) st1, report)))"

definition merge ::
  "ambient \<Rightarrow> crates \<Rightarrow> home \<Rightarrow> string \<Rightarrow> string \<Rightarrow> string \<Rightarrow> merge_strategy \<Rightarrow> home \<times> merge_report stored" where
  "merge A C h brain_ref source target strategy =
     mutate_brain A C h brain_ref (merge_edit A source target strategy)"

section \<open>Suppression\<close>

definition suppresses :: "string \<Rightarrow> string \<Rightarrow> memory_object \<Rightarrow> bool" where
  "suppresses subject predicate obj \<longleftrightarrow>
     mo_subject obj = subject \<and> mo_predicate obj = predicate \<and> \<not> mo_suppressed obj"

text \<open>The loop over \<open>values_mut\<close>: the objects, and how many were changed.\<close>

fun suppress_loop ::
  "string \<Rightarrow> string \<Rightarrow> (string, memory_object) bmap \<Rightarrow> nat \<Rightarrow> (string, memory_object) bmap \<times> nat" where
  "suppress_loop subject predicate [] n = ([], n)"
| "suppress_loop subject predicate ((oid, obj) # rest) n =
     (if suppresses subject predicate obj
      then let (rest', n') = suppress_loop subject predicate rest (n + 1)
           in ((oid, obj\<lparr>mo_suppressed := True\<rparr>) # rest', n')
      else let (rest', n') = suppress_loop subject predicate rest n in ((oid, obj) # rest', n'))"

definition forget_edit :: "ambient \<Rightarrow> string \<Rightarrow> string \<Rightarrow> string \<Rightarrow> string \<Rightarrow> nat edit" where
  "forget_edit A subject predicate scope reason m st =
     res_bind (ok_or (Anyhow ''active branch missing'') (bm_get (bst_branches st) (bmf_active_branch m))) (\<lambda>br.
     let (objs, suppressed) = suppress_loop subject predicate (br_memory_objects br) 0;
         record = \<lparr>sr_id = amb_uuid A AtSuppression, sr_ts = amb_now A AtSuppression,
           sr_subject = subject, sr_predicate = predicate, sr_scope = scope, sr_reason = reason,
           sr_suppressed_count = suppressed\<rparr>;
         br1 = br\<lparr>br_memory_objects := objs, br_suppressions := br_suppressions br @ [record]\<rparr>;
         st1 = st\<lparr>bst_branches := bm_insert (bmf_active_branch m) br1 (bst_branches st)\<rparr>
     in Ok (m, push_audit A ''brain.forget.suppress''
          (JObj (bm_collect [(''subject'', JStr subject), (''predicate'', JStr predicate),
             (''scope'', JStr scope), (''suppressed'', json_count suppressed)])) st1, suppressed))"

definition forget_suppress ::
  "ambient \<Rightarrow> crates \<Rightarrow> home \<Rightarrow> string \<Rightarrow> string \<Rightarrow> string \<Rightarrow> string \<Rightarrow> string \<Rightarrow> home \<times> nat stored" where
  "forget_suppress A C h brain_ref subject predicate scope reason =
     mutate_brain A C h brain_ref (forget_edit A subject predicate scope reason)"

section \<open>Attachments\<close>

definition attach_edit :: "ambient \<Rightarrow> attachment_grant \<Rightarrow> unit edit" where
  "attach_edit A grant m st =
     (let kept = filter (\<lambda>a. \<not> (ag_agent_id a = ag_agent_id grant \<and> ag_model_id a = ag_model_id grant))
            (bst_attachments st);
          st1 = st\<lparr>bst_attachments := kept @ [grant]\<rparr>
      in Ok (m, push_audit A ''brain.attach''
           (JObj (bm_collect [(''agent'', JStr (ag_agent_id grant)), (''model'', JStr (ag_model_id grant))])) st1, ()))"

definition attach :: "ambient \<Rightarrow> crates \<Rightarrow> home \<Rightarrow> string \<Rightarrow> attachment_grant \<Rightarrow> home \<times> unit stored" where
  "attach A C h brain_ref grant = mutate_brain A C h brain_ref (attach_edit A grant)"

definition detach_hit :: "string \<Rightarrow> string option \<Rightarrow> attachment_grant \<Rightarrow> bool" where
  "detach_hit agent model a \<longleftrightarrow>
     ag_agent_id a = agent \<and> (case model of None \<Rightarrow> True | Some x \<Rightarrow> x = ag_model_id a)"

definition detach_edit :: "ambient \<Rightarrow> string \<Rightarrow> string option \<Rightarrow> nat edit" where
  "detach_edit A agent model m st =
     (let removed = length (filter (detach_hit agent model) (bst_attachments st));
          st1 = st\<lparr>bst_attachments := filter (\<lambda>a. \<not> detach_hit agent model a) (bst_attachments st)\<rparr>
      in Ok (m, push_audit A ''brain.detach''
           (JObj (bm_collect [(''agent'', JStr agent),
              (''model'', case model of None \<Rightarrow> JNull | Some x \<Rightarrow> JStr x),
              (''removed'', json_count removed)])) st1, removed))"

definition detach ::
  "ambient \<Rightarrow> crates \<Rightarrow> home \<Rightarrow> string \<Rightarrow> string \<Rightarrow> string option \<Rightarrow> home \<times> nat stored" where
  "detach A C h brain_ref agent model = mutate_brain A C h brain_ref (detach_edit A agent model)"

section \<open>Creating, exporting, importing\<close>

definition initial_state :: "ambient \<Rightarrow> string \<Rightarrow> string \<Rightarrow> brain_state" where
  "initial_state A brain_id tenant_id =
     \<lparr>bst_branches = bm_insert ''main'' \<lparr>br_name = ''main'', br_memory_objects = [], br_rules = [],
        br_ledger = [], br_suppressions = []\<rparr> [],
      bst_attachments = [],
      bst_audit = [audit_entry_of A ''system'' ''brain.create''
        (JObj (bm_collect [(''brain_id'', JStr brain_id), (''tenant_id'', JStr tenant_id)]))]\<rparr>"

text \<open>What is computed between making the directory and writing its three files.\<close>

definition new_brain ::
  "ambient \<Rightarrow> crates \<Rightarrow> create_brain_request \<Rightarrow> string \<Rightarrow> string \<Rightarrow> string \<Rightarrow>
   (brain_manifest \<times> encrypted_blob \<times> encrypted_blob) stored" where
  "new_brain A C req secret_env secret brain_id =
     (let salt = amb_random A AtSalt; sk = amb_random A AtSigningKey; now = amb_now A AtCreate in
      res_bind (derive_key C secret salt) (\<lambda>key.
      res_bind (encrypt_bytes C (amb_random A AtKeyNonce) key brain_id sk) (\<lambda>key_enc.
      res_bind (encrypt_json C (amb_random A AtStateNonce) key brain_id
          (initial_state A brain_id (cb_tenant_id req))) (\<lambda>state_enc.
      let m = \<lparr>bmf_format_version = ''brain/v1'', bmf_brain_id = brain_id, bmf_name = cb_name req,
            bmf_tenant_id = cb_tenant_id req, bmf_created_at = now, bmf_updated_at = now,
            bmf_rmvm_proto_version = ''cortex_rmvm_v3_1'', bmf_schema_migrations = [''brain/v1:init''],
            bmf_active_branch = ''main'', bmf_kdf_salt_b64 = cr_b64_encode C salt,
            bmf_signing_public_key_b64 = cr_b64_encode C (cr_public_key C sk),
            bmf_state_sha256 = blob_digest C state_enc, bmf_secret_env_var = secret_env,
            bmf_signature_b64 = []\<rparr>
      in Ok (m\<lparr>bmf_signature_b64 := sign_manifest C m sk\<rparr>, state_enc, key_enc)))))"

definition create_brain ::
  "ambient \<Rightarrow> crates \<Rightarrow> home \<Rightarrow> create_brain_request \<Rightarrow> home \<times> brain_summary stored" where
  "create_brain A C h req =
     (let secret_env = (case cb_passphrase_env req of Some v \<Rightarrow> v | None \<Rightarrow> ''CORTEX_BRAIN_SECRET'') in
      case env_secret A secret_env
          (''missing passphrase env var '' @ secret_env @ ''; set it before creating brain'') of
        Err e \<Rightarrow> (h, Err e)
      | Ok secret \<Rightarrow>
          let brain_id = slugify (cb_name req) @ ''-'' @ take 8 (amb_uuid A AtBrainId) in
          home_bind (make_dir A brain_id h) (\<lambda>_ h1.
            case new_brain A C req secret_env secret brain_id of
              Err e \<Rightarrow> (h1, Err e)
            | Ok (m, state_enc, key_enc) \<Rightarrow>
                home_bind (write_brain A brain_id m state_enc key_enc h1) (\<lambda>_ h2. (h2, Ok (summary_of m)))))"

definition export_brain :: "ambient \<Rightarrow> crates \<Rightarrow> home \<Rightarrow> string \<Rightarrow> brain_package stored" where
  "export_brain A C h brain_ref =
     res_bind (resolve_brain A h brain_ref) (\<lambda>s.
     let d = dir_at h (bsm_brain_id s) in
     res_bind (read_json (bd_manifest d)) (\<lambda>m.
     res_bind (read_json (bd_state d)) (\<lambda>state_enc.
     res_bind (read_json (bd_signing_key d)) (\<lambda>key_enc.
     res_bind (verify_manifest_signature C m) (\<lambda>_.
     Ok \<lparr>bp_package_version = ''brain/v1'', bp_manifest = m, bp_state = state_enc,
         bp_signing_key = key_enc\<rparr>)))))"

definition import_brain ::
  "ambient \<Rightarrow> crates \<Rightarrow> home \<Rightarrow> brain_package json_file \<Rightarrow> string option \<Rightarrow> bool \<Rightarrow>
   home \<times> brain_summary option stored" where
  "import_brain A C h in_file name_override verify_only =
     (case
        res_bind (read_json in_file) (\<lambda>p.
        res_bind (verify_manifest_signature C (bp_manifest p)) (\<lambda>_.
        if blob_digest C (bp_state p) \<noteq> bmf_state_sha256 (bp_manifest p)
        then Err (Anyhow ''state checksum mismatch on import package'') else Ok p))
      of
        Err e \<Rightarrow> (h, Err e)
      | Ok p \<Rightarrow>
          if verify_only then (h, Ok None)
          else
            let m = (case name_override of
                  None \<Rightarrow> bp_manifest p
                | Some name \<Rightarrow> (bp_manifest p)\<lparr>bmf_name := name, bmf_updated_at := amb_now A AtImport\<rparr>);
                brain_id = (if bm_get (home_brains h) (bmf_brain_id m) \<noteq> None
                  then bmf_brain_id m @ ''-'' @ take 6 (amb_uuid A AtImport) else bmf_brain_id m);
                m1 = m\<lparr>bmf_brain_id := brain_id\<rparr>
            in home_bind (make_dir A brain_id h) (\<lambda>_ h1.
               home_bind (write_brain A brain_id m1 (bp_state p) (bp_signing_key p) h1) (\<lambda>_ h2.
                 (h2, Ok (Some (summary_of m1))))))"

section \<open>API keys\<close>

definition read_api_mappings :: "home \<Rightarrow> api_key_mapping list stored" where
  "read_api_mappings h =
     (if empty_file (home_api_keys h) then Ok [] else read_json (home_api_keys h))"

definition map_api_key ::
  "ambient \<Rightarrow> crates \<Rightarrow> home \<Rightarrow> string \<Rightarrow> string \<Rightarrow> string \<Rightarrow> string \<Rightarrow> home \<times> unit stored" where
  "map_api_key A C h api_key_plain tenant_id brain_id subject =
     (case read_api_mappings h of
        Err e \<Rightarrow> (h, Err e)
      | Ok mappings \<Rightarrow>
          let hash = store_sha256_hex C api_key_plain;
              kept = filter (\<lambda>m. ak_key_hash m \<noteq> hash) mappings;
              entry = \<lparr>ak_key_hash = hash, ak_tenant_id = tenant_id, ak_brain_id = brain_id, ak_subject = subject\<rparr>
          in write_json A ToApiKeys put_api_keys (kept @ [entry]) h)"

definition resolve_api_key :: "crates \<Rightarrow> home \<Rightarrow> string \<Rightarrow> api_key_mapping option stored" where
  "resolve_api_key C h api_key_plain =
     (let hash = store_sha256_hex C api_key_plain in
      res_bind (read_api_mappings h) (\<lambda>mappings. Ok (find (\<lambda>m. ak_key_hash m = hash) mappings)))"

end
