(* ===== verification/Brain_Edits.thy ===== *)
theory Brain_Edits
  imports Brain_Store
begin

text \<open>
  What the edits do to a brain's state. The interface \<open>brain_edit\<close> is what \<open>mutate_brain\<close>'s
  clients share: an edit leaves the manifest alone, appends one entry to the audit log and
  keeps the state in order (\<open>state_ok\<close>). It is interpreted on the five edits.
\<close>

section \<open>States in order\<close>

text \<open>A JSON value without floats, which serde reads back as it was written.\<close>

fun plain_json :: "json \<Rightarrow> bool" where
  "plain_json (JNum (NFloat f)) = False"
| "plain_json (JArr js) = list_all plain_json js"
| "plain_json (JObj ms) = list_all (\<lambda>m. plain_json (snd m)) ms"
| "plain_json j = True"

definition grant_key :: "attachment_grant \<Rightarrow> string \<times> string" where
  "grant_key a = (ag_agent_id a, ag_model_id a)"

definition branch_ok :: "branch_state \<Rightarrow> bool" where
  "branch_ok b \<longleftrightarrow> bm_ok (br_memory_objects b) \<and>
     list_all (\<lambda>e. plain_json (mo_value (snd e))) (br_memory_objects b) \<and>
     list_all (\<lambda>l. plain_json (le_payload l)) (br_ledger b)"

text \<open>Maps are in order, values are plain, and an agent has one grant per model.\<close>

definition state_ok :: "brain_state \<Rightarrow> bool" where
  "state_ok st \<longleftrightarrow> bm_ok (bst_branches st) \<and> list_all (\<lambda>e. branch_ok (snd e)) (bst_branches st) \<and>
     distinct (map grant_key (bst_attachments st)) \<and>
     list_all (\<lambda>a. plain_json (au_details a)) (bst_audit st)"

lemma plain_json_obj:
  "list_all (\<lambda>e. plain_json (snd e)) kvs \<Longrightarrow> plain_json (JObj (bm_collect kvs))"
  using bmap.lookup_collect_Some_in [of kvs] bm_get_iff [OF bm_collect_ok, of kvs]
  by (force simp: list_all_iff bm_collect_def)

lemma plain_json_count [simp]: "plain_json (json_count n)"
  by (simp add: json_count_def)

lemma state_ok_branch: "state_ok st \<Longrightarrow> bm_get (bst_branches st) k = Some b \<Longrightarrow> branch_ok b"
  unfolding state_ok_def by (metis list_all_bm_get snd_conv)

lemma state_ok_insert_branch:
  "state_ok st \<Longrightarrow> branch_ok b \<Longrightarrow> state_ok (st\<lparr>bst_branches := bm_insert k b (bst_branches st)\<rparr>)"
  by (simp add: state_ok_def list_all_bm_insert)

lemma state_ok_push_audit:
  assumes "list_all (\<lambda>e. plain_json (snd e)) kvs" and "state_ok st"
  shows "state_ok (push_audit A action (JObj (bm_collect kvs)) st)"
  using assms(2) plain_json_obj [OF assms(1)]
  by (simp add: state_ok_def push_audit_def audit_entry_of_def)

lemma push_audit_sel [simp]:
  "bst_branches (push_audit A action details st) = bst_branches st"
  "bst_attachments (push_audit A action details st) = bst_attachments st"
  by (simp_all add: push_audit_def)

section \<open>The merge loop\<close>

text \<open>Objects that the merge tells apart; which objects a branch map holds after the merge, and
  which identifiers count as merged or as conflicts.\<close>

definition differs :: "memory_object \<Rightarrow> memory_object \<Rightarrow> bool" where
  "differs dst src \<longleftrightarrow>
     \<not> (json_eq (mo_value dst) (mo_value src) \<and> mo_suppressed dst = mo_suppressed src)"

definition takes :: "merge_strategy \<Rightarrow> (string, memory_object) bmap \<Rightarrow> string \<times> memory_object \<Rightarrow> bool" where
  "takes strategy objs e \<longleftrightarrow>
     (case bm_get objs (fst e) of None \<Rightarrow> True | Some dst \<Rightarrow> strategy = Theirs \<and> differs dst (snd e))"

definition conflicts :: "(string, memory_object) bmap \<Rightarrow> string \<times> memory_object \<Rightarrow> bool" where
  "conflicts objs e \<longleftrightarrow> (case bm_get objs (fst e) of None \<Rightarrow> False | Some dst \<Rightarrow> differs dst (snd e))"

lemma merge_step_eq:
  "merge_step strategy (objs, r) e =
     (if takes strategy objs e then bm_insert (fst e) (snd e) objs else objs,
      \<lparr>mr_merged = mr_merged r + (if takes strategy objs e then 1 else 0),
       mr_conflicts = mr_conflicts r @
         (if strategy = Manual \<and> conflicts objs e then [fst e] else [])\<rparr>)"
  by (cases r, cases e, cases strategy)
    (auto simp: merge_step_def takes_def conflicts_def differs_def split: option.splits)

text \<open>The loop as a whole. The source has each identifier once, so what one round inserts no
  later round looks at, and the target of the start decides.\<close>

lemma merge_loop:
  assumes "distinct (map fst src)"
  shows "foldl (merge_step strategy) (objs, r) src =
    (foldl (\<lambda>m e. bm_insert (fst e) (snd e) m) objs (filter (takes strategy objs) src),
     \<lparr>mr_merged = mr_merged r + length (filter (takes strategy objs) src),
      mr_conflicts = mr_conflicts r @
        (if strategy = Manual then map fst (filter (conflicts objs) src) else [])\<rparr>)"
  using assms
proof (induction src arbitrary: objs r)
  case Nil
  then show ?case by simp
next
  case (Cons e src)
  let ?objs = "if takes strategy objs e then bm_insert (fst e) (snd e) objs else objs"
  have "bm_get ?objs (fst x) = bm_get objs (fst x)" if "x \<in> set src" for x
    using that Cons.prems by (auto simp: image_iff)
  then have "takes strategy ?objs x = takes strategy objs x" "conflicts ?objs x = conflicts objs x"
    if "x \<in> set src" for x
    using that by (simp_all add: takes_def conflicts_def)
  then have same: "filter (takes strategy ?objs) src = filter (takes strategy objs) src"
    "filter (conflicts ?objs) src = filter (conflicts objs) src"
    by (auto intro: filter_cong)
  from Cons.prems have "distinct (map fst src)" by simp
  from Cons.IH [OF this] same show ?case
    unfolding foldl_Cons merge_step_eq by auto
qed

text \<open>What is found after the merge: the source's object where it is taken, else the target's.\<close>

lemma merged_get:
  assumes "distinct (map fst src)"
  shows "bm_get (foldl (\<lambda>m e. bm_insert (fst e) (snd e) m) objs (filter (takes strategy objs) src)) k =
    (case map_of src k of
       None \<Rightarrow> bm_get objs k
     | Some o' \<Rightarrow> if takes strategy objs (k, o') then Some o' else bm_get objs k)"
proof -
  let ?taken = "filter (takes strategy objs) src"
  have d: "distinct (map fst ?taken)" using assms by (simp add: distinct_map_filter)
  then have "map_of (rev ?taken) = map_of ?taken" by (metis distinct_rev map_of_inject_set rev_map set_rev)
  moreover have "map_of ?taken k =
      (case map_of src k of None \<Rightarrow> None | Some o' \<Rightarrow> if takes strategy objs (k, o') then Some o' else None)"
    using assms by (induction src) (auto simp: map_of_eq_None_iff image_iff split: option.splits)
  ultimately show ?thesis
    unfolding bmap.lookup_collect_from by (simp split: option.splits)
qed

section \<open>The suppression loop\<close>

definition suppressed_by :: "string \<Rightarrow> string \<Rightarrow> memory_object \<Rightarrow> memory_object" where
  "suppressed_by subject predicate obj =
     (if suppresses subject predicate obj then obj\<lparr>mo_suppressed := True\<rparr> else obj)"

lemma suppress_loop_eq:
  "suppress_loop subject predicate objs n =
    (map (\<lambda>e. (fst e, suppressed_by subject predicate (snd e))) objs,
     n + length (filter (\<lambda>e. suppresses subject predicate (snd e)) objs))"
  by (induction subject predicate objs n rule: suppress_loop.induct) (auto simp: suppressed_by_def)

lemma suppressed_get:
  "bm_get (map (\<lambda>e. (fst e, f (snd e))) m) k = map_option f (bm_get m k)"
  by (induction m) (auto simp: bm_get_def)

lemma suppressed_by_sel [simp]:
  "mo_value (suppressed_by subject predicate obj) = mo_value obj"
  "mo_id (suppressed_by subject predicate obj) = mo_id obj"
  "suppresses subject predicate (suppressed_by subject predicate obj) = False"
  by (auto simp: suppressed_by_def suppresses_def)

lemma branch_ok_suppressed:
  "branch_ok b \<Longrightarrow> branch_ok (b\<lparr>br_memory_objects :=
     map (\<lambda>e. (fst e, suppressed_by subject predicate (snd e))) (br_memory_objects b),
     br_suppressions := rs\<rparr>)"
  by (simp add: branch_ok_def bm_ok_def list_all_iff o_def)

lemma branch_ok_merged:
  assumes "branch_ok tgt" and "branch_ok src"
  shows "branch_ok (tgt\<lparr>br_memory_objects :=
    foldl (\<lambda>m e. bm_insert (fst e) (snd e) m) (br_memory_objects tgt) (filter P (br_memory_objects src))\<rparr>)"
proof -
  have fill: "bm_ok (foldl (\<lambda>m e. bm_insert (fst e) (snd e) m) m es) \<and>
      list_all (\<lambda>e. plain_json (mo_value (snd e))) (foldl (\<lambda>m e. bm_insert (fst e) (snd e) m) m es)"
    if "bm_ok m \<and> list_all (\<lambda>e. plain_json (mo_value (snd e))) m"
      and "list_all (\<lambda>e. plain_json (mo_value (snd e))) es" for m es
    using that by (induction es arbitrary: m) (auto simp: list_all_bm_insert)
  have "list_all (\<lambda>e. plain_json (mo_value (snd e))) (filter P (br_memory_objects src))"
    using assms(2) by (auto simp: branch_ok_def list_all_iff)
  with fill [of "br_memory_objects tgt"] assms(1) show ?thesis by (simp add: branch_ok_def)
qed

section \<open>The interface of the edits\<close>

locale brain_edit =
  fixes edit :: "'r edit"
  assumes edit_manifest: "edit m st = Ok (m', st', r) \<Longrightarrow> m' = m"
    and edit_state_ok: "edit m st = Ok (m', st', r) \<Longrightarrow> state_ok st \<Longrightarrow> state_ok st'"
    and edit_audits: "edit m st = Ok (m', st', r) \<Longrightarrow>
      \<exists>e. au_actor e = ''user'' \<and> bst_audit st' = bst_audit st @ [e]"
    and edit_branches: "edit m st = Ok (m', st', r) \<Longrightarrow> bm_get (bst_branches st) k \<noteq> None \<Longrightarrow>
      bm_get (bst_branches st') k \<noteq> None"

lemma audit_pushed:
  "bst_audit (push_audit A action details st) =
   bst_audit st @ [audit_entry_of A ''user'' action details]"
  "au_actor (audit_entry_of A ''user'' action details) = ''user''"
  by (simp_all add: push_audit_def audit_entry_of_def)

interpretation branching: brain_edit "branch_edit A new_branch" for A new_branch
proof
  fix m st m' st' r
  assume "branch_edit A new_branch m st = Ok (m', st', r)"
  then obtain source where s: "m' = m" "bm_get (bst_branches st) (bmf_active_branch m) = Some source"
    "st' = push_audit A ''brain.branch''
       (JObj (bm_collect [(''from'', JStr (bmf_active_branch m)), (''to'', JStr new_branch)]))
       (st\<lparr>bst_branches := bm_insert new_branch (source\<lparr>br_name := new_branch\<rparr>) (bst_branches st)\<rparr>)"
    by (auto simp: branch_edit_def Let_def split: if_splits)
  show "m' = m" by (rule s(1))
  show "\<exists>e. au_actor e = ''user'' \<and> bst_audit st' = bst_audit st @ [e]"
    unfolding s(3) using audit_pushed by fastforce
  show "bm_get (bst_branches st') k \<noteq> None" if "bm_get (bst_branches st) k \<noteq> None" for k
    using that unfolding s(3) by simp
  assume ok: "state_ok st"
  then have "branch_ok (source\<lparr>br_name := new_branch\<rparr>)"
    using state_ok_branch [OF ok s(2)] by (simp add: branch_ok_def)
  with ok show "state_ok st'" unfolding s(3) by (simp add: state_ok_push_audit state_ok_insert_branch)
qed

lemma merge_edit_Ok:
  assumes "merge_edit A source target strategy m st = Ok (m', st', r)"
  obtains src tgt where "m' = m" "bm_get (bst_branches st) source = Some src"
    "bm_get (bst_branches st) target = Some tgt"
    "(\<lambda>x. r = snd x \<and> mr_conflicts r = [] \<and>
      st' = push_audit A ''brain.merge''
        (JObj (bm_collect [(''source'', JStr source), (''target'', JStr target),
          (''merged'', json_count (mr_merged r))]))
        (st\<lparr>bst_branches := bm_insert target (tgt\<lparr>br_memory_objects := fst x\<rparr>) (bst_branches st)\<rparr>))
     (foldl (merge_step strategy) (br_memory_objects tgt, \<lparr>mr_merged = 0, mr_conflicts = []\<rparr>)
       (br_memory_objects src))"
  using assms unfolding merge_edit_def Let_def case_prod_beta by (auto split: if_splits)

interpretation merging: brain_edit "merge_edit A source target strategy" for A source target strategy
proof
  fix m st m' st' r
  assume edit: "merge_edit A source target strategy m st = Ok (m', st', r)"
  then show "m' = m" by (rule merge_edit_Ok)
  from edit show "bm_get (bst_branches st') k \<noteq> None" if "bm_get (bst_branches st) k \<noteq> None" for k
    by (rule merge_edit_Ok) (use that in simp)
  from edit show "\<exists>e. au_actor e = ''user'' \<and> bst_audit st' = bst_audit st @ [e]"
    by (rule merge_edit_Ok) (use audit_pushed in fastforce)
  assume ok: "state_ok st"
  from edit show "state_ok st'"
  proof (rule merge_edit_Ok)
    fix src tgt
    assume b: "bm_get (bst_branches st) source = Some src" "bm_get (bst_branches st) target = Some tgt"
      and "(\<lambda>x. r = snd x \<and> mr_conflicts r = [] \<and> st' = push_audit A ''brain.merge''
        (JObj (bm_collect [(''source'', JStr source), (''target'', JStr target),
          (''merged'', json_count (mr_merged r))]))
        (st\<lparr>bst_branches := bm_insert target (tgt\<lparr>br_memory_objects := fst x\<rparr>) (bst_branches st)\<rparr>))
       (foldl (merge_step strategy) (br_memory_objects tgt, \<lparr>mr_merged = 0, mr_conflicts = []\<rparr>)
         (br_memory_objects src))"
    moreover have "branch_ok src" "branch_ok tgt" using b state_ok_branch [OF ok] by blast+
    moreover from this have "distinct (map fst (br_memory_objects src))"
      by (simp add: branch_ok_def bm_ok_def strict_sorted_iff)
    ultimately show "state_ok st'"
      using ok by (simp add: merge_loop branch_ok_merged state_ok_insert_branch state_ok_push_audit)
  qed
qed

lemma forget_edit_Ok:
  assumes "forget_edit A subject predicate scope reason m st = Ok (m', st', n)"
  obtains br where "m' = m" "bm_get (bst_branches st) (bmf_active_branch m) = Some br"
    "n = length (filter (\<lambda>e. suppresses subject predicate (snd e)) (br_memory_objects br))"
    "st' = push_audit A ''brain.forget.suppress''
       (JObj (bm_collect [(''subject'', JStr subject), (''predicate'', JStr predicate),
          (''scope'', JStr scope), (''suppressed'', json_count n)]))
       (st\<lparr>bst_branches := bm_insert (bmf_active_branch m)
         (br\<lparr>br_memory_objects :=
             map (\<lambda>e. (fst e, suppressed_by subject predicate (snd e))) (br_memory_objects br),
           br_suppressions := br_suppressions br @
             [\<lparr>sr_id = amb_uuid A AtSuppression, sr_ts = amb_now A AtSuppression, sr_subject = subject,
               sr_predicate = predicate, sr_scope = scope, sr_reason = reason,
               sr_suppressed_count = n\<rparr>]\<rparr>) (bst_branches st)\<rparr>)"
  using assms by (auto simp: forget_edit_def suppress_loop_eq Let_def)

interpretation forgetting: brain_edit "forget_edit A subject predicate scope reason"
  for A subject predicate scope reason
proof
  fix m st m' st' r
  assume edit: "forget_edit A subject predicate scope reason m st = Ok (m', st', r)"
  then show "m' = m" by (rule forget_edit_Ok)
  from edit show "bm_get (bst_branches st') k \<noteq> None" if "bm_get (bst_branches st) k \<noteq> None" for k
    by (rule forget_edit_Ok) (use that in simp)
  from edit show "\<exists>e. au_actor e = ''user'' \<and> bst_audit st' = bst_audit st @ [e]"
    by (rule forget_edit_Ok) (use audit_pushed in fastforce)
  assume ok: "state_ok st"
  from edit show "state_ok st'"
    by (rule forget_edit_Ok)
      (use ok state_ok_branch in \<open>simp add: branch_ok_suppressed state_ok_insert_branch state_ok_push_audit\<close>)
qed

interpretation attaching: brain_edit "attach_edit A grant" for A grant
proof
  fix m st m' st' r
  assume "attach_edit A grant m st = Ok (m', st', r)"
  then have s: "m' = m" "st' = push_audit A ''brain.attach''
      (JObj (bm_collect [(''agent'', JStr (ag_agent_id grant)), (''model'', JStr (ag_model_id grant))]))
      (st\<lparr>bst_attachments := filter (\<lambda>a. \<not> (ag_agent_id a = ag_agent_id grant \<and>
          ag_model_id a = ag_model_id grant)) (bst_attachments st) @ [grant]\<rparr>)"
    by (auto simp: attach_edit_def Let_def)
  show "m' = m" by (rule s(1))
  show "\<exists>e. au_actor e = ''user'' \<and> bst_audit st' = bst_audit st @ [e]"
    unfolding s(2) using audit_pushed by fastforce
  show "bm_get (bst_branches st') k \<noteq> None" if "bm_get (bst_branches st) k \<noteq> None" for k
    using that unfolding s(2) by simp
  assume "state_ok st"
  then show "state_ok st'"
    unfolding s(2) by (intro state_ok_push_audit) (auto simp: state_ok_def grant_key_def distinct_map_filter)
qed

interpretation detaching: brain_edit "detach_edit A agent model" for A agent model
proof
  fix m st m' st' r
  assume "detach_edit A agent model m st = Ok (m', st', r)"
  then have s: "m' = m" "st' = push_audit A ''brain.detach''
      (JObj (bm_collect [(''agent'', JStr agent),
         (''model'', case model of None \<Rightarrow> JNull | Some x \<Rightarrow> JStr x), (''removed'', json_count r)]))
      (st\<lparr>bst_attachments := filter (\<lambda>a. \<not> detach_hit agent model a) (bst_attachments st)\<rparr>)"
    by (auto simp: detach_edit_def Let_def)
  show "m' = m" by (rule s(1))
  show "\<exists>e. au_actor e = ''user'' \<and> bst_audit st' = bst_audit st @ [e]"
    unfolding s(2) using audit_pushed by fastforce
  show "bm_get (bst_branches st') k \<noteq> None" if "bm_get (bst_branches st) k \<noteq> None" for k
    using that unfolding s(2) by simp
  assume "state_ok st"
  then show "state_ok st'"
    unfolding s(2) by (intro state_ok_push_audit) (auto simp: state_ok_def distinct_map_filter split: option.split)
qed

section \<open>What forgetting does\<close>

lemma suppressed_by_eq:
  "suppressed_by subject predicate o' =
    (if mo_subject o' = subject \<and> mo_predicate o' = predicate then o'\<lparr>mo_suppressed := True\<rparr> else o')"
  by (simp add: suppressed_by_def suppresses_def)

lemma length_filter_card:
  assumes "bm_ok m"
  shows "length (filter P m) = card {k. \<exists>v. bm_get m k = Some v \<and> P (k, v)}"
proof -
  have "{k. \<exists>v. bm_get m k = Some v \<and> P (k, v)} = set (map fst (filter P m))"
    using bm_get_iff [OF assms] by force
  moreover have "distinct (map fst (filter P m))"
    using bm_ok_filter [OF assms] by (simp add: bm_ok_def strict_sorted_iff)
  ultimately show ?thesis by (simp only: distinct_card length_map)
qed

lemma forget_effect:
  assumes "forget_edit A subject predicate scope reason m st = Ok (m', st', n)" and "state_ok st"
  obtains br br' where "bm_get (bst_branches st) (bmf_active_branch m) = Some br"
    "bm_get (bst_branches st') = (bm_get (bst_branches st))(bmf_active_branch m \<mapsto> br')"
    "\<forall>oid. bm_get (br_memory_objects br') oid = map_option
       (\<lambda>o'. if mo_subject o' = subject \<and> mo_predicate o' = predicate then o'\<lparr>mo_suppressed := True\<rparr> else o')
       (bm_get (br_memory_objects br) oid)"
    "n = card {oid. \<exists>o'. bm_get (br_memory_objects br) oid = Some o' \<and> mo_subject o' = subject \<and>
       mo_predicate o' = predicate \<and> \<not> mo_suppressed o'}"
    "bst_attachments st' = bst_attachments st"
proof (rule forget_edit_Ok [OF assms(1)])
  fix br
  assume br: "bm_get (bst_branches st) (bmf_active_branch m) = Some br"
    and n: "n = length (filter (\<lambda>e. suppresses subject predicate (snd e)) (br_memory_objects br))"
    and st': "st' = push_audit A ''brain.forget.suppress''
       (JObj (bm_collect [(''subject'', JStr subject), (''predicate'', JStr predicate),
          (''scope'', JStr scope), (''suppressed'', json_count n)]))
       (st\<lparr>bst_branches := bm_insert (bmf_active_branch m)
         (br\<lparr>br_memory_objects :=
             map (\<lambda>e. (fst e, suppressed_by subject predicate (snd e))) (br_memory_objects br),
           br_suppressions := br_suppressions br @
             [\<lparr>sr_id = amb_uuid A AtSuppression, sr_ts = amb_now A AtSuppression, sr_subject = subject,
               sr_predicate = predicate, sr_scope = scope, sr_reason = reason,
               sr_suppressed_count = n\<rparr>]\<rparr>) (bst_branches st)\<rparr>)" (is "_ = push_audit _ _ _
      (st\<lparr>bst_branches := bm_insert _ ?br' _\<rparr>)")
  have objs: "bm_ok (br_memory_objects br)"
    using state_ok_branch [OF assms(2) br] by (simp add: branch_ok_def)
  show thesis
  proof (rule that [OF br])
    show "bm_get (bst_branches st') = (bm_get (bst_branches st))(bmf_active_branch m \<mapsto> ?br')"
      by (auto simp: st' fun_eq_iff)
    show "n = card {oid. \<exists>o'. bm_get (br_memory_objects br) oid = Some o' \<and> mo_subject o' = subject \<and>
        mo_predicate o' = predicate \<and> \<not> mo_suppressed o'}"
      unfolding n length_filter_card [OF objs] by (simp only: suppresses_def snd_conv)
    show "bst_attachments st' = bst_attachments st" by (simp add: st')
  qed (simp add: suppressed_get, simp add: suppressed_by_eq [abs_def])
qed

text \<open>Forgetting the same again finds nothing.\<close>

lemma forget_again:
  assumes "forget_edit A subject predicate scope reason m st = Ok (m, st', n)"
    and "bmf_active_branch m' = bmf_active_branch m"
  shows "\<exists>st''. forget_edit B subject predicate scope2 reason2 m' st' = Ok (m', st'', 0)"
  by (rule forget_edit_Ok [OF assms(1)])
    (simp add: forget_edit_def assms(2) suppress_loop_eq Let_def o_def)

section \<open>What merging does\<close>

text \<open>The object under one identifier after a merge, from the target's and the source's.\<close>

definition merged_object ::
  "merge_strategy \<Rightarrow> memory_object option \<Rightarrow> memory_object option \<Rightarrow> memory_object option" where
  "merged_object strategy dst src =
     (case (dst, src) of
        (None, _) \<Rightarrow> src
      | (Some d, Some s) \<Rightarrow> if strategy = Theirs \<and> differs d s then src else dst
      | (Some d, None) \<Rightarrow> dst)"

text \<open>The identifiers that the two branches hold with different contents, in ascending order.\<close>

definition conflicting :: "branch_state \<Rightarrow> branch_state \<Rightarrow> string list" where
  "conflicting tgt src = map fst (filter (conflicts (br_memory_objects tgt)) (br_memory_objects src))"

lemma merge_loop_branches:
  assumes "branch_ok src"
  shows "foldl (merge_step strategy) (br_memory_objects tgt, \<lparr>mr_merged = 0, mr_conflicts = []\<rparr>)
      (br_memory_objects src) =
    (foldl (\<lambda>m e. bm_insert (fst e) (snd e) m) (br_memory_objects tgt)
       (filter (takes strategy (br_memory_objects tgt)) (br_memory_objects src)),
     \<lparr>mr_merged = length (filter (takes strategy (br_memory_objects tgt)) (br_memory_objects src)),
      mr_conflicts = if strategy = Manual then conflicting tgt src else []\<rparr>)"
  using assms by (simp add: merge_loop branch_ok_def bm_ok_def strict_sorted_iff conflicting_def)

lemma merge_effect:
  assumes "merge_edit A source target strategy m st = Ok (m', st', r)" and "state_ok st"
  obtains src tgt tgt' where "bm_get (bst_branches st) source = Some src"
    "bm_get (bst_branches st) target = Some tgt"
    "bm_get (bst_branches st') = (bm_get (bst_branches st))(target \<mapsto> tgt')"
    "\<forall>oid. bm_get (br_memory_objects tgt') oid =
      merged_object strategy (bm_get (br_memory_objects tgt) oid) (bm_get (br_memory_objects src) oid)"
    "mr_merged r = card {oid. \<exists>s. bm_get (br_memory_objects src) oid = Some s \<and>
      (case bm_get (br_memory_objects tgt) oid of None \<Rightarrow> True | Some d \<Rightarrow> strategy = Theirs \<and> differs d s)}"
    "strategy = Manual \<longrightarrow> conflicting tgt src = []"
    "bst_attachments st' = bst_attachments st"
proof (rule merge_edit_Ok [OF assms(1)])
  fix src tgt :: branch_state
  let ?T = "br_memory_objects tgt" and ?S = "br_memory_objects src"
  assume b: "bm_get (bst_branches st) source = Some src" "bm_get (bst_branches st) target = Some tgt"
    and x: "(\<lambda>x. r = snd x \<and> mr_conflicts r = [] \<and> st' = push_audit A ''brain.merge''
        (JObj (bm_collect [(''source'', JStr source), (''target'', JStr target),
          (''merged'', json_count (mr_merged r))]))
        (st\<lparr>bst_branches := bm_insert target (tgt\<lparr>br_memory_objects := fst x\<rparr>) (bst_branches st)\<rparr>))
       (foldl (merge_step strategy) (?T, \<lparr>mr_merged = 0, mr_conflicts = []\<rparr>) ?S)"
  have src: "branch_ok src" by (rule state_ok_branch [OF assms(2) b(1)])
  then have S: "bm_ok ?S" "distinct (map fst ?S)" by (simp_all add: branch_ok_def bm_ok_def strict_sorted_iff)
  define tgt' where "tgt' = tgt\<lparr>br_memory_objects :=
    foldl (\<lambda>m e. bm_insert (fst e) (snd e) m) ?T (filter (takes strategy ?T) ?S)\<rparr>"
  note x = x [unfolded merge_loop_branches [OF src] fst_conv snd_conv, folded tgt'_def]
  have objs: "bm_get (br_memory_objects tgt') oid = merged_object strategy (bm_get ?T oid) (bm_get ?S oid)" for oid
    using merged_get [OF S(2), where strategy = strategy and objs = ?T and k = oid]
    by (auto simp: tgt'_def merged_object_def takes_def bm_get_def split: option.splits)
  show thesis
  proof (rule that [OF b, of tgt'])
    show "mr_merged r = card {oid. \<exists>s. bm_get ?S oid = Some s \<and>
        (case bm_get ?T oid of None \<Rightarrow> True | Some d \<Rightarrow> strategy = Theirs \<and> differs d s)}"
      using x length_filter_card [OF S(1), of "takes strategy ?T"] by (simp add: takes_def cong: option.case_cong)
  qed (use x objs in \<open>auto simp: fun_eq_iff\<close>)
qed

text \<open>A manual merge of branches that disagree is refused, with the list of the conflicts.\<close>

lemma manual_conflict:
  assumes "state_ok st" and "bm_get (bst_branches st) source = Some src"
    and "bm_get (bst_branches st) target = Some tgt" and "conflicting tgt src \<noteq> []"
  shows "merge_edit A source target Manual m st =
    Err (Anyhow (''merge conflicts: '' @ join '','' (conflicting tgt src)))"
  using merge_loop_branches [OF state_ok_branch [OF assms(1,2)], of Manual tgt] assms(2-4)
  by (simp add: merge_edit_def)

end
