(* ===== verification/Brain_Facts.thy ===== *)
theory Brain_Facts
  imports Brain_Edits
begin

text \<open>
  Facts about the files of the brain store: when a brain loads, that what an edit writes
  loads again, and the invariant of the home directories that the operations produce.
  \<open>crates_ok\<close> is the documented behaviour of the libraries: base64 and the cipher undo
  themselves, a signature made with a key verifies under its public key, and serde reads back
  the states it wrote. \<open>ambient_ok\<close> says that random bytes have the length asked for and that
  the listing of a directory lists its names.
\<close>

section \<open>The libraries\<close>

definition crates_ok :: "crates \<Rightarrow> bool" where
  "crates_ok C \<longleftrightarrow>
     (\<forall>s. cr_b64_decode C (cr_b64_encode C s) = Some s) \<and>
     (\<forall>key nonce aad msg ct. cr_seal C key nonce aad msg = Some ct \<longrightarrow> cr_open C key nonce aad ct = Some msg) \<and>
     (\<forall>sk. length sk = 32 \<longrightarrow> length (cr_public_key C sk) = 32 \<and> cr_key_point C (cr_public_key C sk) \<and>
       (\<forall>msg. length (cr_sign C sk msg) = 64 \<and> cr_verify C (cr_public_key C sk) msg (cr_sign C sk msg))) \<and>
     (\<forall>st. state_ok st \<longrightarrow> cr_state_of_json C (cr_state_json C st) = Some st)"

definition ambient_ok :: "(string \<Rightarrow> string option) \<Rightarrow> ambient \<Rightarrow> bool" where
  "ambient_ok V A \<longleftrightarrow> amb_var A = V \<and> (\<forall>names. mset (amb_list A names) = mset names) \<and>
     length (amb_random A AtSigningKey) = 32 \<and> length (amb_random A AtKeyNonce) = 24 \<and>
     length (amb_random A AtStateNonce) = 24"

lemma crates_okD:
  assumes "crates_ok C"
  shows "cr_b64_decode C (cr_b64_encode C s) = Some s"
    and "cr_seal C key nonce aad msg = Some ct \<Longrightarrow> cr_open C key nonce aad ct = Some msg"
    and "length sk = 32 \<Longrightarrow> length (cr_public_key C sk) = 32"
    and "length sk = 32 \<Longrightarrow> cr_key_point C (cr_public_key C sk)"
    and "length sk = 32 \<Longrightarrow> length (cr_sign C sk payload) = 64"
    and "length sk = 32 \<Longrightarrow> cr_verify C (cr_public_key C sk) payload (cr_sign C sk payload)"
    and "state_ok st \<Longrightarrow> cr_state_of_json C (cr_state_json C st) = Some st"
  using assms by (simp_all add: crates_ok_def)

lemma decrypt_encrypted:
  assumes "crates_ok C" and "length nonce = 24" and "encrypt_bytes C nonce key aad plain = Ok blob"
  shows "decrypt_bytes C key aad blob = Ok plain"
  using assms(2,3) crates_okD(1,2) [OF assms(1)]
  by (auto simp: encrypt_bytes_def decrypt_bytes_def b64_decode_def)

lemma decrypt_encrypted_json:
  assumes "crates_ok C" and "length nonce = 24" and "encrypt_json C nonce key aad st = Ok blob" and "state_ok st"
  shows "decrypt_json C key aad blob = Ok st"
  using decrypt_encrypted [OF assms(1,2)] assms(3) crates_okD(7) [OF assms(1,4)]
  by (simp add: encrypt_json_def decrypt_json_def)

lemma signed_verifies:
  assumes "crates_ok C" and "length sk = 32"
    and "cr_b64_decode C (bmf_signing_public_key_b64 m) = Some (cr_public_key C sk)"
  shows "verify_manifest_signature C (m\<lparr>bmf_signature_b64 := sign_manifest C m sk\<rparr>) = Ok ()"
  using crates_okD(1,3-6) [OF assms(1)] assms(2,3)
  by (simp add: verify_manifest_signature_def b64_decode_def sign_manifest_def manifest_signing_payload_def)

section \<open>Loading\<close>

text \<open>The secret and the salt give the key.\<close>

definition brain_key :: "(string \<Rightarrow> string option) \<Rightarrow> crates \<Rightarrow> brain_manifest \<Rightarrow> string \<Rightarrow> bool" where
  "brain_key V C m key \<longleftrightarrow>
     (\<exists>secret salt. V (bmf_secret_env_var m) = Some secret \<and>
        cr_b64_decode C (bmf_kdf_salt_b64 m) = Some salt \<and> cr_argon2 C secret salt = Ok key)"

lemma brain_key_unique: "brain_key V C m key \<Longrightarrow> brain_key V C m key' \<Longrightarrow> key' = key"
  by (auto simp: brain_key_def)

lemma derive_key_Ok: "derive_key C secret salt = Ok key \<longleftrightarrow> cr_argon2 C secret salt = Ok key"
  by (auto simp: derive_key_def split: sum.splits)

lemma if_Err_Ok: "(if c then Err e else x) = Ok a \<longleftrightarrow> \<not> c \<and> x = Ok a"
  by simp

lemma load_iff:
  "load_by_dir A C d = Ok (m, st, sk) \<longleftrightarrow>
     bd_manifest d = Holds m \<and> verify_manifest_signature C m = Ok () \<and>
     (\<exists>key blob key_blob. brain_key (amb_var A) C m key \<and>
        bd_state d = Holds blob \<and> blob_digest C blob = bmf_state_sha256 m \<and>
        decrypt_json C key (bmf_brain_id m) blob = Ok st \<and>
        bd_signing_key d = Holds key_blob \<and>
        decrypt_bytes C key (bmf_brain_id m) key_blob = Ok sk \<and> length sk = 32)"
  unfolding load_by_dir_def brain_key_def
  by (auto simp: env_secret_def b64_decode_def derive_key_Ok if_Err_Ok)

lemma seal_iff:
  "seal_brain A C m st sk = Ok (m3, blob) \<longleftrightarrow>
     (\<exists>key. brain_key (amb_var A) C m key \<and>
        encrypt_json C (amb_random A AtStateNonce) key (bmf_brain_id m) st = Ok blob \<and>
        m3 = (let m2 = m\<lparr>bmf_updated_at := amb_now A AtUpdate, bmf_state_sha256 := blob_digest C blob\<rparr>
              in m2\<lparr>bmf_signature_b64 := sign_manifest C m2 sk\<rparr>))"
  unfolding seal_brain_def brain_key_def Let_def
  by (auto simp: env_secret_def b64_decode_def derive_key_Ok)

text \<open>The brain of a directory: what loads, under any call that sees the variables \<open>V\<close>.\<close>

definition brain_in ::
  "(string \<Rightarrow> string option) \<Rightarrow> crates \<Rightarrow> brain_dir \<Rightarrow> brain_manifest \<Rightarrow> brain_state \<Rightarrow> string \<Rightarrow> bool" where
  "brain_in V C d m st sk \<longleftrightarrow>
     (\<forall>A. amb_var A = V \<longrightarrow> load_by_dir A C d = Ok (m, st, sk)) \<and>
     cr_b64_decode C (bmf_signing_public_key_b64 m) = Some (cr_public_key C sk) \<and>
     state_ok st \<and> bm_get (bst_branches st) (bmf_active_branch m) \<noteq> None"

lemma load_var: "amb_var A = amb_var B \<Longrightarrow> load_by_dir A C d = load_by_dir B C d"
  unfolding load_by_dir_def by (simp add: env_secret_def)

lemma brain_inI:
  assumes "load_by_dir A C d = Ok (m, st, sk)" and "amb_var A = V"
    and "cr_b64_decode C (bmf_signing_public_key_b64 m) = Some (cr_public_key C sk)"
    and "state_ok st" and "bm_get (bst_branches st) (bmf_active_branch m) \<noteq> None"
  shows "brain_in V C d m st sk"
  using assms load_var unfolding brain_in_def by metis

lemma brain_in_load: "brain_in V C d m st sk \<Longrightarrow> amb_var A = V \<Longrightarrow> load_by_dir A C d = Ok (m, st, sk)"
  by (simp add: brain_in_def)

text \<open>What an edit writes loads again.\<close>

lemma sealed_brain_in:
  assumes "crates_ok C" and "ambient_ok V A" and "brain_in V C d m st sk"
    and "seal_brain A C m st' sk = Ok (m3, blob)" and "state_ok st'"
    and "bm_get (bst_branches st') (bmf_active_branch m) \<noteq> None"
  shows "brain_in V C (d\<lparr>bd_manifest := Holds m3, bd_state := Holds blob\<rparr>) m3 st' sk"
proof -
  have var: "amb_var A = V" and nonce: "length (amb_random A AtStateNonce) = 24"
    using assms(2) by (simp_all add: ambient_ok_def)
  from brain_in_load [OF assms(3) var] obtain key blob0 key_blob where
    old: "brain_key V C m key" "bd_signing_key d = Holds key_blob"
      "decrypt_bytes C key (bmf_brain_id m) key_blob = Ok sk" "length sk = 32"
    unfolding load_iff var by blast
  from assms(4) obtain key' where new: "brain_key V C m key'"
      "encrypt_json C (amb_random A AtStateNonce) key' (bmf_brain_id m) st' = Ok blob"
      "m3 = (let m2 = m\<lparr>bmf_updated_at := amb_now A AtUpdate, bmf_state_sha256 := blob_digest C blob\<rparr>
             in m2\<lparr>bmf_signature_b64 := sign_manifest C m2 sk\<rparr>)"
    unfolding seal_iff var by blast
  have key: "key' = key" by (rule brain_key_unique [OF old(1) new(1)])
  let ?m2 = "m\<lparr>bmf_updated_at := amb_now A AtUpdate, bmf_state_sha256 := blob_digest C blob\<rparr>"
  have m3: "m3 = ?m2\<lparr>bmf_signature_b64 := sign_manifest C ?m2 sk\<rparr>" using new(3) by (simp add: Let_def)
  have pk: "cr_b64_decode C (bmf_signing_public_key_b64 m) = Some (cr_public_key C sk)"
    using assms(3) by (simp add: brain_in_def)
  have "verify_manifest_signature C m3 = Ok ()"
    unfolding m3 by (rule signed_verifies [OF assms(1) old(4)]) (simp add: pk)
  moreover have "brain_key V C m3 key" using old(1) by (simp add: m3 brain_key_def)
  moreover have "decrypt_json C key (bmf_brain_id m) blob = Ok st'"
    using decrypt_encrypted_json [OF assms(1) nonce new(2) assms(5)] key by simp
  ultimately have "load_by_dir A C (d\<lparr>bd_manifest := Holds m3, bd_state := Holds blob\<rparr>) = Ok (m3, st', sk)"
    unfolding load_iff var using old
    by (intro conjI exI [of _ key] exI [of _ blob] exI [of _ key_blob]) (simp_all add: m3)
  then show ?thesis by (rule brain_inI [OF _ var]) (use pk assms(5,6) in \<open>simp_all add: m3\<close>)
qed

section \<open>Writes\<close>

lemma home_bind_Ok [simp]:
  "home_bind hr f = (h', Ok b) \<longleftrightarrow> (\<exists>h1 a. hr = (h1, Ok a) \<and> f a h1 = (h', Ok b))"
  by (cases hr; cases "snd hr") (auto simp: home_bind_def)

lemma home_bind_Err:
  "home_bind hr f = (h', Err e) \<longleftrightarrow>
     hr = (h', Err e) \<or> (\<exists>h1 a. hr = (h1, Ok a) \<and> f a h1 = (h', Err e))"
  by (cases hr; cases "snd hr") (auto simp: home_bind_def)

lemma write_json_Ok [simp]:
  "write_json A place put a h = (h', Ok u) \<longleftrightarrow> amb_disk A place = Written \<and> h' = put (Holds a) h"
  by (auto simp: write_json_def split: write_outcome.splits)

lemma write_json_Err:
  "write_json A place put a h = (h', Err e) \<longleftrightarrow>
     e = Foreign ''fs'' \<and> (amb_disk A place = Refused \<and> h' = h \<or> amb_disk A place = CutShort \<and> h' = put Garbled h)"
  by (auto simp: write_json_def split: write_outcome.splits)

lemma make_dir_Ok [simp]:
  "make_dir A n h = (h', Ok u) \<longleftrightarrow> amb_disk A ToDirectory = Written \<and> h' = put_dir n (\<lambda>d. d) h"
  by (auto simp: make_dir_def split: write_outcome.splits)

lemma make_dir_Err:
  "make_dir A n h = (h', Err e) \<longleftrightarrow>
     e = Foreign ''fs'' \<and> (amb_disk A ToDirectory = Refused \<and> h' = h \<or>
       amb_disk A ToDirectory = CutShort \<and> h' = put_dir n (\<lambda>d. d) h)"
  by (auto simp: make_dir_def split: write_outcome.splits)

definition disk_works :: "ambient \<Rightarrow> bool" where
  "disk_works A \<longleftrightarrow> (\<forall>place. amb_disk A place = Written)"

lemma disk_worksD [simp]: "disk_works A \<Longrightarrow> amb_disk A place = Written"
  by (simp add: disk_works_def)

lemma disk_fails: "amb_disk A place = Refused \<Longrightarrow> \<not> disk_works A" "amb_disk A place = CutShort \<Longrightarrow> \<not> disk_works A"
  by auto

section \<open>Directories\<close>

lemma dir_at_put_dir [simp]: "dir_at (put_dir n f h) k = (if k = n then f (dir_at h n) else dir_at h k)"
  by (simp add: put_dir_def dir_at_def)

lemma dir_at_put [simp]:
  "dir_at (put_manifest n m h) k = (if k = n then (dir_at h n)\<lparr>bd_manifest := m\<rparr> else dir_at h k)"
  "dir_at (put_state n b h) k = (if k = n then (dir_at h n)\<lparr>bd_state := b\<rparr> else dir_at h k)"
  "dir_at (put_signing_key n b h) k = (if k = n then (dir_at h n)\<lparr>bd_signing_key := b\<rparr> else dir_at h k)"
  by (simp_all add: put_manifest_def put_state_def put_signing_key_def)

lemma home_put_dir [simp]:
  "home_config (put_dir n f h) = home_config h" "home_api_keys (put_dir n f h) = home_api_keys h"
  by (simp_all add: put_dir_def)

lemma put_config_sel [simp]:
  "home_brains (put_config f h) = home_brains h" "home_api_keys (put_config f h) = home_api_keys h"
  "home_brains (put_api_keys g h) = home_brains h" "home_config (put_api_keys g h) = home_config h"
  "home_api_keys (put_api_keys g h) = g" "home_config (put_config f h) = f"
  by (simp_all add: put_config_def put_api_keys_def)

text \<open>A change of one brain's directory, and of nothing else.\<close>

definition only_dir :: "string \<Rightarrow> home \<Rightarrow> home \<Rightarrow> bool" where
  "only_dir n h h' \<longleftrightarrow> (\<forall>k. k \<noteq> n \<longrightarrow> dir_at h' k = dir_at h k) \<and>
     home_config h' = home_config h \<and> home_api_keys h' = home_api_keys h"

lemma only_dir_refl [simp]: "only_dir n h h"
  by (simp add: only_dir_def)

lemma only_dir_put [simp]:
  "only_dir n h (put_dir n f h')  \<longleftrightarrow> only_dir n h h'"
  "only_dir n h (put_manifest n m h') \<longleftrightarrow> only_dir n h h'"
  "only_dir n h (put_state n b h') \<longleftrightarrow> only_dir n h h'"
  "only_dir n h (put_signing_key n b h') \<longleftrightarrow> only_dir n h h'"
  by (auto simp: only_dir_def put_manifest_def put_state_def put_signing_key_def)

text \<open>The writes of an edit: carried out; or one failed, and each file is as it was, as it should
  be, or cut short.\<close>

definition half_edited :: "brain_manifest \<Rightarrow> brain_dir \<Rightarrow> brain_dir \<Rightarrow> bool" where
  "half_edited m d d' \<longleftrightarrow>
     d' = d \<or> d' = d\<lparr>bd_manifest := Garbled\<rparr> \<or> d' = d\<lparr>bd_manifest := Holds m\<rparr> \<or>
     d' = d\<lparr>bd_manifest := Holds m, bd_state := Garbled\<rparr>"

lemma write_edited_Ok [simp]:
  "write_edited A n m blob h = (h', Ok u) \<longleftrightarrow>
     amb_disk A ToManifest = Written \<and> amb_disk A ToState = Written \<and>
     h' = put_state n (Holds blob) (put_manifest n (Holds m) h)"
  by (auto simp: write_edited_def)

lemma write_edited_Err:
  assumes "write_edited A n m blob h = (h', Err e)"
  shows "e = Foreign ''fs'' \<and> \<not> disk_works A \<and> only_dir n h h' \<and> half_edited m (dir_at h n) (dir_at h' n)"
  using assms by (auto simp: write_edited_def home_bind_Err write_json_Err half_edited_def dest: disk_fails)

text \<open>The writes that make a new brain.\<close>

lemma write_brain_Ok [simp]:
  "write_brain A n m blob key_blob h = (h', Ok u) \<longleftrightarrow>
     amb_disk A ToManifest = Written \<and> amb_disk A ToState = Written \<and> amb_disk A ToSigningKey = Written \<and>
     h' = put_signing_key n (Holds key_blob) (put_state n (Holds blob) (put_manifest n (Holds m) h))"
  by (auto simp: write_brain_def)

lemma write_brain_Err:
  assumes "write_brain A n m blob key_blob h = (h', Err e)"
  shows "e = Foreign ''fs'' \<and> \<not> disk_works A \<and> only_dir n h h' \<and>
    bd_manifest (dir_at h' n) \<in> {bd_manifest (dir_at h n), Garbled, Holds m}"
  using assms by (auto simp: write_brain_def home_bind_Err write_json_Err dest: disk_fails)

text \<open>Every directory is named after its brain, which loads, or has no manifest yet.\<close>

definition home_sound :: "(string \<Rightarrow> string option) \<Rightarrow> crates \<Rightarrow> home \<Rightarrow> bool" where
  "home_sound V C h \<longleftrightarrow>
     (\<forall>n. bd_manifest (dir_at h n) = Absent \<or>
        (\<exists>m st sk. brain_in V C (dir_at h n) m st sk \<and> bmf_brain_id m = n))"

text \<open>The same but for the directories \<open>S\<close>, of which only the name is kept.\<close>

definition home_kept :: "(string \<Rightarrow> string option) \<Rightarrow> crates \<Rightarrow> string set \<Rightarrow> home \<Rightarrow> bool" where
  "home_kept V C S h \<longleftrightarrow>
     (\<forall>n. (\<forall>m. bd_manifest (dir_at h n) = Holds m \<longrightarrow> bmf_brain_id m = n) \<and>
        (n \<notin> S \<longrightarrow> bd_manifest (dir_at h n) = Absent \<or> (\<exists>m st sk. brain_in V C (dir_at h n) m st sk)))"

lemma home_keptD:
  assumes "home_kept V C S h"
  shows "bd_manifest (dir_at h n) = Holds m \<Longrightarrow> bmf_brain_id m = n"
    and "n \<notin> S \<Longrightarrow> bd_manifest (dir_at h n) = Absent \<or> (\<exists>m st sk. brain_in V C (dir_at h n) m st sk)"
  using assms unfolding home_kept_def by blast+

lemma brain_in_manifest: "brain_in V C d m st sk \<Longrightarrow> bd_manifest d = Holds m"
  using brain_in_load [of V C d m st sk "ambient.make V undefined undefined undefined undefined undefined"]
  by (simp add: load_iff ambient.defs)

lemma brain_in_unique:
  assumes "brain_in V C d m st sk" and "brain_in V C d m' st' sk'"
  shows "m' = m \<and> st' = st \<and> sk' = sk"
  using brain_in_load [OF assms(1), of "ambient.make V undefined undefined undefined undefined undefined"]
    brain_in_load [OF assms(2), of "ambient.make V undefined undefined undefined undefined undefined"]
  by (simp add: ambient.defs)

lemma home_sound_kept: "home_sound V C h \<longleftrightarrow> home_kept V C {} h"
  unfolding home_sound_def home_kept_def
  by (metis brain_in_manifest empty_iff json_file.distinct(3) json_file.inject)

lemma home_kept_update:
  assumes "home_kept V C S h" and "\<And>k. k \<noteq> n \<Longrightarrow> dir_at h' k = dir_at h k" and "S \<subseteq> S'"
    and "\<And>m. bd_manifest (dir_at h' n) = Holds m \<Longrightarrow> bd_manifest (dir_at h n) = Holds m \<or> bmf_brain_id m = n"
    and "n \<notin> S' \<Longrightarrow> dir_at h' n = dir_at h n \<or> (\<exists>m st sk. brain_in V C (dir_at h' n) m st sk)"
  shows "home_kept V C S' h'"
  unfolding home_kept_def
proof (intro allI conjI impI)
  fix k m
  assume "bd_manifest (dir_at h' k) = Holds m"
  then show "bmf_brain_id m = k" using assms(2,4) home_keptD(1) [OF assms(1)] by (cases "k = n") metis+
next
  fix k
  assume "k \<notin> S'"
  then show "bd_manifest (dir_at h' k) = Absent \<or> (\<exists>m st sk. brain_in V C (dir_at h' k) m st sk)"
    using assms(2,3,5) home_keptD(2) [OF assms(1), of k] by (cases "k = n") (metis in_mono)+
qed

lemma home_sound_update:
  assumes "home_sound V C h" and "\<And>k. k \<noteq> n \<Longrightarrow> dir_at h' k = dir_at h k"
    and "bd_manifest (dir_at h' n) = Absent \<or>
      (\<exists>m st sk. brain_in V C (dir_at h' n) m st sk \<and> bmf_brain_id m = n)"
  shows "home_sound V C h'"
  unfolding home_sound_def
proof
  fix k
  show "bd_manifest (dir_at h' k) = Absent \<or>
      (\<exists>m st sk. brain_in V C (dir_at h' k) m st sk \<and> bmf_brain_id m = k)"
    using assms by (cases "k = n") (auto simp: home_sound_def)
qed

lemma home_sound_holds:
  assumes "home_sound V C h" and "bd_manifest (dir_at h n) = Holds m"
  obtains st sk where "brain_in V C (dir_at h n) m st sk" "bmf_brain_id m = n"
  using assms that brain_in_manifest unfolding home_sound_def
  by (metis json_file.distinct(3) json_file.inject)

end
