(* ===== verification/Brain_Steps.thy ===== *)
theory Brain_Steps
  imports Brain_Facts
begin

text \<open>
  What the operations of the brain store do to a home directory: what an operation answers is
  what it stored; brains stay loadable under their own names, but for what a failed write or an
  import under another name leaves behind.
\<close>

section \<open>Finding brains\<close>

lemma list_loop:
  "foldM (\<lambda>out name.
      let f = bd_manifest (dir_at h name) in
      if empty_file f then Ok out else res_bind (read_json f) (\<lambda>m. Ok (out @ [summary_of m]))) out names
   = Ok all \<Longrightarrow>
   \<exists>ms. all = out @ map summary_of ms \<and>
     (\<forall>m. m \<in> set ms \<longleftrightarrow> (\<exists>n \<in> set names. bd_manifest (dir_at h n) = Holds m))"
proof (induction names arbitrary: out)
  case Nil
  then show ?case by (intro exI [of _ "[]"]) simp
next
  case (Cons n names)
  show ?case
  proof (cases "bd_manifest (dir_at h n)")
    case Absent
    with Cons.prems have "foldM (\<lambda>out name.
        let f = bd_manifest (dir_at h name) in
        if empty_file f then Ok out else res_bind (read_json f) (\<lambda>m. Ok (out @ [summary_of m]))) out names
        = Ok all" by (simp add: empty_file_def)
    from Cons.IH [OF this] Absent show ?thesis by auto
  next
    case Garbled
    with Cons.prems show ?thesis by (simp add: empty_file_def)
  next
    case (Holds m)
    with Cons.prems have "foldM (\<lambda>out name.
        let f = bd_manifest (dir_at h name) in
        if empty_file f then Ok out else res_bind (read_json f) (\<lambda>m. Ok (out @ [summary_of m])))
        (out @ [summary_of m]) names = Ok all" by (simp add: empty_file_def)
    from Cons.IH [OF this] obtain ms where "all = out @ summary_of m # map summary_of ms"
      "\<forall>m. m \<in> set ms \<longleftrightarrow> (\<exists>n \<in> set names. bd_manifest (dir_at h n) = Holds m)" by auto
    with Holds show ?thesis by (intro exI [of _ "m # ms"]) auto
  qed
qed

lemma resolve_brain_Ok:
  assumes "resolve_brain A h brain_ref = Ok s"
  obtains n m where "n \<in> set (amb_list A (bm_keys (home_brains h)))"
    "bd_manifest (dir_at h n) = Holds m" "s = summary_of m"
    "bmf_brain_id m = brain_ref \<or> bmf_name m = brain_ref"
proof -
  from assms obtain all where
    all: "list_brains A h = Ok all"
      "find (\<lambda>b. bsm_brain_id b = brain_ref \<or> bsm_name b = brain_ref) all = Some s"
    by (auto simp: resolve_brain_def)
  from all(1) obtain out where out: "all = sort_key bsm_name out"
    "foldM (\<lambda>out name.
      let f = bd_manifest (dir_at h name) in
      if empty_file f then Ok out else res_bind (read_json f) (\<lambda>m. Ok (out @ [summary_of m]))) []
      (amb_list A (bm_keys (home_brains h))) = Ok out"
    by (auto simp: list_brains_def)
  from list_loop [OF out(2)] obtain ms where ms: "out = map summary_of ms"
    "\<forall>m. m \<in> set ms \<longleftrightarrow>
      (\<exists>n \<in> set (amb_list A (bm_keys (home_brains h))). bd_manifest (dir_at h n) = Holds m)" by auto
  from all(2) have "s \<in> set all" "bsm_brain_id s = brain_ref \<or> bsm_name s = brain_ref"
    by (auto simp: find_Some_iff)
  with out(1) ms(1) obtain m where m: "m \<in> set ms" "s = summary_of m" by auto
  with ms(2) obtain n where n: "n \<in> set (amb_list A (bm_keys (home_brains h)))"
    "bd_manifest (dir_at h n) = Holds m" by blast
  moreover have "bmf_brain_id m = brain_ref \<or> bmf_name m = brain_ref"
    using \<open>bsm_brain_id s = brain_ref \<or> bsm_name s = brain_ref\<close> m(2) by (simp add: summary_of_def)
  ultimately show ?thesis using that m(2) by blast
qed

text \<open>Where directories are named after their brains, one found by a reference is the one of its
  directory.\<close>

lemma resolve_kept:
  assumes "home_kept V C S h" and "resolve_brain A h brain_ref = Ok s"
  obtains m where "bd_manifest (dir_at h (bsm_brain_id s)) = Holds m" "s = summary_of m"
    "bmf_brain_id m = bsm_brain_id s" "bmf_brain_id m = brain_ref \<or> bmf_name m = brain_ref"
proof (rule resolve_brain_Ok [OF assms(2)])
  fix n m
  assume n: "bd_manifest (dir_at h n) = Holds m" "s = summary_of m"
    "bmf_brain_id m = brain_ref \<or> bmf_name m = brain_ref"
  moreover have "bsm_brain_id s = n"
    using home_keptD(1) [OF assms(1) n(1)] n(2) by (simp add: summary_of_def)
  ultimately show thesis using that home_keptD(1) [OF assms(1) n(1)] by metis
qed

lemma resolved_named:
  assumes "home_kept V C S h" and "resolve_brain A h brain_ref = Ok s"
    and "bd_manifest (dir_at h (bsm_brain_id s)) = Holds m"
  shows "bmf_brain_id m = bsm_brain_id s" and "bmf_brain_id m = brain_ref \<or> bmf_name m = brain_ref"
  by (rule resolve_kept [OF assms(1,2)]; use assms(3) in simp)+

text \<open>The directories that a failed operation left changed.\<close>

definition spoiled :: "home \<Rightarrow> home \<times> 'r stored \<Rightarrow> string set" where
  "spoiled h hr = (case snd hr of Err _ \<Rightarrow> {n. dir_at (fst hr) n \<noteq> dir_at h n} | Ok _ \<Rightarrow> {})"

lemma spoiled_simps [simp]:
  "spoiled h (h', Ok r) = {}" "n \<in> spoiled h (h', Err e) \<longleftrightarrow> dir_at h' n \<noteq> dir_at h n"
  by (simp_all add: spoiled_def)

section \<open>Edits\<close>

lemma mutate_cases:
  obtains (failed) e where "mutate_brain A C h brain_ref f = (h, Err e)"
  | (torn) s m st sk m' st' m3 blob r h' where
      "mutate_brain A C h brain_ref f = (h', Err (Foreign ''fs''))"
      "resolve_brain A h brain_ref = Ok s"
      "load_by_dir A C (dir_at h (bsm_brain_id s)) = Ok (m, st, sk)"
      "f m st = Ok (m', st', r)" "seal_brain A C m' st' sk = Ok (m3, blob)"
      "\<not> disk_works A" "only_dir (bsm_brain_id s) h h'"
      "half_edited m3 (dir_at h (bsm_brain_id s)) (dir_at h' (bsm_brain_id s))"
  | (stored) s m st sk m' st' m3 blob r where
      "mutate_brain A C h brain_ref f =
        (put_state (bsm_brain_id s) (Holds blob) (put_manifest (bsm_brain_id s) (Holds m3) h), Ok r)"
      "resolve_brain A h brain_ref = Ok s"
      "load_by_dir A C (dir_at h (bsm_brain_id s)) = Ok (m, st, sk)"
      "f m st = Ok (m', st', r)" "seal_brain A C m' st' sk = Ok (m3, blob)"
proof (cases "res_bind (resolve_brain A h brain_ref) (\<lambda>s.
        res_bind (load_by_dir A C (dir_at h (bsm_brain_id s))) (\<lambda>(m, st, sk).
        res_bind (f m st) (\<lambda>(m', st', r).
        res_bind (seal_brain A C m' st' sk) (\<lambda>(m3, state_enc).
        Ok (bsm_brain_id s, m3, state_enc, r)))))")
  case (Inl e)
  then show thesis by (auto simp: mutate_brain_def intro: failed)
next
  case (Inr x)
  then obtain s m st sk m' st' m3 blob r where p: "resolve_brain A h brain_ref = Ok s"
      "load_by_dir A C (dir_at h (bsm_brain_id s)) = Ok (m, st, sk)"
      "f m st = Ok (m', st', r)" "seal_brain A C m' st' sk = Ok (m3, blob)"
    by auto
  then have eq: "mutate_brain A C h brain_ref f =
      home_bind (write_edited A (bsm_brain_id s) m3 blob h) (\<lambda>_ h'. (h', Ok r))"
    by (simp add: mutate_brain_def)
  obtain h' w where w: "write_edited A (bsm_brain_id s) m3 blob h = (h', w)" by (metis surj_pair)
  show thesis
  proof (cases w)
    case (Inl e)
    with w write_edited_Err [of A "bsm_brain_id s" m3 blob h h' e] have
      "mutate_brain A C h brain_ref f = (h', Err (Foreign ''fs''))" "\<not> disk_works A"
      "only_dir (bsm_brain_id s) h h'" "half_edited m3 (dir_at h (bsm_brain_id s)) (dir_at h' (bsm_brain_id s))"
      by (simp_all add: eq home_bind_def)
    with p show thesis by (intro torn)
  next
    case (Inr u)
    then have "h' = put_state (bsm_brain_id s) (Holds blob) (put_manifest (bsm_brain_id s) (Holds m3) h)"
      using w by simp
    moreover have "mutate_brain A C h brain_ref f = (h', Ok r)"
      unfolding eq w Inr home_bind_def by simp
    ultimately show thesis using p by (intro stored) simp_all
  qed
qed

lemma mutate_Err:
  assumes "mutate_brain A C h brain_ref f = (h', Err e)"
  shows "h' = h \<or> e = Foreign ''fs'' \<and> \<not> disk_works A \<and> (\<exists>n. only_dir n h h' \<and>
    bd_signing_key (dir_at h' n) = bd_signing_key (dir_at h n) \<and>
    bd_state (dir_at h' n) \<in> {bd_state (dir_at h n), Garbled})"
  by (rule mutate_cases [of A C h brain_ref f]) (use assms in \<open>auto simp: half_edited_def\<close>)

lemma seal_keeps:
  "seal_brain A C m st sk = Ok (m3, blob) \<Longrightarrow>
   bmf_brain_id m3 = bmf_brain_id m \<and> bmf_active_branch m3 = bmf_active_branch m \<and>
   bmf_name m3 = bmf_name m"
  by (auto simp: seal_iff Let_def)

lemma load_manifest: "load_by_dir A C d = Ok (m, st, sk) \<Longrightarrow> bd_manifest d = Holds m"
  by (simp add: load_iff)

context brain_edit
begin

text \<open>What an edit seals is a brain again.\<close>

lemma edit_sealed:
  assumes "crates_ok C" and "ambient_ok V A" and "brain_in V C d m st sk"
    and "edit m st = Ok (m', st', r)" and "seal_brain A C m' st' sk = Ok (m3, blob)"
  shows "brain_in V C (d\<lparr>bd_manifest := Holds m3, bd_state := Holds blob\<rparr>) m3 st' sk"
proof -
  have m': "m' = m" by (rule edit_manifest [OF assms(4)])
  have "state_ok st'" "bm_get (bst_branches st') (bmf_active_branch m) \<noteq> None"
    using assms(3) edit_state_ok [OF assms(4)] edit_branches [OF assms(4)] unfolding brain_in_def by blast+
  with sealed_brain_in [OF assms(1-3)] assms(5) m' show ?thesis by blast
qed

text \<open>An edit that succeeds has stored the state it computed, and the other brains are untouched.\<close>

lemma edit_stored_kept:
  assumes "crates_ok C" and "ambient_ok V A" and "home_kept V C S h"
    and "mutate_brain A C h brain_ref edit = (h', Ok r)"
  obtains n m st sk m3 st' where "edit m st = Ok (m, st', r)" "bmf_brain_id m = n" "bmf_brain_id m3 = n"
    "bd_manifest (dir_at h n) = Holds m"
    "bd_manifest (dir_at h' n) = Holds m3" "bmf_active_branch m3 = bmf_active_branch m"
    "bmf_brain_id m = brain_ref \<or> bmf_name m = brain_ref" "only_dir n h h'"
    "n \<notin> S \<Longrightarrow> brain_in V C (dir_at h n) m st sk" "n \<notin> S \<Longrightarrow> brain_in V C (dir_at h' n) m3 st' sk"
proof (cases rule: mutate_cases [of A C h brain_ref edit])
  case (failed e)
  with assms(4) show ?thesis by simp
next
  case torn
  with assms(4) show ?thesis by simp
next
  case (stored s m st sk m' st' m3 blob r')
  let ?n = "bsm_brain_id s"
  have r: "r' = r" "h' = put_state ?n (Holds blob) (put_manifest ?n (Holds m3) h)"
    using stored(1) assms(4) by simp_all
  from assms(2) have var: "amb_var A = V" by (simp add: ambient_ok_def)
  note b = resolved_named [OF assms(3) stored(2) load_manifest [OF stored(3)]]
  have m': "m' = m" by (rule edit_manifest [OF stored(4)])
  have old: "brain_in V C (dir_at h ?n) m st sk" if "?n \<notin> S"
  proof -
    from home_keptD(2) [OF assms(3) that] load_manifest [OF stored(3)] obtain m0 st0 sk0 where
      b: "brain_in V C (dir_at h ?n) m0 st0 sk0" by auto
    with brain_in_load [OF b var] stored(3) show ?thesis by simp
  qed
  then have new: "brain_in V C (dir_at h' ?n) m3 st' sk" if "?n \<notin> S"
    using edit_sealed [OF assms(1,2) _ stored(4,5)] that by (simp add: r)
  have "only_dir ?n h h'" by (simp add: r)
  with that [of m st st' ?n m3 sk] old new b stored(4) seal_keeps [OF stored(5)] m' r load_manifest [OF stored(3)]
  show ?thesis by simp
qed

lemma edit_stored:
  assumes "crates_ok C" and "ambient_ok V A" and "home_sound V C h"
    and "mutate_brain A C h brain_ref edit = (h', Ok r)"
  obtains n m st sk m3 st' where "brain_in V C (dir_at h n) m st sk" "edit m st = Ok (m, st', r)"
    "brain_in V C (dir_at h' n) m3 st' sk" "bmf_brain_id m = n" "bmf_brain_id m3 = n"
    "bmf_active_branch m3 = bmf_active_branch m" "bmf_brain_id m = brain_ref \<or> bmf_name m = brain_ref"
    "\<And>k. k \<noteq> n \<Longrightarrow> dir_at h' k = dir_at h k"
  by (rule edit_stored_kept [OF assms(1,2) assms(3) [unfolded home_sound_kept] assms(4)])
    (auto simp: only_dir_def intro: that)

text \<open>Whatever its result, an edit keeps all names, and spoils at most the brain it was writing.\<close>

lemma edit_kept:
  assumes "crates_ok C" and "ambient_ok V A" and "home_kept V C S h"
  shows "home_kept V C (S \<union> spoiled h (mutate_brain A C h brain_ref edit)) (fst (mutate_brain A C h brain_ref edit))"
proof (cases rule: mutate_cases [of A C h brain_ref edit])
  case (failed e)
  then have "spoiled h (mutate_brain A C h brain_ref edit) = {}" by (simp add: spoiled_def)
  with failed assms(3) show ?thesis by simp
next
  case (torn s m st sk m' st' m3 blob r h')
  let ?n = "bsm_brain_id s"
  have "bmf_brain_id m3 = ?n"
    using resolved_named(1) [OF assms(3) torn(2) load_manifest [OF torn(3)]] edit_manifest [OF torn(4)]
      seal_keeps [OF torn(5)] by simp
  then have "bd_manifest (dir_at h' ?n) = Holds x \<Longrightarrow> bd_manifest (dir_at h ?n) = Holds x \<or> bmf_brain_id x = ?n" for x
    using torn(8) by (auto simp: half_edited_def)
  moreover have "k \<noteq> ?n \<Longrightarrow> dir_at h' k = dir_at h k" for k using torn(7) by (simp add: only_dir_def)
  ultimately show ?thesis
    unfolding torn(1) fst_conv by (intro home_kept_update [OF assms(3), of ?n]) auto
next
  case (stored s m st sk m' st' m3 blob r)
  define h' where "h' = put_state (bsm_brain_id s) (Holds blob) (put_manifest (bsm_brain_id s) (Holds m3) h)"
  have run: "mutate_brain A C h brain_ref edit = (h', Ok r)" using stored(1) by (simp add: h'_def)
  show ?thesis
  proof (rule edit_stored_kept [OF assms run])
    fix n m0 st0 sk0 m4 st4
    assume e: "bmf_brain_id m4 = n" "bd_manifest (dir_at h' n) = Holds m4" "only_dir n h h'"
      "n \<notin> S \<Longrightarrow> brain_in V C (dir_at h' n) m4 st4 sk0"
    show ?thesis
      unfolding run fst_conv by (rule home_kept_update [OF assms(3), of n]) (use e in \<open>auto simp: only_dir_def\<close>)
  qed
qed

lemma edit_kept_run:
  "crates_ok C \<Longrightarrow> ambient_ok V A \<Longrightarrow> home_kept V C S h \<Longrightarrow> mutate_brain A C h brain_ref edit = (h', res) \<Longrightarrow>
   home_kept V C (S \<union> spoiled h (h', res)) h'"
  using edit_kept by (metis fst_conv)

text \<open>Every brain keeps its history: the log only grows. Where a write failed, key and state are
  those of before, unless the state was cut short.\<close>

lemma edit_history:
  assumes "crates_ok C" and "ambient_ok V A" and "brain_in V C (dir_at h n) m st sk"
    and "mutate_brain A C h brain_ref edit = (h', res)"
  shows "(\<exists>m' st'. brain_in V C (dir_at h' n) m' st' sk \<and> prefix (bst_audit st) (bst_audit st')) \<or>
    n \<in> spoiled h (h', res) \<and> bd_signing_key (dir_at h' n) = bd_signing_key (dir_at h n) \<and>
    bd_state (dir_at h' n) \<in> {bd_state (dir_at h n), Garbled}"
proof (cases "dir_at h' n = dir_at h n")
  case True
  with assms(3) show ?thesis by auto
next
  case False
  have var: "amb_var A = V" using assms(2) by (simp add: ambient_ok_def)
  show ?thesis
  proof (cases rule: mutate_cases [of A C h brain_ref edit])
    case (failed e)
    with assms(4) False show ?thesis by simp
  next
    case (torn s m0 st0 sk0 m' st' m3 blob r h1)
    with assms(4) have "h1 = h'" "res = Err (Foreign ''fs'')" by simp_all
    with torn(7) False have "bsm_brain_id s = n" unfolding only_dir_def by metis
    with torn(8) False \<open>h1 = h'\<close> \<open>res = _\<close> show ?thesis by (auto simp: half_edited_def)
  next
    case (stored s m0 st0 sk0 m' st' m3 blob r)
    with assms(4) have h': "h' = put_state (bsm_brain_id s) (Holds blob) (put_manifest (bsm_brain_id s) (Holds m3) h)"
      by simp
    with False have n: "bsm_brain_id s = n" by (auto split: if_splits)
    from brain_in_load [OF assms(3) var] stored(3) n have same: "m0 = m" "st0 = st" "sk0 = sk" by simp_all
    have "brain_in V C (dir_at h' n) m3 st' sk"
      using edit_sealed [OF assms(1-3) stored(4,5) [unfolded same]] by (simp add: h' n)
    moreover have "prefix (bst_audit st) (bst_audit st')" using edit_audits [OF stored(4)] same by auto
    ultimately show ?thesis by blast
  qed
qed

end

section \<open>Creating and importing\<close>

lemma initial_state_ok: "state_ok (initial_state A brain_id tenant)"
proof -
  have "plain_json (JObj (bm_collect [(''brain_id'', JStr brain_id), (''tenant_id'', JStr tenant)]))"
    by (rule plain_json_obj) simp
  then show ?thesis
    unfolding initial_state_def
    by (simp add: state_ok_def bm_ok_def branch_ok_def audit_entry_of_def del: plain_json.simps)
qed

lemma created_brain_in:
  assumes "crates_ok C" and "ambient_ok V A"
    and "new_brain A C req env secret name = Ok (m, blob, key_blob)" and "V env = Some secret"
    and "bd_manifest d = Holds m" and "bd_state d = Holds blob" and "bd_signing_key d = Holds key_blob"
  shows "\<exists>sk. brain_in V C d m (initial_state A name (cb_tenant_id req)) sk \<and> bmf_brain_id m = name"
proof -
  let ?sk = "amb_random A AtSigningKey" and ?st = "initial_state A name (cb_tenant_id req)"
  have amb: "amb_var A = V" "length ?sk = 32" "length (amb_random A AtKeyNonce) = 24"
    "length (amb_random A AtStateNonce) = 24" using assms(2) by (simp_all add: ambient_ok_def)
  from assms(3) obtain key where key: "cr_argon2 C secret (amb_random A AtSalt) = Ok key"
      "encrypt_bytes C (amb_random A AtKeyNonce) key name ?sk = Ok key_blob"
      "encrypt_json C (amb_random A AtStateNonce) key name ?st = Ok blob"
    by (auto simp: new_brain_def Let_def derive_key_Ok)
  define m0 where "m0 = \<lparr>bmf_format_version = ''brain/v1'', bmf_brain_id = name, bmf_name = cb_name req,
      bmf_tenant_id = cb_tenant_id req, bmf_created_at = amb_now A AtCreate,
      bmf_updated_at = amb_now A AtCreate, bmf_rmvm_proto_version = ''cortex_rmvm_v3_1'',
      bmf_schema_migrations = [''brain/v1:init''], bmf_active_branch = ''main'',
      bmf_kdf_salt_b64 = cr_b64_encode C (amb_random A AtSalt),
      bmf_signing_public_key_b64 = cr_b64_encode C (cr_public_key C ?sk),
      bmf_state_sha256 = blob_digest C blob, bmf_secret_env_var = env, bmf_signature_b64 = []\<rparr>"
  have m: "m = m0\<lparr>bmf_signature_b64 := sign_manifest C m0 ?sk\<rparr>"
    using assms(3) key by (auto simp: new_brain_def Let_def derive_key_Ok m0_def)
  have pk: "cr_b64_decode C (bmf_signing_public_key_b64 m0) = Some (cr_public_key C ?sk)"
    by (simp add: m0_def crates_okD(1) [OF assms(1)])
  have "verify_manifest_signature C m = Ok ()"
    unfolding m by (rule signed_verifies [OF assms(1) amb(2) pk])
  moreover have "brain_key V C m key"
    using key(1) assms(4) crates_okD(1) [OF assms(1)] by (simp add: brain_key_def m m0_def)
  moreover have "decrypt_json C key name blob = Ok ?st"
    by (rule decrypt_encrypted_json [OF assms(1) amb(4) key(3) initial_state_ok])
  moreover have "decrypt_bytes C key name key_blob = Ok ?sk"
    by (rule decrypt_encrypted [OF assms(1) amb(3) key(2)])
  moreover have "bmf_brain_id m = name" "blob_digest C blob = bmf_state_sha256 m" by (simp_all add: m m0_def)
  ultimately have "load_by_dir A C d = Ok (m, ?st, ?sk)"
    unfolding load_iff amb(1) using assms(5-7) amb(2)
    by (intro conjI exI [of _ key] exI [of _ blob] exI [of _ key_blob]) simp_all
  then have "brain_in V C d m ?st ?sk"
  proof (rule brain_inI [OF _ amb(1)])
    show "cr_b64_decode C (bmf_signing_public_key_b64 m) = Some (cr_public_key C ?sk)"
      using pk by (simp add: m)
    show "bm_get (bst_branches ?st) (bmf_active_branch m) \<noteq> None"
      by (simp add: m m0_def initial_state_def bm_get_def)
  qed (rule initial_state_ok)
  then show ?thesis by (auto simp: m m0_def)
qed

lemma full_dir [simp]:
  "d\<lparr>bd_manifest := a, bd_state := b, bd_signing_key := c\<rparr> = \<lparr>bd_manifest = a, bd_state = b, bd_signing_key = c\<rparr>"
  by (cases d) simp

lemma create_brain_cases:
  assumes "create_brain A C h req = (h', res)" and "n = slugify (cb_name req) @ ''-'' @ take 8 (amb_uuid A AtBrainId)"
  shows "only_dir n h h' \<and>
    (case res of
       Err e \<Rightarrow> (bd_manifest (dir_at h' n) = bd_manifest (dir_at h n) \<or> bd_manifest (dir_at h' n) = Garbled \<or>
           (\<exists>m. bd_manifest (dir_at h' n) = Holds m \<and> bmf_brain_id m = n)) \<and>
         (dir_at h' n = dir_at h n \<or> \<not> disk_works A)
     | Ok s \<Rightarrow> \<exists>env secret m blob key_blob. amb_var A env = Some secret \<and>
         new_brain A C req env secret n = Ok (m, blob, key_blob) \<and>
         dir_at h' n = \<lparr>bd_manifest = Holds m, bd_state = Holds blob, bd_signing_key = Holds key_blob\<rparr>)"
proof -
  define env where "env = (case cb_passphrase_env req of Some v \<Rightarrow> v | None \<Rightarrow> ''CORTEX_BRAIN_SECRET'')"
  have named: "bmf_brain_id m = n" if "new_brain A C req env secret n = Ok (m, blob, key_blob)" for secret m blob key_blob
    using that by (auto simp: new_brain_def Let_def)
  show ?thesis
  proof (cases "amb_var A env")
    case None
    with assms show ?thesis by (auto simp: create_brain_def env_secret_def env_def [symmetric])
  next
    case (Some secret)
    then have run: "home_bind (make_dir A n h) (\<lambda>_ h1.
        case new_brain A C req env secret n of
          Err e \<Rightarrow> (h1, Err e)
        | Ok (m, blob, key_blob) \<Rightarrow>
            home_bind (write_brain A n m blob key_blob h1) (\<lambda>_ h2. (h2, Ok (summary_of m)))) = (h', res)"
      using assms(1) unfolding create_brain_def env_def [symmetric] assms(2) [symmetric] Let_def
      by (simp add: env_secret_def)
    show ?thesis
    proof (cases res)
      case (Inr s)
      with run obtain m blob key_blob where "new_brain A C req env secret n = Ok (m, blob, key_blob)"
        "h' = put_signing_key n (Holds key_blob) (put_state n (Holds blob) (put_manifest n (Holds m) (put_dir n (\<lambda>d. d) h)))"
        by (auto split: sum.splits)
      with Inr Some show ?thesis by (simp, metis)
    next
      case (Inl e)
      have put: "only_dir n h (put_dir n (\<lambda>d. d) h)" by simp
      from run [unfolded Inl home_bind_Err] show ?thesis
        using Inl named
        by (auto simp: make_dir_Err home_bind_Err only_dir_def split: sum.splits dest!: write_brain_Err)
    qed
  qed
qed

lemma create_kept:
  assumes "crates_ok C" and "ambient_ok V A" and "home_kept V C S h"
    and "create_brain A C h req = (h', res)"
  shows "home_kept V C (S \<union> spoiled h (h', res)) h'"
proof -
  define n where "n = slugify (cb_name req) @ ''-'' @ take 8 (amb_uuid A AtBrainId)"
  note cases = create_brain_cases [OF assms(4) n_def]
  have "amb_var A = V" using assms(2) by (simp add: ambient_ok_def)
  have made: "\<exists>m sk st. brain_in V C (dir_at h' n) m st sk \<and> bmf_brain_id m = n" if r: "res = Ok s" for s
  proof -
    from cases r obtain env secret m blob key_blob where c: "amb_var A env = Some secret"
      "new_brain A C req env secret n = Ok (m, blob, key_blob)"
      "dir_at h' n = \<lparr>bd_manifest = Holds m, bd_state = Holds blob, bd_signing_key = Holds key_blob\<rparr>" by auto
    with \<open>amb_var A = V\<close> created_brain_in [OF assms(1,2) c(2), of "dir_at h' n"] show ?thesis by auto
  qed
  show ?thesis
  proof (rule home_kept_update [OF assms(3), of n])
    fix m
    assume "bd_manifest (dir_at h' n) = Holds m"
    then show "bd_manifest (dir_at h n) = Holds m \<or> bmf_brain_id m = n"
      using cases made by (cases res) (auto dest: brain_in_manifest)
  next
    assume "n \<notin> S \<union> spoiled h (h', res)"
    then show "dir_at h' n = dir_at h n \<or> (\<exists>m st sk. brain_in V C (dir_at h' n) m st sk)"
      using made by (cases res) (simp, metis Un_iff)
  qed (use cases in \<open>auto simp: only_dir_def\<close>)
qed

text \<open>A package whose parts form a brain that loads.\<close>

definition package_dir :: "brain_package \<Rightarrow> brain_dir" where
  "package_dir p = \<lparr>bd_manifest = Holds (bp_manifest p), bd_state = Holds (bp_state p),
     bd_signing_key = Holds (bp_signing_key p)\<rparr>"

lemma export_dir:
  assumes "home_kept V C S h" and "export_brain A C h brain_ref = Ok p"
  shows "dir_at h (bmf_brain_id (bp_manifest p)) = package_dir p"
proof -
  from assms(2) obtain s where s: "resolve_brain A h brain_ref = Ok s" "dir_at h (bsm_brain_id s) = package_dir p"
    by (auto simp: export_brain_def Let_def package_dir_def)
  then have "bd_manifest (dir_at h (bsm_brain_id s)) = Holds (bp_manifest p)" by (simp add: package_dir_def)
  from resolved_named(1) [OF assms(1) s(1) this] s(2) show ?thesis by simp
qed

lemma export_brain_in:
  assumes "home_kept V C S h" and "export_brain A C h brain_ref = Ok p" and "bmf_brain_id (bp_manifest p) \<notin> S"
  obtains st sk where "brain_in V C (package_dir p) (bp_manifest p) st sk"
    "brain_in V C (dir_at h (bmf_brain_id (bp_manifest p))) (bp_manifest p) st sk"
proof -
  have d: "dir_at h (bmf_brain_id (bp_manifest p)) = package_dir p" by (rule export_dir [OF assms(1,2)])
  with home_keptD(2) [OF assms(1,3)] obtain m st sk where "brain_in V C (package_dir p) m st sk"
    by (auto simp: package_dir_def)
  moreover from brain_in_manifest [OF this] have "m = bp_manifest p" by (simp add: package_dir_def)
  ultimately show ?thesis using that d by simp
qed

text \<open>The identifier under which a package is imported, and the manifest that is written.\<close>

definition imported_id :: "ambient \<Rightarrow> home \<Rightarrow> brain_package \<Rightarrow> string" where
  "imported_id A h p =
     (if bm_get (home_brains h) (bmf_brain_id (bp_manifest p)) \<noteq> None
      then bmf_brain_id (bp_manifest p) @ ''-'' @ take 6 (amb_uuid A AtImport) else bmf_brain_id (bp_manifest p))"

definition imported_manifest :: "ambient \<Rightarrow> home \<Rightarrow> string option \<Rightarrow> brain_package \<Rightarrow> brain_manifest" where
  "imported_manifest A h over p =
     (case over of None \<Rightarrow> bp_manifest p
      | Some name \<Rightarrow> (bp_manifest p)\<lparr>bmf_name := name, bmf_updated_at := amb_now A AtImport\<rparr>)
     \<lparr>bmf_brain_id := imported_id A h p\<rparr>"

lemma imported:
  assumes "verify_manifest_signature C (bp_manifest p) = Ok ()"
    and "blob_digest C (bp_state p) = bmf_state_sha256 (bp_manifest p)"
  shows "import_brain A C h (Holds p) over False =
    home_bind (make_dir A (imported_id A h p) h) (\<lambda>_ h1.
      home_bind (write_brain A (imported_id A h p) (imported_manifest A h over p) (bp_state p) (bp_signing_key p) h1)
        (\<lambda>_ h2. (h2, Ok (Some (summary_of (imported_manifest A h over p))))))"
  using assms
  by (cases over; cases "bm_get (home_brains h) (bmf_brain_id (bp_manifest p))")
    (simp_all add: import_brain_def imported_id_def imported_manifest_def Let_def)

lemma import_cases:
  assumes "import_brain A C h pkg over verify_only = (h', res)"
  obtains (same) "h' = h" "\<And>x. res \<noteq> Ok (Some x)"
      "\<And>p. pkg = Holds p \<Longrightarrow> verify_manifest_signature C (bp_manifest p) = Ok () \<Longrightarrow>
        blob_digest C (bp_state p) = bmf_state_sha256 (bp_manifest p) \<Longrightarrow> verify_only"
  | (wrote) p where "pkg = Holds p" "\<not> verify_only" "only_dir (imported_id A h p) h h'"
      "verify_manifest_signature C (bp_manifest p) = Ok ()" "blob_digest C (bp_state p) = bmf_state_sha256 (bp_manifest p)"
      "case res of
         Err e \<Rightarrow> \<not> disk_works A \<and> e = Foreign ''fs'' \<and> bd_manifest (dir_at h' (imported_id A h p)) \<in>
           {bd_manifest (dir_at h (imported_id A h p)), Garbled, Holds (imported_manifest A h over p)}
       | Ok s \<Rightarrow> s = Some (summary_of (imported_manifest A h over p)) \<and> dir_at h' (imported_id A h p) =
           (package_dir p)\<lparr>bd_manifest := Holds (imported_manifest A h over p)\<rparr>"
proof (cases "\<exists>p. pkg = Holds p \<and> verify_manifest_signature C (bp_manifest p) = Ok () \<and>
    blob_digest C (bp_state p) = bmf_state_sha256 (bp_manifest p) \<and> \<not> verify_only")
  case False
  then have "h' = h \<and> (\<forall>x. res \<noteq> Ok (Some x))"
    using assms unfolding import_brain_def by (cases pkg) (auto simp: Let_def split: sum.splits if_splits)
  with False show thesis by (intro same) auto
next
  case True
  then obtain p where p: "pkg = Holds p" "verify_manifest_signature C (bp_manifest p) = Ok ()"
    "blob_digest C (bp_state p) = bmf_state_sha256 (bp_manifest p)" "\<not> verify_only" by blast
  let ?n = "imported_id A h p" and ?m = "imported_manifest A h over p"
  have run: "home_bind (make_dir A ?n h) (\<lambda>_ h1. home_bind (write_brain A ?n ?m (bp_state p) (bp_signing_key p) h1)
      (\<lambda>_ h2. (h2, Ok (Some (summary_of ?m))))) = (h', res)"
    using assms imported [OF p(2,3)] p(1,4) by simp
  show thesis
  proof (cases res)
    case (Inl e)
    from run [unfolded Inl home_bind_Err] have "only_dir ?n h h' \<and> \<not> disk_works A \<and> e = Foreign ''fs'' \<and>
        bd_manifest (dir_at h' ?n) \<in> {bd_manifest (dir_at h ?n), Garbled, Holds ?m}"
      by (auto simp: make_dir_Err home_bind_Err only_dir_def dest!: write_brain_Err dest: disk_fails)
    with p Inl show thesis by (intro wrote) auto
  next
    case (Inr s)
    with run have "only_dir ?n h h' \<and> s = Some (summary_of ?m) \<and>
        dir_at h' ?n = (package_dir p)\<lparr>bd_manifest := Holds ?m\<rparr>"
      by (auto simp: package_dir_def)
    with p Inr show thesis by (intro wrote) auto
  qed
qed

text \<open>A package travels when it is a brain that loads and is written as it is.\<close>

definition travels ::
  "(string \<Rightarrow> string option) \<Rightarrow> crates \<Rightarrow> home \<Rightarrow> brain_package json_file \<Rightarrow> string option \<Rightarrow> bool" where
  "travels V C h pkg over \<longleftrightarrow> over = None \<and> (\<exists>p st sk. pkg = Holds p \<and>
     bm_get (home_brains h) (bmf_brain_id (bp_manifest p)) = None \<and>
     brain_in V C (package_dir p) (bp_manifest p) st sk)"

lemma import_kept:
  assumes "home_kept V C S h" and "import_brain A C h pkg over verify_only = (h', res)"
  shows "home_kept V C (S \<union> (if travels V C h pkg over then spoiled h (h', res)
    else {n. dir_at h' n \<noteq> dir_at h n})) h'"
proof (rule import_cases [OF assms(2)])
  assume "h' = h"
  then show ?thesis using assms(1) by (auto simp: home_kept_def)
next
  fix p
  let ?n = "imported_id A h p" and ?m = "imported_manifest A h over p"
  assume w: "pkg = Holds p" "only_dir ?n h h'"
    "case res of
         Err e \<Rightarrow> \<not> disk_works A \<and> e = Foreign ''fs'' \<and> bd_manifest (dir_at h' ?n) \<in> {bd_manifest (dir_at h ?n), Garbled, Holds ?m}
       | Ok s \<Rightarrow> s = Some (summary_of ?m) \<and> dir_at h' ?n = (package_dir p)\<lparr>bd_manifest := Holds ?m\<rparr>"
  have id: "bmf_brain_id ?m = ?n" by (simp add: imported_manifest_def)
  show ?thesis
  proof (rule home_kept_update [OF assms(1), of ?n])
    fix m
    assume "bd_manifest (dir_at h' ?n) = Holds m"
    then show "bd_manifest (dir_at h ?n) = Holds m \<or> bmf_brain_id m = ?n"
      using w(3) id by (cases res) auto
  next
    assume n: "?n \<notin> S \<union> (if travels V C h pkg over then spoiled h (h', res) else {n. dir_at h' n \<noteq> dir_at h n})"
    show "dir_at h' ?n = dir_at h ?n \<or> (\<exists>m st sk. brain_in V C (dir_at h' ?n) m st sk)"
    proof (cases "travels V C h pkg over \<and> is_ok res")
      case True
      then obtain st sk where t: "over = None" "bm_get (home_brains h) (bmf_brain_id (bp_manifest p)) = None"
        "brain_in V C (package_dir p) (bp_manifest p) st sk" by (auto simp: travels_def w(1))
      then have "?m = bp_manifest p" by (simp add: imported_manifest_def imported_id_def)
      then have "dir_at h' ?n = package_dir p" using w(3) True by (auto simp: is_ok_iff package_dir_def)
      with t(3) show ?thesis by auto
    next
      case False
      with n have "dir_at h' ?n = dir_at h ?n" by (cases res; cases "travels V C h pkg over") (simp_all add: is_ok_iff)
      then show ?thesis ..
    qed
  qed (use w(2) in \<open>auto simp: only_dir_def\<close>)
qed

section \<open>Interrupted writes\<close>

text \<open>A digest that two encrypted states share: the one on disk, and one that an edit of the brain
  would have written.\<close>

definition digest_clash :: "ambient \<Rightarrow> crates \<Rightarrow> brain_dir \<Rightarrow> brain_manifest \<Rightarrow> string \<Rightarrow> bool" where
  "digest_clash A C d m sk \<longleftrightarrow> (\<exists>old st' m3 new. bd_state d = Holds old \<and>
     seal_brain A C m st' sk = Ok (m3, new) \<and> new \<noteq> old \<and> blob_digest C new = blob_digest C old)"

context brain_edit
begin

text \<open>The checksum tells an edit that was cut short: a directory with the new manifest and the old
  state does not load, as the new state, which has one more entry in its log, is another text.\<close>

lemma edit_noticed:
  assumes "crates_ok C" and "ambient_ok V A" and "brain_in V C (dir_at h n) m st sk"
    and "mutate_brain A C h brain_ref edit = (h', Err e)" and "amb_var B = V"
  shows "load_by_dir B C (dir_at h' n) = Ok (m, st, sk) \<or> \<not> is_ok (load_by_dir B C (dir_at h' n)) \<or>
    digest_clash A C (dir_at h n) m sk"
proof (cases "dir_at h' n = dir_at h n")
  case True
  with brain_in_load [OF assms(3,5)] show ?thesis by simp
next
  case False
  have var: "amb_var A = V" "length (amb_random A AtStateNonce) = 24" using assms(2) by (simp_all add: ambient_ok_def)
  show ?thesis
  proof (cases rule: mutate_cases [of A C h brain_ref edit])
    case (torn s m0 st0 sk0 m' st' m3 blob r h1)
    with assms(4) have h1: "h1 = h'" by simp
    with torn(7) False have n: "bsm_brain_id s = n" unfolding only_dir_def by metis
    from brain_in_load [OF assms(3) var(1)] torn(3) n have same: "m0 = m" "st0 = st" "sk0 = sk" by simp_all
    have m': "m' = m" using edit_manifest [OF torn(4)] same by simp
    from brain_in_load [OF assms(3) var(1)] obtain key old where
      old: "brain_key V C m key" "bd_state (dir_at h n) = Holds old" "decrypt_json C key (bmf_brain_id m) old = Ok st"
      unfolding load_iff var(1) by blast
    have seal: "seal_brain A C m st' sk = Ok (m3, blob)" using torn(5) same m' by simp
    then obtain key' where new: "brain_key V C m key'"
      "encrypt_json C (amb_random A AtStateNonce) key' (bmf_brain_id m) st' = Ok blob"
      unfolding seal_iff var(1) by blast
    have "state_ok st'" using assms(3) edit_state_ok [OF torn(4)] same unfolding brain_in_def by blast
    from decrypt_encrypted_json [OF assms(1) var(2) new(2) this] brain_key_unique [OF old(1) new(1)]
    have "decrypt_json C key (bmf_brain_id m) blob = Ok st'" by simp
    moreover have "st' \<noteq> st" using edit_audits [OF torn(4)] same by force
    ultimately have other: "blob \<noteq> old" using old(3) by auto
    have digest: "bmf_state_sha256 m3 = blob_digest C blob" using seal by (auto simp: seal_iff Let_def)
    show ?thesis
    proof (cases "blob_digest C blob = blob_digest C old")
      case True
      with old(2) seal other show ?thesis unfolding digest_clash_def by blast
    next
      case clash: False
      have "\<not> is_ok (load_by_dir B C (dir_at h' n))"
        using torn(8) False old(2) digest clash unfolding n h1 half_edited_def by (auto simp: is_ok_iff load_iff)
      then show ?thesis by blast
    qed
  qed (use assms(4) False in auto)
qed

end

end
