(* ===== verification/Brain_Demo.thy ===== *)
theory Brain_Demo
  imports Brain_Steps "HOL-Library.Countable"
begin

text \<open>
  The transition system of the brain store, and concrete libraries and calls at which the
  properties are applied. The concrete serialiser of states is the enumeration of the
  countable type of states, printed as a number.
\<close>

section \<open>The store as a transition system\<close>

definition empty_home :: home where
  "empty_home = \<lparr>home_brains = [], home_config = Absent, home_api_keys = Absent\<rparr>"

text \<open>\<open>V\<close> are the environment variables, the same for all calls. Any operation may run, with any
  arguments, and any of its writes may fail; a package may be any file, imported under any name
  and into a store that has the brain already. Identifiers that end in digits of a UUID are fresh:
  the one of a new brain has no manifest yet, and the one an import makes up is not taken.

  A step also says which directories it may have spoiled: those that an operation which failed
  left changed, and what an import has written unless it wrote a brain that loads as it was. All
  that were spoiled in the history of a store are the second component of \<open>store_reaches\<close>.\<close>

inductive store_step ::
  "(string \<Rightarrow> string option) \<Rightarrow> crates \<Rightarrow> home \<Rightarrow> home \<Rightarrow> string set \<Rightarrow> bool"
  for V :: "string \<Rightarrow> string option" and C :: crates and h :: home where
  step_create: "ambient_ok V A \<Longrightarrow>
    bd_manifest (dir_at h (slugify (cb_name req) @ ''-'' @ take 8 (amb_uuid A AtBrainId))) = Absent \<Longrightarrow>
    create_brain A C h req = (h', res) \<Longrightarrow> store_step V C h h' (spoiled h (h', res))"
| step_branch: "ambient_ok V A \<Longrightarrow> branch A C h brain_ref new_branch = (h', res1) \<Longrightarrow>
    store_step V C h h' (spoiled h (h', res1))"
| step_merge: "ambient_ok V A \<Longrightarrow> merge A C h brain_ref source target strategy = (h', res2) \<Longrightarrow>
    store_step V C h h' (spoiled h (h', res2))"
| step_forget: "ambient_ok V A \<Longrightarrow>
    forget_suppress A C h brain_ref subject predicate scope reason = (h', res3) \<Longrightarrow>
    store_step V C h h' (spoiled h (h', res3))"
| step_attach: "ambient_ok V A \<Longrightarrow> attach A C h brain_ref grant = (h', res4) \<Longrightarrow>
    store_step V C h h' (spoiled h (h', res4))"
| step_detach: "ambient_ok V A \<Longrightarrow> detach A C h brain_ref agent model = (h', res5) \<Longrightarrow>
    store_step V C h h' (spoiled h (h', res5))"
| step_active: "set_active_brain A h brain_ref = (h', res6) \<Longrightarrow> store_step V C h h' {}"
| step_api_key: "map_api_key A C h key tenant brain_id subject = (h', res7) \<Longrightarrow> store_step V C h h' {}"
| step_import: "(\<And>p. pkg = Holds p \<Longrightarrow>
      bm_get (home_brains h) (bmf_brain_id (bp_manifest p) @ ''-'' @ take 6 (amb_uuid A AtImport)) = None) \<Longrightarrow>
    import_brain A C h pkg over verify_only = (h', res8) \<Longrightarrow>
    store_step V C h h' (if travels V C h pkg over then spoiled h (h', res8) else {n. dir_at h' n \<noteq> dir_at h n})"

inductive store_reaches :: "(string \<Rightarrow> string option) \<Rightarrow> crates \<Rightarrow> home \<Rightarrow> string set \<Rightarrow> bool"
  for V :: "string \<Rightarrow> string option" and C :: crates where
  reaches_empty: "store_reaches V C empty_home {}"
| reaches_step: "store_reaches V C h S \<Longrightarrow> store_step V C h h' T \<Longrightarrow> store_reaches V C h' (S \<union> T)"

lemma same_brains_kept: "home_kept V C S h \<Longrightarrow> home_brains h' = home_brains h \<Longrightarrow> home_kept V C S h'"
  by (simp add: home_kept_def dir_at_def)

lemma set_active_brains: "set_active_brain A h brain_ref = (h', res) \<Longrightarrow> home_brains h' = home_brains h"
  by (auto simp: set_active_brain_def write_json_def home_bind_def split: sum.splits write_outcome.splits)

lemma map_api_key_brains: "map_api_key A C h key tenant brain_id subject = (h', res) \<Longrightarrow> home_brains h' = home_brains h"
  by (auto simp: map_api_key_def Let_def write_json_def split: sum.splits write_outcome.splits)

lemmas edit_ops = branch_def merge_def forget_suppress_def attach_def detach_def

lemma step_kept:
  assumes "crates_ok C" and "home_kept V C S h" and "store_step V C h h' T"
  shows "home_kept V C (S \<union> T) h'"
  using assms(3)
proof cases
  case (step_create A req res)
  with create_kept [OF assms(1) _ assms(2)] show ?thesis by metis
next
  case (step_branch A brain_ref new_branch res1)
  with branching.edit_kept_run [OF assms(1) _ assms(2)] show ?thesis by (metis branch_def)
next
  case (step_merge A brain_ref source target strategy res2)
  with merging.edit_kept_run [OF assms(1) _ assms(2)] show ?thesis by (metis merge_def)
next
  case (step_forget A brain_ref subject predicate scope reason res3)
  with forgetting.edit_kept_run [OF assms(1) _ assms(2)] show ?thesis by (metis forget_suppress_def)
next
  case (step_attach A brain_ref grant res4)
  with attaching.edit_kept_run [OF assms(1) _ assms(2)] show ?thesis by (metis attach_def)
next
  case (step_detach A brain_ref agent model res5)
  with detaching.edit_kept_run [OF assms(1) _ assms(2)] show ?thesis by (metis detach_def)
next
  case (step_active A brain_ref res6)
  with same_brains_kept [OF assms(2)] set_active_brains show ?thesis by (metis Un_empty_right)
next
  case (step_api_key A key tenant brain_id subject res7)
  with same_brains_kept [OF assms(2)] map_api_key_brains show ?thesis by (metis Un_empty_right)
next
  case (step_import pkg A over verify_only res8)
  show ?thesis unfolding step_import(1) by (rule import_kept [OF assms(2) step_import(3)])
qed

lemma store_kept:
  assumes "crates_ok C" and "store_reaches V C h S"
  shows "home_kept V C S h"
  using assms(2)
proof induction
  case reaches_empty
  show ?case by (simp add: home_kept_def empty_home_def dir_at_def empty_dir_def)
next
  case (reaches_step h S h' T)
  then show ?case using step_kept [OF assms(1)] by blast
qed

section \<open>States are countable\<close>

instance json_number :: countable by countable_datatype
instance json :: countable by countable_datatype

instance memory_object_ext :: (countable) countable
  by (rule countable_classI [of "\<lambda>x. to_nat (mo_id x, mo_subject x, mo_predicate x, mo_value x,
    mo_memory_type x, mo_suppressed x, memory_object.more x)"]) simp

instance rule_entry_ext :: (countable) countable
  by (rule countable_classI [of "\<lambda>x. to_nat (re_id x, re_description x, re_allowed_sinks x, rule_entry.more x)"]) simp

instance ledger_event_ext :: (countable) countable
  by (rule countable_classI [of "\<lambda>x. to_nat (le_id x, le_ts x, le_operation x, le_payload x, ledger_event.more x)"]) simp

instance suppression_record_ext :: (countable) countable
  by (rule countable_classI [of "\<lambda>x. to_nat (sr_id x, sr_ts x, sr_subject x, sr_predicate x, sr_scope x,
    sr_reason x, sr_suppressed_count x, suppression_record.more x)"]) simp

instance attachment_grant_ext :: (countable) countable
  by (rule countable_classI [of "\<lambda>x. to_nat (ag_agent_id x, ag_model_id x, ag_read_classes x,
    ag_write_classes x, ag_sinks x, ag_expires_at x, attachment_grant.more x)"]) simp

instance audit_entry_ext :: (countable) countable
  by (rule countable_classI [of "\<lambda>x. to_nat (au_id x, au_ts x, au_actor x, au_action x, au_details x,
    audit_entry.more x)"]) simp

instance branch_state_ext :: (countable) countable
  by (rule countable_classI [of "\<lambda>x. to_nat (br_name x, br_memory_objects x, br_rules x, br_ledger x,
    br_suppressions x, branch_state.more x)"]) simp

instance brain_state_ext :: (countable) countable
  by (rule countable_classI [of "\<lambda>x. to_nat (bst_branches x, bst_attachments x, bst_audit x,
    brain_state.more x)"]) simp

section \<open>Concrete libraries and calls\<close>

text \<open>A signature of 64 bytes that tells short texts from all others, and a manifest's text from
  which its name and identifier can be read.\<close>

definition toy_sign :: "string \<Rightarrow> string \<Rightarrow> string" where
  "toy_sign sk payload =
     (if length payload < 64 then char_of (length payload) # payload @ replicate (63 - length payload) CHR ''.''
      else replicate 64 (char_of (255 :: nat)))"

lemma length_toy_sign [simp]: "length (toy_sign sk payload) = 64"
  by (simp add: toy_sign_def)

lemma toy_sign_inj:
  assumes "length p < 64" and "toy_sign sk q = toy_sign sk p"
  shows "q = p"
proof -
  have code: "char_of m \<noteq> (char_of n :: char)" if "m < 256" "n < 256" "m \<noteq> n" for m n :: nat
    using that by (metis byte_char_of mod_less)
  have p: "toy_sign sk p = char_of (length p) # p @ replicate (63 - length p) CHR ''.''"
    using assms(1) by (simp add: toy_sign_def)
  have q: "length q < 64"
  proof (rule ccontr)
    assume "\<not> length q < 64"
    then have "hd (toy_sign sk q) = char_of (255 :: nat)" by (simp add: toy_sign_def)
    then have "char_of (length p) = (char_of (255 :: nat) :: char)" using assms(2) p by simp
    with code [of "length p" 255] assms(1) show False by simp
  qed
  then have q': "toy_sign sk q = char_of (length q) # q @ replicate (63 - length q) CHR ''.''"
    by (simp add: toy_sign_def)
  have "length q = length p"
    using assms code [of "length q" "length p"] q unfolding p q' by auto
  with assms(2) show ?thesis unfolding p q' by simp
qed

definition toy_text :: "brain_manifest \<Rightarrow> string" where
  "toy_text m = replicate (length (bmf_name m)) CHR ''1'' @ CHR ''0'' # bmf_name m @ bmf_brain_id m"

lemma toy_text_inj:
  assumes "toy_text m = toy_text m'"
  shows "bmf_name m = bmf_name m' \<and> bmf_brain_id m = bmf_brain_id m'"
proof -
  have ones: "takeWhile (\<lambda>c. c = CHR ''1'') (replicate n CHR ''1'' @ CHR ''0'' # r) = replicate n CHR ''1''" for n r
    by (induction n) simp_all
  have "takeWhile (\<lambda>c. c = CHR ''1'') (toy_text x) = replicate (length (bmf_name x)) CHR ''1''" for x :: brain_manifest
    unfolding toy_text_def by (rule ones)
  then have "length (bmf_name m) = length (bmf_name m')"
    using assms by (metis length_replicate)
  with assms show ?thesis by (simp add: toy_text_def)
qed

definition toy_crates :: crates where
  "toy_crates = \<lparr>cr_argon2 = \<lambda>secret salt. Ok secret, cr_seal = \<lambda>key nonce aad msg. Some (aad @ msg),
     cr_open = \<lambda>key nonce aad ct. strip_prefix aad ct, cr_public_key = \<lambda>sk. sk, cr_sign = toy_sign,
     cr_key_point = \<lambda>key. True, cr_verify = \<lambda>key payload sig. sig = toy_sign key payload,
     cr_sha256 = \<lambda>s. s, cr_lower_hex = \<lambda>s. s, cr_b64_encode = \<lambda>s. s, cr_b64_decode = Some,
     cr_blob_json = \<lambda>b. eb_nonce_b64 b @ eb_ciphertext_b64 b,
     cr_manifest_json = toy_text,
     cr_state_json = \<lambda>st. show_nat (to_nat st), cr_state_of_json = \<lambda>s. Some (from_nat (digits_value s))\<rparr>"

lemma toy_crates_ok: "crates_ok toy_crates"
  by (simp add: crates_ok_def toy_crates_def strip_prefix_Some)

definition toy_vars :: "string \<Rightarrow> string option" where
  "toy_vars var = (if var = ''CORTEX_BRAIN_SECRET'' then Some ''secret'' else None)"

definition toy_call :: ambient where
  "toy_call = \<lparr>amb_var = toy_vars, amb_uuid = \<lambda>_. ''0123456789'', amb_now = \<lambda>_. ''now'',
     amb_random = \<lambda>place. replicate (case place of AtSalt \<Rightarrow> 16 | AtSigningKey \<Rightarrow> 32 | _ \<Rightarrow> 24) CHR ''r'',
     amb_list = \<lambda>names. names, amb_disk = \<lambda>_. Written\<rparr>"

lemma toy_call_ok: "ambient_ok toy_vars toy_call"
  by (simp add: ambient_ok_def toy_call_def)

lemma toy_disk_works [simp]: "disk_works toy_call"
  by (simp add: disk_works_def toy_call_def)

definition toy_request :: create_brain_request where
  "toy_request = \<lparr>cb_name = ''My Brain'', cb_tenant_id = ''local'', cb_passphrase_env = None\<rparr>"

definition toy_home :: home where
  "toy_home = fst (create_brain toy_call toy_crates empty_home toy_request)"

abbreviation toy_id :: string where "toy_id \<equiv> ''my-brain-01234567''"

lemma toy_slug: "slugify ''My Brain'' = ''my-brain''"
  by code_simp

lemma toy_fresh: "bd_manifest (dir_at empty_home (slugify (cb_name toy_request) @ ''-'' @
    take 8 (amb_uuid toy_call AtBrainId))) = Absent"
  by (simp add: empty_home_def dir_at_def empty_dir_def)

lemma toy_created:
  obtains s where "create_brain toy_call toy_crates empty_home toy_request = (toy_home, Ok s)"
proof -
  have "is_ok (snd (create_brain toy_call toy_crates empty_home toy_request))"
    by (simp add: create_brain_def new_brain_def Let_def derive_key_def encrypt_json_def encrypt_bytes_def toy_crates_def
      toy_request_def env_secret_def toy_call_def toy_vars_def write_brain_def write_json_def home_bind_def make_dir_def)
  with that show thesis by (auto simp: is_ok_iff toy_home_def prod_eq_iff)
qed

lemma toy_reaches: "store_reaches toy_vars toy_crates toy_home {}"
proof (rule toy_created)
  fix s
  assume "create_brain toy_call toy_crates empty_home toy_request = (toy_home, Ok s)"
  from reaches_step [OF reaches_empty step_create [OF toy_call_ok toy_fresh this]] show ?thesis by simp
qed

lemma toy_sound: "home_sound toy_vars toy_crates toy_home"
  unfolding home_sound_kept by (rule store_kept [OF toy_crates_ok toy_reaches])

lemma toy_home_eq:
  obtains m blob key_blob where
    "toy_home = \<lparr>home_brains = [(toy_id, \<lparr>bd_manifest = Holds m, bd_state = Holds blob,
        bd_signing_key = Holds key_blob\<rparr>)], home_config = Absent, home_api_keys = Absent\<rparr>"
    "bmf_brain_id m = toy_id" "bmf_name m = ''My Brain''" "bmf_active_branch m = ''main''"
    "new_brain toy_call toy_crates toy_request ''CORTEX_BRAIN_SECRET'' ''secret'' toy_id = Ok (m, blob, key_blob)"
proof -
  obtain m blob key_blob where n: "new_brain toy_call toy_crates toy_request ''CORTEX_BRAIN_SECRET'' ''secret'' toy_id
      = Ok (m, blob, key_blob)" "bmf_brain_id m = toy_id" "bmf_name m = ''My Brain''" "bmf_active_branch m = ''main''"
    by (simp add: new_brain_def Let_def derive_key_def encrypt_json_def encrypt_bytes_def toy_crates_def toy_request_def)
  then have "toy_home = \<lparr>home_brains = [(toy_id, \<lparr>bd_manifest = Holds m, bd_state = Holds blob,
        bd_signing_key = Holds key_blob\<rparr>)], home_config = Absent, home_api_keys = Absent\<rparr>"
    using n(1) by (simp add: toy_home_def create_brain_def Let_def env_secret_def toy_call_def toy_vars_def
      toy_request_def toy_slug empty_home_def write_brain_def write_json_def home_bind_def make_dir_def put_dir_def
      put_manifest_def put_state_def put_signing_key_def dir_at_def bm_get_def empty_dir_def)
  with n that show ?thesis by blast
qed

lemma toy_dir:
  obtains m st sk where "bd_manifest (dir_at toy_home toy_id) = Holds m" "bmf_name m = ''My Brain''"
    "bmf_active_branch m = ''main''" "bmf_brain_id m = toy_id"
    "brain_in toy_vars toy_crates (dir_at toy_home toy_id) m st sk"
    "st = initial_state toy_call toy_id ''local''"
proof (rule toy_home_eq)
  fix m blob key_blob
  assume t: "toy_home = \<lparr>home_brains = [(toy_id, \<lparr>bd_manifest = Holds m, bd_state = Holds blob,
        bd_signing_key = Holds key_blob\<rparr>)], home_config = Absent, home_api_keys = Absent\<rparr>"
    "bmf_brain_id m = toy_id" "bmf_name m = ''My Brain''" "bmf_active_branch m = ''main''"
    and n: "new_brain toy_call toy_crates toy_request ''CORTEX_BRAIN_SECRET'' ''secret'' toy_id = Ok (m, blob, key_blob)"
  have d: "dir_at toy_home toy_id = \<lparr>bd_manifest = Holds m, bd_state = Holds blob, bd_signing_key = Holds key_blob\<rparr>"
    by (simp add: t(1) dir_at_def bm_get_def)
  have "toy_vars ''CORTEX_BRAIN_SECRET'' = Some ''secret''" by (simp add: toy_vars_def)
  from created_brain_in [OF toy_crates_ok toy_call_ok n this, of "dir_at toy_home toy_id"] d t that
  show thesis by (auto simp: toy_request_def)
qed

text \<open>A home with one brain: every edit that succeeds on its state is stored.\<close>

lemma toy_resolves:
  assumes "home_brains h = [(toy_id, d)]" and "bd_manifest d = Holds m" and "bmf_brain_id m = toy_id"
  shows "resolve_brain toy_call h toy_id = Ok (summary_of m)"
proof -
  have "list_brains toy_call h = Ok [summary_of m]"
    using assms by (simp add: list_brains_def toy_call_def bm_keys_def dir_at_def bm_get_def empty_file_def)
  then show ?thesis using assms(3) by (simp add: resolve_brain_def summary_of_def)
qed

lemma toy_written:
  "write_edited toy_call n m blob h = (put_state n (Holds blob) (put_manifest n (Holds m) h), Ok ())"
  by (simp add: write_edited_def write_json_def home_bind_def toy_call_def)

lemma toy_mutates:
  assumes "home_brains h = [(toy_id, d)]" and "brain_in toy_vars toy_crates d m st sk"
    and "bmf_brain_id m = toy_id" and "f m st = Ok (m, st', r)"
  obtains m3 blob where "mutate_brain toy_call toy_crates h toy_id f =
      (put_state toy_id (Holds blob) (put_manifest toy_id (Holds m3) h), Ok r)"
    "seal_brain toy_call toy_crates m st' sk = Ok (m3, blob)"
proof -
  have var: "amb_var toy_call = toy_vars" by (simp add: toy_call_def)
  have d: "dir_at h toy_id = d" using assms(1) by (simp add: dir_at_def bm_get_def)
  have load: "load_by_dir toy_call toy_crates d = Ok (m, st, sk)" by (rule brain_in_load [OF assms(2) var])
  then obtain key where "brain_key (amb_var toy_call) toy_crates m key" by (auto simp: load_iff)
  moreover obtain blob where "encrypt_json toy_crates (amb_random toy_call AtStateNonce) key (bmf_brain_id m) st'
      = Ok blob" by (simp add: encrypt_json_def encrypt_bytes_def toy_crates_def)
  ultimately obtain m3 blob where s: "seal_brain toy_call toy_crates m st' sk = Ok (m3, blob)"
    unfolding seal_iff by metis
  have "resolve_brain toy_call h toy_id = Ok (summary_of m)"
    by (rule toy_resolves [OF assms(1) brain_in_manifest [OF assms(2)] assms(3)])
  moreover have "bsm_brain_id (summary_of m) = toy_id" by (simp add: summary_of_def assms(3))
  ultimately have "mutate_brain toy_call toy_crates h toy_id f =
      (put_state toy_id (Holds blob) (put_manifest toy_id (Holds m3) h), Ok r)"
    using load s assms(4) d by (simp add: mutate_brain_def toy_written home_bind_def)
  with s that show ?thesis by blast
qed

lemma toy_home_with:
  assumes "state_ok st" and "bm_get (bst_branches st) ''main'' \<noteq> None"
  obtains h d m sk where "home_sound toy_vars toy_crates h" "home_brains h = [(toy_id, d)]"
    "brain_in toy_vars toy_crates d m st sk" "bmf_brain_id m = toy_id" "bmf_active_branch m = ''main''"
proof (rule toy_dir)
  fix m st0 sk
  assume t: "bmf_brain_id m = toy_id" "bmf_active_branch m = ''main''"
    "brain_in toy_vars toy_crates (dir_at toy_home toy_id) m st0 sk"
  obtain d where d1: "home_brains toy_home = [(toy_id, d)]"
    by (rule toy_home_eq) (metis home.select_convs(1))
  then have d: "home_brains toy_home = [(toy_id, d)]" "dir_at toy_home toy_id = d"
    by (simp_all add: dir_at_def bm_get_def)
  obtain m3 blob where s: "seal_brain toy_call toy_crates m st sk = Ok (m3, blob)"
    by (rule toy_mutates [where f = "\<lambda>m _. Ok (m, st, ())", OF d(1) t(3) [unfolded d(2)] t(1) refl])
  define h where "h = put_state toy_id (Holds blob) (put_manifest toy_id (Holds m3) toy_home)"
  have b: "brain_in toy_vars toy_crates (d\<lparr>bd_manifest := Holds m3, bd_state := Holds blob\<rparr>) m3 st sk"
    using sealed_brain_in [OF toy_crates_ok toy_call_ok t(3) s assms(1)] assms(2) t(2) d(2) by simp
  have m3: "bmf_brain_id m3 = toy_id" "bmf_active_branch m3 = ''main''" using seal_keeps [OF s] t by simp_all
  have "dir_at h toy_id = d\<lparr>bd_manifest := Holds m3, bd_state := Holds blob\<rparr>" by (simp add: h_def d(2))
  moreover have "home_brains h = [(toy_id, d\<lparr>bd_manifest := Holds m3, bd_state := Holds blob\<rparr>)]"
    using d(1) by (simp add: h_def put_state_def put_manifest_def put_dir_def dir_at_def bm_get_def)
  moreover have "home_sound toy_vars toy_crates h"
    by (rule home_sound_update [OF toy_sound, of toy_id])
      (use b m3(1) d(2) in \<open>auto simp: h_def\<close>)
  ultimately show thesis using that b m3 by metis
qed

end
