(* ===== verification/Brain_Properties.thy ===== *)
theory Brain_Properties
  imports Brain_Demo
begin

text \<open>
  The properties of the brain store. \<open>brain_in V C d m st sk\<close> says that the directory \<open>d\<close> loads,
  under the variables \<open>V\<close>, as the brain with manifest \<open>m\<close>, state \<open>st\<close> and signing key \<open>sk\<close>.
\<close>

section \<open>Brains stay loadable\<close>

text \<open>C9. What the operations keep of a store, when writes may fail and any package may be imported
  under any name. Every directory with a readable manifest is named after its brain. And every
  directory that no failed write and no renaming or foreign import has touched holds no manifest, or
  a brain that loads: the signature verifies, the checksum is right, state and key decrypt; the
  state's maps are in order, an agent has at most one grant per model, and the active branch exists.\<close>

theorem store_invariant:
  assumes "crates_ok C" and "store_reaches V C h S" and "amb_var A = V"
  shows "(\<forall>m. bd_manifest (dir_at h n) = Holds m \<longrightarrow> bmf_brain_id m = n) \<and>
    (n \<notin> S \<longrightarrow> bd_manifest (dir_at h n) = Absent \<or>
      (\<exists>m st sk. load_by_dir A C (dir_at h n) = Ok (m, st, sk) \<and>
        bm_ok (bst_branches st) \<and> distinct (map grant_key (bst_attachments st)) \<and>
        bm_get (bst_branches st) (bmf_active_branch m) \<noteq> None))"
proof -
  note kept = home_keptD [OF store_kept [OF assms(1,2)], of n]
  have "load_by_dir A C (dir_at h n) = Ok (m, st, sk) \<and> bm_ok (bst_branches st) \<and>
      distinct (map grant_key (bst_attachments st)) \<and> bm_get (bst_branches st) (bmf_active_branch m) \<noteq> None"
    if "brain_in V C (dir_at h n) m st sk" for m st sk
    using that brain_in_load [OF that assms(3)] by (auto simp: brain_in_def state_ok_def)
  with kept show ?thesis by blast
qed

text \<open>A store that has imported a copy of its own brain under another name.\<close>

definition toy_copy_id :: string where
  "toy_copy_id = toy_id @ ''-012345''"

lemma toy_copied:
  obtains h m where "store_reaches toy_vars toy_crates h {toy_copy_id}" "dir_at h toy_id = dir_at toy_home toy_id"
    "bd_manifest (dir_at h toy_copy_id) = Holds m" "bmf_name m = ''Copy''"
proof (rule toy_home_eq)
  fix m blob key_blob
  assume t: "toy_home = \<lparr>home_brains = [(toy_id, \<lparr>bd_manifest = Holds m, bd_state = Holds blob,
        bd_signing_key = Holds key_blob\<rparr>)], home_config = Absent, home_api_keys = Absent\<rparr>"
    "bmf_brain_id m = toy_id"
  let ?d = "\<lparr>bd_manifest = Holds m, bd_state = Holds blob, bd_signing_key = Holds key_blob\<rparr>"
  define p where "p = \<lparr>bp_package_version = ''brain/v1'', bp_manifest = m, bp_state = blob, bp_signing_key = key_blob\<rparr>"
  have d: "dir_at toy_home toy_id = ?d" "bm_get (home_brains toy_home) toy_id \<noteq> None"
    "bm_get (home_brains toy_home) toy_copy_id = None"
    by (simp_all add: t(1) dir_at_def bm_get_def toy_copy_id_def)
  have "bd_manifest ?d = Holds m" "amb_var toy_call = toy_vars" by (simp_all add: toy_call_def)
  with home_sound_holds [OF toy_sound, of toy_id m] obtain st sk where
    "load_by_dir toy_call toy_crates ?d = Ok (m, st, sk)" unfolding d(1) by (metis brain_in_load)
  then have ok: "verify_manifest_signature toy_crates (bp_manifest p) = Ok ()"
    "blob_digest toy_crates (bp_state p) = bmf_state_sha256 (bp_manifest p)" by (auto simp: load_iff p_def)
  have id: "imported_id toy_call toy_home p = toy_copy_id"
    using d(2) by (simp add: imported_id_def p_def t(2) toy_copy_id_def toy_call_def)
  let ?m = "imported_manifest toy_call toy_home (Some ''Copy'') p"
  obtain h where i: "import_brain toy_call toy_crates toy_home (Holds p) (Some ''Copy'') False =
      (h, Ok (Some (summary_of ?m)))"
    using imported [OF ok, of toy_call toy_home "Some ''Copy''"]
    by (simp add: id make_dir_def write_brain_def write_json_def home_bind_def toy_call_def)
  have only: "only_dir toy_copy_id toy_home h" and new: "bd_manifest (dir_at h toy_copy_id) = Holds ?m"
    by (rule import_cases [OF i]; auto simp: id)+
  have "bd_manifest (dir_at toy_home toy_copy_id) = Absent" using d(3) by (simp add: dir_at_def empty_dir_def)
  then have changed: "{n. dir_at h n \<noteq> dir_at toy_home n} = {toy_copy_id}"
    using only new by (auto simp: only_dir_def)
  have "store_step toy_vars toy_crates toy_home h
      (if travels toy_vars toy_crates toy_home (Holds p) (Some ''Copy'')
       then spoiled toy_home (h, Ok (Some (summary_of ?m)) :: brain_summary option stored)
       else {n. dir_at h n \<noteq> dir_at toy_home n})"
    by (rule step_import [OF _ i]) (use d(3) in \<open>simp add: p_def t(2) toy_copy_id_def toy_call_def\<close>)
  then have "store_step toy_vars toy_crates toy_home h {toy_copy_id}" by (simp add: changed travels_def)
  from reaches_step [OF toy_reaches this] have "store_reaches toy_vars toy_crates h {toy_copy_id}" by simp
  moreover have "dir_at h toy_id = dir_at toy_home toy_id"
    using only by (simp add: only_dir_def toy_copy_id_def)
  moreover have "bmf_name ?m = ''Copy''" by (simp add: imported_manifest_def)
  ultimately show thesis using that new by blast
qed

lemma store_invariant_witness:
  "\<exists>h m. store_reaches toy_vars toy_crates h {toy_copy_id} \<and>
     bd_manifest (dir_at h toy_copy_id) = Holds m \<and> bmf_name m = ''Copy'' \<and> bmf_brain_id m = toy_copy_id \<and>
     is_ok (load_by_dir toy_call toy_crates (dir_at h toy_id))"
proof (rule toy_copied)
  fix h m
  assume h: "store_reaches toy_vars toy_crates h {toy_copy_id}" "dir_at h toy_id = dir_at toy_home toy_id"
    "bd_manifest (dir_at h toy_copy_id) = Holds m" "bmf_name m = ''Copy''"
  have var: "amb_var toy_call = toy_vars" by (simp add: toy_call_def)
  have here: "bd_manifest (dir_at h toy_id) \<noteq> Absent" by (rule toy_dir) (simp add: h(2))
  note inv = store_invariant [OF toy_crates_ok h(1) var]
  have "toy_id \<notin> {toy_copy_id}" by (simp add: toy_copy_id_def)
  with inv [of toy_id] here have "is_ok (load_by_dir toy_call toy_crates (dir_at h toy_id))"
    by (auto simp: is_ok_iff)
  with h inv [of toy_copy_id] show ?thesis by blast
qed

text \<open>C11. History is only added to. After any operation, failed or not, a brain that was there is
  still there, under the same signing key, and its audit log begins with the log it had; or a write
  to this very brain has failed, and then its key is the old one and so is its state, unless the state
  itself was cut short. An import never takes the place of a brain.\<close>

theorem audit_append_only:
  assumes "crates_ok C" and "store_step V C h h' T" and "brain_in V C (dir_at h n) m st sk"
  shows "(\<exists>m' st'. brain_in V C (dir_at h' n) m' st' sk \<and> prefix (bst_audit st) (bst_audit st')) \<or>
    n \<in> T \<and> bd_signing_key (dir_at h' n) = bd_signing_key (dir_at h n) \<and>
    bd_state (dir_at h' n) \<in> {bd_state (dir_at h n), Garbled}"
proof -
  have same: ?thesis if "dir_at h' n = dir_at h n" using that assms(3) by auto
  have here: "bd_manifest (dir_at h n) = Holds m" by (rule brain_in_manifest [OF assms(3)])
  from assms(2) show ?thesis
  proof cases
    case (step_create A req res)
    then have "n \<noteq> slugify (cb_name req) @ ''-'' @ take 8 (amb_uuid A AtBrainId)" using here by auto
    with create_brain_cases [OF step_create(4) refl] have "dir_at h' n = dir_at h n"
      unfolding only_dir_def by blast
    then show ?thesis by (rule same)
  next
    case (step_branch A brain_ref new_branch res)
    then show ?thesis using branching.edit_history [OF assms(1) _ assms(3)] by (metis branch_def)
  next
    case (step_merge A brain_ref source target strategy res)
    then show ?thesis using merging.edit_history [OF assms(1) _ assms(3)] by (metis merge_def)
  next
    case (step_forget A brain_ref subject predicate scope reason res)
    then show ?thesis using forgetting.edit_history [OF assms(1) _ assms(3)] by (metis forget_suppress_def)
  next
    case (step_attach A brain_ref grant res)
    then show ?thesis using attaching.edit_history [OF assms(1) _ assms(3)] by (metis attach_def)
  next
    case (step_detach A brain_ref agent model res)
    then show ?thesis using detaching.edit_history [OF assms(1) _ assms(3)] by (metis detach_def)
  next
    case (step_active A brain_ref res)
    then show ?thesis using set_active_brains by (metis same dir_at_def)
  next
    case (step_api_key A key tenant brain_id subject res)
    then show ?thesis using map_api_key_brains by (metis same dir_at_def)
  next
    case (step_import pkg A over verify_only res)
    show ?thesis
    proof (rule import_cases [OF step_import(3)])
      assume "h' = h"
      then show ?thesis by (intro same) simp
    next
      fix p
      assume p: "pkg = Holds p" "only_dir (imported_id A h p) h h'"
      have "bm_get (home_brains h) (imported_id A h p) = None"
        using step_import(2) [OF p(1)] by (simp add: imported_id_def)
      then have "n \<noteq> imported_id A h p" using here by (auto simp: dir_at_def empty_dir_def)
      with p(2) show ?thesis by (intro same) (simp add: only_dir_def)
    qed
  qed
qed

definition toy_grant :: attachment_grant where
  "toy_grant = \<lparr>ag_agent_id = ''agent'', ag_model_id = ''model'', ag_read_classes = [], ag_write_classes = [],
     ag_sinks = [], ag_expires_at = None\<rparr>"

lemma toy_attach:
  obtains h' where "attach toy_call toy_crates toy_home toy_id toy_grant = (h', Ok ())"
proof (rule toy_dir)
  fix m st sk
  assume t: "bmf_brain_id m = toy_id" "brain_in toy_vars toy_crates (dir_at toy_home toy_id) m st sk"
  obtain d where d: "home_brains toy_home = [(toy_id, d)]"
    by (rule toy_home_eq) (metis home.select_convs(1))
  then have "dir_at toy_home toy_id = d" by (simp add: dir_at_def bm_get_def)
  moreover obtain st' where "attach_edit toy_call toy_grant m st = Ok (m, st', ())" by (simp add: attach_edit_def)
  ultimately show thesis
    using toy_mutates [where f = "attach_edit toy_call toy_grant", OF d _ t(1)] t(2) that by (metis attach_def)
qed

lemma audit_append_only_witness:
  "\<exists>h' m st sk. attach toy_call toy_crates toy_home toy_id toy_grant = (h', Ok ()) \<and>
    brain_in toy_vars toy_crates (dir_at h' toy_id) m st sk \<and> bst_audit st \<noteq> []"
proof (rule toy_dir)
  fix m st sk
  assume b: "brain_in toy_vars toy_crates (dir_at toy_home toy_id) m st sk"
    and st: "st = initial_state toy_call toy_id ''local''"
  obtain h' where r: "attach toy_call toy_crates toy_home toy_id toy_grant = (h', Ok ())" by (rule toy_attach)
  from audit_append_only [OF toy_crates_ok step_attach [OF toy_call_ok r] b] obtain m' st' where
    "brain_in toy_vars toy_crates (dir_at h' toy_id) m' st' sk" "prefix (bst_audit st) (bst_audit st')" by auto
  moreover have "bst_audit st \<noteq> []" by (simp add: st initial_state_def)
  ultimately show ?thesis using r by fastforce
qed

section \<open>Suppression\<close>

text \<open>C12. Forgetting is exact and lasting. When \<open>forget_suppress\<close> answers \<open>n\<close>, the stored state
  has the objects of the active branch with that subject and predicate suppressed and every
  other object as it was, \<open>n\<close> counts those that were not suppressed before, the other branches
  and the grants are untouched, and forgetting the same again finds nothing.\<close>

theorem forget_suppresses:
  assumes "crates_ok C" and "home_sound V C h" and "ambient_ok V A"
    and "forget_suppress A C h brain_ref subject predicate scope reason = (h', Ok n)"
  shows "\<exists>k m st sk m' st' br br'. brain_in V C (dir_at h k) m st sk \<and> brain_in V C (dir_at h' k) m' st' sk \<and>
    (bmf_brain_id m = brain_ref \<or> bmf_name m = brain_ref) \<and>
    bm_get (bst_branches st) (bmf_active_branch m) = Some br \<and>
    bm_get (bst_branches st') = (bm_get (bst_branches st))(bmf_active_branch m \<mapsto> br') \<and>
    (\<forall>oid. bm_get (br_memory_objects br') oid = map_option
       (\<lambda>o'. if mo_subject o' = subject \<and> mo_predicate o' = predicate then o'\<lparr>mo_suppressed := True\<rparr> else o')
       (bm_get (br_memory_objects br) oid)) \<and>
    n = card {oid. \<exists>o'. bm_get (br_memory_objects br) oid = Some o' \<and> mo_subject o' = subject \<and>
       mo_predicate o' = predicate \<and> \<not> mo_suppressed o'} \<and>
    bst_attachments st' = bst_attachments st \<and>
    (\<forall>B scope2 reason2. \<exists>st''. forget_edit B subject predicate scope2 reason2 m' st' = Ok (m', st'', 0))"
proof -
  from forgetting.edit_stored [OF assms(1,3,2) assms(4) [unfolded forget_suppress_def]] obtain k m st sk m' st' where
    k: "brain_in V C (dir_at h k) m st sk" "brain_in V C (dir_at h' k) m' st' sk"
      "bmf_brain_id m = brain_ref \<or> bmf_name m = brain_ref" "bmf_active_branch m' = bmf_active_branch m"
      "forget_edit A subject predicate scope reason m st = Ok (m, st', n)" by metis
  from k(1) have "state_ok st" by (simp add: brain_in_def)
  from forget_effect [OF k(5) this] obtain br br' where
    "bm_get (bst_branches st) (bmf_active_branch m) = Some br"
    "bm_get (bst_branches st') = (bm_get (bst_branches st))(bmf_active_branch m \<mapsto> br')"
    "\<forall>oid. bm_get (br_memory_objects br') oid = map_option
       (\<lambda>o'. if mo_subject o' = subject \<and> mo_predicate o' = predicate then o'\<lparr>mo_suppressed := True\<rparr> else o')
       (bm_get (br_memory_objects br) oid)"
    "n = card {oid. \<exists>o'. bm_get (br_memory_objects br) oid = Some o' \<and> mo_subject o' = subject \<and>
       mo_predicate o' = predicate \<and> \<not> mo_suppressed o'}"
    "bst_attachments st' = bst_attachments st" .
  moreover have "\<forall>B scope2 reason2. \<exists>st''. forget_edit B subject predicate scope2 reason2 m' st' = Ok (m', st'', 0)"
    using forget_again [OF k(5,4)] by blast
  ultimately show ?thesis using k(1-3) by blast
qed

definition toy_object :: "string \<Rightarrow> memory_object" where
  "toy_object x = \<lparr>mo_id = ''m1'', mo_subject = ''user:vinz'', mo_predicate = ''likes'', mo_value = JStr x,
     mo_memory_type = ''preference'', mo_suppressed = False\<rparr>"

definition toy_branch :: "string \<Rightarrow> string \<Rightarrow> branch_state" where
  "toy_branch name x = \<lparr>br_name = name, br_memory_objects = [(''m1'', toy_object x)],
     br_rules = [], br_ledger = [], br_suppressions = []\<rparr>"

definition toy_memory :: brain_state where
  "toy_memory = (initial_state toy_call toy_id ''local'')\<lparr>bst_branches :=
     [(''main'', toy_branch ''main'' ''tea''), (''side'', toy_branch ''side'' ''coffee'')]\<rparr>"

lemma toy_memory_get [simp]:
  "bm_get (bst_branches toy_memory) ''main'' = Some (toy_branch ''main'' ''tea'')"
  "bm_get (bst_branches toy_memory) ''side'' = Some (toy_branch ''side'' ''coffee'')"
  "bm_get (br_memory_objects (toy_branch name x)) ''m1'' = Some (toy_object x)"
  by (simp_all add: toy_memory_def bm_get_def toy_branch_def)

lemma toy_memory_ok: "state_ok toy_memory" "bm_get (bst_branches toy_memory) ''main'' \<noteq> None"
proof -
  have "bm_ok (bst_branches toy_memory)" "list_all (\<lambda>e. branch_ok (snd e)) (bst_branches toy_memory)"
    by (simp_all add: toy_memory_def bm_ok_def branch_ok_def less_char_def toy_branch_def toy_object_def)
  then show "state_ok toy_memory"
    using initial_state_ok [of toy_call toy_id "''local''"] by (simp add: state_ok_def toy_memory_def)
qed simp

lemma toy_only:
  assumes "home_brains h = [(toy_id, d)]" and "brain_in toy_vars toy_crates d m st sk"
    and "brain_in toy_vars toy_crates (dir_at h k) m' st' sk'"
  shows "k = toy_id \<and> m' = m \<and> st' = st"
proof -
  have k: "k = toy_id" "dir_at h k = d"
    using assms(1) brain_in_manifest [OF assms(3)] by (auto simp: dir_at_def bm_get_def empty_dir_def split: if_splits)
  with brain_in_unique [OF assms(2)] assms(3) show ?thesis by blast
qed

lemma forget_suppresses_witness:
  "\<exists>h h'. forget_suppress toy_call toy_crates h toy_id ''user:vinz'' ''likes'' [] [] = (h', Ok 1) \<and>
    (\<exists>m st sk br. brain_in toy_vars toy_crates (dir_at h' toy_id) m st sk \<and>
      bm_get (bst_branches st) ''main'' = Some br \<and>
      map_option mo_suppressed (bm_get (br_memory_objects br) ''m1'') = Some True)"
proof (rule toy_home_with [OF toy_memory_ok])
  fix h d m sk
  assume h: "home_sound toy_vars toy_crates h" "home_brains h = [(toy_id, d)]"
    "brain_in toy_vars toy_crates d m toy_memory sk" "bmf_brain_id m = toy_id" "bmf_active_branch m = ''main''"
  obtain st' where "forget_edit toy_call ''user:vinz'' ''likes'' [] [] m toy_memory = Ok (m, st', 1)"
    by (simp add: forget_edit_def h(5) toy_branch_def toy_object_def suppresses_def)
  from toy_mutates [where f = "forget_edit toy_call ''user:vinz'' ''likes'' [] []", OF h(2-4) this] obtain h' where
    r: "forget_suppress toy_call toy_crates h toy_id ''user:vinz'' ''likes'' [] [] = (h', Ok 1)"
    unfolding forget_suppress_def by blast
  from forget_suppresses [OF toy_crates_ok h(1) toy_call_ok r] obtain k m0 st sk0 m' st' br br' where
    b: "brain_in toy_vars toy_crates (dir_at h k) m0 st sk0" "brain_in toy_vars toy_crates (dir_at h' k) m' st' sk0"
      "bm_get (bst_branches st') = (bm_get (bst_branches st))(bmf_active_branch m0 \<mapsto> br')"
      "bm_get (bst_branches st) (bmf_active_branch m0) = Some br"
      "\<forall>oid. bm_get (br_memory_objects br') oid = map_option
       (\<lambda>o'. if mo_subject o' = ''user:vinz'' \<and> mo_predicate o' = ''likes'' then o'\<lparr>mo_suppressed := True\<rparr> else o')
       (bm_get (br_memory_objects br) oid)" by blast
  from toy_only [OF h(2,3) b(1)] have k: "k = toy_id" and "m0 = m" "st = toy_memory" by blast+
  with b(3,4) h(5) have main: "bm_get (bst_branches st') ''main'' = Some br'"
    and br: "br = toy_branch ''main'' ''tea''" by auto
  from b(5) [rule_format, of "''m1''"] have
    "map_option mo_suppressed (bm_get (br_memory_objects br') ''m1'') = Some True"
    by (simp add: br toy_object_def)
  with main b(2) k r show ?thesis by blast
qed

section \<open>Branches\<close>

text \<open>A branch is a copy. When \<open>branch\<close> succeeds the name was free, and the stored state has
  the active branch under it as well, with the new name; all other branches, the grants and
  the choice of the active branch are as they were, and so are all other brains.\<close>

theorem branch_forks:
  assumes "crates_ok C" and "home_sound V C h" and "ambient_ok V A"
    and "branch A C h brain_ref new_branch = (h', Ok ())"
  shows "\<exists>k m st sk m' st' source. brain_in V C (dir_at h k) m st sk \<and> brain_in V C (dir_at h' k) m' st' sk \<and>
    (bmf_brain_id m = brain_ref \<or> bmf_name m = brain_ref) \<and> bmf_active_branch m' = bmf_active_branch m \<and>
    bm_get (bst_branches st) new_branch = None \<and>
    bm_get (bst_branches st) (bmf_active_branch m) = Some source \<and>
    bm_get (bst_branches st') = (bm_get (bst_branches st))(new_branch \<mapsto> source\<lparr>br_name := new_branch\<rparr>) \<and>
    bst_attachments st' = bst_attachments st \<and> (\<forall>j. j \<noteq> k \<longrightarrow> dir_at h' j = dir_at h j)"
proof -
  from branching.edit_stored [OF assms(1,3,2) assms(4) [unfolded branch_def]] obtain k m st sk m' st' where
    k: "brain_in V C (dir_at h k) m st sk" "brain_in V C (dir_at h' k) m' st' sk"
      "bmf_brain_id m = brain_ref \<or> bmf_name m = brain_ref" "bmf_active_branch m' = bmf_active_branch m"
      "branch_edit A new_branch m st = Ok (m, st', ())" "\<And>j. j \<noteq> k \<Longrightarrow> dir_at h' j = dir_at h j" by metis
  from k(5) obtain source where
    "bm_get (bst_branches st) new_branch = None"
    "bm_get (bst_branches st) (bmf_active_branch m) = Some source"
    "bm_get (bst_branches st') = (bm_get (bst_branches st))(new_branch \<mapsto> source\<lparr>br_name := new_branch\<rparr>)"
    "bst_attachments st' = bst_attachments st"
    by (auto simp: branch_edit_def Let_def fun_eq_iff split: if_splits)
  with k(1-4,6) show ?thesis by blast
qed

lemma branch_forks_witness:
  "\<exists>h h' m' st' sk. branch toy_call toy_crates h toy_id ''copy'' = (h', Ok ()) \<and>
    brain_in toy_vars toy_crates (dir_at h' toy_id) m' st' sk \<and>
    bm_get (bst_branches st') ''copy'' = Some (toy_branch ''copy'' ''tea'')"
proof (rule toy_home_with [OF toy_memory_ok])
  fix h d m sk
  assume h: "home_sound toy_vars toy_crates h" "home_brains h = [(toy_id, d)]"
    "brain_in toy_vars toy_crates d m toy_memory sk" "bmf_brain_id m = toy_id" "bmf_active_branch m = ''main''"
  have "bm_get (bst_branches toy_memory) ''copy'' = None" by (simp add: toy_memory_def bm_get_def)
  then obtain st' where "branch_edit toy_call ''copy'' m toy_memory = Ok (m, st', ())"
    by (simp add: branch_edit_def h(5))
  from toy_mutates [where f = "branch_edit toy_call ''copy''", OF h(2-4) this] obtain h' where
    r: "branch toy_call toy_crates h toy_id ''copy'' = (h', Ok ())" unfolding branch_def by blast
  from branch_forks [OF toy_crates_ok h(1) toy_call_ok r] obtain k m0 st sk0 m' st' source where
    b: "brain_in toy_vars toy_crates (dir_at h k) m0 st sk0" "brain_in toy_vars toy_crates (dir_at h' k) m' st' sk0"
      "bm_get (bst_branches st) (bmf_active_branch m0) = Some source"
      "bm_get (bst_branches st') = (bm_get (bst_branches st))(''copy'' \<mapsto> source\<lparr>br_name := ''copy''\<rparr>)" by blast
  from toy_only [OF h(2,3) b(1)] have k: "k = toy_id" "m0 = m" "st = toy_memory" by blast+
  with b(3) h(5) have "source = toy_branch ''main'' ''tea''" by simp
  with b(4) have "bm_get (bst_branches st') ''copy'' = Some (toy_branch ''copy'' ''tea'')"
    by (simp add: toy_branch_def)
  with b(2) k(1) r show ?thesis by blast
qed

text \<open>C34. What a merge stores. When \<open>merge\<close> succeeds, the target has under each identifier the
  object that the strategy picks (an object only one side has; else the target's, or under
  \<open>Theirs\<close> the source's where they differ), the report counts the objects taken over, and a
  manual merge had no conflict. The source and all other branches and the grants are as they
  were.\<close>

theorem merge_result:
  assumes "crates_ok C" and "home_sound V C h" and "ambient_ok V A"
    and "merge A C h brain_ref source target strategy = (h', Ok report)"
  shows "\<exists>k m st sk m' st' src tgt tgt'.
    brain_in V C (dir_at h k) m st sk \<and> brain_in V C (dir_at h' k) m' st' sk \<and>
    (bmf_brain_id m = brain_ref \<or> bmf_name m = brain_ref) \<and>
    bm_get (bst_branches st) source = Some src \<and> bm_get (bst_branches st) target = Some tgt \<and>
    bm_get (bst_branches st') = (bm_get (bst_branches st))(target \<mapsto> tgt') \<and>
    (\<forall>oid. bm_get (br_memory_objects tgt') oid =
      merged_object strategy (bm_get (br_memory_objects tgt) oid) (bm_get (br_memory_objects src) oid)) \<and>
    mr_merged report = card {oid. \<exists>s. bm_get (br_memory_objects src) oid = Some s \<and>
      (case bm_get (br_memory_objects tgt) oid of None \<Rightarrow> True | Some d \<Rightarrow> strategy = Theirs \<and> differs d s)} \<and>
    (strategy = Manual \<longrightarrow> conflicting tgt src = []) \<and> bst_attachments st' = bst_attachments st"
proof -
  from merging.edit_stored [OF assms(1,3,2) assms(4) [unfolded merge_def]] obtain k m st sk m' st' where
    k: "brain_in V C (dir_at h k) m st sk" "brain_in V C (dir_at h' k) m' st' sk"
      "bmf_brain_id m = brain_ref \<or> bmf_name m = brain_ref"
      "merge_edit A source target strategy m st = Ok (m, st', report)" by metis
  from k(1) have "state_ok st" by (simp add: brain_in_def)
  from merge_effect [OF k(4) this] obtain src tgt tgt' where
    "bm_get (bst_branches st) source = Some src" "bm_get (bst_branches st) target = Some tgt"
    "bm_get (bst_branches st') = (bm_get (bst_branches st))(target \<mapsto> tgt')"
    "\<forall>oid. bm_get (br_memory_objects tgt') oid =
      merged_object strategy (bm_get (br_memory_objects tgt) oid) (bm_get (br_memory_objects src) oid)"
    "mr_merged report = card {oid. \<exists>s. bm_get (br_memory_objects src) oid = Some s \<and>
      (case bm_get (br_memory_objects tgt) oid of None \<Rightarrow> True | Some d \<Rightarrow> strategy = Theirs \<and> differs d s)}"
    "strategy = Manual \<longrightarrow> conflicting tgt src = []" "bst_attachments st' = bst_attachments st" .
  with k(1-3) show ?thesis by blast
qed

lemma merge_result_witness:
  "\<exists>h h' report m' st' sk tgt'. merge toy_call toy_crates h toy_id ''side'' ''main'' Theirs = (h', Ok report) \<and>
    brain_in toy_vars toy_crates (dir_at h' toy_id) m' st' sk \<and>
    bm_get (bst_branches st') ''main'' = Some tgt' \<and>
    bm_get (br_memory_objects tgt') ''m1'' = Some (toy_object ''coffee'')"
proof (rule toy_home_with [OF toy_memory_ok])
  fix h d m sk
  assume h: "home_sound toy_vars toy_crates h" "home_brains h = [(toy_id, d)]"
    "brain_in toy_vars toy_crates d m toy_memory sk" "bmf_brain_id m = toy_id" "bmf_active_branch m = ''main''"
  have "foldl (merge_step Theirs) (br_memory_objects (toy_branch ''main'' ''tea''), \<lparr>mr_merged = 0, mr_conflicts = []\<rparr>)
      (br_memory_objects (toy_branch ''side'' ''coffee'')) =
      ([(''m1'', toy_object ''coffee'')], \<lparr>mr_merged = 1, mr_conflicts = []\<rparr>)"
    by (simp add: toy_branch_def toy_object_def merge_step_def bm_get_def)
  then obtain st' rep where "merge_edit toy_call ''side'' ''main'' Theirs m toy_memory = Ok (m, st', rep)"
    by (simp add: merge_edit_def)
  from toy_mutates [where f = "merge_edit toy_call ''side'' ''main'' Theirs", OF h(2-4) this] obtain h' where
    r: "merge toy_call toy_crates h toy_id ''side'' ''main'' Theirs = (h', Ok rep)" unfolding merge_def by blast
  from merge_result [OF toy_crates_ok h(1) toy_call_ok r] obtain k m0 st sk0 m' st' src tgt tgt' where
    b: "brain_in toy_vars toy_crates (dir_at h k) m0 st sk0" "brain_in toy_vars toy_crates (dir_at h' k) m' st' sk0"
      "bm_get (bst_branches st) ''side'' = Some src" "bm_get (bst_branches st) ''main'' = Some tgt"
      "bm_get (bst_branches st') = (bm_get (bst_branches st))(''main'' \<mapsto> tgt')"
      "\<forall>oid. bm_get (br_memory_objects tgt') oid =
        merged_object Theirs (bm_get (br_memory_objects tgt) oid) (bm_get (br_memory_objects src) oid)" by blast
  from toy_only [OF h(2,3) b(1)] have k: "k = toy_id" "st = toy_memory" by blast+
  with b(3,4) have "src = toy_branch ''side'' ''coffee''" "tgt = toy_branch ''main'' ''tea''" by simp_all
  with b(6) have "bm_get (br_memory_objects tgt') ''m1'' = Some (toy_object ''coffee'')"
    by (simp add: merged_object_def differs_def toy_object_def)
  moreover have "bm_get (bst_branches st') ''main'' = Some tgt'" using b(5) by simp
  ultimately show ?thesis using b(2) k(1) r by blast
qed

text \<open>A manual merge decides nothing by itself. When source and target hold some object
  differently it is refused with the list of those identifiers, and nothing is stored.\<close>

theorem manual_merge_refuses:
  assumes "home_sound V C h" and "ambient_ok V A" and "resolve_brain A h brain_ref = Ok s"
    and "brain_in V C (dir_at h (bsm_brain_id s)) m st sk"
    and "bm_get (bst_branches st) source = Some src" and "bm_get (bst_branches st) target = Some tgt"
    and "conflicting tgt src \<noteq> []"
  shows "merge A C h brain_ref source target Manual =
    (h, Err (Anyhow (''merge conflicts: '' @ join '','' (conflicting tgt src))))"
proof -
  have "amb_var A = V" using assms(2) by (simp add: ambient_ok_def)
  from brain_in_load [OF assms(4) this] have
    "load_by_dir A C (dir_at h (bsm_brain_id s)) = Ok (m, st, sk)" .
  moreover have "state_ok st" using assms(4) by (simp add: brain_in_def)
  ultimately show ?thesis
    using manual_conflict [OF _ assms(5-7)] by (simp add: merge_def mutate_brain_def assms(3))
qed

lemma manual_merge_refuses_witness:
  "\<exists>h. merge toy_call toy_crates h toy_id ''side'' ''main'' Manual = (h, Err (Anyhow ''merge conflicts: m1''))"
proof (rule toy_home_with [OF toy_memory_ok])
  fix h d m sk
  assume h: "home_sound toy_vars toy_crates h" "home_brains h = [(toy_id, d)]"
    "brain_in toy_vars toy_crates d m toy_memory sk" "bmf_brain_id m = toy_id" "bmf_active_branch m = ''main''"
  have s: "bsm_brain_id (summary_of m) = toy_id" by (simp add: summary_of_def h(4))
  have r: "resolve_brain toy_call h toy_id = Ok (summary_of m)"
    by (rule toy_resolves [OF h(2) brain_in_manifest [OF h(3)] h(4)])
  have b: "brain_in toy_vars toy_crates (dir_at h (bsm_brain_id (summary_of m))) m toy_memory sk"
    using h(2,3) s by (simp add: dir_at_def bm_get_def)
  have c: "conflicting (toy_branch ''main'' ''tea'') (toy_branch ''side'' ''coffee'') = [''m1'']"
    by (simp add: conflicting_def conflicts_def toy_branch_def toy_object_def differs_def bm_get_def)
  from manual_merge_refuses [OF h(1) toy_call_ok r b toy_memory_get(2) toy_memory_get(1)] c show ?thesis by auto
qed

end
