(* ===== verification/Brain_Spec.thy ===== *)
theory Brain_Spec
  imports Brain_Properties
begin

text \<open>
  The brain store's contract with its clients, without files, keys and lists: a brain is what is
  remembered on each branch, who has which grant, and the log of what was done; \<open>brain_spec\<close> says
  what each operation does to it. The operations of the store refine it.
\<close>

section \<open>The specification\<close>

record brain_view =
  bv_objects :: "string \<Rightarrow> (string \<Rightarrow> memory_object option) option"
  bv_grants :: "string \<times> string \<Rightarrow> attachment_grant option"
  bv_log :: "string list"

datatype brain_op =
    Fork string
  | MergeInto string string merge_strategy
  | Suppress string string string string
  | Grant attachment_grant
  | Revoke string "string option"

definition hushed :: "string \<Rightarrow> string \<Rightarrow> memory_object \<Rightarrow> memory_object" where
  "hushed subject predicate obj =
     (if mo_subject obj = subject \<and> mo_predicate obj = predicate then obj\<lparr>mo_suppressed := True\<rparr> else obj)"

definition revoked :: "string \<Rightarrow> string option \<Rightarrow> string \<times> string \<Rightarrow> bool" where
  "revoked agent model k \<longleftrightarrow> fst k = agent \<and> (model = None \<or> model = Some (snd k))"

inductive brain_spec :: "string \<Rightarrow> brain_op \<Rightarrow> brain_view \<Rightarrow> brain_view \<Rightarrow> bool" for active :: string where
  spec_fork: "bv_objects v active = Some objs \<Longrightarrow> bv_objects v name = None \<Longrightarrow>
    brain_spec active (Fork name) v
      (v\<lparr>bv_objects := (bv_objects v)(name \<mapsto> objs), bv_log := bv_log v @ [''brain.branch'']\<rparr>)"
| spec_merge: "bv_objects v source = Some src \<Longrightarrow> bv_objects v target = Some tgt \<Longrightarrow>
    (\<And>oid d s. strategy = Manual \<Longrightarrow> tgt oid = Some d \<Longrightarrow> src oid = Some s \<Longrightarrow> \<not> differs d s) \<Longrightarrow>
    brain_spec active (MergeInto source target strategy) v
      (v\<lparr>bv_objects := (bv_objects v)(target \<mapsto> \<lambda>oid. merged_object strategy (tgt oid) (src oid)),
         bv_log := bv_log v @ [''brain.merge'']\<rparr>)"
| spec_suppress: "bv_objects v active = Some objs \<Longrightarrow>
    brain_spec active (Suppress subject predicate scope reason) v
      (v\<lparr>bv_objects := (bv_objects v)(active \<mapsto> \<lambda>oid. map_option (hushed subject predicate) (objs oid)),
         bv_log := bv_log v @ [''brain.forget.suppress'']\<rparr>)"
| spec_grant: "brain_spec active (Grant grant) v
    (v\<lparr>bv_grants := (bv_grants v)(grant_key grant \<mapsto> grant), bv_log := bv_log v @ [''brain.attach'']\<rparr>)"
| spec_revoke: "brain_spec active (Revoke agent model) v
    (v\<lparr>bv_grants := (\<lambda>k. if revoked agent model k then None else bv_grants v k),
       bv_log := bv_log v @ [''brain.detach'']\<rparr>)"

inductive_cases spec_forkE: "brain_spec active (Fork name) v v'"
inductive_cases spec_mergeE: "brain_spec active (MergeInto source target strategy) v v'"
inductive_cases spec_suppressE: "brain_spec active (Suppress subject predicate scope reason) v v'"
inductive_cases spec_grantE: "brain_spec active (Grant grant) v v'"
inductive_cases spec_revokeE: "brain_spec active (Revoke agent model) v v'"

text \<open>The specification leaves no choice, so the store's answer is the only one it allows.\<close>

lemma brain_spec_deterministic: "brain_spec active op v v1 \<Longrightarrow> brain_spec active op v v2 \<Longrightarrow> v1 = v2"
  by (cases op) (auto elim!: spec_forkE spec_mergeE spec_suppressE spec_grantE spec_revokeE)

section \<open>The edits refine it\<close>

definition view_of :: "brain_state \<Rightarrow> brain_view" where
  "view_of st =
     \<lparr>bv_objects = \<lambda>b. map_option (\<lambda>br. bm_get (br_memory_objects br)) (bm_get (bst_branches st) b),
      bv_grants = \<lambda>k. find (\<lambda>a. grant_key a = k) (bst_attachments st),
      bv_log = map au_action (bst_audit st)\<rparr>"

lemma log_pushed: "map au_action (bst_audit (push_audit A action details st)) = map au_action (bst_audit st) @ [action]"
  by (simp add: push_audit_def audit_entry_of_def)

lemma view_eqI:
  assumes "\<And>b. bv_objects v b = map_option (\<lambda>br. bm_get (br_memory_objects br)) (bm_get (bst_branches st) b)"
    and "\<And>k. bv_grants v k = find (\<lambda>a. grant_key a = k) (bst_attachments st)"
    and "bv_log v = map au_action (bst_audit st)"
  shows "view_of st = v"
  using assms by (simp add: view_of_def brain_view.equality fun_eq_iff)

lemma fork_refines:
  assumes "branch_edit A name m st = Ok (m', st', ())"
  shows "brain_spec (bmf_active_branch m) (Fork name) (view_of st) (view_of st')"
proof -
  from assms obtain src details where s: "bm_get (bst_branches st) name = None"
    "bm_get (bst_branches st) (bmf_active_branch m) = Some src"
    "st' = push_audit A ''brain.branch'' details
       (st\<lparr>bst_branches := bm_insert name (src\<lparr>br_name := name\<rparr>) (bst_branches st)\<rparr>)"
    by (auto simp: branch_edit_def Let_def split: if_splits)
  have "view_of st' = (view_of st)\<lparr>bv_objects := (bv_objects (view_of st))(name \<mapsto> bm_get (br_memory_objects src)),
      bv_log := bv_log (view_of st) @ [''brain.branch'']\<rparr>"
    by (rule view_eqI) (auto simp: s(3) view_of_def log_pushed)
  moreover have "bv_objects (view_of st) name = None"
    "bv_objects (view_of st) (bmf_active_branch m) = Some (bm_get (br_memory_objects src))"
    by (simp_all add: view_of_def s)
  ultimately show ?thesis by (simp add: spec_fork)
qed

lemma merge_refines:
  assumes "merge_edit A source target strategy m st = Ok (m', st', r)" and "state_ok st"
  shows "brain_spec active (MergeInto source target strategy) (view_of st) (view_of st')"
proof (rule merge_effect [OF assms])
  fix src tgt tgt'
  assume b: "bm_get (bst_branches st) source = Some src" "bm_get (bst_branches st) target = Some tgt"
    "bm_get (bst_branches st') = (bm_get (bst_branches st))(target \<mapsto> tgt')"
    and objs: "\<forall>oid. bm_get (br_memory_objects tgt') oid =
      merged_object strategy (bm_get (br_memory_objects tgt) oid) (bm_get (br_memory_objects src) oid)"
    and manual: "strategy = Manual \<longrightarrow> conflicting tgt src = []" and grants: "bst_attachments st' = bst_attachments st"
  let ?T = "bm_get (br_memory_objects tgt)" and ?S = "bm_get (br_memory_objects src)"
  have "map au_action (bst_audit st') = map au_action (bst_audit st) @ [''brain.merge'']"
    by (rule merge_edit_Ok [OF assms(1)]) (simp add: log_pushed)
  then have "view_of st' = (view_of st)\<lparr>bv_objects := (bv_objects (view_of st))(target \<mapsto>
      \<lambda>oid. merged_object strategy (?T oid) (?S oid)), bv_log := bv_log (view_of st) @ [''brain.merge'']\<rparr>"
    by (intro view_eqI) (auto simp: b(3) grants objs view_of_def)
  moreover have "\<not> differs d s" if "strategy = Manual" "?T oid = Some d" "?S oid = Some s" for oid d s
  proof -
    have "(oid, s) \<in> set (br_memory_objects src)" using that(3) by (rule bm_get_in)
    with manual that show ?thesis by (auto simp: conflicting_def conflicts_def filter_empty_conv)
  qed
  moreover have "bv_objects (view_of st) source = Some ?S" "bv_objects (view_of st) target = Some ?T"
    by (simp_all add: view_of_def b)
  ultimately show ?thesis by (simp add: spec_merge)
qed

lemma suppress_refines:
  assumes "forget_edit A subject predicate scope reason m st = Ok (m', st', n)" and "state_ok st"
  shows "brain_spec (bmf_active_branch m) (Suppress subject predicate scope reason) (view_of st) (view_of st')"
proof (rule forget_effect [OF assms])
  fix br br'
  assume b: "bm_get (bst_branches st) (bmf_active_branch m) = Some br"
    "bm_get (bst_branches st') = (bm_get (bst_branches st))(bmf_active_branch m \<mapsto> br')"
    and objs: "\<forall>oid. bm_get (br_memory_objects br') oid = map_option
       (\<lambda>o'. if mo_subject o' = subject \<and> mo_predicate o' = predicate then o'\<lparr>mo_suppressed := True\<rparr> else o')
       (bm_get (br_memory_objects br) oid)"
    and grants: "bst_attachments st' = bst_attachments st"
  have "map au_action (bst_audit st') = map au_action (bst_audit st) @ [''brain.forget.suppress'']"
    by (rule forget_edit_Ok [OF assms(1)]) (simp add: log_pushed)
  then have "view_of st' = (view_of st)\<lparr>bv_objects := (bv_objects (view_of st))(bmf_active_branch m \<mapsto>
      \<lambda>oid. map_option (hushed subject predicate) (bm_get (br_memory_objects br) oid)),
      bv_log := bv_log (view_of st) @ [''brain.forget.suppress'']\<rparr>"
    by (intro view_eqI) (auto simp: b(2) grants objs view_of_def hushed_def [abs_def])
  moreover have "bv_objects (view_of st) (bmf_active_branch m) = Some (bm_get (br_memory_objects br))"
    by (simp add: view_of_def b)
  ultimately show ?thesis by (simp add: spec_suppress)
qed

lemma find_filter: "find P (filter Q xs) = find (\<lambda>x. P x \<and> Q x) xs"
  by (induction xs) auto

lemma find_append: "find P (xs @ ys) = (case find P xs of None \<Rightarrow> find P ys | Some x \<Rightarrow> Some x)"
  by (induction xs) auto

lemma grant_refines:
  assumes "attach_edit A grant m st = Ok (m', st', ())"
  shows "brain_spec active (Grant grant) (view_of st) (view_of st')"
proof -
  from assms have s: "bst_attachments st' = filter (\<lambda>a. grant_key a \<noteq> grant_key grant) (bst_attachments st) @ [grant]"
    "bst_branches st' = bst_branches st"
    "map au_action (bst_audit st') = map au_action (bst_audit st) @ [''brain.attach'']"
    by (auto simp: attach_edit_def Let_def grant_key_def log_pushed intro: filter_cong)
  have other: "find (\<lambda>a. grant_key a = k \<and> grant_key a \<noteq> grant_key grant) as =
      (if k = grant_key grant then None else find (\<lambda>a. grant_key a = k) as)" for k and as :: "attachment_grant list"
    by (induction as) auto
  have "view_of st' = (view_of st)\<lparr>bv_grants := (bv_grants (view_of st))(grant_key grant \<mapsto> grant),
      bv_log := bv_log (view_of st) @ [''brain.attach'']\<rparr>"
    by (rule view_eqI) (auto simp: s view_of_def find_append find_filter other split: option.split)
  then show ?thesis by (simp add: spec_grant)
qed

lemma revoke_refines:
  assumes "detach_edit A agent model m st = Ok (m', st', n)"
  shows "brain_spec active (Revoke agent model) (view_of st) (view_of st')"
proof -
  from assms have s: "bst_attachments st' = filter (\<lambda>a. \<not> detach_hit agent model a) (bst_attachments st)"
    "bst_branches st' = bst_branches st"
    "map au_action (bst_audit st') = map au_action (bst_audit st) @ [''brain.detach'']"
    by (auto simp: detach_edit_def Let_def log_pushed)
  have hit: "detach_hit agent model a \<longleftrightarrow> revoked agent model (grant_key a)" for a
    by (auto simp: detach_hit_def revoked_def grant_key_def split: option.split)
  have other: "find (\<lambda>a. grant_key a = k \<and> \<not> revoked agent model (grant_key a)) as =
      (if revoked agent model k then None else find (\<lambda>a. grant_key a = k) as)" for k and as :: "attachment_grant list"
    by (induction as) auto
  have "view_of st' = (view_of st)\<lparr>bv_grants := (\<lambda>k. if revoked agent model k then None else bv_grants (view_of st) k),
      bv_log := bv_log (view_of st) @ [''brain.detach'']\<rparr>"
    by (rule view_eqI) (auto simp: s view_of_def hit find_filter other)
  then show ?thesis by (simp add: spec_revoke)
qed

section \<open>The operations refine it\<close>

definition answered :: "home \<times> 'r stored \<Rightarrow> home \<times> unit stored" where
  "answered hr = (fst hr, res_bind (snd hr) (\<lambda>_. Ok ()))"

fun run_brain_op :: "ambient \<Rightarrow> crates \<Rightarrow> home \<Rightarrow> string \<Rightarrow> brain_op \<Rightarrow> home \<times> unit stored" where
  "run_brain_op A C h brain_ref (Fork name) = branch A C h brain_ref name"
| "run_brain_op A C h brain_ref (MergeInto source target strategy) =
     answered (merge A C h brain_ref source target strategy)"
| "run_brain_op A C h brain_ref (Suppress subject predicate scope reason) =
     answered (forget_suppress A C h brain_ref subject predicate scope reason)"
| "run_brain_op A C h brain_ref (Grant grant) = attach A C h brain_ref grant"
| "run_brain_op A C h brain_ref (Revoke agent model) = answered (detach A C h brain_ref agent model)"

lemma answered_eq:
  "answered hr = (h', Err e) \<Longrightarrow> hr = (h', Err e)"
  "answered hr = (h', Ok u) \<Longrightarrow> \<exists>r. hr = (h', Ok r)"
  by (cases hr; cases "snd hr"; simp add: answered_def)+

text \<open>One brain was changed, found by the call under its name or identifier, and nothing else. If it
  is not one of the directories \<open>S\<close> then it was changed as the specification says, and still loads
  under its signing key.\<close>

definition refined ::
  "(string \<Rightarrow> string option) \<Rightarrow> crates \<Rightarrow> string set \<Rightarrow> home \<Rightarrow> string \<Rightarrow> brain_op \<Rightarrow> home \<Rightarrow> bool" where
  "refined V C S h brain_ref op h' \<longleftrightarrow>
     (\<exists>n m. bd_manifest (dir_at h n) = Holds m \<and> (bmf_brain_id m = brain_ref \<or> bmf_name m = brain_ref) \<and>
        only_dir n h h' \<and>
        (n \<notin> S \<longrightarrow> (\<exists>st sk m' st'. brain_in V C (dir_at h n) m st sk \<and> brain_in V C (dir_at h' n) m' st' sk \<and>
          bmf_active_branch m' = bmf_active_branch m \<and>
          brain_spec (bmf_active_branch m) op (view_of st) (view_of st'))))"

context brain_edit
begin

lemma edit_refines:
  assumes "crates_ok C" and "ambient_ok V A" and "home_kept V C S h"
    and "mutate_brain A C h brain_ref edit = (h', Ok r)"
    and "\<And>m st st'. edit m st = Ok (m, st', r) \<Longrightarrow> state_ok st \<Longrightarrow>
      brain_spec (bmf_active_branch m) op (view_of st) (view_of st')"
  shows "refined V C S h brain_ref op h'"
proof (rule edit_stored_kept [OF assms(1-4)])
  fix n m st sk m3 st'
  assume e: "edit m st = Ok (m, st', r)" "bd_manifest (dir_at h n) = Holds m"
    "bmf_brain_id m = brain_ref \<or> bmf_name m = brain_ref" "only_dir n h h'"
    "bmf_active_branch m3 = bmf_active_branch m"
    "n \<notin> S \<Longrightarrow> brain_in V C (dir_at h n) m st sk" "n \<notin> S \<Longrightarrow> brain_in V C (dir_at h' n) m3 st' sk"
  have "n \<notin> S \<Longrightarrow> state_ok st" using e(6) by (simp add: brain_in_def)
  with assms(5) [OF e(1)] e(2-7) show ?thesis unfolding refined_def by blast
qed

end

lemma run_brain_op_refines:
  assumes "crates_ok C" and "home_kept V C S h" and "ambient_ok V A"
    and "run_brain_op A C h brain_ref op = (h', Ok ())"
  shows "refined V C S h brain_ref op h'"
proof (cases op)
  case (Fork name)
  with assms(4) branching.edit_refines [OF assms(1,3,2)] fork_refines show ?thesis by (auto simp: branch_def)
next
  case (MergeInto source target strategy)
  with assms(4) obtain r where "merge A C h brain_ref source target strategy = (h', Ok r)"
    by (auto dest: answered_eq)
  with MergeInto merging.edit_refines [OF assms(1,3,2)] merge_refines show ?thesis by (auto simp: merge_def)
next
  case (Suppress subject predicate scope reason)
  with assms(4) obtain r where "forget_suppress A C h brain_ref subject predicate scope reason = (h', Ok r)"
    by (auto dest: answered_eq)
  with Suppress forgetting.edit_refines [OF assms(1,3,2)] suppress_refines show ?thesis by (auto simp: forget_suppress_def)
next
  case (Grant grant)
  with assms(4) attaching.edit_refines [OF assms(1,3,2)] grant_refines show ?thesis by (auto simp: attach_def)
next
  case (Revoke agent model)
  with assms(4) obtain r where "detach A C h brain_ref agent model = (h', Ok r)"
    by (auto dest: answered_eq)
  with Revoke detaching.edit_refines [OF assms(1,3,2)] revoke_refines show ?thesis by (auto simp: detach_def)
qed

lemma run_brain_op_fails:
  assumes "run_brain_op A C h brain_ref op = (h', Err e)"
  shows "h' = h \<or> e = Foreign ''fs'' \<and> \<not> disk_works A \<and> (\<exists>n. only_dir n h h' \<and>
    bd_signing_key (dir_at h' n) = bd_signing_key (dir_at h n) \<and>
    bd_state (dir_at h' n) \<in> {bd_state (dir_at h n), Garbled})"
proof (cases op)
  case (Fork name)
  with assms show ?thesis by (intro mutate_Err) (auto simp: edit_ops)
next
  case (MergeInto source target strategy)
  with assms show ?thesis by (intro mutate_Err) (auto simp: edit_ops dest!: answered_eq(1))
next
  case (Suppress subject predicate scope reason)
  with assms show ?thesis by (intro mutate_Err) (auto simp: edit_ops dest!: answered_eq(1))
next
  case (Grant grant)
  with assms show ?thesis by (intro mutate_Err) (auto simp: edit_ops)
next
  case (Revoke agent model)
  with assms show ?thesis by (intro mutate_Err) (auto simp: edit_ops dest!: answered_eq(1))
qed

text \<open>C10. The store refines its specification. In a home directory as the operations keep it (with
  any memory objects in its brains, and with directories \<open>S\<close> that failed writes or foreign imports
  have spoiled), branching, merging, forgetting, attaching and detaching change exactly one brain
  when they succeed, the one named: unless it is in \<open>S\<close>, it loads before and after under the same
  signing key, and what is remembered, granted and logged there changes as \<open>brain_spec\<close> says and in
  no other way. When they fail nothing has changed at all, or a write of one brain's files failed.\<close>

theorem store_refines_spec:
  assumes "crates_ok C" and "home_kept V C S h" and "ambient_ok V A"
    and "run_brain_op A C h brain_ref op = (h', res)"
  shows "case res of
      Err e \<Rightarrow> h' = h \<or> e = Foreign ''fs'' \<and> \<not> disk_works A \<and> (\<exists>n. only_dir n h h' \<and>
        bd_signing_key (dir_at h' n) = bd_signing_key (dir_at h n) \<and>
        bd_state (dir_at h' n) \<in> {bd_state (dir_at h n), Garbled})
    | Ok _ \<Rightarrow> \<exists>n m. bd_manifest (dir_at h n) = Holds m \<and> (bmf_brain_id m = brain_ref \<or> bmf_name m = brain_ref) \<and>
        only_dir n h h' \<and>
        (n \<notin> S \<longrightarrow> (\<exists>st sk m' st'. load_by_dir A C (dir_at h n) = Ok (m, st, sk) \<and>
          load_by_dir A C (dir_at h' n) = Ok (m', st', sk) \<and> bmf_active_branch m' = bmf_active_branch m \<and>
          brain_spec (bmf_active_branch m) op (view_of st) (view_of st')))"
proof (cases res)
  case (Inl e)
  with run_brain_op_fails assms(4) show ?thesis by simp
next
  case (Inr u)
  have var: "amb_var A = V" using assms(3) by (simp add: ambient_ok_def)
  from assms(4) Inr have "run_brain_op A C h brain_ref op = (h', Ok ())" by simp
  from run_brain_op_refines [OF assms(1-3) this] brain_in_load [OF _ var] show ?thesis
    unfolding refined_def Inr by (simp, blast)
qed

text \<open>A merge and a suppression in a brain that holds objects.\<close>

lemma store_refines_spec_witness:
  "\<exists>h h1 h2 n m st sk. home_sound toy_vars toy_crates h \<and>
     run_brain_op toy_call toy_crates h toy_id (MergeInto ''side'' ''main'' Theirs) = (h1, Ok ()) \<and>
     run_brain_op toy_call toy_crates h toy_id (Suppress ''user:vinz'' ''likes'' [] []) = (h2, Ok ()) \<and>
     load_by_dir toy_call toy_crates (dir_at h1 n) = Ok (m, st, sk) \<and>
     Option.bind (bv_objects (view_of st) ''main'') (\<lambda>objs. objs ''m1'') = Some (toy_object ''coffee'') \<and>
     (\<exists>m st sk. load_by_dir toy_call toy_crates (dir_at h2 n) = Ok (m, st, sk) \<and>
       Option.bind (bv_objects (view_of st) ''main'') (\<lambda>objs. objs ''m1'') =
         Some ((toy_object ''tea'')\<lparr>mo_suppressed := True\<rparr>))"
proof (rule toy_home_with [OF toy_memory_ok])
  fix h d m sk
  assume h: "home_sound toy_vars toy_crates h" "home_brains h = [(toy_id, d)]"
    "brain_in toy_vars toy_crates d m toy_memory sk" "bmf_brain_id m = toy_id" "bmf_active_branch m = ''main''"
  note kept = h(1) [unfolded home_sound_kept]
  have d: "dir_at h toy_id = d" using h(2) by (simp add: dir_at_def bm_get_def)
  have "foldl (merge_step Theirs) (br_memory_objects (toy_branch ''main'' ''tea''), \<lparr>mr_merged = 0, mr_conflicts = []\<rparr>)
      (br_memory_objects (toy_branch ''side'' ''coffee'')) =
      ([(''m1'', toy_object ''coffee'')], \<lparr>mr_merged = 1, mr_conflicts = []\<rparr>)"
    by (simp add: toy_branch_def toy_object_def merge_step_def bm_get_def)
  then obtain st' rep where "merge_edit toy_call ''side'' ''main'' Theirs m toy_memory = Ok (m, st', rep)"
    by (simp add: merge_edit_def)
  from toy_mutates [where f = "merge_edit toy_call ''side'' ''main'' Theirs", OF h(2-4) this] obtain h1 where
    "merge toy_call toy_crates h toy_id ''side'' ''main'' Theirs = (h1, Ok rep)" unfolding merge_def by blast
  then have r1: "run_brain_op toy_call toy_crates h toy_id (MergeInto ''side'' ''main'' Theirs) = (h1, Ok ())"
    by (simp add: answered_def)
  obtain st'' where "forget_edit toy_call ''user:vinz'' ''likes'' [] [] m toy_memory = Ok (m, st'', 1)"
    by (simp add: forget_edit_def h(5) toy_branch_def toy_object_def suppresses_def)
  from toy_mutates [where f = "forget_edit toy_call ''user:vinz'' ''likes'' [] []", OF h(2-4) this] obtain h2 where
    "forget_suppress toy_call toy_crates h toy_id ''user:vinz'' ''likes'' [] [] = (h2, Ok 1)"
    unfolding forget_suppress_def by blast
  then have r2: "run_brain_op toy_call toy_crates h toy_id (Suppress ''user:vinz'' ''likes'' [] []) = (h2, Ok ())"
    by (simp add: answered_def)
  have here: "k = toy_id" if "bd_manifest (dir_at h k) = Holds x" for k x
    using that h(2) by (auto simp: dir_at_def bm_get_def empty_dir_def split: if_splits)
  have var: "amb_var toy_call = toy_vars" by (simp add: toy_call_def)
  note load = brain_in_load [OF h(3) var, folded d]
  from store_refines_spec [OF toy_crates_ok kept toy_call_ok r1] here load obtain m1 st1 where s1:
    "load_by_dir toy_call toy_crates (dir_at h1 toy_id) = Ok (m1, st1, sk)"
    "brain_spec (bmf_active_branch m) (MergeInto ''side'' ''main'' Theirs) (view_of toy_memory) (view_of st1)"
    by fastforce
  from store_refines_spec [OF toy_crates_ok kept toy_call_ok r2] here load obtain m2 st2 where s2:
    "load_by_dir toy_call toy_crates (dir_at h2 toy_id) = Ok (m2, st2, sk)"
    "brain_spec (bmf_active_branch m) (Suppress ''user:vinz'' ''likes'' [] []) (view_of toy_memory) (view_of st2)"
    by fastforce
  have "Option.bind (bv_objects (view_of st1) ''main'') (\<lambda>objs. objs ''m1'') = Some (toy_object ''coffee'')"
    using s1(2) by (rule spec_mergeE)
      (auto simp: view_of_def merged_object_def differs_def toy_object_def)
  moreover have "Option.bind (bv_objects (view_of st2) ''main'') (\<lambda>objs. objs ''m1'') =
      Some ((toy_object ''tea'')\<lparr>mo_suppressed := True\<rparr>)"
    using s2(2) unfolding h(5) by (rule spec_suppressE) (auto simp: view_of_def hushed_def toy_object_def)
  ultimately show ?thesis using h(1) r1 r2 s1(1) s2(1) by blast
qed

section \<open>Interrupted operations\<close>








end
