(* ===== verification/Brain_Custody.thy ===== *)
theory Brain_Custody
  imports Brain_Properties
begin

text \<open>
  Properties of the brain store that concern who may use a brain: grants and API keys.
\<close>

section \<open>Grants\<close>

text \<open>Grants are exact. After \<open>attach\<close> the agent has the given grant for the model and no
  other, and the other grants are those of before in their order; detaching the agent from
  the model then answers one and leaves exactly those.\<close>

theorem grants_exact:
  assumes "crates_ok C" and "home_sound V C h" and "ambient_ok V A"
    and "attach A C h brain_ref grant = (h', Ok ())"
  shows "\<exists>k m st sk m' st'. brain_in V C (dir_at h k) m st sk \<and> brain_in V C (dir_at h' k) m' st' sk \<and>
    (bmf_brain_id m = brain_ref \<or> bmf_name m = brain_ref) \<and>
    filter (\<lambda>a. grant_key a = grant_key grant) (bst_attachments st') = [grant] \<and>
    filter (\<lambda>a. grant_key a \<noteq> grant_key grant) (bst_attachments st') =
      filter (\<lambda>a. grant_key a \<noteq> grant_key grant) (bst_attachments st) \<and>
    bst_branches st' = bst_branches st \<and>
    (\<exists>st''. detach_edit A (ag_agent_id grant) (Some (ag_model_id grant)) m' st' = Ok (m', st'', 1) \<and>
      bst_attachments st'' = filter (\<lambda>a. grant_key a \<noteq> grant_key grant) (bst_attachments st))"
proof -
  from attaching.edit_stored [OF assms(1,3,2) assms(4) [unfolded attach_def]] obtain k m st sk m' st' where
    k: "brain_in V C (dir_at h k) m st sk" "brain_in V C (dir_at h' k) m' st' sk"
      "bmf_brain_id m = brain_ref \<or> bmf_name m = brain_ref" "attach_edit A grant m st = Ok (m, st', ())" by metis
  have hit: "detach_hit (ag_agent_id grant) (Some (ag_model_id grant)) a \<longleftrightarrow> grant_key a = grant_key grant" for a
    by (auto simp: detach_hit_def grant_key_def)
  from k(4) have st': "bst_attachments st' = filter (\<lambda>a. grant_key a \<noteq> grant_key grant) (bst_attachments st) @ [grant]"
    "bst_branches st' = bst_branches st"
    by (auto simp: attach_edit_def Let_def grant_key_def intro: filter_cong)
  then have "\<exists>st''. detach_edit A (ag_agent_id grant) (Some (ag_model_id grant)) m' st' = Ok (m', st'', 1) \<and>
      bst_attachments st'' = filter (\<lambda>a. grant_key a \<noteq> grant_key grant) (bst_attachments st)"
    by (simp add: detach_edit_def Let_def hit)
  moreover have "filter (\<lambda>a. grant_key a = grant_key grant) (bst_attachments st') = [grant]"
    "filter (\<lambda>a. grant_key a \<noteq> grant_key grant) (bst_attachments st') =
      filter (\<lambda>a. grant_key a \<noteq> grant_key grant) (bst_attachments st)"
    by (simp_all add: st'(1))
  ultimately show ?thesis using k(1-3) st'(2) by blast
qed

lemma grants_exact_witness:
  "\<exists>h h' m' st' sk. attach toy_call toy_crates h toy_id toy_grant = (h', Ok ()) \<and>
    brain_in toy_vars toy_crates (dir_at h' toy_id) m' st' sk \<and> toy_grant \<in> set (bst_attachments st')"
proof (rule toy_home_with [OF toy_memory_ok])
  fix h d m sk
  assume h: "home_sound toy_vars toy_crates h" "home_brains h = [(toy_id, d)]"
    "brain_in toy_vars toy_crates d m toy_memory sk" "bmf_brain_id m = toy_id" "bmf_active_branch m = ''main''"
  obtain st' where "attach_edit toy_call toy_grant m toy_memory = Ok (m, st', ())" by (simp add: attach_edit_def)
  from toy_mutates [where f = "attach_edit toy_call toy_grant", OF h(2-4) this] obtain h' where
    r: "attach toy_call toy_crates h toy_id toy_grant = (h', Ok ())" unfolding attach_def by blast
  from grants_exact [OF toy_crates_ok h(1) toy_call_ok r] obtain k m0 st sk0 m' st' where
    b: "brain_in toy_vars toy_crates (dir_at h k) m0 st sk0" "brain_in toy_vars toy_crates (dir_at h' k) m' st' sk0"
      "filter (\<lambda>a. grant_key a = grant_key toy_grant) (bst_attachments st') = [toy_grant]" by blast
  from b(3) have "toy_grant \<in> set (bst_attachments st')" by (metis filter_is_subset list.set_intros(1) subsetD)
  with toy_only [OF h(2,3) b(1)] b(2) r show ?thesis by blast
qed

section \<open>API keys\<close>

lemma map_api_key_routes:
  assumes "map_api_key A C h key tenant brain_id subject = (h', Ok ())"
  shows "resolve_api_key C h' key = Ok (Some \<lparr>ak_key_hash = store_sha256_hex C key, ak_tenant_id = tenant,
      ak_brain_id = brain_id, ak_subject = subject\<rparr>) \<and>
    (\<forall>key2. store_sha256_hex C key2 \<noteq> store_sha256_hex C key \<longrightarrow>
       resolve_api_key C h' key2 = resolve_api_key C h key2) \<and>
    home_brains h' = home_brains h"
proof -
  let ?hash = "store_sha256_hex C key"
  let ?entry = "\<lparr>ak_key_hash = ?hash, ak_tenant_id = tenant, ak_brain_id = brain_id, ak_subject = subject\<rparr>"
  from assms obtain ms where ms: "read_api_mappings h = Ok ms"
    "h' = put_api_keys (Holds (filter (\<lambda>m. ak_key_hash m \<noteq> ?hash) ms @ [?entry])) h"
    by (auto simp: map_api_key_def Let_def split: sum.splits)
  then have read: "read_api_mappings h' = Ok (filter (\<lambda>m. ak_key_hash m \<noteq> ?hash) ms @ [?entry])"
    by (simp add: read_api_mappings_def empty_file_def)
  have mine: "find (\<lambda>m. ak_key_hash m = ?hash) (filter (\<lambda>m. ak_key_hash m \<noteq> ?hash) ms @ [?entry]) = Some ?entry"
    by (induction ms) auto
  have other: "find (\<lambda>m. ak_key_hash m = k) (filter (\<lambda>m. ak_key_hash m \<noteq> ?hash) ms @ [?entry]) =
      find (\<lambda>m. ak_key_hash m = k) ms" if "k \<noteq> ?hash" for k
    using that by (induction ms) auto
  have "home_brains h' = home_brains h" by (simp add: ms(2))
  with mine other show ?thesis unfolding resolve_api_key_def Let_def read ms(1) by simp
qed

text \<open>An API key leads where it was last mapped. After \<open>map_api_key\<close> the key resolves to the
  tenant, brain and subject given; keys with another hash resolve as before; what is stored is
  the hash, and no brain is touched.\<close>

theorem api_key_routes:
  assumes "map_api_key A C h key tenant brain_id subject = (h', Ok ())"
  shows "resolve_api_key C h' key = Ok (Some \<lparr>ak_key_hash = store_sha256_hex C key, ak_tenant_id = tenant,
      ak_brain_id = brain_id, ak_subject = subject\<rparr>) \<and>
    (\<forall>key2. store_sha256_hex C key2 \<noteq> store_sha256_hex C key \<longrightarrow>
       resolve_api_key C h' key2 = resolve_api_key C h key2) \<and>
    home_brains h' = home_brains h"
  by (rule map_api_key_routes [OF assms])

lemma api_key_routes_witness:
  "\<exists>h'. map_api_key toy_call toy_crates empty_home ''key'' ''t'' ''b'' ''s'' = (h', Ok ()) \<and>
    map_option ak_tenant_id (projr (resolve_api_key toy_crates h' ''key'')) = Some ''t''"
proof -
  obtain h' where r: "map_api_key toy_call toy_crates empty_home ''key'' ''t'' ''b'' ''s'' = (h', Ok ())"
    by (simp add: map_api_key_def read_api_mappings_def empty_home_def empty_file_def Let_def write_json_def toy_call_def)
  from api_key_routes [OF r] r show ?thesis by auto
qed

end
