(* ===== verification/Brain_Travel.thy ===== *)
theory Brain_Travel
  imports Brain_Properties
begin

text \<open>
  Brains that travel as packages: a package that was exported from a store is imported elsewhere
  as the brain it was, but not under another name or identifier.
\<close>

section \<open>Packages\<close>

text \<open>An exported package passes the checks of an import.\<close>

lemma exported_checks:
  assumes "brain_in V C (package_dir p) (bp_manifest p) st sk"
  shows "verify_manifest_signature C (bp_manifest p) = Ok ()"
    and "blob_digest C (bp_state p) = bmf_state_sha256 (bp_manifest p)"
  using brain_in_load [OF assms, of "ambient.make V undefined undefined undefined undefined undefined"]
  by (auto simp: load_iff package_dir_def ambient.defs)

section \<open>Under its own name\<close>

text \<open>C39. A brain travels unchanged. A package exported from one store, of a brain there that nothing
  has spoiled, and imported into another that does not have the brain, without a new name, is the
  brain it was: there, as here, it loads, to the same manifest, state and signing key, and nothing
  else of the store has changed. Only a write that fails can make the import fail. Checking it with
  \<open>verify_only\<close> succeeds and changes nothing.\<close>

theorem export_import_roundtrip:
  assumes "crates_ok C" and "store_reaches V C h0 S" and "export_brain A C h0 brain_ref = Ok p"
    and "bmf_brain_id (bp_manifest p) \<notin> S"
    and "bm_get (home_brains h) (bmf_brain_id (bp_manifest p)) = None" and "amb_var B = V"
  shows "import_brain A' C h (Holds p) None True = (h, Ok None) \<and>
    (\<exists>h' res m st sk. import_brain A' C h (Holds p) None False = (h', res) \<and>
      bmf_brain_id m = bmf_brain_id (bp_manifest p) \<and>
      load_by_dir B C (dir_at h0 (bmf_brain_id m)) = Ok (m, st, sk) \<and>
      (\<forall>k. k \<noteq> bmf_brain_id m \<longrightarrow> dir_at h' k = dir_at h k) \<and>
      home_config h' = home_config h \<and> home_api_keys h' = home_api_keys h \<and>
      (case res of
         Err e \<Rightarrow> e = Foreign ''fs'' \<and> \<not> disk_works A'
       | Ok s \<Rightarrow> s = Some (summary_of m) \<and> load_by_dir B C (dir_at h' (bmf_brain_id m)) = Ok (m, st, sk)))"
proof -
  let ?m = "bp_manifest p"
  from export_brain_in [OF store_kept [OF assms(1,2)] assms(3,4)] obtain st sk where
    b: "brain_in V C (package_dir p) ?m st sk" "brain_in V C (dir_at h0 (bmf_brain_id ?m)) ?m st sk" by blast
  note ok = exported_checks [OF b(1)]
  have id: "imported_id A' h p = bmf_brain_id ?m" "imported_manifest A' h None p = ?m"
    using assms(5) by (simp_all add: imported_id_def imported_manifest_def)
  have verify: "import_brain A' C h (Holds p) None True = (h, Ok None)" using ok by (simp add: import_brain_def)
  obtain h' res where run: "import_brain A' C h (Holds p) None False = (h', res)" by (metis surj_pair)
  have "only_dir (bmf_brain_id ?m) h h' \<and> (case res of
         Err e \<Rightarrow> e = Foreign ''fs'' \<and> \<not> disk_works A'
       | Ok s \<Rightarrow> s = Some (summary_of ?m) \<and> load_by_dir B C (dir_at h' (bmf_brain_id ?m)) = Ok (?m, st, sk))"
  proof (rule import_cases [OF run])
    assume "\<And>p'. Holds p = Holds p' \<Longrightarrow> verify_manifest_signature C (bp_manifest p') = Ok () \<Longrightarrow>
      blob_digest C (bp_state p') = bmf_state_sha256 (bp_manifest p') \<Longrightarrow> False"
    then show ?thesis using ok by blast
  next
    fix p'
    assume w: "Holds p = Holds p'" "only_dir (imported_id A' h p') h h'"
      "case res of
         Err e \<Rightarrow> \<not> disk_works A' \<and> e = Foreign ''fs'' \<and> bd_manifest (dir_at h' (imported_id A' h p')) \<in>
           {bd_manifest (dir_at h (imported_id A' h p')), Garbled, Holds (imported_manifest A' h None p')}
       | Ok s \<Rightarrow> s = Some (summary_of (imported_manifest A' h None p')) \<and> dir_at h' (imported_id A' h p') =
           (package_dir p')\<lparr>bd_manifest := Holds (imported_manifest A' h None p')\<rparr>"
    then have "p' = p" by simp
    moreover have "(package_dir p)\<lparr>bd_manifest := Holds ?m\<rparr> = package_dir p" by (simp add: package_dir_def)
    ultimately show ?thesis using w(2,3) id brain_in_load [OF b(1) assms(6)] by (cases res) auto
  qed
  with run verify brain_in_load [OF b(2) assms(6)] show ?thesis
    unfolding only_dir_def by (intro conjI exI [of _ h'] exI [of _ res] exI [of _ ?m] exI [of _ st] exI [of _ sk]) auto
qed

text \<open>The package of the concrete brain.\<close>

lemma toy_package:
  obtains p where "export_brain toy_call toy_crates toy_home toy_id = Ok p"
    "bmf_brain_id (bp_manifest p) = toy_id" "bmf_name (bp_manifest p) = ''My Brain''"
    "verify_manifest_signature toy_crates (bp_manifest p) = Ok ()"
    "blob_digest toy_crates (bp_state p) = bmf_state_sha256 (bp_manifest p)"
proof (rule toy_home_eq)
  fix m blob key_blob
  assume t: "toy_home = \<lparr>home_brains = [(toy_id, \<lparr>bd_manifest = Holds m, bd_state = Holds blob,
        bd_signing_key = Holds key_blob\<rparr>)], home_config = Absent, home_api_keys = Absent\<rparr>"
    "bmf_brain_id m = toy_id" "bmf_name m = ''My Brain''"
  let ?d = "\<lparr>bd_manifest = Holds m, bd_state = Holds blob, bd_signing_key = Holds key_blob\<rparr>"
  have d: "dir_at toy_home toy_id = ?d" by (simp add: t(1) dir_at_def bm_get_def)
  have "bd_manifest ?d = Holds m" "amb_var toy_call = toy_vars" by (simp_all add: toy_call_def)
  with home_sound_holds [OF toy_sound, of toy_id m] obtain st sk where
    "load_by_dir toy_call toy_crates ?d = Ok (m, st, sk)" unfolding d by (metis brain_in_load)
  then have v: "verify_manifest_signature toy_crates m = Ok ()" "blob_digest toy_crates blob = bmf_state_sha256 m"
    by (auto simp: load_iff)
  have "resolve_brain toy_call toy_home toy_id = Ok (summary_of m)"
    by (rule toy_resolves [of _ ?d]) (simp_all add: t)
  then have "export_brain toy_call toy_crates toy_home toy_id = Ok \<lparr>bp_package_version = ''brain/v1'',
      bp_manifest = m, bp_state = blob, bp_signing_key = key_blob\<rparr>"
    by (simp add: export_brain_def summary_of_def t(2) d v(1) Let_def)
  with t v that show thesis by simp
qed

lemma export_import_roundtrip_witness:
  "\<exists>p h' s. export_brain toy_call toy_crates toy_home toy_id = Ok p \<and>
     import_brain toy_call toy_crates empty_home (Holds p) None False = (h', Ok (Some s)) \<and>
     is_ok (load_by_dir toy_call toy_crates (dir_at h' toy_id))"
proof (rule toy_package)
  fix p
  assume p: "export_brain toy_call toy_crates toy_home toy_id = Ok p" "bmf_brain_id (bp_manifest p) = toy_id"
  have "bmf_brain_id (bp_manifest p) \<notin> {}" "bm_get (home_brains empty_home) (bmf_brain_id (bp_manifest p)) = None"
    "amb_var toy_call = toy_vars"
    by (simp_all add: empty_home_def toy_call_def)
  then show ?thesis
    using export_import_roundtrip [OF toy_crates_ok toy_reaches p(1), of empty_home toy_call toy_call] p
    by (fastforce simp: is_ok_iff split: sum.splits)
qed

section \<open>Under another name\<close>

text \<open>C40. An import that renames loses the signature. When a package that passes its checks is imported
  under another name, or under another identifier because the store has its own already, what is
  written bears the old signature over a different text. So it does not load, with the error of the
  signature, unless that signature happens to be one of the new text as well, which nobody has
  made. (Assumed of serde: the text of a manifest shows its name and identifier.)\<close>

theorem renamed_import_needs_forgery:
  assumes "import_brain A C h (Holds p) over False = (h', Ok (Some s))"
    and "(\<exists>name. over = Some name \<and> name \<noteq> bmf_name (bp_manifest p)) \<or>
      bm_get (home_brains h) (bmf_brain_id (bp_manifest p)) \<noteq> None"
    and "\<forall>m m'. cr_manifest_json C m = cr_manifest_json C m' \<longrightarrow>
      bmf_name m = bmf_name m' \<and> bmf_brain_id m = bmf_brain_id m'"
  shows "\<exists>m' key sig. bd_manifest (dir_at h' (bsm_brain_id s)) = Holds m' \<and>
    cr_b64_decode C (bmf_signing_public_key_b64 (bp_manifest p)) = Some key \<and>
    cr_b64_decode C (bmf_signature_b64 (bp_manifest p)) = Some sig \<and>
    cr_verify C key (manifest_signing_payload C (bp_manifest p)) sig \<and>
    manifest_signing_payload C m' \<noteq> manifest_signing_payload C (bp_manifest p) \<and>
    (cr_verify C key (manifest_signing_payload C m') sig \<or>
     load_by_dir B C (dir_at h' (bsm_brain_id s)) = Err (Anyhow ''manifest signature verification failed''))"
proof (rule import_cases [OF assms(1)])
  assume "\<And>x. Ok (Some s) \<noteq> (Ok (Some x) :: brain_summary option stored)"
  then show ?thesis by blast
next
  fix p'
  let ?m = "imported_manifest A h over p"
  assume w: "Holds p = Holds p'" "verify_manifest_signature C (bp_manifest p') = Ok ()"
    "case (Ok (Some s) :: brain_summary option stored) of
       Err e \<Rightarrow> \<not> disk_works A \<and> e = Foreign ''fs'' \<and> bd_manifest (dir_at h' (imported_id A h p')) \<in>
         {bd_manifest (dir_at h (imported_id A h p')), Garbled, Holds (imported_manifest A h over p')}
     | Ok s \<Rightarrow> s = Some (summary_of (imported_manifest A h over p')) \<and> dir_at h' (imported_id A h p') =
         (package_dir p')\<lparr>bd_manifest := Holds (imported_manifest A h over p')\<rparr>"
  have "bsm_brain_id (summary_of ?m) = imported_id A h p" by (simp add: summary_of_def imported_manifest_def)
  with w have d: "bd_manifest (dir_at h' (bsm_brain_id s)) = Holds ?m" by simp
  have "verify_manifest_signature C (bp_manifest p) = Ok ()" using w(1,2) by simp
  then obtain key sig where v: "cr_b64_decode C (bmf_signing_public_key_b64 (bp_manifest p)) = Some key"
    "cr_b64_decode C (bmf_signature_b64 (bp_manifest p)) = Some sig" "length key = 32" "cr_key_point C key"
    "length sig = 64" "cr_verify C key (manifest_signing_payload C (bp_manifest p)) sig"
    by (auto simp: verify_manifest_signature_def b64_decode_def split: if_splits)
  have keep: "bmf_signature_b64 ?m = bmf_signature_b64 (bp_manifest p)"
    "bmf_signing_public_key_b64 ?m = bmf_signing_public_key_b64 (bp_manifest p)"
    by (simp_all add: imported_manifest_def split: option.split)
  have "bmf_name ?m \<noteq> bmf_name (bp_manifest p) \<or> bmf_brain_id ?m \<noteq> bmf_brain_id (bp_manifest p)"
    using assms(2) by (auto simp: imported_manifest_def imported_id_def split: option.splits)
  then have other: "manifest_signing_payload C ?m \<noteq> manifest_signing_payload C (bp_manifest p)"
    using assms(3) [THEN spec, THEN spec, of "?m\<lparr>bmf_signature_b64 := []\<rparr>" "(bp_manifest p)\<lparr>bmf_signature_b64 := []\<rparr>"]
    by (auto simp: manifest_signing_payload_def)
  have "load_by_dir B C (dir_at h' (bsm_brain_id s)) = Err (Anyhow ''manifest signature verification failed'')"
    if "\<not> cr_verify C key (manifest_signing_payload C ?m) sig"
    using that v by (simp add: load_by_dir_def d verify_manifest_signature_def b64_decode_def keep)
  with d v other show ?thesis by blast
qed

lemma renamed_import_needs_forgery_witness:
  "\<exists>p h' s. export_brain toy_call toy_crates toy_home toy_id = Ok p \<and>
     import_brain toy_call toy_crates empty_home (Holds p) (Some ''Copy'') False = (h', Ok (Some s)) \<and>
     load_by_dir toy_call toy_crates (dir_at h' (bsm_brain_id s)) =
       Err (Anyhow ''manifest signature verification failed'')"
proof (rule toy_package)
  fix p
  assume p: "export_brain toy_call toy_crates toy_home toy_id = Ok p"
    "bmf_brain_id (bp_manifest p) = toy_id" "bmf_name (bp_manifest p) = ''My Brain''"
    and ok: "verify_manifest_signature toy_crates (bp_manifest p) = Ok ()"
    "blob_digest toy_crates (bp_state p) = bmf_state_sha256 (bp_manifest p)"
  let ?text = "manifest_signing_payload toy_crates (bp_manifest p)"
  have short: "length ?text < 64" using p by (simp add: manifest_signing_payload_def toy_crates_def toy_text_def)
  obtain h' s where r: "import_brain toy_call toy_crates empty_home (Holds p) (Some ''Copy'') False = (h', Ok (Some s))"
    using imported [OF ok, of toy_call empty_home "Some ''Copy''"]
    by (simp add: make_dir_def write_brain_def write_json_def home_bind_def toy_call_def)
  have shows_name: "\<forall>m m'. cr_manifest_json toy_crates m = cr_manifest_json toy_crates m' \<longrightarrow>
      bmf_name m = bmf_name m' \<and> bmf_brain_id m = bmf_brain_id m'"
    unfolding toy_crates_def crates.select_convs using toy_text_inj by blast
  have renamed: "(\<exists>name. Some ''Copy'' = Some name \<and> name \<noteq> bmf_name (bp_manifest p)) \<or>
      bm_get (home_brains empty_home) (bmf_brain_id (bp_manifest p)) \<noteq> None" by (simp add: p)
  from renamed_import_needs_forgery [OF r renamed shows_name, of toy_call] obtain m' key sig where
    u: "cr_verify toy_crates key ?text sig" "manifest_signing_payload toy_crates m' \<noteq> ?text"
      "cr_verify toy_crates key (manifest_signing_payload toy_crates m') sig \<or>
       load_by_dir toy_call toy_crates (dir_at h' (bsm_brain_id s)) =
         Err (Anyhow ''manifest signature verification failed'')" by blast
  have verifies: "cr_verify toy_crates k x y \<longleftrightarrow> y = toy_sign k x" for k x y by (simp add: toy_crates_def)
  have "\<not> cr_verify toy_crates key (manifest_signing_payload toy_crates m') sig"
    using u(1,2) toy_sign_inj [OF short, of key "manifest_signing_payload toy_crates m'"]
    unfolding verifies by metis
  with u(3) p(1) r show ?thesis by blast
qed

end
