(* ===== verification/Slug.thy ===== *)
theory Slug
  imports Brain_Data
begin

text \<open>
  The identifiers that the brain store makes from names: what \<open>slugify\<close> returns.
\<close>

definition slug_char :: "char \<Rightarrow> bool" where
  "slug_char c \<longleftrightarrow> 48 \<le> byte c \<and> byte c \<le> 57 \<or> 97 \<le> byte c \<and> byte c \<le> 122"

text \<open>Adjacent dashes do not occur.\<close>

definition single_dashes :: "string \<Rightarrow> bool" where
  "single_dashes s \<longleftrightarrow> \<not> sublist ''--'' s"

definition slug_ok :: "string \<Rightarrow> bool" where
  "slug_ok s \<longleftrightarrow> list_all (\<lambda>c. c = CHR ''-'' \<or> slug_char c) s \<and> single_dashes s"

lemma single_dashes_snoc:
  "single_dashes (s @ [c]) \<longleftrightarrow> single_dashes s \<and> \<not> (s \<noteq> [] \<and> last s = CHR ''-'' \<and> c = CHR ''-'')"
proof -
  have "suffix ''--'' (s @ [c]) \<longleftrightarrow> s \<noteq> [] \<and> last s = CHR ''-'' \<and> c = CHR ''-''"
    by (cases s rule: rev_cases) (auto simp: suffix_def)
  then show ?thesis by (auto simp: single_dashes_def sublist_snoc)
qed

lemma single_dashes_sub: "single_dashes s \<Longrightarrow> sublist t s \<Longrightarrow> single_dashes t"
  unfolding single_dashes_def using infix_trans by blast

text \<open>What the loop appends: a dash unless there is one, or a letter or digit.\<close>

definition slug_map :: "char \<Rightarrow> char" where
  "slug_map c = (if is_ascii_alphanumeric c then ascii_lower_char c else CHR ''-'')"

lemma slug_step_eq:
  "slug_step (out, prev) c =
    (if slug_map c = CHR ''-'' then (if prev then out else out @ ''-'', True) else (out @ [slug_map c], False))"
  unfolding slug_step_def Let_def case_prod_conv slug_map_def by simp

lemma slug_map_char: "slug_map c = CHR ''-'' \<or> slug_char (slug_map c)"
  by (auto simp: slug_map_def is_ascii_alphanumeric_def ascii_lower_char_def slug_char_def)

lemma dash_bytes: "\<not> is_ascii_alphanumeric CHR ''-''"
  by code_simp

lemma slug_map_id: "c = CHR ''-'' \<or> slug_char c \<Longrightarrow> slug_map c = c"
  using dash_bytes
  by (auto simp: slug_map_def is_ascii_alphanumeric_def ascii_lower_char_def slug_char_def)

definition ends_dash :: "string \<Rightarrow> bool" where
  "ends_dash s \<longleftrightarrow> s \<noteq> [] \<and> last s = CHR ''-''"

lemma slug_ok_snoc: "slug_ok (out @ [c]) \<longleftrightarrow>
    slug_ok out \<and> (c = CHR ''-'' \<or> slug_char c) \<and> \<not> (ends_dash out \<and> c = CHR ''-'')"
  by (auto simp: slug_ok_def single_dashes_snoc ends_dash_def)

lemma slug_step_ok:
  assumes "slug_ok out"
  shows "slug_ok (fst (slug_step (out, ends_dash out) c)) \<and>
    snd (slug_step (out, ends_dash out) c) = ends_dash (fst (slug_step (out, ends_dash out) c))"
proof -
  have "ends_dash (out @ [x]) \<longleftrightarrow> x = CHR ''-''" for x by (simp add: ends_dash_def)
  with assms slug_map_char [of c] show ?thesis by (auto simp: slug_step_eq slug_ok_snoc)
qed

lemma slug_loop_ok: "slug_ok out \<Longrightarrow> slug_ok (fst (foldl slug_step (out, ends_dash out) s))"
proof (induction s arbitrary: out)
  case Nil
  then show ?case by simp
next
  case (Cons c s)
  obtain out' where "slug_step (out, ends_dash out) c = (out', ends_dash out')" "slug_ok out'"
    using slug_step_ok [OF Cons.prems, of c] by (cases "slug_step (out, ends_dash out) c") auto
  with Cons.IH show ?case by simp
qed

lemma trim_dashes_sub: "sublist (trim_dashes s) s"
proof -
  let ?P = "\<lambda>c. c = CHR ''-''" and ?t = "dropWhile (\<lambda>c. c = CHR ''-'') s"
  have "suffix (dropWhile ?P (rev ?t)) (rev ?t)" by (rule suffix_dropWhile)
  then have "prefix (trim_dashes s) ?t" by (simp add: trim_dashes_def suffix_to_prefix)
  then show ?thesis
    by (rule infix_trans [OF prefix_imp_sublist suffix_imp_sublist [OF suffix_dropWhile]])
qed

lemma slug_ok_trim: "slug_ok s \<Longrightarrow> slug_ok (trim_dashes s)"
  using single_dashes_sub [OF _ trim_dashes_sub [of s]] set_mono_sublist [OF trim_dashes_sub [of s]]
  by (auto simp: slug_ok_def list_all_iff)

lemma trim_dashes_ends:
  assumes "trim_dashes s \<noteq> []"
  shows "hd (trim_dashes s) \<noteq> CHR ''-'' \<and> last (trim_dashes s) \<noteq> CHR ''-''"
proof -
  let ?P = "\<lambda>c. c = CHR ''-''" and ?t = "dropWhile (\<lambda>c. c = CHR ''-'') s"
  let ?u = "dropWhile ?P (rev ?t)"
  have u: "?u \<noteq> []" using assms by (simp add: trim_dashes_def)
  have t: "?t \<noteq> []"
  proof
    assume "?t = []"
    with u show False by (simp only: rev.simps dropWhile.simps)
  qed
  have "hd ?u \<noteq> CHR ''-''" by (rule hd_dropWhile [OF u])
  moreover have "rev ?t = takeWhile ?P (rev ?t) @ ?u" by (rule takeWhile_dropWhile_id [symmetric])
  then have "last (rev ?t) = last ?u" using u by (metis last_appendR)
  then have "last ?u = hd ?t" using t by (simp add: last_rev)
  moreover have "hd ?t \<noteq> CHR ''-''" by (rule hd_dropWhile [OF t])
  ultimately show ?thesis using u by (simp add: trim_dashes_def hd_rev last_rev)
qed

lemma trim_dashes_id:
  assumes "s = [] \<or> hd s \<noteq> CHR ''-'' \<and> last s \<noteq> CHR ''-''"
  shows "trim_dashes s = s"
proof -
  have "dropWhile (\<lambda>c. c = CHR ''-'') s = s" using assms by (cases s) auto
  moreover have "dropWhile (\<lambda>c. c = CHR ''-'') (rev s) = rev s"
    using assms by (cases s rule: rev_cases) auto
  ultimately show ?thesis by (simp add: trim_dashes_def)
qed

text \<open>The loop copies a text that is a slug but for its ends.\<close>

lemma slug_loop_id: "slug_ok (out @ s) \<Longrightarrow> fst (foldl slug_step (out, ends_dash out) s) = out @ s"
proof (induction s arbitrary: out)
  case Nil
  then show ?case by simp
next
  case (Cons c s)
  have "sublist (out @ [c]) (out @ c # s)" by (metis append.assoc append_Cons append_Nil sublist_append_rightI)
  with Cons.prems have "slug_ok (out @ [c])"
    unfolding slug_ok_def using single_dashes_sub by auto
  then have "slug_step (out, ends_dash out) c = (out @ [c], ends_dash (out @ [c]))"
    by (auto simp: slug_step_eq slug_ok_snoc slug_map_id) (simp_all add: ends_dash_def)
  with Cons.IH [of "out @ [c]"] Cons.prems show ?case by simp
qed

text \<open>A slug is safe to use in a path and stable: it is made of lower-case letters, digits and
  single dashes, does not begin or end with a dash, and is its own slug.\<close>

theorem slug_shape:
  "(\<forall>c \<in> set (slugify s). c = CHR ''-'' \<or> slug_char c) \<and> \<not> sublist ''--'' (slugify s) \<and>
   (slugify s = [] \<or> hd (slugify s) \<noteq> CHR ''-'' \<and> last (slugify s) \<noteq> CHR ''-'') \<and>
   slugify (slugify s) = slugify s"
proof -
  have ok: "slug_ok (slugify s)"
    unfolding slugify_def
    using slug_ok_trim [OF slug_loop_ok [of "[]" s]]
    by (simp add: slug_ok_def single_dashes_def ends_dash_def)
  moreover have ends: "slugify s = [] \<or> hd (slugify s) \<noteq> CHR ''-'' \<and> last (slugify s) \<noteq> CHR ''-''"
    unfolding slugify_def using trim_dashes_ends by blast
  moreover have "slugify (slugify s) = slugify s"
    unfolding slugify_def [of "slugify s"]
    using slug_loop_id [of "[]" "slugify s"] ok trim_dashes_id [OF ends] by (simp add: ends_dash_def)
  ultimately show ?thesis by (simp add: slug_ok_def list_all_iff single_dashes_def)
qed

lemma slug_shape_witness: "CHR ''-'' \<in> set (slugify ''My Brain'') \<and> \<not> sublist ''--'' (slugify ''My Brain'')"
proof -
  have "slugify ''My Brain'' = ''my-brain''" by code_simp
  with slug_shape [of "''My Brain''"] show ?thesis by simp
qed

end
