(* ===== verification/Proxy.thy ===== *)
theory Proxy
  imports Planner_Guard Grpc_Service Brain_Store
begin

text \<open>
  The chat proxy in front of the RMVM (\<open>crates/cortex-app/src/proxy.rs\<close>, \<open>types.rs\<close>) and the
  adapter (\<open>crates/adapter-rmvm\<close>): who is asking, what is remembered, which plan is run, and
  how the kernel's answer becomes an HTTP response.

  \<open>web\<close> collects the code that is not in the repository: the checks of the \<open>http\<close> crate on
  header values, base64, \<open>serde_json\<close>'s parser, the texts of the errors of libraries, and the
  HTTP call to the planner. The RMVM behind the adapter is a record of three calls on its state,
  each of which may fail in transport; \<open>grpc_rmvm\<close> is the service of \<open>Grpc_Service\<close>.
  Other clients may act on the RMVM before each call: \<open>others n\<close> is what they do before the
  \<open>n\<close>-th one.
\<close>

section \<open>Messages\<close>

record chat_message =
  ms_role :: string
  ms_content :: json

record chat_completion_request =
  cq_model :: "string option"
  cq_messages :: "chat_message list"
  cq_user :: "string option"
  cq_stream :: "bool option"

record cortex_envelope =
  ce_status :: string
  ce_semantic_root :: "string option"
  ce_trace_root :: "string option"
  ce_error_code :: "string option"
  ce_plan_prompt :: "string option"
  ce_plan_source :: "string option"

text \<open>The one choice of a completion, which stops and has index 0, is its content.\<close>

record chat_completion_response =
  cr_id :: string
  cr_created :: int
  cr_model :: string
  cr_content :: string
  cr_cortex :: cortex_envelope

type_synonym headers = "(string \<times> string) list"

record api_error =
  pe_status :: nat
  pe_code :: string
  pe_message :: string
  pe_headers :: headers

datatype planner_mode = Fallback | OpenAi | ByoHeader

record planner_config =
  pc_mode :: planner_mode
  pc_base_url :: string
  pc_model :: string
  pc_api_key :: "string option"

record app_state =
  ap_default_brain :: "string option"
  ap_planner :: planner_config

record web =
  w_header_text :: "string \<Rightarrow> string option"
  w_header_ok :: "string \<Rightarrow> bool"
  w_b64_decode :: "string \<Rightarrow> string option"
  w_from_str :: "string \<Rightarrow> json result"
  w_store_error :: "store_error \<Rightarrow> string"
  w_planner :: "string \<Rightarrow> string \<Rightarrow> json \<Rightarrow> (nat \<times> string) result"
  w_uuid :: "site \<Rightarrow> string"
  w_created :: int

record 's rmvm =
  rpc_append :: "append_event_request \<Rightarrow> 's \<Rightarrow> 's \<times> append_event_response result"
  rpc_manifest :: "string \<Rightarrow> 's \<Rightarrow> 's \<times> public_manifest option result"
  rpc_execute :: "execute_request \<Rightarrow> 's \<Rightarrow> 's \<times> execute_response result"

text \<open>The service in this repository; a panic of the kernel reaches the client as a failed call.\<close>

definition grpc_rmvm :: "kernel_env \<Rightarrow> execute_options \<Rightarrow> service_state rmvm" where
  "grpc_rmvm E opts =
     \<lparr>rpc_append = \<lambda>req st. (let (st', resp) = append_event st req in (st', Ok resp)),
      rpc_manifest = \<lambda>rid st. (st, Ok (Some (get_manifest st rid))),
      rpc_execute = \<lambda>req st. (st, ok_or ''execute RPC failed'' (service_execute E opts req))\<rparr>"

section \<open>Small functions\<close>

definition planner_mode_parse :: "string \<Rightarrow> planner_mode result" where
  "planner_mode_parse s =
     (let m = to_ascii_lowercase (trim s) in
      if m = ''fallback'' then Ok Fallback
      else if m = ''openai'' then Ok OpenAi
      else if m = ''byo'' \<or> m = ''byo_header'' \<or> m = ''byoheader'' then Ok ByoHeader
      else Err (''unsupported planner mode '' @ [char_of (39 :: nat)] @ m @ [char_of (39 :: nat)] @
        '', expected fallback|openai|byo''))"

fun planner_mode_as_str :: "planner_mode \<Rightarrow> string" where
  "planner_mode_as_str Fallback = ''fallback''"
| "planner_mode_as_str OpenAi = ''openai''"
| "planner_mode_as_str ByoHeader = ''byo_header''"

definition normalize_endpoint :: "string \<Rightarrow> string" where
  "normalize_endpoint input =
     (case strip_prefix ''grpc://'' input of
        Some rest \<Rightarrow> ''http://'' @ rest
      | None \<Rightarrow> if prefix ''http://'' input \<or> prefix ''https://'' input then input else ''http://'' @ input)"

definition bad_request :: "string \<Rightarrow> string \<Rightarrow> api_error" where
  "bad_request code msg = \<lparr>pe_status = 400, pe_code = code, pe_message = msg, pe_headers = []\<rparr>"

definition unauthorized :: "string \<Rightarrow> string \<Rightarrow> api_error" where
  "unauthorized code msg = \<lparr>pe_status = 401, pe_code = code, pe_message = msg, pe_headers = []\<rparr>"

definition unavailable :: "string \<Rightarrow> string \<Rightarrow> api_error" where
  "unavailable code msg = \<lparr>pe_status = 503, pe_code = code, pe_message = msg, pe_headers = []\<rparr>"

definition bad_gateway :: "string \<Rightarrow> string \<Rightarrow> api_error" where
  "bad_gateway code msg = \<lparr>pe_status = 502, pe_code = code, pe_message = msg, pe_headers = []\<rparr>"

text \<open>\<open>map_err\<close> on a result.\<close>

fun map_err :: "('e \<Rightarrow> 'f) \<Rightarrow> 'e + 'a \<Rightarrow> 'f + 'a" where
  "map_err f (Err e) = Err (f e)"
| "map_err f (Ok a) = Ok a"

text \<open>\<open>String::from_utf8\<close>: the well-formed byte sequences of the Unicode standard.\<close>

definition utf8_tail :: "char \<Rightarrow> bool" where
  "utf8_tail c \<longleftrightarrow> 128 \<le> byte c \<and> byte c \<le> 191"

fun utf8_ok :: "string \<Rightarrow> bool" where
  "utf8_ok [] = True"
| "utf8_ok (a # s) =
     (if byte a < 128 then utf8_ok s
      else case s of
        [] \<Rightarrow> False
      | b # s1 \<Rightarrow>
          if 194 \<le> byte a \<and> byte a \<le> 223 then utf8_tail b \<and> utf8_ok s1
          else case s1 of
            [] \<Rightarrow> False
          | c # s2 \<Rightarrow>
              if 224 \<le> byte a \<and> byte a \<le> 239
              then utf8_tail b \<and> utf8_tail c \<and> (byte a = 224 \<longrightarrow> 160 \<le> byte b) \<and>
                (byte a = 237 \<longrightarrow> byte b \<le> 159) \<and> utf8_ok s2
              else case s2 of
                [] \<Rightarrow> False
              | d # s3 \<Rightarrow>
                  240 \<le> byte a \<and> byte a \<le> 244 \<and> utf8_tail b \<and> utf8_tail c \<and> utf8_tail d \<and>
                  (byte a = 240 \<longrightarrow> 144 \<le> byte b) \<and> (byte a = 244 \<longrightarrow> byte b \<le> 143) \<and> utf8_ok s3)"

section \<open>Who is asking, and what\<close>

text \<open>The loop over the parts of a message.\<close>

definition text_parts :: "json list \<Rightarrow> string" where
  "text_parts arr = foldl (\<lambda>out part.
     case Option.bind (json_get part ''text'') as_str of
       None \<Rightarrow> out
     | Some txt \<Rightarrow> (if out \<noteq> [] then out @ ''\<newline>'' else out) @ txt) [] arr"

fun message_content_as_text :: "json \<Rightarrow> string option" where
  "message_content_as_text (JStr s) = Some s"
| "message_content_as_text (JArr arr) = (if text_parts arr = [] then None else Some (text_parts arr))"
| "message_content_as_text _ = None"

definition extract_user_message :: "chat_completion_request \<Rightarrow> string option" where
  "extract_user_message request =
     Option.bind (find (\<lambda>m. to_ascii_lowercase (ms_role m) = ''user'') (rev (cq_messages request)))
       (\<lambda>m. message_content_as_text (ms_content m))"

definition parse_bearer :: "web \<Rightarrow> headers \<Rightarrow> api_error + string option" where
  "parse_bearer W hdrs =
     (case map_of hdrs ''authorization'' of
        None \<Rightarrow> Ok None
      | Some x \<Rightarrow>
          (case w_header_text W x of
             None \<Rightarrow> Err (unauthorized ''invalid_auth_header'' ''invalid Authorization header'')
           | Some raw \<Rightarrow>
               (case strip_prefix ''Bearer '' raw of
                  None \<Rightarrow> Err (unauthorized ''invalid_auth_header'' ''Authorization must use Bearer token'')
                | Some token \<Rightarrow>
                    if trim token = []
                    then Err (unauthorized ''invalid_auth_header'' ''Bearer token is empty'')
                    else Ok (Some (trim token)))))"

text \<open>\<open>store\<close> is the result of opening the brain store.\<close>

definition resolve_context ::
  "web \<Rightarrow> ambient \<Rightarrow> crates \<Rightarrow> home stored \<Rightarrow> app_state \<Rightarrow> headers \<Rightarrow> chat_completion_request \<Rightarrow>
   api_error + string" where
  "resolve_context W A C store_res state hdrs request =
     res_bind (map_err (\<lambda>e. bad_gateway ''brain_store_init_failed'' (w_store_error W e)) store_res) (\<lambda>store.
     res_bind (parse_bearer W hdrs) (\<lambda>maybe_api_key.
     case maybe_api_key of
       Some api_key \<Rightarrow>
         res_bind (map_err (\<lambda>e. bad_gateway ''auth_lookup_failed'' (w_store_error W e))
             (resolve_api_key C store api_key)) (\<lambda>found.
         res_bind (ok_or (unauthorized ''auth_failed'' ''API key is not mapped'') found) (\<lambda>mapping.
         Ok (ak_subject mapping)))
     | None \<Rightarrow>
         res_bind (map_err (\<lambda>_. unauthorized ''auth_required''
             ''missing bearer token and no default/active brain configured'')
             (resolve_brain_or_active A store (ap_default_brain state))) (\<lambda>_.
         Ok (case cq_user request of
               Some u \<Rightarrow> if trim u \<noteq> [] then u else ''user:local''
             | None \<Rightarrow> ''user:local''))))"

section \<open>Which plan\<close>

definition parse_byo_plan :: "web \<Rightarrow> string \<Rightarrow> string \<Rightarrow> api_error + rmvm_plan" where
  "parse_byo_plan W header request_id =
     res_bind (ok_or (bad_request ''invalid_plan_header'' ''X-Cortex-Plan must be UTF-8'')
         (w_header_text W header)) (\<lambda>raw.
     res_bind (ok_or (bad_request ''invalid_plan_header'' ''X-Cortex-Plan must be base64'')
         (w_b64_decode W raw)) (\<lambda>bytes.
     if \<not> utf8_ok bytes
     then Err (bad_request ''invalid_plan_header'' ''decoded plan is not UTF-8'')
     else
     res_bind (map_err (bad_request ''invalid_plan_json'') (extract_json_object bytes)) (\<lambda>plan_json.
     map_err (bad_request ''invalid_plan_json'') (parse_plan_json (w_from_str W) plan_json request_id))))"

definition planner_payload :: "string \<Rightarrow> string \<Rightarrow> json" where
  "planner_payload model plan_prompt = JObj (bm_collect
     [(''model'', JStr model), (''temperature'', JNum (NPos 0)),
      (''messages'', JArr
        [JObj (bm_collect [(''role'', JStr ''system''), (''content'', JStr
           ''Return only JSON matching the RMVMPlan schema. No markdown and no prose.'')]),
         JObj (bm_collect [(''role'', JStr ''user''), (''content'', JStr plan_prompt)])])])"

text \<open>\<open>pointer("/choices/0/message/content")\<close> and \<open>as_str\<close>: the token \<open>0\<close> is an index in an
  array and a key in an object.\<close>

fun pointer_zero :: "json \<Rightarrow> json option" where
  "pointer_zero (JArr (j # _)) = Some j"
| "pointer_zero (JObj m) = bm_get m ''0''"
| "pointer_zero _ = None"

definition planner_content :: "json \<Rightarrow> string option" where
  "planner_content root =
     Option.bind (json_get root ''choices'') (\<lambda>cs.
     Option.bind (pointer_zero cs) (\<lambda>c.
     Option.bind (json_get c ''message'') (\<lambda>msg.
     Option.bind (json_get msg ''content'') as_str)))"

definition trim_end_slashes :: "string \<Rightarrow> string" where
  "trim_end_slashes s = rev (dropWhile (\<lambda>c. c = CHR ''/'') (rev s))"

definition request_openai_plan ::
  "web \<Rightarrow> app_state \<Rightarrow> string \<Rightarrow> public_manifest \<Rightarrow> string \<Rightarrow> api_error + rmvm_plan" where
  "request_openai_plan W state plan_prompt manifest request_id =
     (let planner = ap_planner state in
      res_bind (ok_or (bad_gateway ''planner_auth_missing''
          ''openai planner mode requires CORTEX_PLANNER_API_KEY or OPENAI_API_KEY'') (pc_api_key planner)) (\<lambda>api_key.
      res_bind (map_err (bad_gateway ''planner_http_failed'')
          (w_planner W (trim_end_slashes (pc_base_url planner) @ ''/chat/completions'') api_key
             (planner_payload (pc_model planner) plan_prompt))) (\<lambda>(status, body).
      if \<not> (200 \<le> status \<and> status < 300)
      then Err (bad_gateway ''planner_http_failed''
        (''planner returned HTTP '' @ show_nat status @ '': '' @ body))
      else
      res_bind (map_err (bad_gateway ''planner_decode_failed'') (w_from_str W body)) (\<lambda>root.
      res_bind (ok_or (bad_gateway ''planner_decode_failed''
          ''planner response missing choices[0].message.content'') (planner_content root)) (\<lambda>content.
      res_bind (map_err (bad_request ''planner_output_invalid'') (extract_json_object content)) (\<lambda>plan_json.
      res_bind (map_err (bad_request ''planner_output_invalid'')
          (parse_plan_json (w_from_str W) plan_json request_id)) (\<lambda>plan.
      res_bind (map_err (bad_request ''invalid_plan'') (validate_plan_against_manifest plan manifest)) (\<lambda>_.
      Ok plan))))))))"

definition resolve_plan ::
  "web \<Rightarrow> app_state \<Rightarrow> headers \<Rightarrow> string \<Rightarrow> public_manifest \<Rightarrow> string \<Rightarrow> string \<Rightarrow>
   api_error + rmvm_plan \<times> string" where
  "resolve_plan W state hdrs plan_prompt manifest request_id subject =
     (case map_of hdrs ''x-cortex-plan'' of
        Some header \<Rightarrow>
          res_bind (parse_byo_plan W header request_id) (\<lambda>plan. Ok (plan, planner_mode_as_str ByoHeader))
      | None \<Rightarrow>
          (case pc_mode (ap_planner state) of
             ByoHeader \<Rightarrow> Err (bad_request ''plan_header_required'' ''planner mode BYO requires X-Cortex-Plan header'')
           | Fallback \<Rightarrow>
               map_err (bad_request ''fallback_plan_failed'')
                 (res_bind (deterministic_plan_from_manifest request_id subject manifest)
                   (\<lambda>plan. Ok (plan, planner_mode_as_str Fallback)))
           | OpenAi \<Rightarrow>
               res_bind (request_openai_plan W state plan_prompt manifest request_id)
                 (\<lambda>plan. Ok (plan, planner_mode_as_str OpenAi))))"

section \<open>The answer\<close>

definition error_code_name :: "execution_error \<Rightarrow> string" where
  "error_code_name err =
     error_code_as_str_name (default_to ErrorCodeUnspecified (error_code_try_from (ee_code err)))"

definition push_header :: "web \<Rightarrow> string \<Rightarrow> string \<Rightarrow> headers \<Rightarrow> headers" where
  "push_header W name x hdrs = (if w_header_ok W x then hdrs @ [(name, x)] else hdrs)"

definition status_of :: "execute_response \<Rightarrow> execution_status" where
  "status_of resp = default_to StatusUnspecified (execution_status_try_from (rs_status resp))"

definition cortex_headers :: "web \<Rightarrow> execute_response \<Rightarrow> string \<Rightarrow> headers" where
  "cortex_headers W resp plan_source =
     (let h1 = push_header W ''x-cortex-plan-source'' plan_source
            (push_header W ''x-cortex-status'' (execution_status_as_str_name (status_of resp)) []);
          h2 = (case rs_proof resp of
              None \<Rightarrow> h1
            | Some pf \<Rightarrow> push_header W ''x-cortex-trace-root'' (mp_trace_root pf)
                (push_header W ''x-cortex-semantic-root'' (mp_semantic_root pf) h1));
          h3 = (case rs_error resp of
              None \<Rightarrow> h2 | Some err \<Rightarrow> push_header W ''x-cortex-error-code'' (error_code_name err) h2)
      in case rs_stall resp of
           None \<Rightarrow> h3
         | Some s \<Rightarrow> push_header W ''x-cortex-stall-availability''
             (handle_availability_as_str_name
               (default_to HandleAvailabilityUnspecified (handle_availability_try_from (si_availability s))))
             (push_header W ''x-cortex-stall-handle'' (si_handle_ref s) h3))"

text \<open>The code and message of an error response: those of the kernel, or the given defaults.\<close>

definition error_response ::
  "nat \<Rightarrow> execute_response \<Rightarrow> string \<Rightarrow> string \<Rightarrow> headers \<Rightarrow> api_error" where
  "error_response http resp code msg hdrs =
     \<lparr>pe_status = http,
      pe_code = (case rs_error resp of None \<Rightarrow> code | Some err \<Rightarrow> error_code_name err),
      pe_message = (case rs_error resp of None \<Rightarrow> msg | Some err \<Rightarrow> ee_message err),
      pe_headers = hdrs\<rparr>"

definition answer_content :: "execute_response \<Rightarrow> string" where
  "answer_content resp =
     (let verified_blocks = (case rs_rendered resp of None \<Rightarrow> [] | Some r \<Rightarrow> ro_verified_blocks r) in
      if verified_blocks = [] then ''No verified output.'' else join ''\<newline>\<newline>'' verified_blocks)"

definition map_execute_response ::
  "web \<Rightarrow> execute_response \<Rightarrow> chat_completion_request \<Rightarrow> string \<Rightarrow> string \<Rightarrow> headers \<Rightarrow>
   api_error + chat_completion_response \<times> headers" where
  "map_execute_response W resp request plan_prompt plan_source headers_out =
     (case status_of resp of
        StatusOk \<Rightarrow>
          Ok (\<lparr>cr_id = ''chatcmpl-'' @ w_uuid W AtCreate, cr_created = w_created W,
               cr_model = default_to ''cortex-rmvm-proxy'' (cq_model request),
               cr_content = answer_content resp,
               cr_cortex = \<lparr>ce_status = execution_status_as_str_name (status_of resp),
                 ce_semantic_root = map_option mp_semantic_root (rs_proof resp),
                 ce_trace_root = map_option mp_trace_root (rs_proof resp),
                 ce_error_code = map_option error_code_name (rs_error resp),
                 ce_plan_prompt = Some plan_prompt, ce_plan_source = Some plan_source\<rparr>\<rparr>, headers_out)
      | StatusRejected \<Rightarrow>
          Err (error_response 400 resp ''rejected'' ''request rejected by RMVM'' headers_out)
      | StatusStall \<Rightarrow>
          Err (error_response 503 resp ''stall'' ''execution stalled; dependency not ready'' headers_out)
      | StatusAuthDenied \<Rightarrow> Err (error_response 403 resp ''auth_denied'' ''auth denied'' headers_out)
      | StatusRangeExceeded \<Rightarrow> Err (error_response 429 resp ''range_exceeded'' ''range exceeded'' headers_out)
      | StatusUnspecified \<Rightarrow>
          Err ((error_response 502 resp ''unknown_status'' [] headers_out)
            \<lparr>pe_message := ''RMVM returned unspecified status''\<rparr>))"

section \<open>The handler\<close>

text \<open>What follows the manifest: planning, the guard, execution and the answer.\<close>

definition plan_and_execute ::
  "web \<Rightarrow> 's rmvm \<Rightarrow> (nat \<Rightarrow> 's \<Rightarrow> 's) \<Rightarrow> app_state \<Rightarrow> headers \<Rightarrow> chat_completion_request \<Rightarrow> string \<Rightarrow>
   string \<Rightarrow> string \<Rightarrow> public_manifest \<Rightarrow> 's \<Rightarrow> 's \<times> (api_error + chat_completion_response \<times> headers)" where
  "plan_and_execute W R others state hdrs request user_message request_id subject manifest st =
     (let plan_prompt = build_plan_only_prompt user_message manifest in
      case res_bind (resolve_plan W state hdrs plan_prompt manifest request_id subject) (\<lambda>(plan, plan_source).
           res_bind (map_err (bad_request ''invalid_plan'') (validate_plan_against_manifest plan manifest)) (\<lambda>_.
           Ok (plan, plan_source)))
      of
        Err e \<Rightarrow> (st, Err e)
      | Ok (plan, plan_source) \<Rightarrow>
          (case rpc_execute R \<lparr>er_manifest = Some manifest, er_plan = Some plan\<rparr> (others 2 st) of
             (st', Err e) \<Rightarrow> (st', Err (bad_gateway ''execute_failed'' e))
           | (st', Ok resp) \<Rightarrow>
               (st', map_execute_response W resp request plan_prompt plan_source
                  (cortex_headers W resp plan_source))))"

definition handle_chat_completion ::
  "web \<Rightarrow> ambient \<Rightarrow> crates \<Rightarrow> home stored \<Rightarrow> 's rmvm \<Rightarrow> (nat \<Rightarrow> 's \<Rightarrow> 's) \<Rightarrow> app_state \<Rightarrow>
   headers \<Rightarrow> chat_completion_request \<Rightarrow> 's \<Rightarrow> 's \<times> (api_error + chat_completion_response \<times> headers)" where
  "handle_chat_completion W A C store_res R others state hdrs request st =
     (if default_to False (cq_stream request)
      then (st, Err (bad_request ''stream_not_supported'' ''stream=true is not supported in proxy v0''))
      else
        case res_bind (ok_or (bad_request ''missing_user_message'' ''no user message found'')
                 (extract_user_message request)) (\<lambda>user_message.
             res_bind (resolve_context W A C store_res state hdrs request) (\<lambda>subject.
             Ok (user_message, subject)))
        of
          Err e \<Rightarrow> (st, Err e)
        | Ok (user_message, subject) \<Rightarrow>
            let request_id = ''req-'' @ w_uuid W AtBrainId in
            (case rpc_append R \<lparr>ae_request_id = request_id, ae_subject = subject, ae_text = user_message,
                 ae_scope = scope_to_i32 ScopeGlobal\<rparr> (others 0 st) of
               (st1, Err e) \<Rightarrow> (st1, Err (bad_gateway ''append_event_failed'' e))
             | (st1, Ok _) \<Rightarrow>
                 (case rpc_manifest R request_id (others 1 st1) of
                    (st2, Err e) \<Rightarrow> (st2, Err (bad_gateway ''get_manifest_failed'' e))
                  | (st2, Ok None) \<Rightarrow> (st2, Err (bad_gateway ''manifest_missing'' ''rmvm returned no manifest''))
                  | (st2, Ok (Some manifest)) \<Rightarrow>
                      plan_and_execute W R others state hdrs request user_message request_id subject
                        manifest st2)))"

section \<open>The HTTP response\<close>

record http_response =
  hr_status :: nat
  hr_headers :: headers
  hr_body :: json

text \<open>\<open>HeaderMap::insert\<close> replaces what the map has under the name.\<close>

definition header_insert :: "headers \<Rightarrow> string \<times> string \<Rightarrow> headers" where
  "header_insert hs e = filter (\<lambda>x. fst x \<noteq> fst e) hs @ [e]"

definition json_response :: "nat \<Rightarrow> json \<Rightarrow> headers \<Rightarrow> http_response" where
  "json_response status body hdrs =
     \<lparr>hr_status = status,
      hr_headers = foldl header_insert [(''content-type'', ''application/json'')] hdrs, hr_body = body\<rparr>"

definition json_int :: "int \<Rightarrow> json" where
  "json_int i = JNum (if 0 \<le> i then NPos (word_of_int i) else NNeg (word_of_int i))"

definition json_opt :: "string option \<Rightarrow> json" where
  "json_opt x = (case x of None \<Rightarrow> JNull | Some s \<Rightarrow> JStr s)"

definition error_body :: "api_error \<Rightarrow> json" where
  "error_body err = JObj (bm_collect [(''error'', JObj (bm_collect
     [(''message'', JStr (pe_message err)), (''type'', JStr ''invalid_request_error''),
      (''code'', JStr (pe_code err))]))])"

definition completion_body :: "chat_completion_response \<Rightarrow> json" where
  "completion_body r = JObj (bm_collect
     [(''id'', JStr (cr_id r)), (''object'', JStr ''chat.completion''), (''created'', json_int (cr_created r)),
      (''model'', JStr (cr_model r)),
      (''choices'', JArr [JObj (bm_collect [(''index'', json_int 0),
         (''message'', JObj (bm_collect [(''role'', JStr ''assistant''), (''content'', JStr (cr_content r))])),
         (''finish_reason'', JStr ''stop'')])]),
      (''usage'', JObj (bm_collect [(''prompt_tokens'', json_int 0), (''completion_tokens'', json_int 0),
         (''total_tokens'', json_int 0)])),
      (''cortex'', JObj (bm_collect [(''status'', JStr (ce_status (cr_cortex r))),
         (''semantic_root'', json_opt (ce_semantic_root (cr_cortex r))),
         (''trace_root'', json_opt (ce_trace_root (cr_cortex r))),
         (''error_code'', json_opt (ce_error_code (cr_cortex r))),
         (''plan_prompt'', json_opt (ce_plan_prompt (cr_cortex r))),
         (''plan_source'', json_opt (ce_plan_source (cr_cortex r)))]))])"

definition into_response :: "api_error \<Rightarrow> http_response" where
  "into_response err = json_response (pe_status err) (error_body err) (pe_headers err)"

definition chat_completions ::
  "web \<Rightarrow> ambient \<Rightarrow> crates \<Rightarrow> home stored \<Rightarrow> 's rmvm \<Rightarrow> (nat \<Rightarrow> 's \<Rightarrow> 's) \<Rightarrow> app_state \<Rightarrow>
   headers \<Rightarrow> chat_completion_request \<Rightarrow> 's \<Rightarrow> 's \<times> http_response" where
  "chat_completions W A C store_res R others state hdrs request st =
     (case handle_chat_completion W A C store_res R others state hdrs request st of
        (st', Ok (r, out)) \<Rightarrow> (st', json_response 200 (completion_body r) out)
      | (st', Err err) \<Rightarrow> (st', into_response err))"

end
