(* ===== verification/Proxy_Properties.thy ===== *)
theory Proxy_Properties
  imports Proxy Grpc_Properties Kernel_Shape Brain_Demo
begin

text \<open>
  The properties of the chat proxy: on its own, with the kernel's answers, and with the whole
  gRPC service behind it.
\<close>

section \<open>The RMVM as the proxy uses it\<close>

text \<open>The calls that a chat has made, whatever its result: none; APPEND EVENT; then GET MANIFEST;
  then EXECUTE.\<close>

lemma plan_and_execute_calls:
  assumes "plan_and_execute W R others state hdrs request msg request_id subject mf st = (st', res)"
  shows "st' = st \<or> (\<exists>req res. rpc_execute R req (others 2 st) = (st', res))"
  using assms by (fastforce simp: plan_and_execute_def Let_def split: sum.splits prod.splits)

lemma chat_calls:
  assumes "handle_chat_completion W A C store_res R others state hdrs request st = (st', res)"
  shows "st' = st \<or> (\<exists>msg subject st1 ares. extract_user_message request = Some msg \<and>
    resolve_context W A C store_res state hdrs request = Ok subject \<and>
    rpc_append R \<lparr>ae_request_id = ''req-'' @ w_uuid W AtBrainId, ae_subject = subject, ae_text = msg,
      ae_scope = scope_to_i32 ScopeGlobal\<rparr> (others 0 st) = (st1, ares) \<and>
    (st' = st1 \<or> (\<exists>rid st2 mres. rpc_manifest R rid (others 1 st1) = (st2, mres) \<and>
       (st' = st2 \<or> (\<exists>req eres. rpc_execute R req (others 2 st2) = (st', eres))))))"
proof (cases "st' = st")
  case False
  let ?rid = "''req-'' @ w_uuid W AtBrainId"
  from assms False obtain msg subject where m: "extract_user_message request = Some msg"
    "resolve_context W A C store_res state hdrs request = Ok subject"
    by (auto simp: handle_chat_completion_def res_bind_Err_iff split: if_splits sum.splits)
  define req where "req = \<lparr>ae_request_id = ?rid, ae_subject = subject, ae_text = msg, ae_scope = scope_to_i32 ScopeGlobal\<rparr>"
  obtain st1 ares where a: "rpc_append R req (others 0 st) = (st1, ares)" by (metis surj_pair)
  obtain st2 mres where g: "rpc_manifest R ?rid (others 1 st1) = (st2, mres)" by (metis surj_pair)
  have "(case ares of Err e \<Rightarrow> (st1, Err (bad_gateway ''append_event_failed'' e))
      | Ok _ \<Rightarrow> (case mres of Err e \<Rightarrow> (st2, Err (bad_gateway ''get_manifest_failed'' e))
        | Ok None \<Rightarrow> (st2, Err (bad_gateway ''manifest_missing'' ''rmvm returned no manifest''))
        | Ok (Some mf) \<Rightarrow> plan_and_execute W R others state hdrs request msg ?rid subject mf st2)) = (st', res)"
    using assms False m a g unfolding req_def
    by (simp add: handle_chat_completion_def Let_def del: scope_to_i32.simps append.simps
        split: if_splits sum.splits option.splits)
  then have "st' = st1 \<or> st' = st2 \<or> (\<exists>req eres. rpc_execute R req (others 2 st2) = (st', eres))"
    using plan_and_execute_calls by (fastforce split: sum.splits option.splits)
  with m a g show ?thesis unfolding req_def by blast
qed simp

text \<open>What the proxy relies on: the three calls lead from states of the RMVM to states.\<close>

locale rmvm_contract =
  fixes R :: "'s rmvm" and state_of_rmvm :: "'s \<Rightarrow> bool"
  assumes append_keeps: "state_of_rmvm s \<Longrightarrow> rpc_append R req s = (s', res) \<Longrightarrow> state_of_rmvm s'"
    and manifest_keeps: "state_of_rmvm s \<Longrightarrow> rpc_manifest R rid s = (s', mres) \<Longrightarrow> state_of_rmvm s'"
    and execute_keeps: "state_of_rmvm s \<Longrightarrow> rpc_execute R ereq s = (s', eres) \<Longrightarrow> state_of_rmvm s'"
begin

lemma chat_keeps:
  assumes "\<And>n s. state_of_rmvm s \<Longrightarrow> state_of_rmvm (others n s)" and "state_of_rmvm st"
    and "handle_chat_completion W A C store_res R others state hdrs request st = (st', res)"
  shows "state_of_rmvm st'"
  using chat_calls [OF assms(3)] assms(1,2) append_keeps manifest_keeps execute_keeps by metis

end

abbreviation service_reachable :: "service_state \<Rightarrow> bool" where
  "service_reachable st \<equiv> \<exists>rs. serves_all service_default rs st"

interpretation service_rmvm: rmvm_contract "grpc_rmvm E opts" service_reachable
proof
  fix s req s' res
  assume s: "service_reachable s" and a: "rpc_append (grpc_rmvm E opts) req s = (s', res)"
  then obtain rs where "serves_all service_default rs s" by blast
  moreover have "serves s (Append req) s'"
    using a by (intro serves_append [of s req s' "snd (append_event s req)"])
      (auto simp: grpc_rmvm_def split: prod.splits)
  ultimately show "service_reachable s'" by (blast intro: serves_snoc)
qed (auto simp: grpc_rmvm_def)

lemma grpc_rmvm_states:
  "rpc_append (grpc_rmvm E opts) req s = (s', ares) \<Longrightarrow> s' = fst (append_event s req)"
  "rpc_manifest (grpc_rmvm E opts) rid s = (s', mres) \<Longrightarrow> s' = s"
  "rpc_execute (grpc_rmvm E opts) ereq s = (s', eres) \<Longrightarrow> s' = s"
  by (auto simp: grpc_rmvm_def split: prod.splits)

section \<open>The course of a chat\<close>

lemma map_err_Ok_iff: "map_err f x = Ok a \<longleftrightarrow> x = Ok a"
  by (cases x) auto

lemma plan_and_execute_Ok:
  assumes "plan_and_execute W R others state hdrs request user_message request_id subject mf st = (st', Ok (r, hs))"
  shows "\<exists>plan source resp. resolve_plan W state hdrs (build_plan_only_prompt user_message mf) mf request_id subject
      = Ok (plan, source) \<and>
    validate_plan_against_manifest plan mf = Ok () \<and>
    rpc_execute R \<lparr>er_manifest = Some mf, er_plan = Some plan\<rparr> (others 2 st) = (st', Ok resp) \<and>
    map_execute_response W resp request (build_plan_only_prompt user_message mf) source
      (cortex_headers W resp source) = Ok (r, hs)"
  using assms by (fastforce simp: plan_and_execute_def Let_def map_err_Ok_iff split: sum.splits prod.splits)

lemma handle_chat_Ok:
  assumes "handle_chat_completion W A C store_res R others state hdrs request st = (st', Ok (r, hs))"
  obtains msg subject st1 ev mf st2 where "extract_user_message request = Some msg"
    and "resolve_context W A C store_res state hdrs request = Ok subject"
    and "rpc_append R \<lparr>ae_request_id = ''req-'' @ w_uuid W AtBrainId, ae_subject = subject, ae_text = msg,
      ae_scope = scope_to_i32 ScopeGlobal\<rparr> (others 0 st) = (st1, Ok ev)"
    and "rpc_manifest R (''req-'' @ w_uuid W AtBrainId) (others 1 st1) = (st2, Ok (Some mf))"
    and "plan_and_execute W R others state hdrs request msg (''req-'' @ w_uuid W AtBrainId) subject mf st2
      = (st', Ok (r, hs))"
  using assms unfolding handle_chat_completion_def Let_def
  by (auto split: if_splits sum.splits prod.splits option.splits simp del: scope_to_i32.simps)

lemma map_execute_response_Ok:
  assumes "map_execute_response W resp request prompt source hdrs = Ok (r, hs)"
  shows "status_of resp = StatusOk \<and> cr_content r = answer_content resp \<and> hs = hdrs \<and>
    ce_status (cr_cortex r) = ''OK'' \<and> ce_plan_source (cr_cortex r) = Some source \<and>
    ce_semantic_root (cr_cortex r) = map_option mp_semantic_root (rs_proof resp) \<and>
    ce_trace_root (cr_cortex r) = map_option mp_trace_root (rs_proof resp)"
  using assms by (auto simp: map_execute_response_def split: execution_status.splits)

text \<open>A handle that an event adds is about the subject of the event.\<close>

lemma appended_subject:
  assumes "serves_all service_default rs st" and "length rs < 2 ^ 64 - 1"
    and "st' = fst (append_event st req)"
    and "h \<in> set (pm_handles (get_manifest st' rid))" and "h \<notin> set (pm_handles (get_manifest st rid))"
  shows "\<exists>m. h_meta h = Some m \<and> hm_subject m = event_subject req"
proof -
  have ok: "service_ok (length rs) st"
    using serves_all_ok [OF assms(1) service_ok_default] assms(2) by simp
  have ok': "service_ok (Suc (length rs)) st'"
    unfolding assms(3) by (rule append_service_ok [OF ok assms(2)])
  have h: "bm_get (svc_handles st') (h_ref h) = Some h" "bm_get (svc_handles st) (h_ref h) \<noteq> Some h"
    using assms(4,5) by (simp_all add: service_handle_in [OF ok] service_handle_in [OF ok'])
  show ?thesis
  proof (cases "parse_preference (ae_text req)")
    case None
    then show ?thesis using h by (simp add: assms(3) append_event_def Let_def)
  next
    case (Some lv)
    obtain l v where lv: "lv = (l, v)" by (cases lv)
    have "h = preference_handle (next_ref st) (event_subject req) l v (event_scope req)"
      using h unfolding assms(3) append_event_Some(1) [OF Some [unfolded lv]] by (auto split: if_splits)
    then show ?thesis by (simp add: preference_handle_def)
  qed
qed

text \<open>Without a planner, over the service of this repository: a chat whose caller is known and
  whose state then remembers something is answered.\<close>

lemma fallback_chat:
  assumes st: "serves_all service_default rs st" "length rs < 2 ^ 64 - 1"
    and E: "hash_env_ok E" "narrative_templates opts = []"
    and request: "cq_stream request \<noteq> Some True" "extract_user_message request = Some msg"
      "resolve_context W A C store_res state hdrs request = Ok subject"
    and mode: "map_of hdrs ''x-cortex-plan'' = None" "pc_mode (ap_planner state) = Fallback"
    and st1: "fst (append_event st \<lparr>ae_request_id = ''req-'' @ w_uuid W AtBrainId, ae_subject = subject,
      ae_text = msg, ae_scope = scope_to_i32 ScopeGlobal\<rparr>) = st1"
    and h: "pm_handles (get_manifest st1 (''req-'' @ w_uuid W AtBrainId)) = h # hs" "\<not> broken opts (h_ref h)"
  shows "\<exists>r out m. handle_chat_completion W A C store_res (grpc_rmvm E opts) (\<lambda>_ s. s) state hdrs request st
      = (st1, Ok (r, out)) \<and>
    h_meta h = Some m \<and> cr_content r = ''ASSERT_WORLD_FACT: subject='' @ hm_subject m \<and>
    ce_plan_source (cr_cortex r) = Some ''fallback''"
proof -
  define rid where "rid = ''req-'' @ w_uuid W AtBrainId"
  define req where "req = \<lparr>ae_request_id = rid, ae_subject = subject, ae_text = msg, ae_scope = scope_to_i32 ScopeGlobal\<rparr>"
  obtain ev where a: "append_event st req = (st1, ev)"
    using st1 by (cases "append_event st req") (simp add: req_def rid_def del: scope_to_i32.simps)
  have "serves_all service_default (rs @ [Append req]) st1"
    by (rule serves_snoc [OF st(1) serves_append [OF a]])
  moreover have "length (rs @ [Append req]) < 2 ^ 64" using st(2) by simp
  ultimately obtain plan resp m where p: "deterministic_plan_from_manifest rid subject (get_manifest st1 rid) = Ok plan"
    "validate_plan_against_manifest plan (get_manifest st1 rid) = Ok ()" "h_meta h = Some m"
    "execute E \<lparr>er_manifest = Some (get_manifest st1 rid), er_plan = Some plan\<rparr> opts = Some resp"
    "rs_status resp = execution_status_to_i32 StatusOk"
    "rs_rendered resp = Some \<lparr>ro_verified_blocks = [''ASSERT_WORLD_FACT: subject='' @ hm_subject m],
      ro_narrative_blocks = []\<rparr>"
    using service_plan_renders [OF _ _ h(1) [folded rid_def] E h(2), of _ subject] by blast
  have "status_of resp = StatusOk"
    by (simp add: status_of_def p(5) execution_status_enum.try_from_to default_to_def
        del: execution_status_to_i32.simps)
  moreover have "answer_content resp = ''ASSERT_WORLD_FACT: subject='' @ hm_subject m"
    by (simp add: answer_content_def p(6))
  ultimately have "\<exists>r out. plan_and_execute W (grpc_rmvm E opts) (\<lambda>_ s. s) state hdrs request msg rid subject
      (get_manifest st1 rid) st1 = (st1, Ok (r, out)) \<and>
    cr_content r = ''ASSERT_WORLD_FACT: subject='' @ hm_subject m \<and>
    ce_plan_source (cr_cortex r) = Some ''fallback''"
    using p mode by (simp add: plan_and_execute_def Let_def resolve_plan_def grpc_rmvm_def service_execute_def
        map_execute_response_def)
  moreover have "handle_chat_completion W A C store_res (grpc_rmvm E opts) (\<lambda>_ s. s) state hdrs request st =
      plan_and_execute W (grpc_rmvm E opts) (\<lambda>_ s. s) state hdrs request msg rid subject (get_manifest st1 rid) st1"
  proof -
    have "\<not> default_to False (cq_stream request)"
      using request(1) by (cases "cq_stream request") (auto simp: default_to_def)
    moreover have "rpc_append (grpc_rmvm E opts) req st = (st1, Ok ev)"
      "rpc_manifest (grpc_rmvm E opts) rid st1 = (st1, Ok (Some (get_manifest st1 rid)))"
      using a by (simp_all add: grpc_rmvm_def)
    ultimately show ?thesis
      unfolding handle_chat_completion_def Let_def rid_def [symmetric]
      by (simp add: request(2,3) req_def del: scope_to_i32.simps)
  qed
  ultimately show ?thesis using p(3) by simp
qed

section \<open>A chat\<close>

definition toy_web :: web where
  "toy_web = \<lparr>w_header_text = Some, w_header_ok = \<lambda>_. True, w_b64_decode = Some, w_from_str = \<lambda>_. Err [],
     w_store_error = \<lambda>_. [], w_planner = \<lambda>_ _ _. Err [], w_uuid = \<lambda>_. ''u'', w_created = 0\<rparr>"

definition key_home :: home where
  "key_home = fst (map_api_key toy_call toy_crates empty_home ''key'' ''t'' ''b'' ''user:eve'')"

definition eve_headers :: headers where
  "eve_headers = [(''authorization'', ''Bearer key'')]"

definition says :: "string \<Rightarrow> chat_completion_request" where
  "says msg = \<lparr>cq_model = None, cq_messages = [\<lparr>ms_role = ''user'', ms_content = JStr msg\<rparr>],
     cq_user = Some ''user:vinz'', cq_stream = None\<rparr>"

definition fallback_state :: app_state where
  "fallback_state = \<lparr>ap_default_brain = None, ap_planner = \<lparr>pc_mode = Fallback, pc_base_url = [],
     pc_model = [], pc_api_key = None\<rparr>\<rparr>"

definition eve_chat :: "string \<Rightarrow> service_state \<times> (api_error + chat_completion_response \<times> headers)" where
  "eve_chat msg = handle_chat_completion toy_web toy_call toy_crates (Ok key_home)
     (grpc_rmvm demo_env default_options) (\<lambda>_ s. s) fallback_state eve_headers (says msg) tea_state"

lemma says_message: "extract_user_message (says msg) = Some msg"
proof -
  have "to_ascii_lowercase ''user'' = ''user''" by code_simp
  then show ?thesis by (simp add: says_def extract_user_message_def)
qed

lemma eve_key: "parse_bearer toy_web eve_headers = Ok (Some ''key'')"
  by code_simp

lemma eve_mapped:
  "resolve_api_key toy_crates key_home ''key'' = Ok (Some \<lparr>ak_key_hash = ''key'', ak_tenant_id = ''t'',
     ak_brain_id = ''b'', ak_subject = ''user:eve''\<rparr>)"
  by (simp add: key_home_def map_api_key_def read_api_mappings_def empty_home_def empty_file_def Let_def
      resolve_api_key_def store_sha256_hex_def toy_crates_def write_json_def toy_call_def)

lemma eve_context:
  "resolve_context toy_web toy_call toy_crates (Ok key_home) fallback_state eve_headers (says msg) = Ok ''user:eve''"
  by (simp add: resolve_context_def eve_key eve_mapped)

abbreviation eve_event :: "string \<Rightarrow> append_event_request" where
  "eve_event msg \<equiv> \<lparr>ae_request_id = ''req-'' @ w_uuid toy_web AtBrainId, ae_subject = ''user:eve'', ae_text = msg,
     ae_scope = scope_to_i32 ScopeGlobal\<rparr>"

text \<open>Whatever is said, the event is recorded.\<close>

lemma eve_state: "fst (eve_chat msg) = fst (append_event tea_state (eve_event msg))"
proof -
  obtain st1 ev where a: "append_event tea_state (eve_event msg) = (st1, ev)" by (metis surj_pair)
  then have "rpc_append (grpc_rmvm demo_env default_options) (eve_event msg) tea_state = (st1, Ok ev)"
    "rpc_manifest (grpc_rmvm demo_env default_options) rid st1 = (st1, Ok (Some (get_manifest st1 rid)))" for rid
    by (simp_all add: grpc_rmvm_def)
  moreover have "\<not> default_to False (cq_stream (says msg))" by (simp add: says_def default_to_def)
  moreover have "fst (plan_and_execute toy_web (grpc_rmvm demo_env default_options) (\<lambda>_ s. s) fallback_state
      eve_headers (says msg) msg rid ''user:eve'' mf st1) = st1" for rid mf
    by (metis grpc_rmvm_states(3) plan_and_execute_calls prod.collapse)
  ultimately show ?thesis
    unfolding eve_chat_def handle_chat_completion_def Let_def
    by (simp add: says_message eve_context a del: scope_to_i32.simps append.simps)
qed

lemma eve_remembers:
  obtains h where "pm_handles (get_manifest (fst (append_event tea_state (eve_event ''hello''))) rid) = [h]"
    "map_option hm_subject (h_meta h) = Some ''user:vinz''"
proof -
  have "map (\<lambda>h. map_option hm_subject (h_meta h))
      (pm_handles (get_manifest (fst (append_event tea_state (eve_event ''hello''))) rid)) = [Some ''user:vinz'']"
    by code_simp
  with that show thesis by auto
qed

lemma eve_answered:
  "\<exists>r out. eve_chat ''hello'' = (fst (append_event tea_state (eve_event ''hello'')), Ok (r, out))"
proof (rule eve_remembers)
  fix h
  assume h: "pm_handles (get_manifest (fst (append_event tea_state (eve_event ''hello'')))
    (''req-'' @ w_uuid toy_web AtBrainId)) = [h]"
  have d: "cq_stream (says ''hello'') \<noteq> Some True" "map_of eve_headers ''x-cortex-plan'' = None"
    "pc_mode (ap_planner fallback_state) = Fallback" "narrative_templates default_options = []"
    "\<not> broken default_options (h_ref h)" "length [Append tea] < 2 ^ 64 - 1"
    by (simp_all add: says_def eve_headers_def fallback_state_def default_options_def broken_def)
  from fallback_chat [OF tea_served d(6) demo_hash d(4,1) says_message eve_context d(2,3) refl h d(5)]
  show ?thesis unfolding eve_chat_def by blast
qed

section \<open>Whatever the RMVM\<close>

text \<open>C3. Nothing runs past the guard. When a chat is answered, the event was recorded under the
  subject that the request authenticates, the plan passed the guard against the manifest that
  the RMVM gave for this request, exactly this plan was executed with exactly this manifest,
  the RMVM answered OK, and the answer and the roots in it are those of this execution.\<close>

theorem chat_runs_guarded_plans:
  assumes "handle_chat_completion W A C store_res R others state hdrs request st = (st', Ok (r, hs))"
  shows "\<exists>msg subject st1 ev mf st2 plan resp. extract_user_message request = Some msg \<and>
    resolve_context W A C store_res state hdrs request = Ok subject \<and>
    rpc_append R \<lparr>ae_request_id = ''req-'' @ w_uuid W AtBrainId, ae_subject = subject, ae_text = msg,
      ae_scope = scope_to_i32 ScopeGlobal\<rparr> (others 0 st) = (st1, Ok ev) \<and>
    rpc_manifest R (''req-'' @ w_uuid W AtBrainId) (others 1 st1) = (st2, Ok (Some mf)) \<and>
    validate_plan_against_manifest plan mf = Ok () \<and>
    rpc_execute R \<lparr>er_manifest = Some mf, er_plan = Some plan\<rparr> (others 2 st2) = (st', Ok resp) \<and>
    status_of resp = StatusOk \<and> cr_content r = answer_content resp \<and>
    ce_semantic_root (cr_cortex r) = map_option mp_semantic_root (rs_proof resp) \<and>
    ce_trace_root (cr_cortex r) = map_option mp_trace_root (rs_proof resp)"
proof -
  from handle_chat_Ok [OF assms] obtain msg subject st1 ev mf st2 where c: "extract_user_message request = Some msg"
    "resolve_context W A C store_res state hdrs request = Ok subject"
    "rpc_append R \<lparr>ae_request_id = ''req-'' @ w_uuid W AtBrainId, ae_subject = subject, ae_text = msg,
      ae_scope = scope_to_i32 ScopeGlobal\<rparr> (others 0 st) = (st1, Ok ev)"
    "rpc_manifest R (''req-'' @ w_uuid W AtBrainId) (others 1 st1) = (st2, Ok (Some mf))"
    "plan_and_execute W R others state hdrs request msg (''req-'' @ w_uuid W AtBrainId) subject mf st2
      = (st', Ok (r, hs))" by metis
  from plan_and_execute_Ok [OF c(5)] obtain plan source resp where
    "validate_plan_against_manifest plan mf = Ok ()"
    "rpc_execute R \<lparr>er_manifest = Some mf, er_plan = Some plan\<rparr> (others 2 st2) = (st', Ok resp)"
    "map_execute_response W resp request (build_plan_only_prompt msg mf) source
      (cortex_headers W resp source) = Ok (r, hs)" by blast
  with c map_execute_response_Ok show ?thesis by blast
qed

lemma chat_runs_guarded_plans_witness:
  "\<exists>r out mf plan. snd (eve_chat ''hello'') = Ok (r, out) \<and> validate_plan_against_manifest plan mf = Ok () \<and>
    service_execute demo_env default_options \<lparr>er_manifest = Some mf, er_plan = Some plan\<rparr> \<noteq> None"
proof -
  obtain r out where r: "eve_chat ''hello'' = (fst (append_event tea_state (eve_event ''hello'')), Ok (r, out))"
    using eve_answered by blast
  from chat_runs_guarded_plans [OF r [unfolded eve_chat_def]] obtain mf st2 plan resp where
    "validate_plan_against_manifest plan mf = Ok ()"
    "rpc_execute (grpc_rmvm demo_env default_options) \<lparr>er_manifest = Some mf, er_plan = Some plan\<rparr> st2 =
      (fst (append_event tea_state (eve_event ''hello'')), Ok resp)" by blast
  with r show ?thesis by (auto simp: grpc_rmvm_def)
qed

section \<open>The kernel's answers as HTTP\<close>

text \<open>C35. The kernel's three outcomes reach the client as they are: OK as a completion with the
  roots of its proof; REJECTED as status 400 with the kernel's error code and message; STALL as
  status 503. Neither 403 nor 429 nor 502 comes from an execution, whatever the request.\<close>

theorem kernel_status_mapped:
  assumes "execute E req opts = Some resp"
  shows "(\<exists>r pf. rs_status resp = execution_status_to_i32 StatusOk \<and> rs_proof resp = Some pf \<and>
      map_execute_response W resp request prompt source hdrs = Ok (r, hdrs) \<and>
      cr_content r = answer_content resp \<and> ce_status (cr_cortex r) = ''OK'' \<and>
      ce_semantic_root (cr_cortex r) = Some (mp_semantic_root pf) \<and> ce_error_code (cr_cortex r) = None) \<or>
    (\<exists>c msg. rs_status resp = execution_status_to_i32 StatusRejected \<and>
      rs_error resp = Some \<lparr>ee_code = error_code_to_i32 c, ee_message = msg, ee_hints = []\<rparr> \<and>
      map_execute_response W resp request prompt source hdrs =
        Err \<lparr>pe_status = 400, pe_code = error_code_as_str_name c, pe_message = msg, pe_headers = hdrs\<rparr>) \<or>
    (rs_status resp = execution_status_to_i32 StatusStall \<and>
      map_execute_response W resp request prompt source hdrs =
        Err \<lparr>pe_status = 503, pe_code = ''stall'',
          pe_message = ''execution stalled; dependency not ready'', pe_headers = hdrs\<rparr>)"
proof -
  have st: "status_of resp = x" if "rs_status resp = execution_status_to_i32 x" for x
    by (simp add: status_of_def that execution_status_enum.try_from_to default_to_def
        del: execution_status_to_i32.simps)
  have name: "error_code_name \<lparr>ee_code = error_code_to_i32 c, ee_message = msg, ee_hints = hints\<rparr> =
      error_code_as_str_name c" for c msg hints
    by (simp add: error_code_name_def error_code_enum.try_from_to default_to_def del: error_code_to_i32.simps)
  from response_cases [OF assms] show ?thesis
    by (elim disjE conjE exE)
      (auto dest!: st simp: map_execute_response_def error_response_def name
        simp del: execution_status_to_i32.simps error_code_to_i32.simps)
qed

lemma kernel_status_mapped_witness:
  "\<exists>resp. execute demo_env golden_execute_request default_options = Some resp \<and>
    (\<forall>W request prompt source hdrs e.
       map_execute_response W resp request prompt source hdrs = Err e \<longrightarrow> pe_status e \<in> {400, 503})"
proof -
  obtain resp where resp: "execute demo_env golden_execute_request default_options = Some resp"
    by (rule execute_answers [OF demo_hash]) (auto simp: default_options_def)
  have "pe_status e \<in> {400, 503}" if "map_execute_response W resp request prompt source hdrs = Err e"
    for W request prompt source hdrs e
    using kernel_status_mapped [OF resp, of W request prompt source hdrs] that by fastforce
  with resp show ?thesis by blast
qed

section \<open>With the service of this repository\<close>

text \<open>C36. Without a planner the answer does not depend on who asks. Over the gRPC service, an
  authenticated chat in a state that remembers something is answered with the subject of the
  first handle of all that is remembered, whichever subject that is.\<close>

theorem fallback_answers_first:
  assumes "serves_all service_default rs st" and "length rs < 2 ^ 64 - 1"
    and "hash_env_ok E" and "narrative_templates opts = []"
    and "cq_stream request \<noteq> Some True" and "extract_user_message request = Some msg"
    and "resolve_context W A C store_res state hdrs request = Ok subject"
    and "map_of hdrs ''x-cortex-plan'' = None" and "pc_mode (ap_planner state) = Fallback"
    and "fst (append_event st \<lparr>ae_request_id = ''req-'' @ w_uuid W AtBrainId, ae_subject = subject,
      ae_text = msg, ae_scope = scope_to_i32 ScopeGlobal\<rparr>) = st1"
    and "pm_handles (get_manifest st1 (''req-'' @ w_uuid W AtBrainId)) = h # hs" and "\<not> broken opts (h_ref h)"
  shows "\<exists>r out m. handle_chat_completion W A C store_res (grpc_rmvm E opts) (\<lambda>_ s. s) state hdrs request st
      = (st1, Ok (r, out)) \<and>
    h_meta h = Some m \<and> cr_content r = ''ASSERT_WORLD_FACT: subject='' @ hm_subject m"
  using fallback_chat [OF assms] by blast

lemma fallback_answers_first_witness:
  "\<exists>st r out. eve_chat ''hello'' = (st, Ok (r, out)) \<and> cr_content r = ''ASSERT_WORLD_FACT: subject=user:vinz''"
proof (rule eve_remembers)
  fix h
  assume h: "pm_handles (get_manifest (fst (append_event tea_state (eve_event ''hello'')))
    (''req-'' @ w_uuid toy_web AtBrainId)) = [h]" "map_option hm_subject (h_meta h) = Some ''user:vinz''"
  have d: "cq_stream (says ''hello'') \<noteq> Some True" "map_of eve_headers ''x-cortex-plan'' = None"
    "pc_mode (ap_planner fallback_state) = Fallback" "narrative_templates default_options = []"
    "\<not> broken default_options (h_ref h)" "length [Append tea] < 2 ^ 64 - 1"
    by (simp_all add: says_def eve_headers_def fallback_state_def default_options_def broken_def)
  from fallback_answers_first [OF tea_served d(6) demo_hash d(4,1) says_message eve_context d(2,3) refl h(1) d(5)]
    h(2) show ?thesis unfolding eve_chat_def by auto
qed

text \<open>C14. A chat remembers things about its caller only. Whatever its outcome, a handle that a
  chat with an \<open>Authorization\<close> header adds to the memory bears the subject that the header's
  API key is mapped to (\<open>user:unknown\<close> when that is blank), never one the request names.\<close>

theorem chat_writes_own_subject:
  assumes "serves_all service_default rs st" and "length rs < 2 ^ 64 - 1"
    and "handle_chat_completion W A C store_res (grpc_rmvm E opts) (\<lambda>_ s. s) state hdrs request st = (st', res)"
    and "map_of hdrs ''authorization'' \<noteq> None"
    and "h \<in> set (pm_handles (get_manifest st' rid))" and "h \<notin> set (pm_handles (get_manifest st rid))"
  shows "\<exists>store key mapping m. store_res = Ok store \<and> parse_bearer W hdrs = Ok (Some key) \<and>
    resolve_api_key C store key = Ok (Some mapping) \<and> h_meta h = Some m \<and>
    hm_subject m = (if trim (ak_subject mapping) = [] then ''user:unknown'' else ak_subject mapping)"
proof -
  from assms(5,6) have "st' \<noteq> st" by blast
  with chat_calls [OF assms(3)] obtain msg subject where c:
    "resolve_context W A C store_res state hdrs request = Ok subject"
    "st' = fst (append_event st \<lparr>ae_request_id = ''req-'' @ w_uuid W AtBrainId, ae_subject = subject, ae_text = msg,
      ae_scope = scope_to_i32 ScopeGlobal\<rparr>)"
    using grpc_rmvm_states [of E opts] by metis
  define req where "req = \<lparr>ae_request_id = ''req-'' @ w_uuid W AtBrainId, ae_subject = subject, ae_text = msg,
      ae_scope = scope_to_i32 ScopeGlobal\<rparr>"
  have m: "\<exists>m. h_meta h = Some m \<and> hm_subject m = event_subject req"
    by (rule appended_subject [OF assms(1,2) _ assms(5,6)]) (simp add: c(2) req_def)
  have nonempty: "parse_bearer W hdrs \<noteq> Ok None"
    using assms(4) by (auto simp: parse_bearer_def Let_def split: option.splits if_splits)
  with c(1) obtain store key mapping where "store_res = Ok store" "parse_bearer W hdrs = Ok (Some key)"
    "resolve_api_key C store key = Ok (Some mapping)" "subject = ak_subject mapping"
    by (auto simp: resolve_context_def map_err_Ok_iff split: option.splits)
  with m show ?thesis by (auto simp: event_subject_def req_def)
qed

lemma chat_writes_own_subject_witness:
  "\<exists>h st'. fst (eve_chat ''I prefer Cocoa'') = st' \<and> h \<in> set (pm_handles (get_manifest st' ''r'')) \<and>
    map_option hm_subject (h_meta h) = Some ''user:eve''"
proof -
  let ?st = "fst (append_event tea_state (eve_event ''I prefer Cocoa''))"
  have two: "map (\<lambda>h. h_signature_summary h) (pm_handles (get_manifest ?st ''r'')) =
      [''prefers_beverage=Earl Grey'', ''prefers_beverage=Cocoa'']"
    "map (\<lambda>h. h_signature_summary h) (pm_handles (get_manifest tea_state ''r'')) = [''prefers_beverage=Earl Grey'']"
    by code_simp+
  have old: "''prefers_beverage=Cocoa'' \<notin> h_signature_summary ` set (pm_handles (get_manifest tea_state ''r''))"
    unfolding set_map [symmetric] two(2) by simp
  have "''prefers_beverage=Cocoa'' \<in> h_signature_summary ` set (pm_handles (get_manifest ?st ''r''))"
    unfolding set_map [symmetric] two(1) by simp
  then obtain h where h: "h \<in> set (pm_handles (get_manifest ?st ''r''))"
    "h \<notin> set (pm_handles (get_manifest tea_state ''r''))" using old by fastforce
  have "handle_chat_completion toy_web toy_call toy_crates (Ok key_home) (grpc_rmvm demo_env default_options)
      (\<lambda>_ s. s) fallback_state eve_headers (says ''I prefer Cocoa'') tea_state = (?st, snd (eve_chat ''I prefer Cocoa''))"
    using eve_state [of "''I prefer Cocoa''"] by (simp add: eve_chat_def prod_eq_iff)
  moreover have "map_of eve_headers ''authorization'' \<noteq> None" by (simp add: eve_headers_def)
  moreover have "length [Append tea] < 2 ^ 64 - 1" by simp
  ultimately obtain store key mapping m where m: "Ok key_home = (Ok store :: home stored)"
    "parse_bearer toy_web eve_headers = Ok (Some key)" "resolve_api_key toy_crates store key = Ok (Some mapping)"
    "h_meta h = Some m"
    "hm_subject m = (if trim (ak_subject mapping) = [] then ''user:unknown'' else ak_subject mapping)"
    using chat_writes_own_subject [OF tea_served _ _ _ h, of toy_web toy_call toy_crates "Ok key_home" demo_env
      default_options fallback_state eve_headers "says ''I prefer Cocoa''" "snd (eve_chat ''I prefer Cocoa'')"] by blast
  have "trim ''user:eve'' \<noteq> []" by code_simp
  with m eve_mapped have "hm_subject m = ''user:eve''" by (auto simp: eve_key)
  with h(1) m(4) eve_state [of "''I prefer Cocoa''"] show ?thesis by auto
qed

end
