(* ===== verification/Chat_Grounded.thy ===== *)
theory Chat_Grounded
  imports Proxy_Properties Kernel_Support
begin

text \<open>
  The proxy, the guard, the gRPC service and the kernel together: what an answered chat says.
\<close>

text \<open>The service offers no selector that returns a struct, so no plan can bring values of its own.\<close>

lemma service_no_struct: "struct_params (get_manifest st rid) ops = {}"
proof -
  have "selectors_index [service_selector] = [(sel_sel service_selector, service_selector)]"
    by (simp add: selectors_index_def bm_collect_def)
  moreover have "selector_return_from_i32 (sel_return_type service_selector) \<noteq> ReturnStruct" by code_simp
  ultimately show ?thesis by (auto simp: struct_params_def get_manifest_def bm_get_def split: if_splits)
qed

text \<open>The text of an answer that rests on assertions.\<close>

lemma asserted_content:
  assumes "execute E req opts = Some resp" and "rs_assertions resp \<noteq> []"
  shows "answer_content resp = join ''\<newline>\<newline>'' (map (assertion_block E) (rs_assertions resp))"
proof -
  from assms(2) obtain a where "a \<in> set (rs_assertions resp)" by (cases "rs_assertions resp") auto
  from execute_assertion_proof [OF assms(1) this] show ?thesis
  proof (rule execute_proofE [OF assms(1)])
    fix mf plan rs rendered
    assume "rs_assertions resp = rn_assertions rs" "rs_rendered resp = Some rendered"
      "render_output E (pl_outputs plan) (rn_regs rs) (rn_assertions rs) opts = Some (Ok rendered)"
    with assms(2) show ?thesis by (auto simp: answer_content_def render_output_def verified_blocks_def)
  qed
qed

text \<open>An OK response has a proof.\<close>

lemma ok_has_proof:
  assumes "execute E req opts = Some resp" and "status_of resp = StatusOk"
  shows "\<exists>pf. rs_proof resp = Some pf"
proof -
  have st: "status_of resp = x" if "rs_status resp = execution_status_to_i32 x" for x
    by (simp add: status_of_def that execution_status_enum.try_from_to default_to_def
        del: execution_status_to_i32.simps)
  from response_cases [OF assms(1)] show ?thesis
    by (elim disjE conjE) (use assms(2) in \<open>auto dest!: st simp del: execution_status_to_i32.simps\<close>)
qed

text \<open>C4. What an answered chat says, over the gRPC service. The event was appended under the
  authenticated subject; the plan is the one that \<open>resolve_plan\<close> finds (in the header, by the model,
  or the deterministic one) over all that the service then remembers; it passed the guard, and the
  answer and its roots are those of the kernel's OK response to this plan over this manifest. When
  the plan asserts something the text is made of the assertions; and every value in them is a field
  of a remembered handle of unbroken lineage, or an integer. (When it asserts nothing the text is that
  of the plan's output registers, for which no such thing holds:
  \<open>Kernel_Findings.unasserted_output_rendered\<close>.)\<close>

theorem chat_answer_grounded:
  assumes "handle_chat_completion W A C store_res (grpc_rmvm E opts) (\<lambda>_ s. s) state hdrs request st = (st', Ok (r, hs))"
  shows "\<exists>msg subject mf plan source resp pf.
    extract_user_message request = Some msg \<and>
    resolve_context W A C store_res state hdrs request = Ok subject \<and>
    st' = fst (append_event st \<lparr>ae_request_id = ''req-'' @ w_uuid W AtBrainId, ae_subject = subject, ae_text = msg,
      ae_scope = scope_to_i32 ScopeGlobal\<rparr>) \<and>
    mf = get_manifest st' (''req-'' @ w_uuid W AtBrainId) \<and>
    resolve_plan W state hdrs (build_plan_only_prompt msg mf) mf (''req-'' @ w_uuid W AtBrainId) subject
      = Ok (plan, source) \<and>
    validate_plan_against_manifest plan mf = Ok () \<and>
    execute E \<lparr>er_manifest = Some mf, er_plan = Some plan\<rparr> opts = Some resp \<and>
    status_of resp = StatusOk \<and> rs_proof resp = Some pf \<and>
    ce_semantic_root (cr_cortex r) = Some (mp_semantic_root pf) \<and>
    ce_trace_root (cr_cortex r) = Some (mp_trace_root pf) \<and>
    cr_content r = answer_content resp \<and>
    (rs_assertions resp \<noteq> [] \<longrightarrow>
       cr_content r = join ''\<newline>\<newline>'' (map (assertion_block E) (rs_assertions resp))) \<and>
    (\<forall>a \<in> set (rs_assertions resp). \<forall>x \<in> snd ` set (va_fields a).
       (\<exists>h \<in> set (pm_handles mf). (\<exists>path. handle_field h path = Some x) \<and> \<not> broken opts (h_ref h)) \<or>
       (\<exists>n. x = Some (V_I64 n)))"
proof -
  let ?rid = "''req-'' @ w_uuid W AtBrainId"
  from handle_chat_Ok [OF assms] obtain msg subject st1 ev mf st2 where
    m: "extract_user_message request = Some msg" "resolve_context W A C store_res state hdrs request = Ok subject"
      "rpc_append (grpc_rmvm E opts) \<lparr>ae_request_id = ?rid, ae_subject = subject, ae_text = msg,
        ae_scope = scope_to_i32 ScopeGlobal\<rparr> st = (st1, Ok ev)"
      "rpc_manifest (grpc_rmvm E opts) ?rid st1 = (st2, Ok (Some mf))"
      "plan_and_execute W (grpc_rmvm E opts) (\<lambda>_ s. s) state hdrs request msg ?rid subject mf st2 = (st', Ok (r, hs))"
    by metis
  from plan_and_execute_Ok [OF m(5)] obtain plan source resp where
    p: "resolve_plan W state hdrs (build_plan_only_prompt msg mf) mf ?rid subject = Ok (plan, source)"
      "validate_plan_against_manifest plan mf = Ok ()"
      "rpc_execute (grpc_rmvm E opts) \<lparr>er_manifest = Some mf, er_plan = Some plan\<rparr> st2 = (st', Ok resp)"
      "map_execute_response W resp request (build_plan_only_prompt msg mf) source
        (cortex_headers W resp source) = Ok (r, hs)" by blast
  have st': "st' = fst (append_event st \<lparr>ae_request_id = ?rid, ae_subject = subject, ae_text = msg,
      ae_scope = scope_to_i32 ScopeGlobal\<rparr>)"
    using grpc_rmvm_states(1) [OF m(3)] grpc_rmvm_states(2) [OF m(4)] grpc_rmvm_states(3) [OF p(3)] by simp
  have mf: "mf = get_manifest st' ?rid" using m(4) p(3) by (auto simp: grpc_rmvm_def)
  have run: "execute E \<lparr>er_manifest = Some mf, er_plan = Some plan\<rparr> opts = Some resp"
    using p(3) by (simp add: grpc_rmvm_def service_execute_def)
  note answer = map_execute_response_Ok [OF p(4)]
  obtain pf where pf: "rs_proof resp = Some pf"
    using ok_has_proof [OF run] answer by blast
  have "assertion_supported mf {} opts a" if "a \<in> set (rs_assertions resp)" for a
  proof -
    have "assertion_supported mf (struct_params mf (plan_ops plan)) opts a"
      by (rule support.response_keeps [OF run that _ _ refl subset_refl]) simp_all
    then show ?thesis by (simp add: mf service_no_struct)
  qed
  then have "\<forall>a \<in> set (rs_assertions resp). \<forall>x \<in> snd ` set (va_fields a).
       (\<exists>h \<in> set (pm_handles mf). (\<exists>path. handle_field h path = Some x) \<and> \<not> broken opts (h_ref h)) \<or>
       (\<exists>n. x = Some (V_I64 n))"
    unfolding assertion_supported_def value_backed_def backs_def by blast
  then show ?thesis
    using m(1,2) p(1,2) run st' mf answer asserted_content [OF run] pf
    by (intro exI [of _ msg] exI [of _ subject] exI [of _ mf] exI [of _ plan] exI [of _ source] exI [of _ resp]
        exI [of _ pf]) (simp del: append.simps scope_to_i32.simps)
qed

lemma chat_answer_grounded_witness:
  "\<exists>st r out plan resp. eve_chat ''hello'' = (st, Ok (r, out)) \<and>
     execute demo_env \<lparr>er_manifest = Some (get_manifest st ''req-u''), er_plan = Some plan\<rparr> default_options = Some resp \<and>
     cr_content r = answer_content resp"
proof -
  obtain r out where r: "eve_chat ''hello'' = (fst (append_event tea_state (eve_event ''hello'')), Ok (r, out))"
    using eve_answered by blast
  have "''req-'' @ w_uuid toy_web AtBrainId = ''req-u''" by (simp add: toy_web_def)
  with chat_answer_grounded [OF r [unfolded eve_chat_def]] r show ?thesis by metis
qed

end
