(* ===== verification/Cli.thy ===== *)
theory Cli
  imports Proxy
begin

text \<open>
  The command line (\<open>crates/cortex-app/src/cli.rs\<close>), from the parsed arguments on: the
  commands of \<open>cortex brain\<close>, \<open>cortex auth map-key\<close>, and what \<open>cortex proxy serve\<close> starts
  the proxy with. Parsing the arguments, with their default values, is the \<open>clap\<close> crate's.

  A \<open>disk\<close> holds the home directories by path and the package files by path; two paths are the
  same directory here only if they are the same text. A command answers the lines it prints;
  every command prints after its last call that can fail.
\<close>

section \<open>Surroundings\<close>

record disk =
  dk_homes :: "string \<Rightarrow> home"
  dk_packages :: "string \<Rightarrow> brain_package json_file"

text \<open>\<open>dirs::home_dir\<close>, the texts of \<open>serde_json\<close>, the parser of socket addresses, and
  whether the directories of a store can be made.\<close>

record shell =
  sh_home_dir :: "string option"
  sh_can_create :: "string \<Rightarrow> bool"
  sh_json_text :: "json \<Rightarrow> string"
  sh_brains_text :: "brain_summary list \<Rightarrow> string"
  sh_rows_text :: "audit_entry list \<Rightarrow> string"
  sh_socket_addr :: "string \<Rightarrow> string option"

definition path_join :: "string \<Rightarrow> string \<Rightarrow> string" where
  "path_join d name = (if d = [] \<or> last d = CHR ''/'' then d @ name else d @ ''/'' @ name)"

text \<open>\<open>BrainStore::new\<close>: the path of the store's home directory.\<close>

definition open_store :: "shell \<Rightarrow> ambient \<Rightarrow> string option \<Rightarrow> string stored" where
  "open_store H A home_override =
     res_bind
       (case home_override of
          Some path \<Rightarrow> Ok path
        | None \<Rightarrow>
            (case amb_var A ''CORTEX_HOME'' of
               Some v \<Rightarrow> Ok v
             | None \<Rightarrow>
                 res_bind (ok_or (Anyhow ''cannot resolve home dir'') (sh_home_dir H))
                   (\<lambda>d. Ok (path_join d ''.cortex''))))
       (\<lambda>path. if sh_can_create H path then Ok path else Err (Foreign ''fs''))"

section \<open>Commands\<close>

record create_cmd =
  cc_name :: string
  cc_path :: "string option"
  cc_tenant :: string
  cc_passphrase_env :: "string option"

record export_cmd =
  xc_brain :: string
  xc_out :: string
  xc_signing_key :: "string option"

record import_cmd =
  ic_input :: string
  ic_name :: "string option"
  ic_verify_only :: bool

record branch_cmd =
  bc_brain :: string
  bc_new_branch :: string

datatype merge_strategy_arg = ArgOurs | ArgTheirs | ArgManual

record merge_cmd =
  mc_source :: string
  mc_target :: string
  mc_strategy :: merge_strategy_arg
  mc_brain :: "string option"

record forget_cmd =
  fc_subject :: string
  fc_predicate :: string
  fc_scope :: string
  fc_reason :: string
  fc_brain :: "string option"

record attach_cmd =
  tc_agent :: string
  tc_model :: string
  tc_read :: string
  tc_write :: string
  tc_sinks :: string
  tc_ttl :: "string option"
  tc_brain :: "string option"

record detach_cmd =
  dc_agent :: string
  dc_model :: "string option"
  dc_brain :: "string option"

record audit_cmd =
  ac_since :: "string option"
  ac_until :: "string option"
  ac_subject :: "string option"
  ac_json :: bool
  ac_brain :: "string option"

record serve_cmd =
  sc_addr :: string
  sc_endpoint :: string
  sc_brain :: "string option"
  sc_planner_mode :: string
  sc_planner_base_url :: string
  sc_planner_model :: string
  sc_planner_api_key :: "string option"
  sc_planner_timeout_secs :: u64

record map_key_cmd =
  kc_api_key :: string
  kc_tenant :: string
  kc_brain :: string
  kc_subject :: string

datatype brain_command =
    CmdCreate create_cmd
  | CmdUse string
  | CmdList bool
  | CmdExport export_cmd
  | CmdImport import_cmd
  | CmdBranch branch_cmd
  | CmdMerge merge_cmd
  | CmdForget forget_cmd
  | CmdAttach attach_cmd
  | CmdDetach detach_cmd
  | CmdAudit audit_cmd

section \<open>Small functions\<close>

text \<open>\<open>split(',')\<close>.\<close>

fun split_commas :: "string \<Rightarrow> string list" where
  "split_commas [] = [[]]"
| "split_commas (c # s) =
     (if c = CHR '','' then [] # split_commas s
      else case split_commas s of [] \<Rightarrow> [[c]] | w # ws \<Rightarrow> (c # w) # ws)"

definition split_csv :: "string \<Rightarrow> string list" where
  "split_csv s = filter (\<lambda>v. v \<noteq> []) (map trim (split_commas s))"

fun strategy_of :: "merge_strategy_arg \<Rightarrow> merge_strategy" where
  "strategy_of ArgOurs = Ours"
| "strategy_of ArgTheirs = Theirs"
| "strategy_of ArgManual = Manual"

definition brain_line :: "string option \<Rightarrow> brain_summary \<Rightarrow> string" where
  "brain_line active b =
     (if active = Some (bsm_brain_id b) then ''*'' else '' '') @ '' '' @ bsm_name b @ '' ['' @ bsm_brain_id b @
     ''] tenant='' @ bsm_tenant_id b @ '' branch='' @ bsm_active_branch b"

definition audit_line :: "shell \<Rightarrow> audit_entry \<Rightarrow> string" where
  "audit_line H r = au_ts r @ '' '' @ au_actor r @ '' '' @ au_action r @ '' '' @ sh_json_text H (au_details r)"

definition audit_rows :: "shell \<Rightarrow> audit_cmd \<Rightarrow> audit_entry list \<Rightarrow> audit_entry list" where
  "audit_rows H c rows =
     (case ac_subject c of
        None \<Rightarrow> rows
      | Some subject \<Rightarrow> filter (\<lambda>r. find_sub subject (sh_json_text H (au_details r)) \<noteq> None) rows)"

definition grant_of :: "attach_cmd \<Rightarrow> attachment_grant" where
  "grant_of c = \<lparr>ag_agent_id = tc_agent c, ag_model_id = tc_model c, ag_read_classes = split_csv (tc_read c),
     ag_write_classes = split_csv (tc_write c), ag_sinks = split_csv (tc_sinks c), ag_expires_at = tc_ttl c\<rparr>"

section \<open>The handlers\<close>

definition at_home :: "disk \<Rightarrow> string \<Rightarrow> (home \<Rightarrow> home \<times> 'r) \<Rightarrow> disk \<times> 'r" where
  "at_home dk place f =
     (case f (dk_homes dk place) of (h', r) \<Rightarrow> (dk\<lparr>dk_homes := (dk_homes dk)(place := h')\<rparr>, r))"

text \<open>\<open>?\<close> on a call that returns the changed home, and the line printed after it.\<close>

definition prints :: "('a \<Rightarrow> string) \<Rightarrow> home \<times> 'a stored \<Rightarrow> home \<times> string list stored" where
  "prints line hr = (case hr of (h, r) \<Rightarrow> (h, res_bind r (\<lambda>x. Ok [line x])))"

definition with_active ::
  "ambient \<Rightarrow> home \<Rightarrow> string option \<Rightarrow> (brain_summary \<Rightarrow> home \<times> 'r stored) \<Rightarrow> home \<times> 'r stored" where
  "with_active A h brain f =
     (case resolve_brain_or_active A h brain of Err e \<Rightarrow> (h, Err e) | Ok b \<Rightarrow> f b)"

fun create_lines :: "brain_summary \<Rightarrow> string list" where
  "create_lines b = [''Created brain '' @ bsm_name b @ '' ('' @ bsm_brain_id b @ '')'',
     ''Set active with: cortex brain use '' @ bsm_brain_id b]"

definition import_lines :: "import_cmd \<Rightarrow> brain_summary option \<Rightarrow> string list" where
  "import_lines c res =
     (if ic_verify_only c then [''Import verification passed: '' @ ic_input c]
      else case res of
        None \<Rightarrow> []
      | Some b \<Rightarrow> [''Imported brain '' @ bsm_name b @ '' ('' @ bsm_brain_id b @ '')''])"

definition list_lines :: "shell \<Rightarrow> home \<Rightarrow> ambient \<Rightarrow> bool \<Rightarrow> string list stored" where
  "list_lines H h A as_json =
     res_bind (list_brains A h) (\<lambda>all.
     if as_json then Ok [sh_brains_text H all]
     else res_bind (active_brain_id h) (\<lambda>active. Ok (map (brain_line active) all)))"

definition audit_lines :: "shell \<Rightarrow> home \<Rightarrow> ambient \<Rightarrow> crates \<Rightarrow> audit_cmd \<Rightarrow> string list stored" where
  "audit_lines H h A C c =
     res_bind (resolve_brain_or_active A h (ac_brain c)) (\<lambda>b.
     res_bind (audit_trace A C h (bsm_brain_id b)) (\<lambda>all.
     let rows = audit_rows H c all in
     if ac_json c then Ok [sh_rows_text H rows] else Ok (map (audit_line H) rows)))"

text \<open>The commands that work in one home directory.\<close>

definition brain_in_home ::
  "shell \<Rightarrow> ambient \<Rightarrow> crates \<Rightarrow> (string \<Rightarrow> brain_package json_file) \<Rightarrow> brain_command \<Rightarrow> home \<Rightarrow>
   home \<times> string list stored" where
  "brain_in_home H A C packages cmd h =
     (case cmd of
        CmdUse brain \<Rightarrow>
          prints (\<lambda>b. ''Active brain set: '' @ bsm_name b @ '' ('' @ bsm_brain_id b @ '')'') (set_active_brain A h brain)
      | CmdList as_json \<Rightarrow> (h, list_lines H h A as_json)
      | CmdImport c \<Rightarrow>
          (case import_brain A C h (packages (ic_input c)) (ic_name c) (ic_verify_only c) of
             (h', r) \<Rightarrow> (h', res_bind r (\<lambda>res. Ok (import_lines c res))))
      | CmdBranch c \<Rightarrow>
          prints (\<lambda>_. ''Created branch '' @ bc_new_branch c @ '' in '' @ bc_brain c)
            (branch A C h (bc_brain c) (bc_new_branch c))
      | CmdMerge c \<Rightarrow>
          with_active A h (mc_brain c) (\<lambda>b.
            prints (\<lambda>report. ''Merged source='' @ mc_source c @ '' target='' @ mc_target c @ '' merged='' @
                show_nat (mr_merged report) @ '' conflicts='' @ show_nat (length (mr_conflicts report)))
              (merge A C h (bsm_brain_id b) (mc_source c) (mc_target c) (strategy_of (mc_strategy c))))
      | CmdForget c \<Rightarrow>
          with_active A h (fc_brain c) (\<lambda>b.
            prints (\<lambda>suppressed. ''Suppressed '' @ show_nat suppressed @ '' objects for subject='' @ fc_subject c @
                '' predicate='' @ fc_predicate c)
              (forget_suppress A C h (bsm_brain_id b) (fc_subject c) (fc_predicate c) (fc_scope c) (fc_reason c)))
      | CmdAttach c \<Rightarrow>
          with_active A h (tc_brain c) (\<lambda>b.
            prints (\<lambda>_. ''Attachment saved for brain '' @ bsm_brain_id b)
              (attach A C h (bsm_brain_id b) (grant_of c)))
      | CmdDetach c \<Rightarrow>
          with_active A h (dc_brain c) (\<lambda>b.
            prints (\<lambda>removed. ''Removed '' @ show_nat removed @ '' attachment(s)'')
              (detach A C h (bsm_brain_id b) (dc_agent c) (dc_model c)))
      | CmdAudit c \<Rightarrow> (h, audit_lines H h A C c)
      | CmdCreate c \<Rightarrow>
          (case create_brain A C h \<lparr>cb_name = cc_name c, cb_tenant_id = cc_tenant c,
               cb_passphrase_env = cc_passphrase_env c\<rparr> of
             (h', r) \<Rightarrow> (h', res_bind r (\<lambda>b. Ok (create_lines b))))
      | CmdExport c \<Rightarrow>
          (h, res_bind (export_brain A C h (xc_brain c))
            (\<lambda>_. Ok [''Exported brain '' @ xc_brain c @ '' to '' @ xc_out c])))"

text \<open>Where a command works, the package that an export writes, and the write.\<close>

definition command_place :: "shell \<Rightarrow> ambient \<Rightarrow> brain_command \<Rightarrow> string stored" where
  "command_place H A cmd =
     res_bind (open_store H A None) (\<lambda>place.
     case cmd of
       CmdCreate c \<Rightarrow> (case cc_path c of Some path \<Rightarrow> open_store H A (Some path) | None \<Rightarrow> Ok place)
     | _ \<Rightarrow> Ok place)"

definition exported :: "ambient \<Rightarrow> crates \<Rightarrow> home \<Rightarrow> brain_command \<Rightarrow> (string \<times> brain_package) option" where
  "exported A C h cmd =
     (case cmd of
        CmdExport c \<Rightarrow>
          (case export_brain A C h (xc_brain c) of Err _ \<Rightarrow> None | Ok p \<Rightarrow> Some (xc_out c, p))
      | _ \<Rightarrow> None)"

definition write_package :: "ambient \<Rightarrow> string \<Rightarrow> brain_package \<Rightarrow> disk \<Rightarrow> disk \<times> unit stored" where
  "write_package A out p dk =
     (case amb_disk A ToPackage of
        Written \<Rightarrow> (dk\<lparr>dk_packages := (dk_packages dk)(out := Holds p)\<rparr>, Ok ())
      | Refused \<Rightarrow> (dk, Err (Foreign ''fs''))
      | CutShort \<Rightarrow> (dk\<lparr>dk_packages := (dk_packages dk)(out := Garbled)\<rparr>, Err (Foreign ''fs'')))"

definition handle_brain ::
  "shell \<Rightarrow> ambient \<Rightarrow> crates \<Rightarrow> disk \<Rightarrow> brain_command \<Rightarrow> disk \<times> string list stored" where
  "handle_brain H A C dk cmd =
     (case command_place H A cmd of
        Err e \<Rightarrow> (dk, Err e)
      | Ok place \<Rightarrow>
          let (dk', r) = at_home dk place (brain_in_home H A C (dk_packages dk) cmd) in
          (case exported A C (dk_homes dk place) cmd of
             None \<Rightarrow> (dk', r)
           | Some (out, p) \<Rightarrow>
               let (dk'', w) = write_package A out p dk' in (dk'', res_bind w (\<lambda>_. r))))"

text \<open>\<open>cortex auth map-key\<close>.\<close>

definition map_key :: "ambient \<Rightarrow> crates \<Rightarrow> map_key_cmd \<Rightarrow> home \<Rightarrow> home \<times> string list stored" where
  "map_key A C c h =
     (case resolve_brain A h (kc_brain c) of
        Err e \<Rightarrow> (h, Err e)
      | Ok b \<Rightarrow>
          if bsm_tenant_id b \<noteq> kc_tenant c
          then (h, Err (Anyhow (''tenant mismatch: brain tenant='' @ bsm_tenant_id b @ '' but --tenant='' @ kc_tenant c)))
          else prints (\<lambda>_. ''Mapped API key to brain '' @ bsm_brain_id b)
            (map_api_key A C h (kc_api_key c) (kc_tenant c) (bsm_brain_id b) (kc_subject c)))"

definition handle_auth ::
  "shell \<Rightarrow> ambient \<Rightarrow> crates \<Rightarrow> disk \<Rightarrow> map_key_cmd \<Rightarrow> disk \<times> string list stored" where
  "handle_auth H A C dk c =
     (case open_store H A None of Err e \<Rightarrow> (dk, Err e) | Ok place \<Rightarrow> at_home dk place (map_key A C c))"

section \<open>What the proxy is started with\<close>

record proxy_config =
  px_bind_addr :: string
  px_endpoint :: string
  px_default_brain :: "string option"
  px_brain_home :: "string option"
  px_planner :: planner_config
  px_timeout_secs :: u64

definition serve_config :: "shell \<Rightarrow> ambient \<Rightarrow> serve_cmd \<Rightarrow> proxy_config stored" where
  "serve_config H A c =
     res_bind (ok_or (Anyhow (''invalid socket address '' @ [char_of (39 :: nat)] @ sc_addr c @ [char_of (39 :: nat)]))
         (sh_socket_addr H (sc_addr c))) (\<lambda>addr.
     res_bind (map_err Anyhow (planner_mode_parse (sc_planner_mode c))) (\<lambda>mode.
     Ok \<lparr>px_bind_addr = addr, px_endpoint = sc_endpoint c, px_default_brain = sc_brain c, px_brain_home = None,
         px_planner = \<lparr>pc_mode = mode, pc_base_url = sc_planner_base_url c, pc_model = sc_planner_model c,
           pc_api_key = (case sc_planner_api_key c of
             Some key \<Rightarrow> Some key | None \<Rightarrow> amb_var A ''OPENAI_API_KEY'')\<rparr>,
         px_timeout_secs = sc_planner_timeout_secs c\<rparr>))"

text \<open>\<open>build_state\<close>; the HTTP client to the planner is \<open>w_planner\<close>.\<close>

definition build_state :: "proxy_config \<Rightarrow> app_state" where
  "build_state config = \<lparr>ap_default_brain = px_default_brain config, ap_planner = px_planner config\<rparr>"

text \<open>The request that the served proxy handles, over the store of the disk.\<close>

definition served_chat ::
  "shell \<Rightarrow> web \<Rightarrow> ambient \<Rightarrow> crates \<Rightarrow> disk \<Rightarrow> 's rmvm \<Rightarrow> (nat \<Rightarrow> 's \<Rightarrow> 's) \<Rightarrow> proxy_config \<Rightarrow>
   headers \<Rightarrow> chat_completion_request \<Rightarrow> 's \<Rightarrow> 's \<times> (api_error + chat_completion_response \<times> headers)" where
  "served_chat H W A C dk R others config =
     handle_chat_completion W A C (res_bind (open_store H A (px_brain_home config)) (\<lambda>place. Ok (dk_homes dk place)))
       R others (build_state config)"

end
