(* ===== verification/Cli_Properties.thy ===== *)
theory Cli_Properties
  imports Cli Brain_Custody Proxy_Properties
begin

text \<open>
  The properties of the command line: what a command that fails has changed, and how a key that
  \<open>cortex auth map-key\<close> maps is answered by the proxy.
\<close>

section \<open>Operations that fail\<close>

text \<open>What an operation that failed may have left in a home directory: as it was; with the directory
  of a brain that was not created; or, when a write failed, a change of one brain's directory or of
  the configuration.\<close>

definition left_by_failure :: "ambient \<Rightarrow> brain_command \<Rightarrow> home \<Rightarrow> home \<Rightarrow> bool" where
  "left_by_failure A cmd h h' \<longleftrightarrow>
     h' = h \<or>
     (\<exists>c k. cmd = CmdCreate c \<and> h' = put_dir k (\<lambda>d. d) h) \<or>
     \<not> disk_works A \<and> (\<exists>k. only_dir k h h') \<or>
     \<not> disk_works A \<and> (\<exists>b. cmd = CmdUse b) \<and> h' = put_config Garbled h"

lemma left_unchanged [simp]: "left_by_failure A cmd h h"
  by (simp add: left_by_failure_def)

lemma left_by_mutate:
  "mutate_brain A C h brain_ref f = (h', Err e) \<Longrightarrow> left_by_failure A cmd h h'"
  using mutate_Err unfolding left_by_failure_def by blast

lemma left_by_set_active:
  "set_active_brain A h brain_ref = (h', Err e) \<Longrightarrow> left_by_failure A (CmdUse b) h h'"
  by (auto simp: left_by_failure_def set_active_brain_def home_bind_Err write_json_Err split: sum.splits dest: disk_fails)

lemma left_by_import:
  assumes "import_brain A C h pkg over verify_only = (h', Err e)"
  shows "left_by_failure A cmd h h'"
  by (rule import_cases [OF assms]) (auto simp: left_by_failure_def)

lemma left_by_create:
  assumes "create_brain A C h req = (h', Err e)"
  shows "left_by_failure A (CmdCreate c) h h'"
proof (cases "disk_works A")
  case True
  then show ?thesis
    using assms unfolding left_by_failure_def create_brain_def Let_def
    by (auto simp: home_bind_Err make_dir_Err split: sum.splits dest!: write_brain_Err)
next
  case False
  with create_brain_cases [OF assms refl] show ?thesis unfolding left_by_failure_def by blast
qed

lemma prints_Err: "prints line hr = (h', Err e) \<longleftrightarrow> hr = (h', Err e)"
  by (cases hr; cases "snd hr") (auto simp: prints_def)

lemma left_by_with_active:
  assumes "with_active A h brain (\<lambda>b. prints (line b) (mutate_brain A C h (bsm_brain_id b) (f b))) = (h', Err e)"
  shows "left_by_failure A cmd h h'"
  using assms left_by_mutate [of A C h _ _ h' e cmd]
  by (auto simp: with_active_def prints_Err split: sum.splits)

lemma left_by_command:
  assumes "brain_in_home H A C packages cmd h = (h', Err e)"
  shows "left_by_failure A cmd h h'"
proof (cases cmd)
  case (CmdCreate c)
  obtain h1 r where r: "create_brain A C h \<lparr>cb_name = cc_name c, cb_tenant_id = cc_tenant c,
      cb_passphrase_env = cc_passphrase_env c\<rparr> = (h1, r)" by (metis surj_pair)
  with assms CmdCreate have "h1 = h'" "r = Err e" by (auto simp: brain_in_home_def res_bind_Err_iff)
  with left_by_create [OF r [unfolded this]] CmdCreate show ?thesis by blast
next
  case (CmdUse brain)
  with assms left_by_set_active show ?thesis by (auto simp: brain_in_home_def prints_Err)
next
  case (CmdImport c)
  obtain h1 r where r: "import_brain A C h (packages (ic_input c)) (ic_name c) (ic_verify_only c) = (h1, r)"
    by (metis surj_pair)
  with assms CmdImport have "h1 = h'" "r = Err e" by (auto simp: brain_in_home_def res_bind_Err_iff)
  with left_by_import [OF r [unfolded this]] show ?thesis by blast
next
  case (CmdBranch c)
  with assms left_by_mutate show ?thesis by (auto simp: brain_in_home_def prints_Err branch_def)
next
  case (CmdMerge c)
  with assms left_by_with_active show ?thesis by (simp add: brain_in_home_def merge_def)
next
  case (CmdForget c)
  with assms left_by_with_active show ?thesis by (simp add: brain_in_home_def forget_suppress_def)
next
  case (CmdAttach c)
  with assms left_by_with_active show ?thesis by (simp add: brain_in_home_def attach_def)
next
  case (CmdDetach c)
  with assms left_by_with_active show ?thesis by (simp add: brain_in_home_def detach_def)
qed (use assms in \<open>auto simp: brain_in_home_def left_by_failure_def\<close>)

lemma exported_Ok:
  assumes "exported A C h cmd = Some (out, p)" and "brain_in_home H A C packages cmd h = (h', r)"
  obtains c line where "cmd = CmdExport c" "out = xc_out c" "h' = h" "r = Ok line"
  using assms by (auto simp: exported_def brain_in_home_def split: brain_command.splits sum.splits)

text \<open>C37. What a command that fails has changed. If every write was carried out, nothing, but for a
  failed \<open>create\<close>, which may leave the directory of the brain that it did not create. If a write
  failed, the change is within the home directory that the command worked in, to one brain's files
  there or, for \<open>use\<close>, to the configuration, which is cut short; the API keys are as they were, and
  of the package files at most the one that an \<open>export\<close> was writing is cut short.\<close>

theorem failed_command_keeps:
  assumes "handle_brain H A C dk cmd = (dk', Err e)"
  shows "dk' = dk \<or> (\<exists>place h'. command_place H A cmd = Ok place \<and>
    ((\<exists>c k. cmd = CmdCreate c \<and> h' = put_dir k (\<lambda>d. d) (dk_homes dk place)) \<or>
     \<not> disk_works A \<and> (\<exists>k. only_dir k (dk_homes dk place) h') \<or>
     \<not> disk_works A \<and> (\<exists>b. cmd = CmdUse b) \<and> h' = put_config Garbled (dk_homes dk place)) \<and>
    dk' = dk\<lparr>dk_homes := (dk_homes dk)(place := h')\<rparr>) \<or>
    \<not> disk_works A \<and> (\<exists>c. cmd = CmdExport c \<and> dk' = dk\<lparr>dk_packages := (dk_packages dk)(xc_out c := Garbled)\<rparr>)"
proof (cases "command_place H A cmd")
  case (Inl e')
  with assms show ?thesis by (simp add: handle_brain_def)
next
  case (Inr place)
  let ?h = "dk_homes dk place"
  obtain h' r where r: "brain_in_home H A C (dk_packages dk) cmd ?h = (h', r)" by (metis surj_pair)
  show ?thesis
  proof (cases "exported A C ?h cmd")
    case None
    with assms Inr r have d: "r = Err e" "dk' = dk\<lparr>dk_homes := (dk_homes dk)(place := h')\<rparr>"
      by (simp_all add: handle_brain_def at_home_def)
    from left_by_command [OF r [unfolded d(1)]] show ?thesis
      unfolding left_by_failure_def using d(2) Inr by auto
  next
    case (Some xp)
    then obtain out p where xp: "exported A C ?h cmd = Some (out, p)" by (cases xp) auto
    from exported_Ok [OF xp r] obtain c line where c: "cmd = CmdExport c" "out = xc_out c" "h' = ?h" "r = Ok line" .
    have "(case write_package A out p dk of (dk'', w) \<Rightarrow> (dk'', res_bind w (\<lambda>_. Ok line))) = (dk', Err e)"
      using assms Inr r xp c by (simp add: handle_brain_def at_home_def)
    then show ?thesis
      using c by (auto simp: write_package_def split: write_outcome.splits dest: disk_fails)
  qed
qed

definition toy_shell :: shell where
  "toy_shell = \<lparr>sh_home_dir = Some ''/home'', sh_can_create = \<lambda>_. True, sh_json_text = \<lambda>_. [],
     sh_brains_text = \<lambda>_. [], sh_rows_text = \<lambda>_. [], sh_socket_addr = Some\<rparr>"

definition toy_disk :: disk where
  "toy_disk = \<lparr>dk_homes = (\<lambda>_. empty_home)(''/home/.cortex'' := toy_home), dk_packages = \<lambda>_. Absent\<rparr>"

lemma toy_open: "open_store toy_shell toy_call None = Ok ''/home/.cortex''"
  by code_simp

lemma toy_list: "list_brains toy_call empty_home = Ok []"
  by (simp add: list_brains_def empty_home_def toy_call_def bm_keys_def)

lemma failed_command_keeps_witness:
  "\<exists>dk e. handle_brain toy_shell toy_call toy_crates (toy_disk\<lparr>dk_homes := \<lambda>_. empty_home\<rparr>) (CmdUse ''x'') =
     (dk, Err e) \<and> dk = toy_disk\<lparr>dk_homes := \<lambda>_. empty_home\<rparr>"
proof -
  have "\<exists>dk e. handle_brain toy_shell toy_call toy_crates (toy_disk\<lparr>dk_homes := \<lambda>_. empty_home\<rparr>) (CmdUse ''x'') =
     (dk, Err e)"
    by (simp add: handle_brain_def command_place_def toy_open at_home_def brain_in_home_def prints_def
        set_active_brain_def resolve_brain_def toy_list exported_def)
  then obtain dk e where r: "handle_brain toy_shell toy_call toy_crates (toy_disk\<lparr>dk_homes := \<lambda>_. empty_home\<rparr>)
      (CmdUse ''x'') = (dk, Err e)" by blast
  from failed_command_keeps [OF this] r show ?thesis by auto
qed

section \<open>Keys\<close>

text \<open>C8. A key that is mapped on the command line works at the proxy. After
  \<open>cortex auth map-key\<close> has succeeded the named brain exists and belongs to the named tenant,
  no brain has changed, and a proxy that \<open>cortex proxy serve\<close> starts on the same machine takes a
  request that bears the key for one of the given subject, whatever the request says itself.\<close>

theorem mapped_key_authenticates:
  assumes "handle_auth H A C dk c = (dk', Ok out)" and "serve_config H A sc = Ok config"
    and "kc_api_key c \<noteq> []" and "trim (kc_api_key c) = kc_api_key c"
    and "map_of hdrs ''authorization'' = Some x" and "w_header_text W x = Some (''Bearer '' @ kc_api_key c)"
  shows "\<exists>place b. open_store H A None = Ok place \<and>
    resolve_brain A (dk_homes dk place) (kc_brain c) = Ok b \<and> bsm_tenant_id b = kc_tenant c \<and>
    home_brains (dk_homes dk' place) = home_brains (dk_homes dk place) \<and>
    resolve_context W A C (res_bind (open_store H A (px_brain_home config)) (\<lambda>place. Ok (dk_homes dk' place)))
      (build_state config) hdrs request = Ok (kc_subject c)"
proof -
  from assms(1) obtain place h' where p: "open_store H A None = Ok place" "map_key A C c (dk_homes dk place) = (h', Ok out)"
    "dk_homes dk' place = h'"
    by (auto simp: handle_auth_def at_home_def split: sum.splits prod.splits)
  from p(2) obtain b where b: "resolve_brain A (dk_homes dk place) (kc_brain c) = Ok b" "bsm_tenant_id b = kc_tenant c"
    "map_api_key A C (dk_homes dk place) (kc_api_key c) (kc_tenant c) (bsm_brain_id b) (kc_subject c) = (h', Ok ())"
    by (auto simp: map_key_def prints_def split: sum.splits if_splits prod.splits)
  note key = map_api_key_routes [OF b(3)]
  have "px_brain_home config = None" using assms(2) by (auto simp: serve_config_def)
  moreover have "parse_bearer W hdrs = Ok (Some (kc_api_key c))"
    using assms(3-6) strip_prefix_Some [of "''Bearer ''"] by (simp add: parse_bearer_def)
  ultimately have "resolve_context W A C (res_bind (open_store H A (px_brain_home config))
      (\<lambda>place. Ok (dk_homes dk' place))) (build_state config) hdrs request = Ok (kc_subject c)"
    using key p(1,3) by (simp add: resolve_context_def)
  with p b key show ?thesis by auto
qed

definition toy_map_key :: map_key_cmd where
  "toy_map_key = \<lparr>kc_api_key = ''key'', kc_tenant = ''local'', kc_brain = toy_id, kc_subject = ''user:vinz''\<rparr>"

definition toy_serve :: serve_cmd where
  "toy_serve = \<lparr>sc_addr = ''127.0.0.1:8080'', sc_endpoint = ''grpc://127.0.0.1:50051'', sc_brain = None,
     sc_planner_mode = ''fallback'', sc_planner_base_url = [], sc_planner_model = [], sc_planner_api_key = None,
     sc_planner_timeout_secs = 30\<rparr>"

lemma toy_tenant:
  obtains b where "resolve_brain toy_call toy_home toy_id = Ok b" "bsm_tenant_id b = ''local''"
proof (rule toy_home_eq)
  fix m blob key_blob
  assume t: "toy_home = \<lparr>home_brains = [(toy_id, \<lparr>bd_manifest = Holds m, bd_state = Holds blob,
        bd_signing_key = Holds key_blob\<rparr>)], home_config = Absent, home_api_keys = Absent\<rparr>"
    "bmf_brain_id m = toy_id"
    and n: "new_brain toy_call toy_crates toy_request ''CORTEX_BRAIN_SECRET'' ''secret'' toy_id = Ok (m, blob, key_blob)"
  from n have "bmf_tenant_id m = ''local''" by (auto simp: new_brain_def Let_def toy_request_def)
  moreover have "resolve_brain toy_call toy_home toy_id = Ok (summary_of m)"
    by (rule toy_resolves [where m = m and d = "\<lparr>bd_manifest = Holds m, bd_state = Holds blob,
        bd_signing_key = Holds key_blob\<rparr>"]) (simp_all add: t)
  ultimately show thesis using that by (simp add: summary_of_def)
qed

lemma toy_writes: "write_json toy_call place put a h = (put (Holds a) h, Ok ())"
  by (simp add: write_json_def toy_call_def)

lemma mapped_key_authenticates_witness:
  "\<exists>dk out config. handle_auth toy_shell toy_call toy_crates toy_disk toy_map_key = (dk, Ok out) \<and>
     serve_config toy_shell toy_call toy_serve = Ok config \<and>
     resolve_context toy_web toy_call toy_crates (res_bind (open_store toy_shell toy_call (px_brain_home config))
       (\<lambda>place. Ok (dk_homes dk place))) (build_state config) eve_headers (says ''hello'') = Ok ''user:vinz''"
proof (rule toy_tenant)
  fix b
  assume b: "resolve_brain toy_call toy_home toy_id = Ok b" "bsm_tenant_id b = ''local''"
  have "read_api_mappings toy_home = Ok []"
  proof (rule toy_home_eq)
    fix m blob key_blob
    assume t: "toy_home = \<lparr>home_brains = [(toy_id, \<lparr>bd_manifest = Holds m, bd_state = Holds blob,
        bd_signing_key = Holds key_blob\<rparr>)], home_config = Absent, home_api_keys = Absent\<rparr>"
    show ?thesis by (simp add: t read_api_mappings_def empty_file_def)
  qed
  then obtain dk out where r: "handle_auth toy_shell toy_call toy_crates toy_disk toy_map_key = (dk, Ok out)"
    using b by (simp add: handle_auth_def toy_open at_home_def toy_disk_def map_key_def toy_map_key_def
        prints_def map_api_key_def Let_def toy_writes)
  have "is_ok (serve_config toy_shell toy_call toy_serve)" by code_simp
  then obtain config where c: "serve_config toy_shell toy_call toy_serve = Ok config" by (auto simp: is_ok_iff)
  have k: "trim (kc_api_key toy_map_key) = kc_api_key toy_map_key" by code_simp
  from mapped_key_authenticates [OF r c _ k, of eve_headers "''Bearer key''" toy_web "says ''hello''"] r c
  show ?thesis by (auto simp: toy_map_key_def eve_headers_def toy_web_def)
qed

end
