(* ===== verification/Conformance.thy ===== *)
theory Conformance
  imports Kernel_Run
begin

text \<open>
  The conformance harness (\<open>crates/rmvm-tests/src/conformance.rs\<close> and
  \<open>bin/conformance_runner.rs\<close>): test vectors, their translation into requests, the comparison
  of a response with what a vector expects, and the runner with its two modes.

  \<open>harness\<close> collects what is not in the repository: the protobuf encoding of a response, the
  \<open>Debug\<close> text of a list of strings, and which writes of files fail, with the text of the error.
  A write that fails leaves the file as it was. A vector file is the vector that \<open>serde_json\<close>
  reads from it, and what is written is read back unchanged.
\<close>

text \<open>An error is its message.\<close>

type_synonym 'a parsed = "string + 'a"

section \<open>Vectors\<close>

datatype scalar_input = InS string | InB bool | InI64 i64 | InF64 f64 | InE string

record param_input =
  pin_name :: string
  pin_type :: string
  pin_enum_values :: "string list"

record selector_input =
  sin_sel :: string
  sin_description :: string
  sin_params :: "param_input list"
  sin_cost_weight :: f64
  sin_return_type :: string

record handle_input =
  hin_ref :: string
  hin_type_id :: string
  hin_availability :: string
  hin_subject :: "string option"
  hin_predicate_label :: "string option"
  hin_trust_tier :: "string option"
  hin_taint :: "string list"
  hin_scope :: "string option"
  hin_signature_summary :: "string option"
  hin_conflict_group_id :: "string option"
  hin_open_end :: "bool option"

record context_input =
  cin_name :: string
  cin_value :: scalar_input

record budget_input =
  bin_max_ops :: u32
  bin_max_join_depth :: u32
  bin_max_fanout :: u32
  bin_max_total_cost :: f64

record manifest_input =
  min_request_id :: string
  min_handles :: "handle_input list"
  min_selectors :: "selector_input list"
  min_context :: "context_input list"
  min_budget :: "budget_input option"

record binding_input =
  bdi_reg :: string
  bdi_field_path :: string

datatype citation_input = InHandleRef string | InAnchorRef string

datatype op_input =
    InFetch string
  | InApplySelector string "(string, scalar_input) bmap"
  | InResolve string string
  | InFilter string string "(string, scalar_input) bmap"
  | InJoin string string string
  | InProject string "string list"
  | InAssert string "(string, binding_input) bmap" "citation_input list"

record step_input =
  stin_out :: string
  stin_op :: op_input

record plan_input =
  pln_request_id :: string
  pln_steps :: "step_input list"
  pln_outputs :: "string list"

record options_input =
  oin_allow_partial_on_stall :: bool
  oin_degraded_mode :: bool
  oin_broken_lineage_handles :: "string list"
  oin_narrative_templates :: "string list"

record expected_stall =
  xs_handle_ref :: string
  xs_availability :: string
  xs_retrieval_ticket_present :: bool

record expected_outcome =
  xo_status :: string
  xo_error_code :: "string option"
  xo_semantic_root :: "string option"
  xo_verified_blocks :: "string list option"
  xo_stall :: "expected_stall option"

record determinism =
  dt_response_sha256 :: "string option"
  dt_assert_semantic_root :: bool

record conformance_vector =
  vec_id :: string
  vec_spec_version :: string
  vec_proto_version :: string
  vec_description :: string
  vec_manifest :: manifest_input
  vec_plan :: plan_input
  vec_options :: options_input
  vec_expect :: expected_outcome
  vec_determinism :: determinism

record execution_result =
  xr_response :: execute_response
  xr_bytes :: string
  xr_sha256 :: string

record vector_report =
  vp_vector_id :: string
  vp_status :: string
  vp_success :: bool
  vp_failures :: "string list"
  vp_response_sha256 :: string
  vp_response_len :: nat
  vp_semantic_root :: "string option"

datatype written = WBaseline | WExpectation | WReport | WDrift

record harness =
  hn_encode :: "execute_response \<Rightarrow> string"
  hn_show_blocks :: "string list \<Rightarrow> string"
  hn_write_error :: "written \<Rightarrow> string \<Rightarrow> string option"

section \<open>Names of enum values\<close>

text \<open>\<open>from_str_name\<close>, which \<open>prost\<close> generates from the names in the \<open>.proto\<close> file.\<close>

definition from_str_name :: "('a \<Rightarrow> string) \<Rightarrow> 'a list \<Rightarrow> string \<Rightarrow> 'a option" where
  "from_str_name as_str_name vals v = find (\<lambda>x. as_str_name x = v) vals"

locale enum_names =
  fixes as_str_name :: "'a \<Rightarrow> string" and vals :: "'a list"
  assumes complete: "x \<in> set vals" and unambiguous: "distinct (map as_str_name vals)"
begin

lemma name_of_value: "from_str_name as_str_name vals (as_str_name x) = Some x"
proof -
  have inj: "inj_on as_str_name (set vals)" using unambiguous by (simp add: distinct_map)
  have "find (\<lambda>y. as_str_name y = as_str_name x) vals \<noteq> None"
    using complete [of x] by (auto simp: find_None_iff)
  then obtain y where y: "find (\<lambda>y. as_str_name y = as_str_name x) vals = Some y" by blast
  then have "as_str_name y = as_str_name x" "y \<in> set vals" by (auto simp: find_Some_iff)
  with inj complete [of x] have "y = x" by (auto simp: inj_on_def)
  with y show ?thesis by (simp add: from_str_name_def)
qed

lemma value_of_name: "from_str_name as_str_name vals v = Some x \<Longrightarrow> as_str_name x = v"
  by (auto simp: from_str_name_def find_Some_iff)

end

definition handle_availability_values :: "handle_availability list" where
  "handle_availability_values = [HandleAvailabilityUnspecified, Ready, ArchivalPending, Offline]"

definition parse_availability :: "string \<Rightarrow> handle_availability parsed" where
  "parse_availability v = ok_or (''invalid HandleAvailability: '' @ v) (from_str_name handle_availability_as_str_name handle_availability_values v)"

interpretation handle_availability_names: enum_names handle_availability_as_str_name handle_availability_values
proof
  fix x
  show "x \<in> set handle_availability_values" by (cases x) (simp_all add: handle_availability_values_def)
qed (simp add: handle_availability_values_def)

definition trust_tier_values :: "trust_tier list" where
  "trust_tier_values = [TrustTierUnspecified, Tier0Quarantined, Tier1Asserted, Tier2Verified, Tier3Confirmed, Tier4PolicySigned]"

definition parse_trust_tier :: "string \<Rightarrow> trust_tier parsed" where
  "parse_trust_tier v = ok_or (''invalid TrustTier: '' @ v) (from_str_name trust_tier_as_str_name trust_tier_values v)"

interpretation trust_tier_names: enum_names trust_tier_as_str_name trust_tier_values
proof
  fix x
  show "x \<in> set trust_tier_values" by (cases x) (simp_all add: trust_tier_values_def)
qed (simp add: trust_tier_values_def)

definition taint_class_values :: "taint_class list" where
  "taint_class_values = [TaintUnspecified, TaintUser, TaintTool, TaintWebUntrusted, TaintWebTrusted, TaintMixed]"

definition parse_taint :: "string \<Rightarrow> taint_class parsed" where
  "parse_taint v = ok_or (''invalid TaintClass: '' @ v) (from_str_name taint_class_as_str_name taint_class_values v)"

interpretation taint_class_names: enum_names taint_class_as_str_name taint_class_values
proof
  fix x
  show "x \<in> set taint_class_values" by (cases x) (simp_all add: taint_class_values_def)
qed (simp add: taint_class_values_def)

definition scope_values :: "scope list" where
  "scope_values = [ScopeUnspecified, ScopeSession, ScopeProject, ScopePerson, ScopeOrg, ScopeGlobal]"

definition parse_scope :: "string \<Rightarrow> scope parsed" where
  "parse_scope v = ok_or (''invalid Scope: '' @ v) (from_str_name scope_as_str_name scope_values v)"

interpretation scope_names: enum_names scope_as_str_name scope_values
proof
  fix x
  show "x \<in> set scope_values" by (cases x) (simp_all add: scope_values_def)
qed (simp add: scope_values_def)

definition param_type_values :: "param_type list" where
  "param_type_values = [ParamTypeUnspecified, ParamString, ParamBool, ParamInt64, ParamFloat64, ParamTimestamp, ParamEnum, ParamScope]"

definition parse_param_type :: "string \<Rightarrow> param_type parsed" where
  "parse_param_type v = ok_or (''invalid ParamType: '' @ v) (from_str_name param_type_as_str_name param_type_values v)"

interpretation param_type_names: enum_names param_type_as_str_name param_type_values
proof
  fix x
  show "x \<in> set param_type_values" by (cases x) (simp_all add: param_type_values_def)
qed (simp add: param_type_values_def)

definition selector_return_values :: "selector_return list" where
  "selector_return_values = [SelectorReturnUnspecified, ReturnHandle, ReturnHandleSet, ReturnStruct]"

definition parse_selector_return :: "string \<Rightarrow> selector_return parsed" where
  "parse_selector_return v = ok_or (''invalid SelectorReturn: '' @ v) (from_str_name selector_return_as_str_name selector_return_values v)"

interpretation selector_return_names: enum_names selector_return_as_str_name selector_return_values
proof
  fix x
  show "x \<in> set selector_return_values" by (cases x) (simp_all add: selector_return_values_def)
qed (simp add: selector_return_values_def)

definition edge_type_values :: "edge_type list" where
  "edge_type_values = [EdgeTypeUnspecified, EdgeConflictsWith, EdgeSupersedes, EdgeProvenance, EdgeSameEntity]"

definition parse_edge_type_name :: "string \<Rightarrow> edge_type parsed" where
  "parse_edge_type_name v = ok_or (''invalid EdgeType: '' @ v) (from_str_name edge_type_as_str_name edge_type_values v)"

interpretation edge_type_names: enum_names edge_type_as_str_name edge_type_values
proof
  fix x
  show "x \<in> set edge_type_values" by (cases x) (simp_all add: edge_type_values_def)
qed (simp add: edge_type_values_def)

definition assertion_type_values :: "assertion_type list" where
  "assertion_type_values = [AssertionTypeUnspecified, AssertUserPreference, AssertWorldFact, AssertDecision, AssertProcedure, AssertConflictExplanation]"

definition parse_assertion_type_name :: "string \<Rightarrow> assertion_type parsed" where
  "parse_assertion_type_name v = ok_or (''invalid AssertionType: '' @ v) (from_str_name assertion_type_as_str_name assertion_type_values v)"

interpretation assertion_type_names: enum_names assertion_type_as_str_name assertion_type_values
proof
  fix x
  show "x \<in> set assertion_type_values" by (cases x) (simp_all add: assertion_type_values_def)
qed (simp add: assertion_type_values_def)

section \<open>From a vector to a request\<close>

fun to_value :: "scalar_input \<Rightarrow> value" where
  "to_value (InS s) = Some (V_S s)"
| "to_value (InB b) = Some (V_B b)"
| "to_value (InI64 i) = Some (V_I64 i)"
| "to_value (InF64 f) = Some (V_F64 f)"
| "to_value (InE e) = Some (V_E e)"

text \<open>\<open>map(..).transpose()?\<close> on an optional name, with a default.\<close>

definition parsed_or :: "('a \<Rightarrow> i32) \<Rightarrow> (string \<Rightarrow> 'a parsed) \<Rightarrow> 'a \<Rightarrow> string option \<Rightarrow> i32 parsed" where
  "parsed_or to_i32 parse d x =
     (case x of None \<Rightarrow> Ok (to_i32 d) | Some s \<Rightarrow> res_bind (parse s) (\<lambda>a. Ok (to_i32 a)))"

definition to_handle_ref :: "handle_input \<Rightarrow> handle_ref parsed" where
  "to_handle_ref input =
     res_bind (parse_availability (hin_availability input)) (\<lambda>av.
     res_bind (parsed_or trust_tier_to_i32 parse_trust_tier Tier3Confirmed (hin_trust_tier input)) (\<lambda>tier.
     res_bind (parsed_or scope_to_i32 parse_scope ScopeGlobal (hin_scope input)) (\<lambda>sc.
     res_bind (mapM (\<lambda>t. res_bind (parse_taint t) (\<lambda>v. Ok (taint_class_to_i32 v))) (hin_taint input)) (\<lambda>taint.
     Ok \<lparr>h_ref = hin_ref input, h_type_id = hin_type_id input, h_availability = handle_availability_to_i32 av,
        h_meta = Some \<lparr>hm_subject = default_to [] (hin_subject input),
          hm_predicate_label = default_to [] (hin_predicate_label input), hm_trust_tier = tier, hm_taint = taint,
          hm_temporal = Some \<lparr>tb_valid_from = None, tb_valid_to = None,
            tb_open_end = default_to True (hin_open_end input)\<rparr>,
          hm_scope = sc\<rparr>,
        h_signature_summary = default_to [] (hin_signature_summary input),
        h_conflict_group_id = default_to [] (hin_conflict_group_id input)\<rparr>))))"

definition to_selector_ref :: "selector_input \<Rightarrow> selector_ref parsed" where
  "to_selector_ref input =
     res_bind (mapM (\<lambda>p. res_bind (parse_param_type (pin_type p)) (\<lambda>t.
         Ok \<lparr>ps_name = pin_name p, ps_type = param_type_to_i32 t, ps_enum_values = pin_enum_values p\<rparr>))
       (sin_params input)) (\<lambda>ps.
     res_bind (parse_selector_return (sin_return_type input)) (\<lambda>rt.
     Ok \<lparr>sel_sel = sin_sel input, sel_description = sin_description input, sel_params = ps,
        sel_cost_weight = sin_cost_weight input, sel_return_type = selector_return_to_i32 rt\<rparr>))"

definition to_params :: "(string, scalar_input) bmap \<Rightarrow> params" where
  "to_params ps = bm_collect (map (\<lambda>(k, v). (k, to_value v)) ps)"

fun to_citation :: "citation_input \<Rightarrow> citation_ref" where
  "to_citation (InHandleRef v) = Some (CiteHandleRef v)"
| "to_citation (InAnchorRef v) = Some (CiteAnchorRef v)"

fun to_op :: "op_input \<Rightarrow> op parsed" where
  "to_op (InFetch href) = Ok (OpFetch href)"
| "to_op (InApplySelector sref ps) = Ok (OpApplySelector sref (to_params ps))"
| "to_op (InResolve in_reg pol) = Ok (OpResolve in_reg pol)"
| "to_op (InFilter in_reg fref ps) = Ok (OpFilter in_reg fref (to_params ps))"
| "to_op (InJoin l r edge) =
     res_bind (parse_edge_type_name edge) (\<lambda>e. Ok (OpJoin l r (edge_type_to_i32 e)))"
| "to_op (InProject in_reg paths) = Ok (OpProject in_reg paths)"
| "to_op (InAssert at bs cs) =
     res_bind (parse_assertion_type_name at) (\<lambda>t.
     Ok (OpAssert (assertion_type_to_i32 t)
       (bm_collect (map (\<lambda>(k, b). (k, \<lparr>vr_reg = bdi_reg b, vr_field_path = bdi_field_path b\<rparr>)) bs))
       (map to_citation cs)))"

definition to_step :: "step_input \<Rightarrow> step parsed" where
  "to_step input = res_bind (to_op (stin_op input)) (\<lambda>op. Ok \<lparr>st_out = stin_out input, st_op = Some op\<rparr>)"

definition to_execute_request :: "conformance_vector \<Rightarrow> execute_request parsed" where
  "to_execute_request vec =
     (let mi = vec_manifest vec; pin = vec_plan vec in
      res_bind (mapM to_handle_ref (min_handles mi)) (\<lambda>handles.
      res_bind (mapM to_selector_ref (min_selectors mi)) (\<lambda>selectors.
      let manifest = \<lparr>pm_request_id = min_request_id mi, pm_handles = handles, pm_selectors = selectors,
            pm_context = map (\<lambda>c. \<lparr>cv_name = cin_name c, cv_value = Some (to_value (cin_value c))\<rparr>) (min_context mi),
            pm_budget = map_option (\<lambda>b. \<lparr>pb_max_ops = bin_max_ops b, pb_max_join_depth = bin_max_join_depth b,
              pb_max_fanout = bin_max_fanout b, pb_max_total_cost = bin_max_total_cost b\<rparr>) (min_budget mi)\<rparr>
      in
      res_bind (mapM to_step (pln_steps pin)) (\<lambda>steps.
      Ok \<lparr>er_manifest = Some manifest,
         er_plan = Some \<lparr>pl_request_id = pln_request_id pin, pl_steps = steps,
           pl_outputs = map (\<lambda>r. \<lparr>os_reg = r\<rparr>) (pln_outputs pin)\<rparr>\<rparr>))))"

definition to_execute_options :: "options_input \<Rightarrow> execute_options" where
  "to_execute_options input =
     \<lparr>allow_partial_on_stall = oin_allow_partial_on_stall input, degraded_mode = oin_degraded_mode input,
      broken_lineage_handles = bs_extend [] (oin_broken_lineage_handles input),
      narrative_templates = oin_narrative_templates input\<rparr>"

section \<open>Running and comparing\<close>

text \<open>\<open>None\<close> is a panic of the kernel.\<close>

definition run_vector :: "harness \<Rightarrow> kernel_env \<Rightarrow> conformance_vector \<Rightarrow> execution_result parsed option" where
  "run_vector N E vec =
     (case to_execute_request vec of
        Err e \<Rightarrow> Some (Err e)
      | Ok request \<Rightarrow>
          (case execute E request (to_execute_options (vec_options vec)) of
             None \<Rightarrow> None
           | Some resp \<Rightarrow>
               Some (Ok \<lparr>xr_response = resp, xr_bytes = hn_encode N resp,
                 xr_sha256 = sha256_hex E (hn_encode N resp)\<rparr>)))"

definition status_name :: "i32 \<Rightarrow> string" where
  "status_name s = execution_status_as_str_name (default_to StatusUnspecified (execution_status_try_from s))"

definition code_name :: "i32 \<Rightarrow> string" where
  "code_name c = error_code_as_str_name (default_to ErrorCodeUnspecified (error_code_try_from c))"

definition availability_name :: "i32 \<Rightarrow> string" where
  "availability_name a =
     handle_availability_as_str_name (default_to HandleAvailabilityUnspecified (handle_availability_try_from a))"

definition fail_if :: "bool \<Rightarrow> string \<Rightarrow> string list" where
  "fail_if c msg = (if c then [msg] else [])"

definition show_bool :: "bool \<Rightarrow> string" where
  "show_bool b = (if b then ''true'' else ''false'')"

definition compare_root :: "conformance_vector \<Rightarrow> execute_response \<Rightarrow> string list" where
  "compare_root vec resp =
     (case xo_semantic_root (vec_expect vec) of
        Some expected_root \<Rightarrow>
          let actual = default_to [] (map_option mp_semantic_root (rs_proof resp)) in
          fail_if (expected_root \<noteq> actual)
            (''semantic_root mismatch: expected '' @ expected_root @ '', got '' @ actual)
      | None \<Rightarrow>
          fail_if (dt_assert_semantic_root (vec_determinism vec) \<and>
              status_name (rs_status resp) = execution_status_as_str_name StatusOk \<and>
              default_to True (map_option (\<lambda>p. mp_semantic_root p = []) (rs_proof resp)))
            ''semantic_root missing for OK response'')"

definition compare_stall :: "expected_stall \<Rightarrow> stall_info option \<Rightarrow> string list" where
  "compare_stall x stall =
     (case stall of
        None \<Rightarrow> [''expected STALL info but response has none'']
      | Some s \<Rightarrow>
          fail_if (si_handle_ref s \<noteq> xs_handle_ref x)
            (''stall.handle_ref mismatch: expected '' @ xs_handle_ref x @ '', got '' @ si_handle_ref s) @
          fail_if (availability_name (si_availability s) \<noteq> xs_availability x)
            (''stall.availability mismatch: expected '' @ xs_availability x @ '', got '' @
              availability_name (si_availability s)) @
          (let has_ticket = (trim (si_retrieval_ticket s) \<noteq> []) in
           fail_if (has_ticket \<noteq> xs_retrieval_ticket_present x)
             (''stall.retrieval_ticket_present mismatch: expected '' @ show_bool (xs_retrieval_ticket_present x) @
               '', got '' @ show_bool has_ticket)))"

definition compare_expected :: "harness \<Rightarrow> conformance_vector \<Rightarrow> execution_result \<Rightarrow> string list" where
  "compare_expected N vec result =
     (let resp = xr_response result;
          actual_status = status_name (rs_status resp);
          expected_error = default_to [] (xo_error_code (vec_expect vec));
          actual_error = default_to [] (map_option (\<lambda>e. code_name (ee_code e)) (rs_error resp))
      in
        fail_if (actual_status \<noteq> xo_status (vec_expect vec))
          (''status mismatch: expected '' @ xo_status (vec_expect vec) @ '', got '' @ actual_status) @
        fail_if (expected_error \<noteq> [] \<and> expected_error \<noteq> actual_error)
          (''error_code mismatch: expected '' @ expected_error @ '', got '' @ actual_error) @
        compare_root vec resp @
        (case xo_verified_blocks (vec_expect vec) of
           None \<Rightarrow> []
         | Some expected_blocks \<Rightarrow>
             let actual_blocks = default_to [] (map_option ro_verified_blocks (rs_rendered resp)) in
             fail_if (expected_blocks \<noteq> actual_blocks)
               (''verified_blocks mismatch: expected '' @ hn_show_blocks N expected_blocks @ '', got '' @
                 hn_show_blocks N actual_blocks)) @
        (case xo_stall (vec_expect vec) of None \<Rightarrow> [] | Some x \<Rightarrow> compare_stall x (rs_stall resp)) @
        (case dt_response_sha256 (vec_determinism vec) of
           None \<Rightarrow> []
         | Some expected_hash \<Rightarrow>
             fail_if (expected_hash \<noteq> xr_sha256 result)
               (''response sha256 mismatch: expected '' @ expected_hash @ '', got '' @ xr_sha256 result)))"

definition vector_report_of :: "conformance_vector \<Rightarrow> execution_result \<Rightarrow> string list \<Rightarrow> vector_report" where
  "vector_report_of vec result failures =
     \<lparr>vp_vector_id = vec_id vec, vp_status = status_name (rs_status (xr_response result)),
      vp_success = (failures = []), vp_failures = failures, vp_response_sha256 = xr_sha256 result,
      vp_response_len = length (xr_bytes result),
      vp_semantic_root = map_option mp_semantic_root (rs_proof (xr_response result))\<rparr>"

definition updated_expectations :: "conformance_vector \<Rightarrow> execution_result \<Rightarrow> conformance_vector" where
  "updated_expectations vec result =
     (let resp = xr_response result in
      vec\<lparr>vec_expect := \<lparr>xo_status = status_name (rs_status resp),
            xo_error_code = map_option (\<lambda>e. code_name (ee_code e)) (rs_error resp),
            xo_semantic_root = map_option mp_semantic_root (rs_proof resp),
            xo_verified_blocks = map_option ro_verified_blocks (rs_rendered resp),
            xo_stall = map_option (\<lambda>s. \<lparr>xs_handle_ref = si_handle_ref s,
              xs_availability = availability_name (si_availability s),
              xs_retrieval_ticket_present = (trim (si_retrieval_ticket s) \<noteq> [])\<rparr>) (rs_stall resp)\<rparr>,
          vec_determinism := (vec_determinism vec)\<lparr>dt_response_sha256 := Some (xr_sha256 result)\<rparr>\<rparr>)"

definition id_char :: "char \<Rightarrow> bool" where
  "id_char c \<longleftrightarrow> is_ascii_alphanumeric c \<or> c = CHR ''-''"

text \<open>\<open>chars()\<close>: a byte outside ASCII belongs to a character that is not allowed.\<close>

definition validate_vector_conventions :: "string \<Rightarrow> conformance_vector \<Rightarrow> string list" where
  "validate_vector_conventions filename vec =
     fail_if (vec_spec_version vec \<noteq> ''conformance/v1.0.0'')
       (''spec_version mismatch: expected conformance/v1.0.0, got '' @ vec_spec_version vec) @
     fail_if (vec_proto_version vec \<noteq> ''cortex_rmvm_v3_1'')
       (''proto_version mismatch: expected cortex_rmvm_v3_1, got '' @ vec_proto_version vec) @
     fail_if (\<not> list_all id_char (vec_id vec)) ''vector_id contains invalid characters'' @
     fail_if (filename \<noteq> vec_id vec)
       (''filename ('' @ filename @ '') does not match vector_id ('' @ vec_id vec @ '')'')"

section \<open>The runner\<close>

text \<open>The files that the runner reads and writes: the vectors by path, the baselines by vector, and
  the reports and drift artifacts of the run.\<close>

record files =
  fs_vectors :: "(string \<times> conformance_vector) list"
  fs_baselines :: "string \<Rightarrow> string option"
  fs_reports :: "string \<Rightarrow> vector_report option"
  fs_drifts :: "string \<Rightarrow> (string option \<times> string \<times> string) option"

definition write_vector :: "string \<Rightarrow> conformance_vector \<Rightarrow> files \<Rightarrow> files" where
  "write_vector path vec fs =
     fs\<lparr>fs_vectors := map (\<lambda>pv. if fst pv = path then (path, vec) else pv) (fs_vectors fs)\<rparr>"

text \<open>A write, with the line that is reported when it fails.\<close>

definition try_write ::
  "harness \<Rightarrow> written \<Rightarrow> string \<Rightarrow> string \<Rightarrow> (files \<Rightarrow> files) \<Rightarrow> files \<times> string list \<Rightarrow> files \<times> string list" where
  "try_write N w vid what upd acc =
     (case hn_write_error N w vid of
        None \<Rightarrow> (upd (fst acc), snd acc)
      | Some e \<Rightarrow> (fst acc, snd acc @ [vid @ '': '' @ what @ '': '' @ e]))"

definition write_drift ::
  "harness \<Rightarrow> string \<Rightarrow> execution_result \<Rightarrow> string \<Rightarrow> files \<times> string list \<Rightarrow> files \<times> string list" where
  "write_drift N vid result reason acc =
     try_write N WDrift vid ''failed to write drift artifacts''
       (\<lambda>fs. fs\<lparr>fs_drifts := (fs_drifts fs)(vid := Some (fs_baselines fs vid, xr_bytes result, reason))\<rparr>) acc"

definition sync_vector ::
  "harness \<Rightarrow> string \<times> conformance_vector \<Rightarrow> execution_result \<Rightarrow> files \<times> string list \<Rightarrow> files \<times> string list" where
  "sync_vector N pv result acc =
     (let vid = vec_id (snd pv) in
      try_write N WExpectation vid ''vector expectation sync failed''
        (write_vector (fst pv) (updated_expectations (snd pv) result))
        (try_write N WBaseline vid ''baseline write failed''
          (\<lambda>fs. fs\<lparr>fs_baselines := (fs_baselines fs)(vid := Some (xr_bytes result))\<rparr>) acc))"

text \<open>The comparison with the baseline, which may write drift artifacts.\<close>

definition check_vector ::
  "harness \<Rightarrow> kernel_env \<Rightarrow> conformance_vector \<Rightarrow> execution_result \<Rightarrow> files \<times> string list \<Rightarrow>
   (files \<times> string list) \<times> string list" where
  "check_vector N E vec result acc =
     (let failures = compare_expected N vec result in
      case fs_baselines (fst acc) (vec_id vec) of
        None \<Rightarrow> (acc, failures @ [''baseline missing''])
      | Some bytes \<Rightarrow>
          let hash = sha256_hex E bytes in
          if hash \<noteq> xr_sha256 result
          then
            let reason = ''baseline hash mismatch: expected '' @ hash @ '', got '' @ xr_sha256 result
            in (write_drift N (vec_id vec) result reason acc, failures @ [reason])
          else (acc, failures))"

definition runner_step ::
  "harness \<Rightarrow> kernel_env \<Rightarrow> bool \<Rightarrow> files \<times> string list \<Rightarrow> string \<times> conformance_vector \<Rightarrow>
   (files \<times> string list) option" where
  "runner_step N E sync acc pv =
     (let vec = snd pv; vid = vec_id vec in
      case run_vector N E vec of
        None \<Rightarrow> None
      | Some (Err e) \<Rightarrow> Some (fst acc, snd acc @ [vid @ '': execution failed: '' @ e])
      | Some (Ok result) \<Rightarrow>
          let (acc1, failures) =
                (if sync then (sync_vector N pv result acc, []) else check_vector N E vec result acc);
              acc2 = try_write N WReport vid ''report write failed''
                (\<lambda>fs. fs\<lparr>fs_reports := (fs_reports fs)(vid := Some (vector_report_of vec result failures))\<rparr>) acc1;
              acc3 = (if \<not> sync \<and> failures \<noteq> []
                then write_drift N vid result (join '' | '' failures) acc2 else acc2)
          in Some (fst acc3, snd acc3 @ map (\<lambda>f. vid @ '': '' @ f) failures))"

text \<open>The loop, until the kernel panics; the vectors are those read at the start.\<close>

fun runner_loop ::
  "harness \<Rightarrow> kernel_env \<Rightarrow> bool \<Rightarrow> (string \<times> conformance_vector) list \<Rightarrow> files \<times> string list \<Rightarrow>
   (files \<times> string list) option" where
  "runner_loop N E sync [] acc = Some acc"
| "runner_loop N E sync (pv # pvs) acc = Option.bind (runner_step N E sync acc pv) (runner_loop N E sync pvs)"

definition runner :: "harness \<Rightarrow> kernel_env \<Rightarrow> string \<Rightarrow> files \<Rightarrow> (files \<times> string list) option" where
  "runner N E mode fs = runner_loop N E (mode = ''sync'') (fs_vectors fs) (fs, [])"

end
