(* ===== verification/Conformance_Sync.thy ===== *)
theory Conformance_Sync
  imports Conformance Kernel_Shape
begin

text \<open>
  What the two modes of the conformance runner do, step by step: \<open>sync\<close> stores the baselines and
  rewrites the expectations, \<open>check\<close> compares with both.
\<close>

section \<open>One vector\<close>

text \<open>Nothing that is executed depends on what is expected.\<close>

lemma updated_request:
  "to_execute_request (updated_expectations vec r) = to_execute_request vec"
  "vec_options (updated_expectations vec r) = vec_options vec"
  by (simp_all add: to_execute_request_def updated_expectations_def Let_def)

lemma run_updated [simp]: "run_vector N E (updated_expectations vec r) = run_vector N E vec"
  by (simp add: run_vector_def updated_request split: sum.split)

lemma updated_id [simp]: "vec_id (updated_expectations vec r) = vec_id vec"
  by (simp add: updated_expectations_def Let_def)

lemma fail_if_empty [simp]: "fail_if c msg = [] \<longleftrightarrow> \<not> c"
  by (simp add: fail_if_def)

lemma run_vector_ok:
  assumes "run_vector N E vec = Some (Ok r)"
  obtains request where "execute E request (to_execute_options (vec_options vec)) = Some (xr_response r)"
    and "xr_sha256 r = sha256_hex E (xr_bytes r)"
  using assms by (auto simp: run_vector_def split: sum.splits option.splits)

text \<open>A name belongs to one status, so an OK response is told by its name.\<close>

lemma status_name_ok:
  assumes "execute E request opts = Some resp" "status_name (rs_status resp) = execution_status_as_str_name StatusOk"
  shows "rs_proof resp \<noteq> None"
  using response_cases [OF assms(1)] assms(2)
  by (auto simp: status_name_def execution_status_enum.try_from_to default_to_def
      simp del: execution_status_to_i32.simps)

text \<open>The rewritten expectations are met by the response they were taken from.\<close>

lemma updated_meets:
  assumes "run_vector N E vec = Some (Ok r)"
  shows "compare_expected N (updated_expectations vec r) r = []"
proof -
  from assms obtain request where e: "execute E request (to_execute_options (vec_options vec)) = Some (xr_response r)"
    by (rule run_vector_ok)
  from status_name_ok [OF e] show ?thesis
    by (auto simp: compare_expected_def updated_expectations_def compare_root_def compare_stall_def Let_def
        default_to_def split: option.splits)
qed

section \<open>A step of the loop\<close>

lemma try_write_grows: "\<exists>l. snd (try_write N w vid what upd acc) = snd acc @ l"
  by (auto simp: try_write_def split: option.splits)

lemma try_write_silent:
  assumes "snd (try_write N w vid what upd acc) = []"
  shows "hn_write_error N w vid = None" and "snd acc = []"
    and "try_write N w vid what upd acc = (upd (fst acc), [])"
  using assms by (auto simp: try_write_def split: option.splits)

lemma sync_step_silent:
  assumes "runner_step N E True (fs, log) (p, vec) = Some (fs', [])"
  obtains r where "run_vector N E vec = Some (Ok r)" and "hn_write_error N WReport (vec_id vec) = None"
    and "fs_vectors fs' = fs_vectors (write_vector p (updated_expectations vec r) fs)"
    and "fs_baselines fs' = (fs_baselines fs)(vec_id vec := Some (xr_bytes r))" and "log = []"
proof -
  from assms obtain r where r: "run_vector N E vec = Some (Ok r)"
    by (auto simp: runner_step_def Let_def split: option.splits sum.splits)
  let ?b = "try_write N WBaseline (vec_id vec) ''baseline write failed''
     (\<lambda>fs. fs\<lparr>fs_baselines := (fs_baselines fs)(vec_id vec := Some (xr_bytes r))\<rparr>) (fs, log)"
  let ?s = "sync_vector N (p, vec) r (fs, log)"
  let ?t = "try_write N WReport (vec_id vec) ''report write failed''
     (\<lambda>fs. fs\<lparr>fs_reports := (fs_reports fs)(vec_id vec := Some (vector_report_of vec r []))\<rparr>) ?s"
  from assms r have t: "?t = (fs', [])"
    by (cases ?t) (auto simp: runner_step_def Let_def)
  then have t': "snd ?t = []" by simp
  note s = try_write_silent [OF t']
  from s(2) have "snd (try_write N WExpectation (vec_id vec) ''vector expectation sync failed''
      (write_vector p (updated_expectations vec r)) ?b) = []"
    by (simp add: sync_vector_def Let_def)
  note x = try_write_silent [OF this]
  note b = try_write_silent [OF x(2)]
  from t s(3) x(3) b(3) have "fs' = fst ?s\<lparr>fs_reports := (fs_reports (fst ?s))(vec_id vec := Some (vector_report_of vec r []))\<rparr>"
    "fst ?s = write_vector p (updated_expectations vec r) (fs\<lparr>fs_baselines := (fs_baselines fs)(vec_id vec := Some (xr_bytes r))\<rparr>)"
    by (simp_all add: sync_vector_def Let_def)
  then show thesis
    by (intro that [OF r s(1)]) (use b(2) in \<open>simp_all add: write_vector_def\<close>)
qed

lemma check_step_silent:
  assumes r: "run_vector N E vec = Some (Ok r)" and "compare_expected N vec r = []"
    and "fs_baselines fs (vec_id vec) = Some (xr_bytes r)" and "hn_write_error N WReport (vec_id vec) = None"
  shows "runner_step N E False (fs, []) (p, vec) =
    Some (fs\<lparr>fs_reports := (fs_reports fs)(vec_id vec := Some (vector_report_of vec r []))\<rparr>, [])"
proof -
  from r have "xr_sha256 r = sha256_hex E (xr_bytes r)" by (rule run_vector_ok)
  with assms show ?thesis by (simp add: runner_step_def check_vector_def try_write_def Let_def)
qed

section \<open>The loop\<close>

lemma sync_vector_grows: "\<exists>l. snd (sync_vector N pv r acc) = snd acc @ l"
  by (auto simp: sync_vector_def try_write_def Let_def split: option.splits)

lemma write_drift_grows: "\<exists>l. snd (write_drift N vid r reason acc) = snd acc @ l"
  by (simp add: write_drift_def try_write_grows)

lemma check_vector_grows: "\<exists>l. snd (fst (check_vector N E vec r acc)) = snd acc @ l"
  by (simp add: check_vector_def Let_def write_drift_grows split: option.split)

lemma runner_step_grows:
  assumes "runner_step N E sync acc pv = Some acc'"
  shows "\<exists>l. snd acc' = snd acc @ l"
proof (cases "run_vector N E (snd pv)")
  case (Some res)
  show ?thesis
  proof (cases res)
    case (Inr r)
    obtain acc1 failures where v: "(if sync then (sync_vector N pv r acc, [])
        else check_vector N E (snd pv) r acc) = (acc1, failures)"
      by fastforce
    define acc2 where "acc2 = try_write N WReport (vec_id (snd pv)) ''report write failed''
      (\<lambda>fs. fs\<lparr>fs_reports := (fs_reports fs)(vec_id (snd pv) := Some (vector_report_of (snd pv) r failures))\<rparr>) acc1"
    define acc3 where "acc3 = (if \<not> sync \<and> failures \<noteq> []
      then write_drift N (vec_id (snd pv)) r (join '' | '' failures) acc2 else acc2)"
    have "acc' = (fst acc3, snd acc3 @ map (\<lambda>f. vec_id (snd pv) @ '': '' @ f) failures)"
      using assms Some Inr v unfolding acc2_def acc3_def by (simp add: runner_step_def Let_def split del: if_split)
    moreover obtain l1 where "snd acc1 = snd acc @ l1"
      using v sync_vector_grows [of N pv r acc] check_vector_grows [of N E "snd pv" r acc]
      by (cases sync) auto
    moreover obtain l2 where "snd acc2 = snd acc1 @ l2" unfolding acc2_def using try_write_grows by blast
    moreover obtain l3 where "snd acc3 = snd acc2 @ l3"
      using write_drift_grows [of N "vec_id (snd pv)" r "join '' | '' failures" acc2]
      by (cases "\<not> sync \<and> failures \<noteq> []") (auto simp: acc3_def)
    ultimately show ?thesis by simp
  qed (use assms Some in \<open>auto simp: runner_step_def Let_def\<close>)
qed (use assms in \<open>simp add: runner_step_def Let_def\<close>)

lemma runner_loop_grows: "runner_loop N E sync pvs (fs, log) = Some (fs', log') \<Longrightarrow> \<exists>l. log' = log @ l"
proof (induction pvs arbitrary: fs log)
  case (Cons pv pvs)
  then obtain fs1 log1 where 1: "runner_step N E sync (fs, log) pv = Some (fs1, log1)"
    and 2: "runner_loop N E sync pvs (fs1, log1) = Some (fs', log')"
    by (auto simp: bind_eq_Some_conv)
  from runner_step_grows [OF 1] Cons.IH [OF 2] show ?case by auto
qed simp

text \<open>What \<open>sync\<close> leaves of a vector.\<close>

definition synced :: "harness \<Rightarrow> kernel_env \<Rightarrow> conformance_vector \<Rightarrow> conformance_vector" where
  "synced N E vec = (case run_vector N E vec of Some (Ok r) \<Rightarrow> updated_expectations vec r | _ \<Rightarrow> vec)"

lemma sync_loop:
  assumes "runner_loop N E True pvs (fs, log) = Some (fs', [])" and "distinct (map fst pvs)"
    and "distinct (map (vec_id \<circ> snd) pvs)"
  shows "(\<forall>pv \<in> set pvs. \<exists>r. run_vector N E (snd pv) = Some (Ok r) \<and>
        hn_write_error N WReport (vec_id (snd pv)) = None \<and>
        fs_baselines fs' (vec_id (snd pv)) = Some (xr_bytes r)) \<and>
    (\<forall>vid. vid \<notin> (vec_id \<circ> snd) ` set pvs \<longrightarrow> fs_baselines fs' vid = fs_baselines fs vid) \<and>
    fs_vectors fs' = map (\<lambda>qv. case map_of pvs (fst qv) of None \<Rightarrow> qv | Some v \<Rightarrow> (fst qv, synced N E v)) (fs_vectors fs)"
  using assms
proof (induction pvs arbitrary: fs log)
  case (Cons pv pvs)
  obtain p vec where pv: "pv = (p, vec)" by fastforce
  from Cons.prems(1) obtain fs1 log1 where 1: "runner_step N E True (fs, log) (p, vec) = Some (fs1, log1)"
    and 2: "runner_loop N E True pvs (fs1, log1) = Some (fs', [])"
    by (auto simp: bind_eq_Some_conv pv)
  from runner_loop_grows [OF 2] have "log1 = []" by simp
  with 1 obtain r where r: "run_vector N E vec = Some (Ok r)" "hn_write_error N WReport (vec_id vec) = None"
    and vs: "fs_vectors fs1 = fs_vectors (write_vector p (updated_expectations vec r) fs)"
    and bs: "fs_baselines fs1 = (fs_baselines fs)(vec_id vec := Some (xr_bytes r))"
    by (metis sync_step_silent)
  have "synced N E vec = updated_expectations vec r" by (simp add: synced_def r)
  moreover have "map_of pvs p = None" using Cons.prems(2) by (simp add: pv map_of_eq_None_iff)
  ultimately have map: "fs_vectors fs' = map (\<lambda>qv. case map_of (pv # pvs) (fst qv) of
      None \<Rightarrow> qv | Some v \<Rightarrow> (fst qv, synced N E v)) (fs_vectors fs)"
    using Cons.IH [OF 2] Cons.prems by (auto simp: vs write_vector_def pv)
  have "fs_baselines fs' (vec_id vec) = Some (xr_bytes r)"
    using Cons.IH [OF 2] Cons.prems by (auto simp: bs pv)
  with map Cons.IH [OF 2] Cons.prems r show ?case by (auto simp: bs pv)
qed simp

text \<open>\<open>check\<close> on vectors whose expectations and baselines are those of their responses.\<close>

lemma check_loop:
  assumes "\<And>pv. pv \<in> set pvs \<Longrightarrow> \<exists>r. run_vector N E (snd pv) = Some (Ok r) \<and> compare_expected N (snd pv) r = [] \<and>
      hn_write_error N WReport (vec_id (snd pv)) = None \<and> fs_baselines fs (vec_id (snd pv)) = Some (xr_bytes r)"
    and "distinct (map (vec_id \<circ> snd) pvs)"
  shows "\<exists>reports. runner_loop N E False pvs (fs, []) = Some (fs\<lparr>fs_reports := reports\<rparr>, []) \<and>
    (\<forall>pv \<in> set pvs. \<exists>report. reports (vec_id (snd pv)) = Some report \<and> vp_success report) \<and>
    (\<forall>vid. vid \<notin> (vec_id \<circ> snd) ` set pvs \<longrightarrow> reports vid = fs_reports fs vid)"
  using assms
proof (induction pvs arbitrary: fs)
  case Nil
  show ?case by (intro exI [of _ "fs_reports fs"]) simp
next
  case (Cons pv pvs)
  obtain p vec where pv: "pv = (p, vec)" by fastforce
  from Cons.prems(1) [of pv] obtain r where r: "run_vector N E vec = Some (Ok r)" "compare_expected N vec r = []"
    "fs_baselines fs (vec_id vec) = Some (xr_bytes r)" "hn_write_error N WReport (vec_id vec) = None"
    by (auto simp: pv)
  let ?reports = "(fs_reports fs)(vec_id vec := Some (vector_report_of vec r []))"
  have "\<exists>reports. runner_loop N E False pvs (fs\<lparr>fs_reports := ?reports\<rparr>, []) =
      Some (fs\<lparr>fs_reports := ?reports\<rparr>\<lparr>fs_reports := reports\<rparr>, []) \<and>
    (\<forall>pv \<in> set pvs. \<exists>report. reports (vec_id (snd pv)) = Some report \<and> vp_success report) \<and>
    (\<forall>vid. vid \<notin> (vec_id \<circ> snd) ` set pvs \<longrightarrow> reports vid = fs_reports (fs\<lparr>fs_reports := ?reports\<rparr>) vid)"
    by (rule Cons.IH) (use Cons.prems in auto)
  then obtain reports where rec: "runner_loop N E False pvs (fs\<lparr>fs_reports := ?reports\<rparr>, []) =
      Some (fs\<lparr>fs_reports := reports\<rparr>, [])"
    and ok: "\<forall>pv \<in> set pvs. \<exists>report. reports (vec_id (snd pv)) = Some report \<and> vp_success report"
    and rest: "\<forall>vid. vid \<notin> (vec_id \<circ> snd) ` set pvs \<longrightarrow> reports vid = ?reports vid"
    by auto
  have "reports (vec_id vec) = Some (vector_report_of vec r [])"
    using rest Cons.prems(2) by (auto simp: pv)
  then have "\<exists>report. reports (vec_id vec) = Some report \<and> vp_success report"
    by (simp add: vector_report_of_def)
  with rec ok rest check_step_silent [OF r, of p] show ?case
    by (intro exI [of _ reports]) (auto simp: pv)
qed

end
