(* ===== verification/Conformance_Vectors.thy ===== *)
theory Conformance_Vectors
  imports Conformance Kernel_Demo
begin

text \<open>
  Three of the vectors of \<open>tests/conformance/v1/vectors\<close>, one for each way a response can end, as
  concrete files for the runner. Every vector names its manifest's and its plan's request \<open>req-\<close>
  and its own identifier, and has no context.
\<close>

section \<open>The vectors\<close>

definition handle_in :: "string \<Rightarrow> string \<Rightarrow> string \<Rightarrow> string option \<Rightarrow> string option \<Rightarrow> string option \<Rightarrow>
   string list \<Rightarrow> string option \<Rightarrow> string option \<Rightarrow> string option \<Rightarrow> bool option \<Rightarrow> handle_input" where
  "handle_in ref type_id av subject label tier taint sc summary grp open_end =
     \<lparr>hin_ref = ref, hin_type_id = type_id, hin_availability = av, hin_subject = subject,
      hin_predicate_label = label, hin_trust_tier = tier, hin_taint = taint, hin_scope = sc,
      hin_signature_summary = summary, hin_conflict_group_id = grp, hin_open_end = open_end\<rparr>"

definition param_in :: "string \<Rightarrow> string \<Rightarrow> string list \<Rightarrow> param_input" where
  "param_in name type vals = \<lparr>pin_name = name, pin_type = type, pin_enum_values = vals\<rparr>"

definition selector_in :: "string \<Rightarrow> string \<Rightarrow> param_input list \<Rightarrow> f64 \<Rightarrow> string \<Rightarrow> selector_input" where
  "selector_in sel description ps weight rt = \<lparr>sin_sel = sel, sin_description = description, sin_params = ps,
     sin_cost_weight = weight, sin_return_type = rt\<rparr>"

definition budget_in :: "u32 \<Rightarrow> u32 \<Rightarrow> u32 \<Rightarrow> f64 \<Rightarrow> budget_input" where
  "budget_in ops depth fanout cost = \<lparr>bin_max_ops = ops, bin_max_join_depth = depth, bin_max_fanout = fanout,
     bin_max_total_cost = cost\<rparr>"

definition binding_in :: "string \<Rightarrow> string \<Rightarrow> binding_input" where
  "binding_in reg path = \<lparr>bdi_reg = reg, bdi_field_path = path\<rparr>"

definition step_in :: "string \<Rightarrow> op_input \<Rightarrow> step_input" where
  "step_in out op = \<lparr>stin_out = out, stin_op = op\<rparr>"

definition options_in :: "string list \<Rightarrow> string list \<Rightarrow> options_input" where
  "options_in lineage templates = \<lparr>oin_allow_partial_on_stall = False, oin_degraded_mode = False,
     oin_broken_lineage_handles = lineage, oin_narrative_templates = templates\<rparr>"

definition stall_in :: "string \<Rightarrow> string \<Rightarrow> bool \<Rightarrow> expected_stall" where
  "stall_in ref av ticket = \<lparr>xs_handle_ref = ref, xs_availability = av, xs_retrieval_ticket_present = ticket\<rparr>"

definition expect_in :: "string \<Rightarrow> string option \<Rightarrow> string option \<Rightarrow> string list option \<Rightarrow>
   expected_stall option \<Rightarrow> expected_outcome" where
  "expect_in status code root blocks stall = \<lparr>xo_status = status, xo_error_code = code, xo_semantic_root = root,
     xo_verified_blocks = blocks, xo_stall = stall\<rparr>"

definition determinism_in :: "string option \<Rightarrow> bool \<Rightarrow> determinism" where
  "determinism_in hash root = \<lparr>dt_response_sha256 = hash, dt_assert_semantic_root = root\<rparr>"

definition vector_in :: "string \<Rightarrow> string \<Rightarrow> handle_input list \<Rightarrow> selector_input list \<Rightarrow> budget_input \<Rightarrow>
   step_input list \<Rightarrow> string list \<Rightarrow> options_input \<Rightarrow> expected_outcome \<Rightarrow> determinism \<Rightarrow> conformance_vector" where
  "vector_in vid description handles selectors budget steps outputs opts expect det =
     \<lparr>vec_id = vid, vec_spec_version = ''conformance/v1.0.0'', vec_proto_version = ''cortex_rmvm_v3_1'',
      vec_description = description,
      vec_manifest = \<lparr>min_request_id = ''req-'' @ vid, min_handles = handles, min_selectors = selectors,
        min_context = [], min_budget = Some budget\<rparr>,
      vec_plan = \<lparr>pln_request_id = ''req-'' @ vid, pln_steps = steps, pln_outputs = outputs\<rparr>,
      vec_options = opts, vec_expect = expect, vec_determinism = det\<rparr>"

definition standard_selectors :: "selector_input list" where
  "standard_selectors = [selector_in ''S0'' ''Find preferences for subject'' [param_in ''subject'' ''PARAM_STRING'' []] 0x3FF4000000000000 ''RETURN_HANDLE_SET'']"

definition standard_budget :: budget_input where
  "standard_budget = budget_in 128 3 64 0x4070000000000000"

definition vector_core_001 :: conformance_vector where
  "vector_core_001 = vector_in ''C31-CORE-001-happy-fetch-project-assert''
     ''Happy path fetch/project/assert.''
     [handle_in ''H0'' ''normative.preference'' ''READY'' (Some ''user:vinz'') (Some ''prefers_beverage'') (Some ''TIER_3_CONFIRMED'') [] (Some ''SCOPE_GLOBAL'') (Some ''prefers_beverage for user:vinz'') (Some ''conflict:prefers_beverage:user:vinz:global'') (Some True)]
     standard_selectors standard_budget
     [step_in ''r0'' (InFetch ''H0''),
      step_in ''r1'' (InProject ''r0'' [''meta.subject'']),
      step_in ''r2'' (InAssert ''ASSERT_WORLD_FACT'' [(''subject'', binding_in ''r1'' ''meta.subject'')] [])]
     [''r2''] (options_in [] [])
     (expect_in ''OK'' None (Some ''1e97d407ff5521294dc37df6ec1b8dfdf96879a37029bdf2298f011cdabe5229'') (Some [''ASSERT_WORLD_FACT: subject=user:vinz'']) None)
     (determinism_in (Some ''4752f577dddd0ec8f28581ca8763b9f613d0470970c9095688ee49837777db0a'') True)"

definition vector_ssa_001 :: conformance_vector where
  "vector_ssa_001 = vector_in ''C31-SSA-001-register-redefinition''
     ''Register redefinition should reject.''
     [handle_in ''H0'' ''normative.preference'' ''READY'' (Some ''user:vinz'') (Some ''prefers_beverage'') (Some ''TIER_3_CONFIRMED'') [] (Some ''SCOPE_GLOBAL'') (Some ''prefers_beverage for user:vinz'') (Some ''conflict:prefers_beverage:user:vinz:global'') (Some True)]
     standard_selectors standard_budget
     [step_in ''r0'' (InFetch ''H0''),
      step_in ''r0'' (InProject ''r0'' [''meta.subject''])]
     [] (options_in [] [])
     (expect_in ''REJECTED'' (Some ''SCHEMA_VIOLATION'') None None None)
     (determinism_in (Some ''7558b507b006f519a9243eab622b6ac4aa53ec07b2f8194781c4c1e6732cdf23'') True)"

definition vector_stall_001 :: conformance_vector where
  "vector_stall_001 = vector_in ''C31-STALL-001-offline-fetch-stall''
     ''OFFLINE handle fetch should stall.''
     [handle_in ''H0'' ''normative.preference'' ''OFFLINE'' (Some ''user:vinz'') (Some ''prefers_beverage'') (Some ''TIER_3_CONFIRMED'') [] (Some ''SCOPE_GLOBAL'') (Some ''prefers_beverage for user:vinz'') (Some ''conflict:prefers_beverage:user:vinz:global'') (Some True)]
     standard_selectors standard_budget
     [step_in ''r0'' (InFetch ''H0'')]
     [] (options_in [] [])
     (expect_in ''STALL'' None None None (Some (stall_in ''H0'' ''OFFLINE'' True)))
     (determinism_in (Some ''1df399e415a0310c79c279a6461a1bbc403f17ed9b9fcb23419db1f849ef29b8'') True)"

section \<open>A harness\<close>

definition toy_harness :: harness where
  "toy_harness = \<lparr>hn_encode = \<lambda>resp. concat (map (\<lambda>a. concat (map fst (va_fields a))) (rs_assertions resp)),
     hn_show_blocks = concat, hn_write_error = \<lambda>_ _. None\<rparr>"

end
