(* ===== verification/Conformance_Properties.thy ===== *)
theory Conformance_Properties
  imports Conformance_Sync Conformance_Vectors
begin

text \<open>
  What the two modes of the conformance runner promise each other.
\<close>

definition demo_files :: files where
  "demo_files = \<lparr>fs_vectors = [(''v/1.json'', vector_core_001), (''v/2.json'', vector_ssa_001), (''v/3.json'', vector_stall_001)],
     fs_baselines = \<lambda>_. None, fs_reports = \<lambda>_. None, fs_drifts = \<lambda>_. None\<rparr>"

text \<open>C38. What \<open>sync\<close> has written, \<open>check\<close> accepts. When a run of \<open>sync\<close> over vectors with distinct
  paths and identifiers reports no failure, it has changed nothing of what a vector executes, and a
  run of \<open>check\<close> over the files it leaves reports no failure either: it returns, changes neither
  vectors nor baselines, writes no drift artifacts, and reports success for every vector.\<close>

theorem sync_then_check:
  assumes "runner N E ''sync'' fs = Some (fs', [])" and "distinct (map fst (fs_vectors fs))"
    and "distinct (map (vec_id \<circ> snd) (fs_vectors fs))"
  shows "map (run_vector N E \<circ> snd) (fs_vectors fs') = map (run_vector N E \<circ> snd) (fs_vectors fs) \<and>
    (\<exists>reports. runner N E ''check'' fs' = Some (fs'\<lparr>fs_reports := reports\<rparr>, []) \<and>
      (\<forall>pv \<in> set (fs_vectors fs'). \<exists>report. reports (vec_id (snd pv)) = Some report \<and> vp_success report))"
proof -
  from assms(1) have loop: "runner_loop N E True (fs_vectors fs) (fs, []) = Some (fs', [])"
    by (simp add: runner_def)
  note sync = sync_loop [OF loop assms(2,3)]
  have vs: "fs_vectors fs' = map (\<lambda>qv. (fst qv, synced N E (snd qv))) (fs_vectors fs)"
    using sync assms(2) by (auto intro!: map_cong)
  have ids: "vec_id (synced N E v) = vec_id v" and run: "run_vector N E (synced N E v) = run_vector N E v" for v
    by (auto simp: synced_def split: option.split sum.split)
  have ok: "\<exists>r. run_vector N E (snd pv) = Some (Ok r) \<and> compare_expected N (snd pv) r = [] \<and>
      hn_write_error N WReport (vec_id (snd pv)) = None \<and> fs_baselines fs' (vec_id (snd pv)) = Some (xr_bytes r)"
    if "pv \<in> set (fs_vectors fs')" for pv
  proof -
    from that obtain qv where q: "qv \<in> set (fs_vectors fs)" "pv = (fst qv, synced N E (snd qv))" by (auto simp: vs)
    with sync obtain r where r: "run_vector N E (snd qv) = Some (Ok r)" "hn_write_error N WReport (vec_id (snd qv)) = None"
      "fs_baselines fs' (vec_id (snd qv)) = Some (xr_bytes r)" by blast
    with updated_meets [OF r(1)] show ?thesis by (simp add: q ids run) (simp add: synced_def)
  qed
  have "distinct (map (vec_id \<circ> snd) (fs_vectors fs'))" using assms(3) by (simp add: vs ids comp_def)
  from check_loop [OF ok this] have "\<exists>reports. runner N E ''check'' fs' = Some (fs'\<lparr>fs_reports := reports\<rparr>, []) \<and>
      (\<forall>pv \<in> set (fs_vectors fs'). \<exists>report. reports (vec_id (snd pv)) = Some report \<and> vp_success report)"
    by (auto simp: runner_def)
  then show ?thesis by (simp add: vs run comp_def)
qed

lemma sync_then_check_witness:
  "\<exists>fs' reports. runner toy_harness demo_env ''sync'' demo_files = Some (fs', []) \<and>
     runner toy_harness demo_env ''check'' fs' = Some (fs'\<lparr>fs_reports := reports\<rparr>, [])"
proof -
  have "map_option snd (runner toy_harness demo_env ''sync'' demo_files) = Some []" by code_simp
  then obtain fs' where sync: "runner toy_harness demo_env ''sync'' demo_files = Some (fs', [])" by auto
  have "distinct (map fst (fs_vectors demo_files))" "distinct (map (vec_id \<circ> snd) (fs_vectors demo_files))"
    by code_simp+
  from sync_then_check [OF sync this] sync show ?thesis by blast
qed

end
