(* ===== verification/Spec2Isabelle.thy ===== *)
theory Spec2Isabelle
  imports Kernel_Properties Kernel_Meaning Kernel_Findings Guard_Properties Grpc_Properties
    Brain_Properties Brain_Spec Brain_Custody Brain_Travel Slug Proxy_Properties Chat_Grounded Cli_Properties Conformance_Properties
begin

text \<open>
  A model of the RMVM, the relational memory virtual machine, and of the portable brain around it.

  \<^bold>\<open>The program.\<close> A language model never answers from memory directly. It writes a plan, a short
  straight-line program over references to memories; the kernel checks the plan against the manifest
  of what may be read, runs it, and returns assertions that cite the memories they rest on, with a
  Merkle proof. The parts, from the inside out:

  \<^item> the wire types, \<open>crates/rmvm-proto\<close> and its \<open>.proto\<close> file;
  \<^item> the kernel, \<open>crates/rmvm-kernel/src/kernel.rs\<close>: the static checks, seven operations over
    registers, the proof and the rendered text. It keeps no state: a request and options give a response;
  \<^item> the gRPC service, \<open>crates/rmvm-grpc/src/lib.rs\<close>: the remembered handles and two counters behind a
    mutex, with the requests APPEND EVENT, GET MANIFEST, EXECUTE and FORGET;
  \<^item> the planner guard, \<open>portable-brain-proxy/crates/planner-guard\<close>: finds a plan in what a model
    writes, reads it, and checks it against the manifest;
  \<^item> the chat proxy, \<open>portable-brain-proxy/crates/cortex-app/src/proxy.rs\<close>: a chat is appended as
    an event, a plan is obtained and guarded, the service executes it, and the response becomes a
    completion;
  \<^item> the brain store, \<open>portable-brain-proxy/crates/brain-store\<close>: brains as signed and encrypted files of
    a home directory, and the map from API keys to subjects that the proxy authenticates with;
  \<^item> the command line, \<open>cortex-app/src/cli.rs\<close>, over the store and the proxy;
  \<^item> the conformance harness, \<open>crates/rmvm-tests\<close>, over the kernel.

  \<^bold>\<open>The theories.\<close> Definitions bear the names of the Rust items they translate.

  \<^item> \<open>Prelude\<close> (results as sums, the \<open>?\<close> operator, loops that return early), \<open>Rust_Str\<close> (byte
    strings), \<open>Btree\<close> (ordered maps and sets, with the interfaces \<open>key_map\<close>, \<open>ordered_map\<close> and
    \<open>ordered_set\<close>), \<open>Float64\<close> (the IEEE arithmetic of the cost guard), \<open>Json\<close> and \<open>Merkle\<close> are shared.
  \<^item> \<open>Proto\<close> is the wire contract; \<open>proto_enum\<close> is the interface of an open enumeration.
  \<^item> The kernel is \<open>Kernel_Base\<close> (helper functions), \<open>Kernel_Static\<close> (\<open>validate_static\<close>),
    \<open>Kernel_Ops\<close> (the operations) and \<open>Kernel_Run\<close> (\<open>execute\<close>, proof and rendering). Lemmas:
    \<open>Kernel_Invariants\<close> holds the contract \<open>op_invariant\<close> between operations and run; its three
    interpretations are in \<open>Kernel_Support\<close> (what a value rests on), \<open>Kernel_Fanout\<close> and
    \<open>Kernel_Citations\<close>. \<open>Kernel_Accept\<close> says without loops which plans are accepted,
    \<open>Kernel_Progress\<close> what an accepted plan cannot run into, \<open>Kernel_Shape\<close> how a request can end,
    \<open>Kernel_Proof\<close> what the proof is worth, \<open>Kernel_Spec\<close> what RESOLVE and JOIN compute.
    \<open>Kernel_Properties\<close> and \<open>Kernel_Meaning\<close> hold the properties, \<open>Demo_Env\<close> and \<open>Kernel_Demo\<close> the
    runs of their witnesses, \<open>Kernel_Findings\<close> where the code does not do what it means to.
  \<^item> \<open>Planner_Guard\<close> with \<open>Guard_Facts\<close>, \<open>Deterministic_Plan\<close> and \<open>Guard_Properties\<close>; the printer of plans
    in \<open>Guard_Facts\<close> is the reference that the reader is compared with.
  \<^item> \<open>Grpc_Service\<close> with \<open>Grpc_Facts\<close>, \<open>Grpc_Fixture\<close> and \<open>Grpc_Properties\<close>: requests as steps, the
    invariant of the reachable states.
  \<^item> \<open>Brain_Data\<close> (files, cryptography, the outcomes of a write) and \<open>Brain_Store\<close> (operations);
    \<open>Brain_Edits\<close> holds the contract \<open>brain_edit\<close> that the five edits keep, \<open>Brain_Facts\<close> and
    \<open>Brain_Steps\<close> the invariant of a home directory: \<open>home_kept V C S h\<close> says that every brain of \<open>h\<close>
    loads but for those in \<open>S\<close>, \<open>home_sound\<close> that all do. \<open>Brain_Demo\<close> is the transition system, of
    all operations, whose writes may fail; \<open>Brain_Spec\<close> the abstract store (objects, grants and log
    of a brain) that the operations refine; \<open>Brain_Properties\<close>, \<open>Brain_Custody\<close>, \<open>Brain_Travel\<close> and
    \<open>Slug\<close> hold the properties.
  \<^item> \<open>Proxy\<close> and \<open>Proxy_Properties\<close>: the RMVM is any record of the four calls (the adapter), and
    \<open>rmvm_contract\<close> is what a chat relies on; it is interpreted on the modelled service, and
    \<open>Chat_Grounded\<close> puts proxy, guard, service and kernel together.
  \<^item> \<open>Cli\<close> and \<open>Cli_Properties\<close>: the commands over the home directories and package files of a disk.
  \<^item> \<open>Conformance\<close> (harness and runner), \<open>Conformance_Vectors\<close> (three of the repository's vectors, for
    the witness), \<open>Conformance_Sync\<close> and \<open>Conformance_Properties\<close>.

  \<^bold>\<open>What is shown.\<close> Of the kernel: policy assertions rest on trusted, untainted memories and all
  asserted values on memories of the manifest; citations, inclusion proofs and roots mean what they
  say; the static checks accept exactly a loop-free specification, bound join depth and fanout, and
  leave an accepted plan a fixed list of failures; every request is answered; the order of handles is
  irrelevant. Of the guard: it accepts exactly its specification and every plan the kernel accepts,
  and reads back every plan that can be written. Of the service: its manifests are in order, APPEND
  adds one handle, and FORGET removes exactly what it names, from all manifests it gives out from then
  on; but EXECUTE takes the client's manifest as it is, so an old one still shows what was forgotten.
  Of the store: every brain loads and verifies unless a write to it failed or it was imported from
  elsewhere or under another name, which loses the signature; no operation replaces a brain or
  shortens its log; what a failed write leaves behind either loads as the brain that was there or does
  not load; branching, forgetting, merging and grants do exactly what their specification says; and a
  brain imported under its own name is the brain that was exported. Of the compositions: what the
  proxy answers is what the kernel returned for a guarded plan under the authenticated subject, and
  what it asserts is a field of a remembered handle; a key mapped on the command line authenticates at
  the proxy; a command that fails has changed nothing but what a failed write touched; what \<open>sync\<close>
  writes, \<open>check\<close> accepts.

  \<^bold>\<open>Conventions and bounds.\<close> Integers of the wire are words of their width; \<open>u32\<close> conversions of
  lengths wrap, so theorems that compare lengths assume fewer than \<open>2 ^ 32\<close> steps or handles, and those
  about the counters of the service fewer than \<open>2 ^ 64\<close> requests. An \<open>f64\<close> is its bit pattern. A
  function that can panic returns an option; no definition needs fuel, as every loop of the code goes
  over a finite list. Libraries are arguments: \<open>kernel_env\<close> (SHA-256, hex, the regex engine, \<open>powf\<close>,
  the number printer, the protobuf encoder), \<open>crates\<close> and \<open>ambient\<close> (cryptography, clock, random bytes,
  environment variables, and in \<open>amb_disk\<close> the outcome of each write: carried out, refused or cut
  short; \<open>disk_works\<close> says that none fails), \<open>web\<close> and \<open>shell\<close> (HTTP, home directory, texts of serde), \<open>harness\<close>. What
  is relied on of them is named: \<open>hash_env_ok\<close>, \<open>captures_ok\<close>, \<open>crates_ok\<close>, \<open>ambient_ok\<close>.

  \<^bold>\<open>Not modelled.\<close> Transport and processes (tonic, axum, reqwest, the mains and the server binary),
  parsing of command lines (clap) and of JSON text (serde_json; the values it gives are modelled), two
  processes writing to one home directory at once, and the reading of the conformance vectors from disk.
  A directory of the store is found by its name: an identifier with a slash or with dots, which the
  code would join to a path, is a name like any other. The unit tests, the SDKs in other languages and the build scripts carry no logic of the system.
\<close>

end
